(* ===== verification/Js_Prelude.thy ===== *)
theory Js_Prelude
  imports Complex_Main "HOL-Library.State_Monad" "HOL-Library.Log_Nat"
begin

text \<open>
  Prelude of the development: the JavaScript values, strings and numbers the front-end code
  computes with, and the lemmas every component shares.

  Strings are char lists that hold UTF-8 bytes; case conversion and trimming are those of
  JavaScript restricted to ASCII letters and ASCII white space. A number is NaN, an infinity
  or the exact rational value of a finite binary64; a rounded operation of the source is
  followed by \<open>fl\<close>, the round-to-nearest-even of the format (without overflow and
  subnormals). Conversions (toFixed, Number-to-string, truthiness, String) follow ECMAScript.
\<close>

section \<open>State monad plumbing\<close>

abbreviation ret :: "'a \<Rightarrow> ('s, 'a) state" where
  "ret \<equiv> State_Monad.return"

definition gets :: "('s \<Rightarrow> 'a) \<Rightarrow> ('s, 'a) state" where
  "gets f = State (\<lambda>s. (f s, s))"

definition modify :: "('s \<Rightarrow> 's) \<Rightarrow> ('s, unit) state" where
  "modify f = State (\<lambda>s. ((), f s))"

definition only_if :: "bool \<Rightarrow> ('s, unit) state \<Rightarrow> ('s, unit) state" where
  "only_if b m = (if b then m else ret ())"

definition exec :: "('s, 'a) state \<Rightarrow> 's \<Rightarrow> 's" where
  "exec m s = snd (run_state m s)"

definition result :: "('s, 'a) state \<Rightarrow> 's \<Rightarrow> 'a" where
  "result m s = fst (run_state m s)"

lemma run_gets [simp]: "run_state (gets f) s = (f s, s)"
  by (simp add: gets_def)

lemma run_modify [simp]: "run_state (modify f) s = ((), f s)"
  by (simp add: modify_def)

fun for_each :: "('a \<Rightarrow> ('s, unit) state) \<Rightarrow> 'a list \<Rightarrow> ('s, unit) state" where
  "for_each f [] = ret ()"
| "for_each f (x # xs) = do { f x; for_each f xs }"

lemma exec_bind [simp]:
  "exec (State_Monad.bind m f) s = exec (f (result m s)) (exec m s)"
  by (simp add: exec_def result_def split: prod.splits)

lemma result_bind [simp]:
  "result (State_Monad.bind m f) s = result (f (result m s)) (exec m s)"
  by (simp add: exec_def result_def split: prod.splits)

lemma exec_basic [simp]:
  "exec (ret x) s = s" "exec (gets g) s = s" "exec (modify h) s = h s"
  by (simp_all add: exec_def)

lemma result_basic [simp]:
  "result (ret x) s = x" "result (gets g) s = g s" "result (modify h) s = ()"
  by (simp_all add: result_def)

lemma exec_for_each_Cons [simp]:
  "exec (for_each f []) s = s"
  "exec (for_each f (x # xs)) s = exec (for_each f xs) (exec (f x) s)"
  by simp_all

lemma exec_for_each_fold:
  "exec (for_each f xs) s = fold (\<lambda>x. exec (f x)) xs s"
  by (induction xs arbitrary: s) (auto simp del: for_each.simps)

lemma exec_if [simp]:
  "exec (if b then m else n) s = (if b then exec m s else exec n s)"
  "result (if b then m else n) s = (if b then result m s else result n s)"
  by simp_all

lemma exec_only_if [simp]: "exec (only_if b m) s = (if b then exec m s else s)"
  by (simp add: only_if_def)

declare for_each.simps [simp del]

section \<open>Strings\<close>

definition is_space :: "char \<Rightarrow> bool" where
  "is_space c \<longleftrightarrow> c \<in> {CHR '' '', CHR 0x09, CHR 0x0A, CHR 0x0B, CHR 0x0C, CHR 0x0D}"

definition js_trim :: "string \<Rightarrow> string" where
  "js_trim s = rev (dropWhile is_space (rev (dropWhile is_space s)))"

definition lower_char :: "char \<Rightarrow> char" where
  "lower_char c =
     (if of_char c \<in> {65..90 :: nat} then char_of (of_char c + 32 :: nat) else c)"

definition js_lower :: "string \<Rightarrow> string" where
  "js_lower = map lower_char"

definition upper_char :: "char \<Rightarrow> char" where
  "upper_char c =
     (if of_char c \<in> {97..122 :: nat} then char_of (of_char c - 32 :: nat) else c)"

definition js_upper :: "string \<Rightarrow> string" where
  "js_upper = map upper_char"

text \<open>\<open>[...new Set(xs)]\<close>: the first occurrence of every element.\<close>

fun uniq :: "'a list \<Rightarrow> 'a list" where
  "uniq [] = []"
| "uniq (x # xs) = x # filter (\<lambda>y. y \<noteq> x) (uniq xs)"

lemma set_uniq [simp]: "set (uniq xs) = set xs"
  by (induction xs) auto

lemma distinct_uniq [simp]: "distinct (uniq xs)"
  by (induction xs) auto

lemma uniq_id: "distinct xs \<Longrightarrow> uniq xs = xs"
  by (induction xs) (auto intro!: filter_True)

text \<open>The non-ASCII characters the source prints, in UTF-8.\<close>

definition hex_val :: "char \<Rightarrow> nat" where
  "hex_val c = (let n = of_char c in if n < 58 then n - 48 else n - 55)"

text \<open>A string given by the hexadecimal digits of its bytes.\<close>

fun hx :: "string \<Rightarrow> string" where
  "hx (a # b # s) = char_of (16 * hex_val a + hex_val b) # hx s"
| "hx s = []"

declare hx.simps [simp del]

definition u_dash :: string where "u_dash = [CHR 0xE2, CHR 0x80, CHR 0x94]"
definition u_middot :: string where "u_middot = [CHR 0xC2, CHR 0xB7]"
definition u_bullet :: string where "u_bullet = [CHR 0xE2, CHR 0x80, CHR 0xA2]"
definition u_ellipsis :: string where "u_ellipsis = [CHR 0xE2, CHR 0x80, CHR 0xA6]"

lemma hx_signs [simp]:
  "hx ''E28094'' = u_dash" "hx ''C2B7'' = u_middot" "hx ''E280A2'' = u_bullet"
  "hx ''E280A6'' = u_ellipsis"
  by code_simp+

fun js_startsWith :: "string \<Rightarrow> string \<Rightarrow> bool" where
  "js_startsWith s [] = True"
| "js_startsWith [] (p # ps) = False"
| "js_startsWith (c # s) (p # ps) = (c = p \<and> js_startsWith s ps)"

fun js_includes :: "string \<Rightarrow> string \<Rightarrow> bool" where
  "js_includes [] p = js_startsWith [] p"
| "js_includes (c # s) p = (js_startsWith (c # s) p \<or> js_includes s p)"

fun js_join :: "string \<Rightarrow> string list \<Rightarrow> string" where
  "js_join sep [] = ''''"
| "js_join sep [x] = x"
| "js_join sep (x # y # ys) = x @ sep @ js_join sep (y # ys)"

text \<open>
  String.prototype.split on a set of separator characters. \<open>split_on\<close> keeps the empty
  pieces, as split with a one-character separator does.
\<close>

fun split_on :: "(char \<Rightarrow> bool) \<Rightarrow> string \<Rightarrow> string list" where
  "split_on p [] = [[]]"
| "split_on p (c # s) =
     (if p c then [] # split_on p s
      else case split_on p s of [] \<Rightarrow> [[c]] | w # ws \<Rightarrow> (c # w) # ws)"

lemma split_on_nonempty [simp]: "split_on p s \<noteq> []"
  by (induction s) (auto split: list.splits)

lemma js_startsWith_iff: "js_startsWith s p \<longleftrightarrow> (\<exists>t. s = p @ t)"
  by (induction s p rule: js_startsWith.induct) auto

lemma js_includes_iff: "js_includes s p \<longleftrightarrow> (\<exists>a b. s = a @ p @ b)"
proof (induction s p rule: js_includes.induct)
  case (1 p)
  show ?case by (cases p) auto
next
  case (2 c s p)
  show ?case
  proof
    assume "js_includes (c # s) p"
    then consider "js_startsWith (c # s) p" | "js_includes s p" by auto
    then show "\<exists>a b. c # s = a @ p @ b"
    proof cases
      case 1
      then show ?thesis by (metis append_Nil js_startsWith_iff)
    next
      case 2
      then obtain a b where "s = a @ p @ b" using "2.IH" by auto
      then have "c # s = (c # a) @ p @ b" by simp
      then show ?thesis by blast
    qed
  next
    assume "\<exists>a b. c # s = a @ p @ b"
    then obtain a b where ab: "c # s = a @ p @ b" by auto
    show "js_includes (c # s) p"
    proof (cases a)
      case Nil
      then have "js_startsWith (c # s) p" using ab by (auto simp: js_startsWith_iff)
      then show ?thesis by simp
    next
      case (Cons x xs)
      then have "s = xs @ p @ b" using ab by simp
      then show ?thesis using "2.IH" by auto
    qed
  qed
qed

lemma js_includes_Nil [simp]: "js_includes s []"
  by (auto simp: js_includes_iff)

lemma dropWhile_trim_id:
  "s = [] \<or> (\<not> is_space (hd s) \<and> \<not> is_space (last s)) \<Longrightarrow> js_trim s = s"
  by (cases s) (auto simp: js_trim_def dropWhile_eq_self_iff hd_append hd_rev split: if_splits)

lemma js_trim_Nil [simp]: "js_trim [] = []"
  by (simp add: js_trim_def)

text \<open>Every string is its trimmed core between two runs of white space.\<close>

lemma js_trim_split:
  "s = takeWhile is_space s @ js_trim s @
     rev (takeWhile is_space (rev (dropWhile is_space s)))"
proof -
  have "s = takeWhile is_space s @ dropWhile is_space s" by simp
  moreover have "dropWhile is_space s =
      rev (dropWhile is_space (rev (dropWhile is_space s)))
      @ rev (takeWhile is_space (rev (dropWhile is_space s)))"
    by (metis rev_append rev_rev_ident takeWhile_dropWhile_id)
  ultimately show ?thesis by (simp add: js_trim_def)
qed

section \<open>Numbers\<close>

datatype jsnum = NaN | PosInf | NegInf | Fin rat

fun num_finite :: "jsnum \<Rightarrow> bool" where
  "num_finite (Fin x) = True"
| "num_finite _ = False"

definition digit_char :: "nat \<Rightarrow> char" where
  "digit_char d = ''0123456789'' ! d"

fun nat_str :: "nat \<Rightarrow> string" where
  "nat_str n = (if n < 10 then [digit_char n] else nat_str (n div 10) @ [digit_char (n mod 10)])"

declare nat_str.simps [simp del]

definition int_str :: "int \<Rightarrow> string" where
  "int_str i = (if i < 0 then ''-'' @ nat_str (nat (- i)) else nat_str (nat i))"

text \<open>
  Number.prototype.toFixed for magnitudes below 10^21: the integer nearest to x * 10^d, the
  larger of two, with the decimal point put back.
\<close>

definition pad_start :: "nat \<Rightarrow> char \<Rightarrow> string \<Rightarrow> string" where
  "pad_start k c s = replicate (k - length s) c @ s"

definition to_fixed_abs :: "nat \<Rightarrow> rat \<Rightarrow> string" where
  "to_fixed_abs d x =
     (let m = nat_str (nat \<lfloor>x * 10 ^ d + 1 / 2\<rfloor>) in
      if d = 0 then m
      else let z = pad_start (Suc d) (CHR ''0'') m; k = length z - d in
        take k z @ ''.'' @ drop k z)"

definition to_fixed :: "nat \<Rightarrow> rat \<Rightarrow> string" where
  "to_fixed d x = (if x < 0 then ''-'' @ to_fixed_abs d (- x) else to_fixed_abs d x)"

fun num_fixed :: "nat \<Rightarrow> jsnum \<Rightarrow> string" where
  "num_fixed d NaN = ''NaN''"
| "num_fixed d PosInf = ''Infinity''"
| "num_fixed d NegInf = ''-Infinity''"
| "num_fixed d (Fin x) = to_fixed d x"

text \<open>binary64 rounding of a rational (53 significant bits, ties to even).\<close>

definition two_powi :: "int \<Rightarrow> rat" where
  "two_powi e = (if 0 \<le> e then 2 ^ nat e else 1 / 2 ^ nat (- e))"

definition ilog2 :: "rat \<Rightarrow> int" where
  "ilog2 x = (if 1 \<le> x then int (floorlog 2 (nat \<lfloor>x\<rfloor>)) - 1
              else - int (floorlog 2 (nat (\<lceil>1 / x\<rceil> - 1))))"

definition round_even :: "rat \<Rightarrow> int" where
  "round_even q =
     (let f = \<lfloor>q\<rfloor>; d = q - of_int f in
      if d < 1 / 2 then f else if 1 / 2 < d then f + 1 else if even f then f else f + 1)"

definition fl :: "rat \<Rightarrow> rat" where
  "fl x = (if x = 0 then 0
           else let e = ilog2 \<bar>x\<bar> - 52 in
             sgn x * of_int (round_even (\<bar>x\<bar> / two_powi e)) * two_powi e)"

text \<open>
  Number-to-string: the decimal expansion with the fewest fraction digits that still rounds to
  the number (magnitudes from 10^-6 to 10^21, where no exponent is printed).
\<close>

definition num_str_fin :: "rat \<Rightarrow> string" where
  "num_str_fin x =
     (if x = of_int \<lfloor>x\<rfloor> then int_str \<lfloor>x\<rfloor>
      else case filter (\<lambda>p. fl (of_int \<lfloor>\<bar>x\<bar> * 10 ^ p + 1 / 2\<rfloor> / 10 ^ p) = \<bar>x\<bar>) [1..<25] of
             [] \<Rightarrow> to_fixed 24 x | p # _ \<Rightarrow> to_fixed p x)"

fun num_str :: "jsnum \<Rightarrow> string" where
  "num_str NaN = ''NaN''"
| "num_str PosInf = ''Infinity''"
| "num_str NegInf = ''-Infinity''"
| "num_str (Fin x) = num_str_fin x"

text \<open>Division of two finite numbers.\<close>

definition num_div :: "rat \<Rightarrow> rat \<Rightarrow> jsnum" where
  "num_div x y = (if y = 0 then (if x = 0 then NaN else if 0 < x then PosInf else NegInf)
                  else Fin (fl (x / y)))"

definition js_round :: "rat \<Rightarrow> int" where
  "js_round x = \<lfloor>x + 1 / 2\<rfloor>"

text \<open>
  StringToNumber, parseInt with radix 10 and parseFloat on decimal literals with an optional
  sign, fraction and exponent (no hexadecimal, octal or binary literals).
\<close>

definition is_digit :: "char \<Rightarrow> bool" where
  "is_digit c \<longleftrightarrow> of_char c \<in> {48..57 :: nat}"

definition digits_val :: "string \<Rightarrow> nat" where
  "digits_val s = foldl (\<lambda>a c. 10 * a + (of_char c - 48)) 0 s"

fun strip_sign :: "string \<Rightarrow> bool \<times> string" where
  "strip_sign [] = (False, [])"
| "strip_sign (c # s) = (if c = CHR ''-'' then (True, s) else if c = CHR ''+'' then (False, s)
                         else (False, c # s))"

definition exp_part :: "string \<Rightarrow> int \<times> string" where
  "exp_part s =
     (case s of
        c # t \<Rightarrow>
          if c \<in> {CHR ''e'', CHR ''E''} then
            (let (neg, u) = strip_sign t; d = takeWhile is_digit u in
             if d = [] then (0, s)
             else ((if neg then - int (digits_val d) else int (digits_val d)), dropWhile is_digit u))
          else (0, s)
      | [] \<Rightarrow> (0, s))"

text \<open>The longest decimal literal a string starts with, its value and the rest.\<close>

definition dec_prefix :: "string \<Rightarrow> (rat \<times> string) option" where
  "dec_prefix s =
     (let ip = takeWhile is_digit s; r = dropWhile is_digit s;
          (fp, r2) = (case r of c # t \<Rightarrow>
                        if c = CHR ''.'' \<and> (ip \<noteq> [] \<or> takeWhile is_digit t \<noteq> [])
                        then (takeWhile is_digit t, dropWhile is_digit t) else ([], r)
                      | [] \<Rightarrow> ([], r)) in
      if ip = [] \<and> fp = [] then None
      else let (e, r3) = exp_part r2;
               m = of_nat (digits_val (ip @ fp)) / 10 ^ length fp in
        Some (if 0 \<le> e then m * 10 ^ nat e else m / 10 ^ nat (- e), r3))"

definition str_to_num :: "string \<Rightarrow> jsnum" where
  "str_to_num s0 =
     (let s = js_trim s0 in
      if s = [] then Fin 0
      else let (neg, t) = strip_sign s in
        if t = ''Infinity'' then (if neg then NegInf else PosInf)
        else case dec_prefix t of
               Some (v, []) \<Rightarrow> Fin (fl (if neg then - v else v))
             | _ \<Rightarrow> NaN)"

definition parseInt10 :: "string \<Rightarrow> jsnum" where
  "parseInt10 s =
     (let (neg, t) = strip_sign (dropWhile is_space s); d = takeWhile is_digit t in
      if d = [] then NaN
      else Fin (fl (if neg then - of_nat (digits_val d) else of_nat (digits_val d))))"

definition parseFloat :: "string \<Rightarrow> jsnum" where
  "parseFloat s =
     (let (neg, t) = strip_sign (dropWhile is_space s) in
      if js_startsWith t ''Infinity'' then (if neg then NegInf else PosInf)
      else case dec_prefix t of
             None \<Rightarrow> NaN | Some (v, _) \<Rightarrow> Fin (fl (if neg then - v else v)))"

section \<open>Dynamic values\<close>

datatype jsval =
    JUndef
  | JNull
  | JBool bool
  | JNum jsnum
  | JStr string
  | JArr "jsval list"
  | JObj "(string \<times> jsval) list"

fun truthy :: "jsval \<Rightarrow> bool" where
  "truthy JUndef = False"
| "truthy JNull = False"
| "truthy (JBool b) = b"
| "truthy (JNum n) = (n \<noteq> NaN \<and> n \<noteq> Fin 0)"
| "truthy (JStr s) = (s \<noteq> [])"
| "truthy (JArr xs) = True"
| "truthy (JObj ps) = True"

definition js_or :: "jsval \<Rightarrow> jsval \<Rightarrow> jsval" where
  "js_or a b = (if truthy a then a else b)"

text \<open>Property read; on null and undefined it is the optional chaining of the source.\<close>

fun jget :: "jsval \<Rightarrow> string \<Rightarrow> jsval" where
  "jget (JObj ps) k = (case map_of ps k of None \<Rightarrow> JUndef | Some v \<Rightarrow> v)"
| "jget _ k = JUndef"

fun upd_pair :: "'k \<Rightarrow> 'v \<Rightarrow> ('k \<times> 'v) list \<Rightarrow> ('k \<times> 'v) list" where
  "upd_pair k v [] = [(k, v)]"
| "upd_pair k v ((k', v') # ps) = (if k = k' then (k, v) # ps else (k', v') # upd_pair k v ps)"

fun jset :: "jsval \<Rightarrow> string \<Rightarrow> jsval \<Rightarrow> jsval" where
  "jset (JObj ps) k v = JObj (upd_pair k v ps)"
| "jset x k v = x"

fun jdel :: "jsval \<Rightarrow> string \<Rightarrow> jsval" where
  "jdel (JObj ps) k = JObj (filter (\<lambda>p. fst p \<noteq> k) ps)"
| "jdel x k = x"

fun is_obj :: "jsval \<Rightarrow> bool" where
  "is_obj (JObj ps) = True"
| "is_obj _ = False"

fun is_arr :: "jsval \<Rightarrow> bool" where
  "is_arr (JArr xs) = True"
| "is_arr _ = False"

text \<open>\<open>typeof x === 'object'\<close> together with \<open>x\<close> being truthy.\<close>

fun object_like :: "jsval \<Rightarrow> bool" where
  "object_like (JObj ps) = True"
| "object_like (JArr xs) = True"
| "object_like _ = False"

fun nullish :: "jsval \<Rightarrow> bool" where
  "nullish JUndef = True"
| "nullish JNull = True"
| "nullish _ = False"

fun arr_elems :: "jsval \<Rightarrow> jsval list" where
  "arr_elems (JArr xs) = xs"
| "arr_elems _ = []"

text \<open>String(x).\<close>

fun js_string :: "jsval \<Rightarrow> string" where
  "js_string JUndef = ''undefined''"
| "js_string JNull = ''null''"
| "js_string (JBool b) = (if b then ''true'' else ''false'')"
| "js_string (JNum n) = num_str n"
| "js_string (JStr s) = s"
| "js_string (JArr xs) =
     js_join '','' (map (\<lambda>x. if x = JUndef \<or> x = JNull then '''' else js_string x) xs)"
| "js_string (JObj ps) = ''[object Object]''"

text \<open>Number(x).\<close>

fun js_number :: "jsval \<Rightarrow> jsnum" where
  "js_number JUndef = NaN"
| "js_number JNull = Fin 0"
| "js_number (JBool b) = (if b then Fin 1 else Fin 0)"
| "js_number (JNum n) = n"
| "js_number (JStr s) = str_to_num s"
| "js_number (JArr xs) = str_to_num (js_string (JArr xs))"
| "js_number (JObj ps) = NaN"

text \<open>\<open>x || 0\<close> on numbers: NaN and 0 give the default.\<close>

definition num_or :: "jsnum \<Rightarrow> rat \<Rightarrow> rat" where
  "num_or n d = (case n of Fin x \<Rightarrow> if x = 0 then d else x | _ \<Rightarrow> d)"

lemma map_of_upd_pair [simp]:
  "map_of (upd_pair k v ps) k' = (if k' = k then Some v else map_of ps k')"
  by (induction ps) auto

lemma jget_jset [simp]:
  "is_obj x \<Longrightarrow> jget (jset x k v) k' = (if k' = k then v else jget x k')"
  by (cases x) auto

lemma is_obj_jset [simp]: "is_obj (jset x k v) = is_obj x"
  by (cases x) auto

lemma truthy_jset [simp]: "is_obj x \<Longrightarrow> truthy (jset x k v)"
  by (cases x) auto

lemma is_obj_truthy [simp, intro]: "is_obj x \<Longrightarrow> truthy x"
  by (cases x) auto

lemma is_obj_object_like [simp, intro]: "is_obj x \<Longrightarrow> object_like x"
  by (cases x) auto

lemma object_like_truthy [simp, intro]: "object_like x \<Longrightarrow> truthy x"
  by (cases x) auto

lemma truthy_not_nullish [simp, intro]: "truthy x \<Longrightarrow> \<not> nullish x"
  by (cases x) auto

lemma upd_pair_same: "map_of ps k = Some v \<Longrightarrow> upd_pair k v ps = ps"
  by (induction ps) (auto split: if_splits)

lemma jset_same: "is_obj x \<Longrightarrow> jget x k = v \<Longrightarrow> v \<noteq> JUndef \<Longrightarrow> jset x k v = x"
  by (cases x) (auto simp: upd_pair_same split: option.splits)

lemma jget_jdel [simp]: "jget (jdel x k) k' = (if k' = k then JUndef else jget x k')"
proof (cases x)
  case (JObj ps)
  have "map_of (filter (\<lambda>p. fst p \<noteq> k) ps) k' = (if k' = k then None else map_of ps k')"
    by (induction ps) auto
  then show ?thesis using JObj by simp
qed auto

section \<open>Duplicates and separators\<close>

lemma filter_uniq: "filter P (uniq xs) = uniq (filter P xs)"
proof (induction xs)
  case (Cons x xs)
  have "filter P (filter (\<lambda>y. y \<noteq> x) (uniq xs)) = filter (\<lambda>y. y \<noteq> x) (filter P (uniq xs))"
    by (simp add: conj_commute)
  moreover have "\<not> P x \<Longrightarrow> filter (\<lambda>y. y \<noteq> x) (filter P (uniq xs)) = filter P (uniq xs)"
    by (auto intro!: filter_cong)
  ultimately show ?case using Cons by auto
qed simp

lemma uniq_append: "uniq (xs @ ys) = uniq xs @ filter (\<lambda>y. y \<notin> set xs) (uniq ys)"
  by (induction xs) (auto simp: conj_commute intro: filter_cong)

lemma concat_skip:
  "filter (\<lambda>y. y \<notin> set (f x)) (concat (map f (filter (\<lambda>y. y \<noteq> x) zs))) =
   filter (\<lambda>y. y \<notin> set (f x)) (concat (map f zs))"
  by (induction zs) (auto simp: filter_empty_conv)

lemma uniq_concat_uniq: "uniq (concat (map f (uniq ys))) = uniq (concat (map f ys))"
proof (induction ys)
  case (Cons y ys)
  let ?P = "\<lambda>z. z \<notin> set (f y)"
  have "filter ?P (uniq (concat (map f (filter (\<lambda>z. z \<noteq> y) (uniq ys))))) =
      filter ?P (uniq (concat (map f ys)))"
    unfolding filter_uniq[of ?P] concat_skip unfolding filter_uniq[of ?P, symmetric] Cons ..
  then show ?case by (simp add: uniq_append)
qed simp

lemma uniq_concat_cong:
  "(\<And>x. uniq (f x) = uniq (g x)) \<Longrightarrow> uniq (concat (map f xs)) = uniq (concat (map g xs))"
proof (induction xs)
  case (Cons x xs)
  have "set (f x) = set (g x)" using Cons.prems[of x] by (metis set_uniq)
  then show ?case using Cons by (simp add: uniq_append)
qed simp

lemma split_on_no_sep: "\<forall>c\<in>set s. \<not> p c \<Longrightarrow> split_on p s = [s]"
  by (induction s) auto

lemma split_on_append:
  "\<forall>c\<in>set s. \<not> p c \<Longrightarrow> p c \<Longrightarrow> split_on p (s @ c # t) = s # split_on p t"
  by (induction s) auto

lemma split_on_join:
  "xs \<noteq> [] \<Longrightarrow> p c \<Longrightarrow> \<forall>x\<in>set xs. \<forall>a\<in>set x. \<not> p a \<Longrightarrow> split_on p (js_join [c] xs) = xs"
proof (induction "[c]" xs rule: js_join.induct)
  case (3 x y ys)
  then show ?case using split_on_append[of x p c "js_join [c] (y # ys)"] by simp
qed (auto simp: split_on_no_sep)

lemma split_on_pieces: "s \<in> set (split_on p t) \<Longrightarrow> a \<in> set s \<Longrightarrow> \<not> p a"
  by (induction t arbitrary: s) (fastforce split: if_splits list.splits)+

lemma set_js_trim: "set (js_trim s) \<subseteq> set s"
  by (auto simp: js_trim_def dest!: set_dropWhileD)

lemma char_code: "c = d \<longleftrightarrow> (of_char c :: nat) = of_char d"
  by simp

lemma of_lower_char:
  "(of_char (lower_char c) :: nat) =
     (if of_char c \<in> {65..90 :: nat} then of_char c + 32 else of_char c)"
  by (auto simp: lower_char_def)

lemma lower_char_simps [simp]:
  "is_space (lower_char c) = is_space c" "lower_char (lower_char c) = lower_char c"
proof -
  show "is_space (lower_char c) = is_space c"
    unfolding is_space_def insert_iff empty_iff char_code[of "lower_char c"] char_code[of c]
      of_lower_char by auto
  show "lower_char (lower_char c) = lower_char c"
    unfolding char_code[of "lower_char (lower_char c)"] of_lower_char by auto
qed

lemma js_lower_trim: "js_trim (js_lower s) = js_lower (js_trim s)"
  by (simp add: js_trim_def js_lower_def dropWhile_map rev_map o_def)

lemma js_lower_idem [simp]: "js_lower (js_lower s) = js_lower s"
  by (simp add: js_lower_def)

lemma js_trim_last: "js_trim s \<noteq> [] \<Longrightarrow> \<not> is_space (last (js_trim s))"
  unfolding js_trim_def last_rev by (metis hd_dropWhile rev.simps(1))

lemma js_trim_idem [simp]: "js_trim (js_trim s) = js_trim s"
proof -
  let ?t = "js_trim s"
  have "?t = [] \<or> \<not> is_space (hd ?t) \<and> \<not> is_space (last ?t)"
  proof (cases "dropWhile is_space (rev (dropWhile is_space s))")
    case (Cons c r)
    let ?d = "dropWhile is_space s"
    have c: "\<not> is_space c" using Cons by (metis hd_dropWhile list.distinct(1) list.sel(1))
    have t: "?t = rev r @ [c]" using Cons by (simp add: js_trim_def)
    have "?d = ?t @ rev (takeWhile is_space (rev ?d))"
      by (metis js_trim_def rev_append rev_rev_ident takeWhile_dropWhile_id)
    then have "hd ?t = hd ?d" using t by (metis Nil_is_append_conv hd_append2 list.distinct(1))
    moreover have "?d \<noteq> []" using Cons by (metis dropWhile.simps(1) list.distinct(1) rev.simps(1))
    ultimately show ?thesis using t c by (metis hd_dropWhile last_snoc)
  qed (simp add: js_trim_def)
  then show ?thesis by (rule dropWhile_trim_id)
qed

lemma join_inj:
  assumes "js_join [c] xs = js_join [c] ys" "xs \<noteq> []" "ys \<noteq> []"
    and "\<forall>x\<in>set xs. c \<notin> set x" "\<forall>y\<in>set ys. c \<notin> set y"
  shows "xs = ys"
  using split_on_join[of xs "\<lambda>a. a = c" c] split_on_join[of ys "\<lambda>a. a = c" c] assms by metis

section \<open>Decimal digits\<close>

lemma nat_str_digits: "c \<in> set (nat_str n) \<Longrightarrow> is_digit c"
proof (induction n rule: nat_str.induct)
  case (1 n)
  have d: "is_digit (digit_char k)" if "k < 10" for k
  proof -
    have "k \<in> {0,1,2,3,4,5,6,7,8,9}" using that by auto
    then show ?thesis by (auto simp: digit_char_def is_digit_def)
  qed
  show ?case
  proof (cases "n < 10")
    case True
    then show ?thesis using 1(2) d by (simp add: nat_str.simps[of n])
  next
    case False
    have "nat_str n = nat_str (n div 10) @ [digit_char (n mod 10)]"
      using False by (simp add: nat_str.simps[of n])
    then show ?thesis using 1 False d[of "n mod 10"] by auto
  qed
qed

lemma digits_val_append: "digits_val (s @ [c]) = 10 * digits_val s + (of_char c - 48)"
  by (simp add: digits_val_def)

lemma digits_val_nat_str: "digits_val (nat_str n) = n"
proof (induction n rule: nat_str.induct)
  case (1 n)
  have d: "(of_char (digit_char k) :: nat) - 48 = k" if "k < 10" for k
  proof -
    have "k \<in> {0,1,2,3,4,5,6,7,8,9}" using that by auto
    then show ?thesis by (auto simp: digit_char_def)
  qed
  show ?case
  proof (cases "n < 10")
    case True
    then have "nat_str n = [] @ [digit_char n]" by (simp add: nat_str.simps[of n])
    then show ?thesis using d[OF True] by (simp only: digits_val_append) (simp add: digits_val_def)
  next
    case False
    have "nat_str n = nat_str (n div 10) @ [digit_char (n mod 10)]"
      using False by (simp add: nat_str.simps[of n])
    then show ?thesis using 1 False d[of "n mod 10"]
      by (simp only: digits_val_append) simp
  qed
qed

lemma nat_str_inj: "nat_str a = nat_str b \<Longrightarrow> a = b"
  by (metis digits_val_nat_str)

section \<open>Numerals and exact numbers\<close>

lemma digit_char_code: "is_digit c \<Longrightarrow> digit_char (of_char c - 48) = c"
proof -
  have "\<forall>n \<in> {48..<58}. digit_char (n - 48) = char_of (n :: nat)" by code_simp
  moreover assume "is_digit c"
  then have "of_char c \<in> {48..<58 :: nat}" by (auto simp: is_digit_def)
  ultimately have "digit_char (of_char c - 48) = char_of (of_char c :: nat)" by blast
  then show ?thesis by simp
qed

lemma digits_val_pos:
  "list_all is_digit p \<Longrightarrow> p \<noteq> [] \<Longrightarrow> hd p \<noteq> CHR ''0'' \<Longrightarrow> 0 < digits_val p"
proof (induction p rule: rev_induct)
  case (snoc c p)
  have "is_digit c \<Longrightarrow> c \<noteq> CHR ''0'' \<Longrightarrow> 48 < (of_char c :: nat)"
  proof -
    assume c: "is_digit c" "c \<noteq> CHR ''0''"
    have "(of_char (CHR ''0'') :: nat) = 48" by simp
    then have "(of_char c :: nat) \<noteq> 48"
      using c(2) of_char_eq_iff[where ?'a = nat, of c "CHR ''0''"] by metis
    with c show ?thesis by (simp add: is_digit_def)
  qed
  then show ?case using snoc
    by (cases "p = []") (simp_all add: digits_val_append, simp add: digits_val_def)
qed simp

lemma nat_str_digits_val:
  assumes "list_all is_digit p" "p \<noteq> []" "p = ''0'' \<or> hd p \<noteq> CHR ''0''"
  shows "nat_str (digits_val p) = p"
  using assms
proof (induction p rule: rev_induct)
  case (snoc c p)
  have c: "of_char c - (48 :: nat) < 10" "digit_char (of_char c - 48) = c"
    using snoc.prems(1) digit_char_code[of c] by (auto simp: is_digit_def)
  show ?case
  proof (cases "p = []")
    case True
    then show ?thesis using c by (subst nat_str.simps) (simp add: digits_val_def)
  next
    case False
    then have h: "hd p \<noteq> CHR ''0''" "list_all is_digit p"
      using snoc.prems by (auto simp: append_eq_Cons_conv)
    then have "0 < digits_val p" "nat_str (digits_val p) = p"
      using False snoc.IH digits_val_pos by auto
    then show ?thesis using c by (subst nat_str.simps) (simp add: digits_val_append)
  qed
qed simp

lemma round_even_int [simp]: "round_even (of_int i) = i"
  by (simp add: round_even_def)

lemma ilog2_nat: "0 < n \<Longrightarrow> ilog2 (of_nat n) = int (floorlog 2 n) - 1"
  by (simp add: ilog2_def)

text \<open>A natural number below 2^53 is a double.\<close>

lemma fl_nat:
  assumes "n < 2 ^ 53" shows "fl (of_nat n) = of_nat n"
proof (cases "n = 0")
  case False
  define k where "k = nat (52 - ilog2 (of_nat n))"
  have "floorlog 2 n \<le> 53"
    using False assms floorlog_leI[of n 2 53] by simp
  then have e: "ilog2 (of_nat n) - 52 = - int k"
    using False by (simp add: k_def ilog2_nat)
  have p: "two_powi (- int k) = 1 / 2 ^ k" by (simp add: two_powi_def)
  have "(of_nat n :: rat) / (1 / 2 ^ k) = of_int (int n * 2 ^ k)" by simp
  then have "round_even (of_nat n / (1 / 2 ^ k)) = int n * 2 ^ k"
    by (metis round_even_int)
  then show ?thesis
    using False by (simp add: fl_def e p Let_def)
qed (simp add: fl_def)

lemma takeWhile_all: "list_all P xs \<Longrightarrow> takeWhile P xs = xs \<and> dropWhile P xs = []"
  by (induction xs) auto

lemma digits_no:
  assumes "list_all is_digit p"
  shows "c \<in> set p \<Longrightarrow> \<not> is_space c" "c \<in> set p \<Longrightarrow> c \<noteq> CHR ''-'' \<and> c \<noteq> CHR ''+'' \<and> c \<noteq> CHR ''I''"
  using assms by (auto simp: list_all_iff is_digit_def is_space_def)

lemma str_to_num_digits:
  assumes "list_all is_digit p" "p \<noteq> []" "digits_val p < 2 ^ 53"
  shows "str_to_num p = Fin (of_nat (digits_val p))"
proof -
  have h: "\<not> is_space (hd p)" "\<not> is_space (last p)" "hd p \<noteq> CHR ''-''" "hd p \<noteq> CHR ''+''"
    "hd p \<noteq> CHR ''I''"
    using assms(2) digits_no[OF assms(1)] by auto
  have t: "js_trim p = p"
  proof -
    have "dropWhile is_space p = p" using assms(2) h by (cases p) auto
    moreover have "dropWhile is_space (rev p) = rev p"
      using assms(2) h by (cases p rule: rev_cases) auto
    ultimately show ?thesis by (simp add: js_trim_def)
  qed
  have s: "strip_sign p = (False, p)"
    using assms(2) h by (cases p) auto
  have d: "dec_prefix p = Some (of_nat (digits_val p), [])"
    unfolding dec_prefix_def takeWhile_all[OF assms(1), THEN conjunct1]
      takeWhile_all[OF assms(1), THEN conjunct2]
    using assms(2) by (simp add: exp_part_def Let_def)
  show ?thesis
    using assms(2) h(5) fl_nat[OF assms(3)]
    by (auto simp: str_to_num_def t s d Let_def)
qed

lemma set_js_join: "set (js_join sep ps) \<subseteq> set sep \<union> \<Union> (set ` set ps)"
  by (induction sep ps rule: js_join.induct) auto

lemma nat_str_nonempty [simp]: "nat_str n \<noteq> []"
  by (subst nat_str.simps) simp

lemma nat_str_canonical: "nat_str n = ''0'' \<or> hd (nat_str n) \<noteq> CHR ''0''"
proof (induction n rule: nat_str.induct)
  case (1 n)
  show ?case
  proof (cases "n < 10")
    case True
    then have "n \<in> {0,1,2,3,4,5,6,7,8,9}" by auto
    then show ?thesis by (subst (1 2) nat_str.simps) (auto simp: digit_char_def)
  next
    case False
    moreover have "nat_str (n div 10) \<noteq> ''0''"
      using False digits_val_nat_str[of "n div 10"] by (auto simp: digits_val_def)
    ultimately show ?thesis using 1 by (subst (1 2) nat_str.simps) auto
  qed
qed

lemma nat_str_length: "n < 10 ^ k \<Longrightarrow> 0 < k \<Longrightarrow> length (nat_str n) \<le> k"
proof (induction k arbitrary: n)
  case (Suc k)
  then show ?case by (cases k; subst nat_str.simps) (auto simp: less_mult_imp_div_less mult.commute)
qed simp

end
