(* ===== verification/Dash_World.thy ===== *)
theory Dash_World
  imports Js_Prelude
begin

text \<open>
  The page the dashboard script (web/js/app.js) runs in: its module-level variables, the
  elements it reads and writes by id, localStorage, the toasts it raised, the requests it
  sent and the answers the network still has for it.

  A handler is a state computation over \<open>dash\<close>. An awaited fetch takes the next outcome of
  \<open>net\<close>: a transport failure or a response. An async function that is called and not awaited
  runs up to its first await and leaves a \<open>task\<close>. \<open>exec m w\<close> is the page after \<open>m\<close>,
  \<open>result m w\<close> its value.
\<close>

section \<open>Elements, requests, responses\<close>

record elem =
  el_value :: string
  el_checked :: bool
  el_text :: string
  el_hidden :: bool
  el_disabled :: bool
  el_class :: string
  el_title :: string
  el_placeholder :: string
  el_required :: bool
  el_icon :: string
  el_width :: string
  el_type :: string
  el_options :: "string list"

record request =
  rq_method :: string
  rq_path :: string
  rq_token :: "string option"
  rq_body :: jsval

text \<open>
  A response: its status, its text (\<open>None\<close>: reading it fails) and the result of JSON.parse on
  the text (\<open>None\<close>: a SyntaxError).
\<close>

record response =
  rs_status :: nat
  rs_text :: "string option"
  rs_json :: "jsval option"

datatype outcome = NetErr | Resp response

definition rs_ok :: "response \<Rightarrow> bool" where
  "rs_ok r \<longleftrightarrow> 200 \<le> rs_status r \<and> rs_status r < 300"

record toast =
  t_text :: string
  t_tone :: string
  t_linger :: nat

datatype nav = NavReload | NavTo string | NavPush string

datatype task =
    TUpdateStats
  | TRenderTwoFactor
  | TRenderLdap
  | TBoot
  | TPanels
  | TLoadClients

record location =
  l_origin :: string
  l_hostname :: string
  l_port :: string

record dash =
  loc :: location
  adminBase :: string
  authToken :: string
  currentConfig :: jsval
  currentCustomPolicies :: "jsval list"
  clientsDataCache :: jsval
  isAPIKeyMasked :: bool
  listenersAttached :: bool
  storage :: "string \<rightharpoonup> string"
  dom :: "string \<rightharpoonup> elem"
  focused :: "string option"
  toasts :: "toast list"
  sent :: "request list"
  net :: "outcome list"
  navs :: "nav list"
  tasks :: "task list"
  statsFailures :: nat
  lastUpstreamsSig :: string
  activeDashTab :: string
  chartAvailable :: bool
  qpsChart :: "jsval list option"
  clientsCards :: bool
  diagRunning :: bool

type_synonym 'a page = "(dash, 'a) state"

section \<open>Primitive effects\<close>

definition upd :: "string \<Rightarrow> (elem \<Rightarrow> elem) \<Rightarrow> unit page" where
  "upd i f = modify (\<lambda>w. w\<lparr>dom := (dom w)(i := map_option f (dom w i))\<rparr>)"

abbreviation set_text :: "string \<Rightarrow> string \<Rightarrow> unit page" where
  "set_text i t \<equiv> upd i (\<lambda>e. e\<lparr>el_text := t\<rparr>)"

abbreviation set_value :: "string \<Rightarrow> string \<Rightarrow> unit page" where
  "set_value i t \<equiv> upd i (\<lambda>e. e\<lparr>el_value := t\<rparr>)"

abbreviation set_checked :: "string \<Rightarrow> bool \<Rightarrow> unit page" where
  "set_checked i b \<equiv> upd i (\<lambda>e. e\<lparr>el_checked := b\<rparr>)"

abbreviation set_hidden :: "string \<Rightarrow> bool \<Rightarrow> unit page" where
  "set_hidden i b \<equiv> upd i (\<lambda>e. e\<lparr>el_hidden := b\<rparr>)"

abbreviation set_disabled :: "string \<Rightarrow> bool \<Rightarrow> unit page" where
  "set_disabled i b \<equiv> upd i (\<lambda>e. e\<lparr>el_disabled := b\<rparr>)"

abbreviation set_class :: "string \<Rightarrow> string \<Rightarrow> unit page" where
  "set_class i t \<equiv> upd i (\<lambda>e. e\<lparr>el_class := t\<rparr>)"

abbreviation set_title :: "string \<Rightarrow> string \<Rightarrow> unit page" where
  "set_title i t \<equiv> upd i (\<lambda>e. e\<lparr>el_title := t\<rparr>)"

definition has_el :: "dash \<Rightarrow> string \<Rightarrow> bool" where
  "has_el w i \<longleftrightarrow> dom w i \<noteq> None"

definition value_of :: "dash \<Rightarrow> string \<Rightarrow> string" where
  "value_of w i = (case dom w i of None \<Rightarrow> '''' | Some e \<Rightarrow> el_value e)"

definition checked_of :: "dash \<Rightarrow> string \<Rightarrow> bool" where
  "checked_of w i = (case dom w i of None \<Rightarrow> False | Some e \<Rightarrow> el_checked e)"

definition text_of :: "dash \<Rightarrow> string \<Rightarrow> string" where
  "text_of w i = (case dom w i of None \<Rightarrow> '''' | Some e \<Rightarrow> el_text e)"

definition disabled_of :: "dash \<Rightarrow> string \<Rightarrow> bool" where
  "disabled_of w i = (case dom w i of None \<Rightarrow> False | Some e \<Rightarrow> el_disabled e)"

definition shown :: "dash \<Rightarrow> string \<Rightarrow> bool" where
  "shown w i = (case dom w i of None \<Rightarrow> False | Some e \<Rightarrow> \<not> el_hidden e)"

definition focus :: "string \<Rightarrow> unit page" where
  "focus i = modify (\<lambda>w. if has_el w i then w\<lparr>focused := Some i\<rparr> else w)"

definition setItem :: "string \<Rightarrow> string \<Rightarrow> unit page" where
  "setItem k v = modify (\<lambda>w. w\<lparr>storage := (storage w)(k \<mapsto> v)\<rparr>)"

definition removeItem :: "string \<Rightarrow> unit page" where
  "removeItem k = modify (\<lambda>w. w\<lparr>storage := (storage w)(k := None)\<rparr>)"

definition setToken :: "string \<Rightarrow> unit page" where
  "setToken t = modify (\<lambda>w. w\<lparr>authToken := t\<rparr>)"

definition navigate :: "nav \<Rightarrow> unit page" where
  "navigate n = modify (\<lambda>w. w\<lparr>navs := navs w @ [n]\<rparr>)"

definition spawn :: "task \<Rightarrow> unit page" where
  "spawn t = modify (\<lambda>w. w\<lparr>tasks := tasks w @ [t]\<rparr>)"

definition setConfig :: "jsval \<Rightarrow> unit page" where
  "setConfig c = modify (\<lambda>w. w\<lparr>currentConfig := c\<rparr>)"

definition api :: "dash \<Rightarrow> string \<Rightarrow> string" where
  "api w p = adminBase w @ p"

definition dash_base :: "dash \<Rightarrow> string" where
  "dash_base w = adminBase w @ ''/dash''"

text \<open>Sending records the request; the answer is the next outcome of the network.\<close>

definition send :: "request \<Rightarrow> unit page" where
  "send r = modify (\<lambda>w. w\<lparr>sent := sent w @ [r]\<rparr>)"

definition next_outcome :: "outcome page" where
  "next_outcome = State (\<lambda>w. case net w of [] \<Rightarrow> (NetErr, w) | x # xs \<Rightarrow> (x, w\<lparr>net := xs\<rparr>))"

definition mk_req :: "dash \<Rightarrow> string \<Rightarrow> string \<Rightarrow> jsval \<Rightarrow> request" where
  "mk_req w m p b =
     \<lparr>rq_method = m, rq_path = api w p, rq_token = Some (authToken w), rq_body = b\<rparr>"

definition fetch_auth :: "string \<Rightarrow> string \<Rightarrow> jsval \<Rightarrow> outcome page" where
  "fetch_auth m p b = do { w \<leftarrow> State_Monad.get; send (mk_req w m p b); next_outcome }"

abbreviation fetch_get :: "string \<Rightarrow> outcome page" where
  "fetch_get p \<equiv> fetch_auth ''GET'' p JUndef"

abbreviation fetch_post :: "string \<Rightarrow> jsval \<Rightarrow> outcome page" where
  "fetch_post p b \<equiv> fetch_auth ''POST'' p b"

section \<open>Toasts and error messages\<close>

text \<open>The length of a UTF-8 string in UTF-16 code units.\<close>

definition utf16_len :: "string \<Rightarrow> nat" where
  "utf16_len s = length (filter (\<lambda>c. of_char c < (128 :: nat) \<or> 192 \<le> (of_char c :: nat)) s)
                 + length (filter (\<lambda>c. 240 \<le> (of_char c :: nat)) s)"

definition toast_dot :: "string \<Rightarrow> string" where
  "toast_dot ty = (if ty = ''success'' then ''success'' else if ty = ''error'' then ''error''
                   else if ty = ''warning'' then ''warning'' else ''info'')"

definition showToast :: "jsval \<Rightarrow> string \<Rightarrow> unit page" where
  "showToast msg ty = modify (\<lambda>w.
     if \<not> has_el w ''toast-container'' then w
     else let txt = (if nullish msg then '''' else js_string msg) in
       w\<lparr>toasts := toasts w @ [\<lparr>t_text = txt, t_tone = toast_dot ty,
            t_linger = (if utf16_len txt > 70 then 9000 else 2500)\<rparr>]\<rparr>)"

abbreviation toast_msg :: "string \<Rightarrow> string \<Rightarrow> unit page" where
  "toast_msg m ty \<equiv> showToast (JStr m) ty"

definition errorMessage :: "response \<Rightarrow> string \<Rightarrow> string" where
  "errorMessage res fallback =
     (let generic = (if rs_status res = 429 then ''Too many attempts. Try again later.''
                     else fallback) in
      case rs_text res of
        None \<Rightarrow> generic
      | Some txt \<Rightarrow>
          if txt = '''' then generic
          else (case rs_json res of
                  Some parsed \<Rightarrow>
                    if truthy parsed \<and> truthy (jget parsed ''error'')
                    then js_string (jget parsed ''error'') else generic
                | None \<Rightarrow>
                    let trimmed = js_trim txt in
                    if trimmed \<noteq> '''' \<and> utf16_len trimmed < 200 then trimmed else generic))"

section \<open>Lemmas\<close>

named_theorems page_simps \<open>effects of the primitives on the page\<close>

lemma exec_upd [page_simps]:
  "exec (upd i f) w = w\<lparr>dom := (dom w)(i := map_option f (dom w i))\<rparr>"
  by (simp add: upd_def)

lemma exec_prims [page_simps]:
  "exec (setItem k v) w = w\<lparr>storage := (storage w)(k \<mapsto> v)\<rparr>"
  "exec (removeItem k) w = w\<lparr>storage := (storage w)(k := None)\<rparr>"
  "exec (setToken t) w = w\<lparr>authToken := t\<rparr>"
  "exec (navigate n) w = w\<lparr>navs := navs w @ [n]\<rparr>"
  "exec (spawn tk) w = w\<lparr>tasks := tasks w @ [tk]\<rparr>"
  "exec (setConfig c) w = w\<lparr>currentConfig := c\<rparr>"
  "exec (send r) w = w\<lparr>sent := sent w @ [r]\<rparr>"
  "exec (focus i) w = (if has_el w i then w\<lparr>focused := Some i\<rparr> else w)"
  by (simp_all add: setItem_def removeItem_def setToken_def navigate_def spawn_def
      setConfig_def send_def focus_def)

lemma result_unit [simp]: "result (m :: unit page) w = ()"
  by simp

lemma exec_get [simp]: "exec State_Monad.get w = w" "result State_Monad.get w = w"
  by (simp_all add: exec_def result_def)

lemma fetch_auth_run [page_simps]:
  "exec (fetch_auth m p b) w =
     w\<lparr>sent := sent w @ [mk_req w m p b], net := tl (net w)\<rparr>"
  "result (fetch_auth m p b) w = (case net w of [] \<Rightarrow> NetErr | x # _ \<Rightarrow> x)"
  by (cases "net w"; simp add: fetch_auth_def next_outcome_def exec_def result_def send_def)+

lemma exec_next_outcome [page_simps]: "exec next_outcome w = w\<lparr>net := tl (net w)\<rparr>"
  by (cases "net w") (simp_all add: next_outcome_def exec_def)

lemma result_next_outcome [page_simps]:
  "result next_outcome w = (case net w of [] \<Rightarrow> NetErr | x # _ \<Rightarrow> x)"
  by (cases "net w") (simp_all add: next_outcome_def result_def)

lemma upd_missing: "dom w i = None \<Longrightarrow> exec (upd i f) w = w"
  by (cases w) (auto simp: page_simps fun_upd_idem)

lemma has_el_upd [page_simps]: "has_el (exec (upd i f) w) j = has_el w j"
  by (simp add: has_el_def page_simps)

text \<open>A toast changes the list of toasts and nothing else.\<close>

lemma exec_showToast [page_simps]:
  "exec (showToast m ty) w =
     (if has_el w ''toast-container''
      then w\<lparr>toasts := toasts w @ [\<lparr>t_text = (if nullish m then '''' else js_string m),
              t_tone = toast_dot ty,
              t_linger = (if utf16_len (if nullish m then '''' else js_string m) > 70
                          then 9000 else 2500)\<rparr>]\<rparr>
      else w)"
  by (simp add: showToast_def Let_def)

lemma has_el_simps [simp]:
  "has_el (w\<lparr>storage := a\<rparr>) i = has_el w i"
  "has_el (w\<lparr>authToken := t\<rparr>) i = has_el w i"
  "has_el (w\<lparr>navs := n\<rparr>) i = has_el w i"
  "has_el (w\<lparr>tasks := k\<rparr>) i = has_el w i"
  "has_el (w\<lparr>currentConfig := c\<rparr>) i = has_el w i"
  "has_el (w\<lparr>sent := s\<rparr>) i = has_el w i"
  "has_el (w\<lparr>net := o'\<rparr>) i = has_el w i"
  "has_el (w\<lparr>focused := f\<rparr>) i = has_el w i"
  "has_el (w\<lparr>toasts := ts\<rparr>) i = has_el w i"
  "has_el (w\<lparr>statsFailures := n'\<rparr>) i = has_el w i"
  "has_el (w\<lparr>lastUpstreamsSig := sg\<rparr>) i = has_el w i"
  "has_el (w\<lparr>qpsChart := ch\<rparr>) i = has_el w i"
  "has_el (w\<lparr>clientsCards := cd\<rparr>) i = has_el w i"
  "has_el (w\<lparr>clientsDataCache := cc\<rparr>) i = has_el w i"
  "has_el (w\<lparr>diagRunning := dr\<rparr>) i = has_el w i"
  "has_el (w\<lparr>dom := (dom w)(j := map_option g (dom w j))\<rparr>) i = has_el w i"
  by (auto simp: has_el_def)

section \<open>Frames\<close>

text \<open>
  \<open>keeps f m\<close>: the computation \<open>m\<close> leaves the view \<open>f\<close> of the page as it is. The rules
  follow the structure of a computation, so a frame fact of a handler is one \<open>auto intro!\<close>.
\<close>

named_theorems keeps_intros \<open>structural rules for \<open>keeps\<close>\<close>

definition keeps :: "(dash \<Rightarrow> 'b) \<Rightarrow> 'a page \<Rightarrow> bool" where
  "keeps f m \<longleftrightarrow> (\<forall>w. f (exec m w) = f w)"

lemma keepsD: "keeps f m \<Longrightarrow> f (exec m w) = f w"
  by (simp add: keeps_def)

lemma keeps_bind [keeps_intros]:
  "keeps f m \<Longrightarrow> (\<And>x. keeps f (k x)) \<Longrightarrow> keeps f (State_Monad.bind m k)"
  by (simp add: keeps_def)

lemma keeps_basic [keeps_intros]:
  "keeps f (ret x)" "keeps f (gets g)" "keeps f State_Monad.get"
  by (simp_all add: keeps_def)

lemma keeps_if [keeps_intros]:
  "(b \<Longrightarrow> keeps f m) \<Longrightarrow> (\<not> b \<Longrightarrow> keeps f n) \<Longrightarrow> keeps f (if b then m else n)"
  by simp

lemma keeps_only_if [keeps_intros]: "keeps f m \<Longrightarrow> keeps f (only_if b m)"
  by (simp add: keeps_def)

lemma keeps_for_each [keeps_intros]:
  "(\<And>x. x \<in> set xs \<Longrightarrow> keeps f (g x)) \<Longrightarrow> keeps f (for_each g xs)"
  by (induction xs) (auto simp: keeps_def)

lemma keeps_case_option [keeps_intros]:
  "keeps f m \<Longrightarrow> (\<And>x. keeps f (g x)) \<Longrightarrow>
   keeps f (case oc of None \<Rightarrow> m | Some x \<Rightarrow> g x)"
  by (cases oc) auto

lemma keeps_case_outcome [keeps_intros]:
  "keeps f m \<Longrightarrow> (\<And>x. keeps f (g x)) \<Longrightarrow>
   keeps f (case oc of NetErr \<Rightarrow> m | Resp x \<Rightarrow> g x)"
  by (cases oc) auto

lemma keeps_config [keeps_intros]:
  "keeps currentConfig (upd i g)" "keeps currentConfig (setItem k v)"
  "keeps currentConfig (removeItem k)" "keeps currentConfig (setToken t)"
  "keeps currentConfig (navigate n)" "keeps currentConfig (spawn tk)"
  "keeps currentConfig (send r)" "keeps currentConfig next_outcome"
  "keeps currentConfig (focus i)" "keeps currentConfig (showToast m ty)"
  "keeps currentConfig (fetch_auth mt p b)"
  by (simp_all add: keeps_def page_simps)

lemma checked_of_upd:
  "checked_of (exec (upd i g) w) j =
     (if j = i then (case dom w i of None \<Rightarrow> False | Some e \<Rightarrow> el_checked (g e))
      else checked_of w j)"
  by (auto simp: checked_of_def page_simps split: option.splits)

lemma keeps_checked_upd [keeps_intros]:
  "(\<And>e. el_checked (g e) = el_checked e) \<Longrightarrow> keeps (\<lambda>w. checked_of w j) (upd i g)"
  unfolding keeps_def checked_of_upd by (simp add: checked_of_def split: option.split)

lemma keeps_checked_other:
  "i \<noteq> j \<Longrightarrow> keeps (\<lambda>w. checked_of w j) (upd i g)"
  unfolding keeps_def checked_of_upd by simp

lemma keeps_dom_prims [keeps_intros]:
  "keeps dom (setItem k v)" "keeps dom (removeItem k)" "keeps dom (setToken t)"
  "keeps dom (navigate n)" "keeps dom (spawn tk)" "keeps dom (send r)"
  "keeps dom next_outcome" "keeps dom (focus i)" "keeps dom (showToast m ty)"
  "keeps dom (fetch_auth mt p b)" "keeps dom (setConfig c)"
  by (simp_all add: keeps_def page_simps)

lemma keeps_dom_view: "keeps dom m \<Longrightarrow> keeps (\<lambda>w. checked_of w j) m"
  "keeps dom m \<Longrightarrow> keeps (\<lambda>w. shown w j) m"
  "keeps dom m \<Longrightarrow> keeps (\<lambda>w. value_of w j) m"
  "keeps dom m \<Longrightarrow> keeps (\<lambda>w. has_el w j) m"
  by (simp_all add: keeps_def checked_of_def shown_def value_of_def has_el_def)

lemma keeps_checked_prims [keeps_intros]:
  "keeps (\<lambda>w. checked_of w j) (setItem k v)" "keeps (\<lambda>w. checked_of w j) (removeItem k)"
  "keeps (\<lambda>w. checked_of w j) (setToken t)" "keeps (\<lambda>w. checked_of w j) (navigate n)"
  "keeps (\<lambda>w. checked_of w j) (spawn tk)" "keeps (\<lambda>w. checked_of w j) (send r)"
  "keeps (\<lambda>w. checked_of w j) next_outcome" "keeps (\<lambda>w. checked_of w j) (focus i)"
  "keeps (\<lambda>w. checked_of w j) (showToast m ty)"
  "keeps (\<lambda>w. checked_of w j) (fetch_auth mt p b)"
  "keeps (\<lambda>w. checked_of w j) (setConfig c)"
  by (rule keeps_dom_view, rule keeps_dom_prims)+

lemma keeps_has_el_upd [keeps_intros]: "keeps (\<lambda>w. has_el w j) (upd i g)"
  by (simp add: keeps_def has_el_upd)

lemma keeps_has_el_prims [keeps_intros]:
  "keeps (\<lambda>w. has_el w j) (setItem k v)" "keeps (\<lambda>w. has_el w j) (removeItem k)"
  "keeps (\<lambda>w. has_el w j) (setToken t)" "keeps (\<lambda>w. has_el w j) (navigate n)"
  "keeps (\<lambda>w. has_el w j) (spawn tk)" "keeps (\<lambda>w. has_el w j) (send r)"
  "keeps (\<lambda>w. has_el w j) next_outcome" "keeps (\<lambda>w. has_el w j) (focus i)"
  "keeps (\<lambda>w. has_el w j) (showToast m ty)"
  "keeps (\<lambda>w. has_el w j) (fetch_auth mt p b)" "keeps (\<lambda>w. has_el w j) (setConfig c)"
  by (rule keeps_dom_view, rule keeps_dom_prims)+


section \<open>Views of elements\<close>

text \<open>
  What one primitive does to the view of one element, without unfolding the page: the simp set
  \<open>view_simps\<close> pushes \<open>shown\<close>, \<open>value_of\<close> and \<open>has_el\<close> through a computation.
\<close>

named_theorems view_simps \<open>views of an element after a primitive\<close>

lemma shown_set_hidden [view_simps]:
  "shown (exec (set_hidden i b) w) j = (if j = i then has_el w i \<and> \<not> b else shown w j)"
  by (auto simp: shown_def has_el_def page_simps split: option.splits)

lemma shown_upd_other [view_simps]:
  "(\<And>e. el_hidden (g e) = el_hidden e) \<Longrightarrow> shown (exec (upd i g) w) j = shown w j"
  by (auto simp: shown_def page_simps split: option.splits)

lemma value_set_value [view_simps]:
  "value_of (exec (set_value i v) w) j = (if j = i \<and> has_el w i then v else value_of w j)"
  by (auto simp: value_of_def has_el_def page_simps split: option.splits)

lemma value_upd_other [view_simps]:
  "(\<And>e. el_value (g e) = el_value e) \<Longrightarrow> value_of (exec (upd i g) w) j = value_of w j"
  by (auto simp: value_of_def page_simps split: option.splits)

lemma checked_set_checked [view_simps]:
  "checked_of (exec (set_checked i v) w) j = (if j = i \<and> has_el w i then v else checked_of w j)"
  by (auto simp: checked_of_def has_el_def page_simps split: option.splits)

lemma checked_upd_other [view_simps]:
  "(\<And>e. el_checked (g e) = el_checked e) \<Longrightarrow> checked_of (exec (upd i g) w) j = checked_of w j"
  by (auto simp: checked_of_def page_simps split: option.splits)

lemma text_of_upd [view_simps]:
  "text_of (exec (upd i g) w) j =
     (if j = i then (case dom w i of None \<Rightarrow> '''' | Some e \<Rightarrow> el_text (g e)) else text_of w j)"
  by (auto simp: text_of_def page_simps split: option.splits)

lemma text_of_simps [simp]:
  "text_of (w\<lparr>clientsCards := b\<rparr>) i = text_of w i"
  "text_of (w\<lparr>clientsDataCache := d\<rparr>) i = text_of w i"
  "text_of (w\<lparr>toasts := ts\<rparr>) i = text_of w i"
  "text_of (w\<lparr>sent := ss\<rparr>) i = text_of w i"
  "text_of (w\<lparr>net := ns\<rparr>) i = text_of w i"
  by (simp_all add: text_of_def)

lemma text_set_text [view_simps]:
  "text_of (exec (set_text i t) w) j = (if j = i \<and> has_el w i then t else text_of w j)"
  by (auto simp: page_simps has_el_def text_of_def split: option.splits)

lemma disabled_set_disabled [view_simps]:
  "disabled_of (exec (set_disabled i b) w) j = (if j = i then has_el w i \<and> b else disabled_of w j)"
  by (auto simp: page_simps has_el_def disabled_of_def split: option.splits)

lemma disabled_upd_other [view_simps]:
  "(\<And>e. el_disabled (g e) = el_disabled e) \<Longrightarrow> disabled_of (exec (upd i g) w) j = disabled_of w j"
  by (auto simp: disabled_of_def page_simps split: option.splits)

lemma views_prims [view_simps]:
  "keeps dom m \<Longrightarrow> text_of (exec m w) j = text_of w j"
  "keeps dom m \<Longrightarrow> disabled_of (exec m w) j = disabled_of w j"
  "keeps dom m \<Longrightarrow> shown (exec m w) j = shown w j"
  "keeps dom m \<Longrightarrow> value_of (exec m w) j = value_of w j"
  "keeps dom m \<Longrightarrow> checked_of (exec m w) j = checked_of w j"
  "keeps dom m \<Longrightarrow> has_el (exec m w) j = has_el w j"
  by (simp_all add: keeps_def shown_def value_of_def checked_of_def has_el_def text_of_def
      disabled_of_def)

declare keeps_dom_prims [view_simps] has_el_upd [view_simps]

section \<open>A page for concrete runs\<close>

text \<open>
  Every element exists, blank, and the operator is signed in; the configuration and the
  network's answers are given. The witnesses of the development run on this page.
\<close>

definition blank_elem :: elem where
  "blank_elem = \<lparr>el_value = '''', el_checked = False, el_text = '''', el_hidden = True,
     el_disabled = False, el_class = '''', el_title = '''', el_placeholder = '''',
     el_required = False, el_icon = '''',
     el_width = '''', el_type = ''text'', el_options = []\<rparr>"

definition sample_page :: "jsval \<Rightarrow> outcome list \<Rightarrow> dash" where
  "sample_page c n =
     \<lparr>loc = \<lparr>l_origin = ''http://192.0.2.1:8080'', l_hostname = ''192.0.2.1'', l_port = ''8080''\<rparr>,
      adminBase = ''/abc'', authToken = ''tok'', currentConfig = c, currentCustomPolicies = [],
      clientsDataCache = JNull, isAPIKeyMasked = True, listenersAttached = True,
      storage = Map.empty, dom = (\<lambda>i. Some blank_elem), focused = None, toasts = [], sent = [],
      net = n, navs = [], tasks = [], statsFailures = 0, lastUpstreamsSig = '''',
      activeDashTab = ''dashboard'', chartAvailable = True, qpsChart = None,
      clientsCards = False, diagRunning = False\<rparr>"

definition resp_ok :: "jsval \<Rightarrow> outcome" where
  "resp_ok j = Resp \<lparr>rs_status = 200, rs_text = Some ''...'', rs_json = Some j\<rparr>"

definition resp_err :: "nat \<Rightarrow> jsval \<Rightarrow> outcome" where
  "resp_err n j = Resp \<lparr>rs_status = n, rs_text = Some ''...'', rs_json = Some j\<rparr>"

lemma has_el_sample [simp]: "has_el (sample_page c n) i"
  by (simp add: sample_page_def has_el_def)

lemma sample_page_fields [simp]:
  "currentConfig (sample_page c n) = c" "net (sample_page c n) = n"
  "sent (sample_page c n) = []" "toasts (sample_page c n) = []"
  "authToken (sample_page c n) = ''tok''" "adminBase (sample_page c n) = ''/abc''"
  "storage (sample_page c n) = Map.empty" "navs (sample_page c n) = []"
  "dom (sample_page c n) = (\<lambda>i. Some blank_elem)" "listenersAttached (sample_page c n)"
  by (simp_all add: sample_page_def)


end
