(* ===== verification/Html_Escape.thy ===== *)
theory Html_Escape
  imports Dash_World
begin

text \<open>
  escapeHTML: the five replacements that make a stored or wire value safe to interpolate into
  markup, in the dashboard's version (app.js) and the game module's (gaming.js), which differ
  in the entity for the apostrophe only.

  The locale \<open>char_escaper\<close> is the contract a caller that builds innerHTML relies on: the
  result is the concatenation of one replacement per character, a replacement holds no
  character that can end an attribute or open a tag, and replacements are prefix-free, so the
  text can be read back.
\<close>

section \<open>The code\<close>

definition replace_all :: "char \<Rightarrow> string \<Rightarrow> string \<Rightarrow> string" where
  "replace_all c r s = concat (map (\<lambda>x. if x = c then r else [x]) s)"

definition escapeHTML_str :: "string \<Rightarrow> string" where
  "escapeHTML_str s =
     replace_all (CHR 0x27) ''&#039;''
       (replace_all (CHR 0x22) ''&quot;''
         (replace_all (CHR ''>'') ''&gt;''
           (replace_all (CHR ''<'') ''&lt;''
             (replace_all (CHR ''&'') ''&amp;'' s))))"

definition escapeHTML :: "jsval \<Rightarrow> string" where
  "escapeHTML v = (if \<not> truthy v then '''' else escapeHTML_str (js_string v))"

definition hgi_escape_str :: "string \<Rightarrow> string" where
  "hgi_escape_str s =
     replace_all (CHR 0x27) ''&#39;''
       (replace_all (CHR 0x22) ''&quot;''
         (replace_all (CHR ''>'') ''&gt;''
           (replace_all (CHR ''<'') ''&lt;''
             (replace_all (CHR ''&'') ''&amp;'' s))))"

definition hgi_escapeHTML :: "jsval \<Rightarrow> string" where
  "hgi_escapeHTML v = (if \<not> truthy v then '''' else hgi_escape_str (js_string v))"

section \<open>The contract\<close>

definition markup_chars :: "char set" where
  "markup_chars = {CHR ''<'', CHR ''>'', CHR 0x22, CHR 0x27}"

locale char_escaper =
  fixes esc :: "string \<Rightarrow> string" and rep :: "char \<Rightarrow> string"
  assumes esc_concat: "esc s = concat (map rep s)"
    and rep_safe: "set (rep c) \<inter> markup_chars = {}"
    and rep_nonempty: "rep c \<noteq> []"
    and rep_prefix_free: "rep c @ u = rep d @ v \<Longrightarrow> c = d"
begin

lemma esc_safe: "set (esc s) \<inter> markup_chars = {}"
  using rep_safe by (auto simp: esc_concat)

lemma esc_append: "esc (s @ t) = esc s @ esc t"
  by (simp add: esc_concat)

lemma esc_inj: "esc s = esc t \<Longrightarrow> s = t"
proof (induction s arbitrary: t)
  case Nil
  then show ?case using rep_nonempty by (cases t) (auto simp: esc_concat)
next
  case (Cons c s)
  show ?case
  proof (cases t)
    case Nil
    then show ?thesis using Cons.prems rep_nonempty by (auto simp: esc_concat)
  next
    case (Cons d t')
    with Cons.prems have eq: "rep c @ esc s = rep d @ esc t'" by (simp add: esc_concat)
    then have "c = d" by (rule rep_prefix_free)
    with eq have "esc s = esc t'" by simp
    with \<open>c = d\<close> Cons Cons.IH show ?thesis by simp
  qed
qed

end

section \<open>The code meets the contract\<close>

definition app_rep :: "char \<Rightarrow> string" where
  "app_rep c = (if c = CHR ''&'' then ''&amp;'' else if c = CHR ''<'' then ''&lt;''
     else if c = CHR ''>'' then ''&gt;'' else if c = CHR 0x22 then ''&quot;''
     else if c = CHR 0x27 then ''&#039;'' else [c])"

definition hgi_rep :: "char \<Rightarrow> string" where
  "hgi_rep c = (if c = CHR 0x27 then ''&#39;'' else app_rep c)"

lemma replace_all_concat: "replace_all c r (concat xss) = concat (map (replace_all c r) xss)"
  by (induction xss) (auto simp: replace_all_def)

lemma replace_all_Nil [simp]: "replace_all c r [] = []"
  by (simp add: replace_all_def)

lemma replace_all_Cons [simp]:
  "replace_all c r (x # xs) = (if x = c then r else [x]) @ replace_all c r xs"
  by (simp add: replace_all_def)

lemma escapeHTML_str_concat: "escapeHTML_str s = concat (map app_rep s)"
proof -
  have "escapeHTML_str s = concat (map (\<lambda>c. escapeHTML_str [c]) s)"
    by (induction s) (auto simp: escapeHTML_str_def replace_all_def)
  moreover have "escapeHTML_str [c] = app_rep c" for c
    by (simp add: escapeHTML_str_def app_rep_def)
  ultimately show ?thesis by simp
qed

lemma hgi_escape_str_concat: "hgi_escape_str s = concat (map hgi_rep s)"
proof -
  have "hgi_escape_str s = concat (map (\<lambda>c. hgi_escape_str [c]) s)"
    by (induction s) (auto simp: hgi_escape_str_def replace_all_def)
  moreover have "hgi_escape_str [c] = hgi_rep c" for c
    by (simp add: hgi_escape_str_def hgi_rep_def app_rep_def)
  ultimately show ?thesis by simp
qed

interpretation app_esc: char_escaper escapeHTML_str app_rep
  by unfold_locales
    (auto simp: escapeHTML_str_concat app_rep_def markup_chars_def split: if_splits)

interpretation hgi_esc: char_escaper hgi_escape_str hgi_rep
  by unfold_locales
    (auto simp: hgi_escape_str_concat hgi_rep_def app_rep_def markup_chars_def split: if_splits)

section \<open>Properties\<close>

text \<open>
  C23. A value that goes through escapeHTML cannot leave the text node or quoted attribute it
  is interpolated into: the result holds none of the four markup characters, and distinct
  non-empty strings stay distinct.
\<close>

theorem escapeHTML_safe:
  "set (escapeHTML v) \<inter> markup_chars = {} \<and>
   (escapeHTML (JStr s) = escapeHTML (JStr t) \<longleftrightarrow> s = t)"
proof -
  have "set (escapeHTML v) \<inter> markup_chars = {}"
    using app_esc.esc_safe by (simp add: escapeHTML_def)
  moreover have "escapeHTML (JStr s) = escapeHTML_str s" for s
    by (simp add: escapeHTML_def escapeHTML_str_def)
  ultimately show ?thesis using app_esc.esc_inj by auto
qed

section \<open>Counting tags\<close>

text \<open>The number of tags a piece of markup opens or closes.\<close>

definition tags :: "string \<Rightarrow> nat" where
  "tags s = length (filter (\<lambda>c. c = CHR ''<'') s)"

lemma tags_Nil [simp]: "tags [] = 0"
  by (simp add: tags_def)

lemma tags_append [simp]: "tags (s @ t) = tags s + tags t"
  by (simp add: tags_def)

lemma tags_Cons: "tags (c # s) = (if c = CHR ''<'' then 1 else 0) + tags s"
  by (simp add: tags_def)

lemma tags_escape [simp]: "tags (escapeHTML v) = 0"
proof -
  have "set (escapeHTML_str s) \<inter> markup_chars = {}" for s by (rule app_esc.esc_safe)
  then have "CHR ''<'' \<notin> set (escapeHTML v)"
    by (auto simp: escapeHTML_def markup_chars_def)
  then show ?thesis by (auto simp: tags_def filter_empty_conv)
qed

lemma tags_no_lt: "CHR ''<'' \<notin> set s \<Longrightarrow> tags s = 0"
  by (auto simp: tags_def filter_empty_conv)

lemma to_fixed_no_lt: "CHR ''<'' \<notin> set (to_fixed d x)"
proof -
  have n: "CHR ''<'' \<notin> set (nat_str n)" for n
    using nat_str_digits[of "CHR ''<''" n] by (auto simp: is_digit_def)
  have "CHR ''<'' \<notin> set (pad_start k (CHR ''0'') (nat_str n))" for k n
    using n by (auto simp: pad_start_def)
  then show ?thesis using n
    by (auto simp: to_fixed_def to_fixed_abs_def Let_def dest!: in_set_takeD in_set_dropD)
qed

lemma no_lt_nat_str: "CHR ''<'' \<notin> set (nat_str n)"
  using nat_str_digits[of "CHR ''<''" n] by (auto simp: is_digit_def)

lemma no_lt_int_str: "CHR ''<'' \<notin> set (int_str i)"
  by (simp add: int_str_def no_lt_nat_str)

lemma no_lt_num_str: "CHR ''<'' \<notin> set (num_str_fin x)" "CHR ''<'' \<notin> set (num_str n)"
proof -
  show x: "CHR ''<'' \<notin> set (num_str_fin x)" for x
    by (auto simp: num_str_fin_def no_lt_int_str to_fixed_no_lt split: list.splits)
  show "CHR ''<'' \<notin> set (num_str n)" using x by (cases n) auto
qed

end
