(* ===== verification/Config_Rules.thy ===== *)
theory Config_Rules
  imports Html_Escape
begin

text \<open>
  The configuration the panel works on (app.js, renderConfig to saveRules): how a served
  configuration is normalised and painted, the preset switches, the custom lists and records,
  and how the rules are posted back.

  renderConfig returns whether it ran to its end: a configuration that is not an object, or
  has no \<open>server\<close>, raises a TypeError, which its caller catches. The panels painted by hooks
  on window (two-factor, LDAP) start fetches of their own and are left as tasks.
\<close>

section \<open>Reading and writing the configuration\<close>

abbreviation cfg_server :: "jsval \<Rightarrow> jsval" where
  "cfg_server c \<equiv> jget c ''server''"

abbreviation cfg_rules :: "jsval \<Rightarrow> jsval" where
  "cfg_rules c \<equiv> jget c ''rules''"

definition norm_obj :: "jsval \<Rightarrow> string \<Rightarrow> jsval" where
  "norm_obj c k = (if object_like (jget c k) then c else jset c k (JObj []))"

definition norm_arr :: "string \<Rightarrow> jsval \<Rightarrow> jsval" where
  "norm_arr k r = (if is_arr (jget r k) then r else jset r k (JArr []))"

definition norm_rules :: "jsval \<Rightarrow> jsval" where
  "norm_rules r0 =
     (let r = fold norm_arr [''custom_proxied'', ''custom_blocked'', ''custom_direct''] r0 in
      if is_obj (jget r ''custom_records'') then r else jset r ''custom_records'' (JObj []))"

definition normalise :: "jsval \<Rightarrow> jsval" where
  "normalise c =
     (let c1 = norm_obj c ''rules'';
          c2 = jset c1 ''rules'' (norm_rules (jget c1 ''rules''));
          c3 = norm_obj c2 ''access'';
          c4 = jset c3 ''access'' (norm_arr ''doh_tokens'' (jget c3 ''access''))
      in norm_obj c4 ''subscription'')"

section \<open>Switches\<close>

definition setSwitch :: "string \<Rightarrow> jsval \<Rightarrow> unit page" where
  "setSwitch i v = set_checked i (truthy v)"

definition getSwitch :: "dash \<Rightarrow> string \<Rightarrow> bool" where
  "getSwitch w i = checked_of w i"

text \<open>The switches renderConfig paints, with the rule each shows, in its order.\<close>

definition render_table :: "(string \<times> string) list" where
  "render_table =
    [(''preset-riot'', ''enable_riot''), (''preset-epic'', ''enable_epic''),
     (''preset-steam'', ''enable_steam''), (''preset-pubg'', ''enable_pubg''),
     (''preset-cod'', ''enable_call_of_duty''), (''preset-supercell'', ''enable_supercell''),
     (''preset-discord'', ''enable_discord''), (''preset-ea'', ''enable_ea''),
     (''preset-blizzard'', ''enable_blizzard''), (''preset-ubisoft'', ''enable_ubisoft''),
     (''preset-rockstar'', ''enable_rockstar''), (''preset-xbox'', ''enable_xbox''),
     (''preset-playstation'', ''enable_playstation''), (''preset-nintendo'', ''enable_nintendo''),
     (''preset-roblox'', ''enable_roblox''),
     (''preset-shooters-extra'', ''enable_shooters_extra''),
     (''preset-anime-gacha'', ''enable_anime_gacha''),
     (''preset-sports-racing'', ''enable_sports_racing''),
     (''preset-coop-survival'', ''enable_coop_survival''),
     (''preset-platforms-extra'', ''enable_platforms_extra''),
     (''preset-spotify'', ''enable_spotify''), (''preset-soundcloud'', ''enable_soundcloud''),
     (''preset-twitch'', ''enable_twitch''), (''preset-kick'', ''enable_kick''),
     (''preset-google'', ''enable_google''), (''preset-ai'', ''enable_ai''),
     (''preset-social'', ''enable_social''), (''preset-dev403'', ''enable_dev403''),
     (''preset-adblock'', ''enable_adblock''), (''preset-familysafe'', ''enable_familysafe'')]"

text \<open>The rules saveRules posts, with the switch each is read from, in its order.\<close>

definition payload_table :: "(string \<times> string) list" where
  "payload_table =
    [(''enable_riot'', ''preset-riot''), (''enable_epic'', ''preset-epic''),
     (''enable_steam'', ''preset-steam''), (''enable_pubg'', ''preset-pubg''),
     (''enable_call_of_duty'', ''preset-cod''), (''enable_supercell'', ''preset-supercell''),
     (''enable_discord'', ''preset-discord''), (''enable_ea'', ''preset-ea''),
     (''enable_blizzard'', ''preset-blizzard''), (''enable_ubisoft'', ''preset-ubisoft''),
     (''enable_rockstar'', ''preset-rockstar''), (''enable_xbox'', ''preset-xbox''),
     (''enable_playstation'', ''preset-playstation''), (''enable_nintendo'', ''preset-nintendo''),
     (''enable_roblox'', ''preset-roblox''),
     (''enable_shooters_extra'', ''preset-shooters-extra''),
     (''enable_anime_gacha'', ''preset-anime-gacha''),
     (''enable_sports_racing'', ''preset-sports-racing''),
     (''enable_coop_survival'', ''preset-coop-survival''),
     (''enable_platforms_extra'', ''preset-platforms-extra''),
     (''enable_spotify'', ''preset-spotify''), (''enable_soundcloud'', ''preset-soundcloud''),
     (''enable_twitch'', ''preset-twitch''), (''enable_kick'', ''preset-kick''),
     (''enable_google'', ''preset-google''), (''enable_ai'', ''preset-ai''),
     (''enable_social'', ''preset-social''), (''enable_dev403'', ''preset-dev403''),
     (''enable_adblock'', ''preset-adblock''), (''enable_familysafe'', ''preset-familysafe''),
     (''enable_downloads'', ''preset-downloads'')]"

text \<open>The switches initEventListeners gives a change handler (that calls saveRules).\<close>

definition wired_switches :: "string list" where
  "wired_switches =
    [''preset-riot'', ''preset-epic'', ''preset-steam'', ''preset-pubg'', ''preset-cod'',
     ''preset-supercell'', ''preset-discord'', ''preset-ea'', ''preset-blizzard'',
     ''preset-ubisoft'', ''preset-rockstar'', ''preset-xbox'', ''preset-playstation'',
     ''preset-nintendo'', ''preset-roblox'', ''preset-shooters-extra'', ''preset-anime-gacha'',
     ''preset-sports-racing'', ''preset-coop-survival'', ''preset-platforms-extra'',
     ''preset-spotify'', ''preset-soundcloud'', ''preset-twitch'', ''preset-kick'',
     ''preset-dev403'', ''preset-adblock'', ''preset-familysafe'', ''preset-downloads'']"

section \<open>Lists and records\<close>

definition nl :: string where "nl = [CHR 0x0A]"

definition list_row_html :: "string \<Rightarrow> jsval \<Rightarrow> string" where
  "list_row_html removeClass item =
     ''<span class=\"font-mono text-cyan-300\">'' @ escapeHTML item @
     ''</span><button class=\"'' @ removeClass @
     '' inline-flex items-center justify-center w-6 h-6 shrink-0 rounded text-slate-500 hover:text-red-400 hover:bg-red-500/10 transition\" data-val=\"'' @
     escapeHTML item @ ''\" aria-label=\"Remove '' @ escapeHTML item @
     ''\"><i data-feather=\"x\" class=\"w-3.5 h-3.5\"></i></button>''"

definition renderList :: "string \<Rightarrow> jsval \<Rightarrow> string \<Rightarrow> unit page" where
  "renderList containerId items removeClass =
     set_text containerId
       (if arr_elems items = []
        then ''<div class=\"text-slate-500 text-xs py-1\">No custom entries yet</div>''
        else concat (map (\<lambda>it. ''<div class=\"flex items-center justify-between py-1.5 px-3 rounded-lg bg-slate-950/60 border border-slate-800 text-xs\">''
               @ list_row_html removeClass it @ ''</div>'') (arr_elems items)))"

fun obj_entries :: "jsval \<Rightarrow> (string \<times> jsval) list" where
  "obj_entries (JObj ps) = ps"
| "obj_entries _ = []"

definition record_row_html :: "string \<times> jsval \<Rightarrow> string" where
  "record_row_html p =
     (case p of (dm, ip) \<Rightarrow>
       ''<span class=\"font-mono text-emerald-300\">'' @ escapeHTML (JStr dm) @ '' &rarr; '' @ escapeHTML ip @
       ''</span><button class=\"remove-record inline-flex items-center justify-center w-6 h-6 shrink-0 rounded text-slate-500 hover:text-red-400 hover:bg-red-500/10 transition\" data-dom=\"'' @
       escapeHTML (JStr dm) @ ''\" aria-label=\"Remove record '' @ escapeHTML (JStr dm) @
       ''\"><i data-feather=\"x\" class=\"w-3.5 h-3.5\"></i></button>'')"

definition renderCustomRecords :: "jsval \<Rightarrow> unit page" where
  "renderCustomRecords records =
     set_text ''custom-records-list''
       (if obj_entries records = []
        then ''<div class=\"text-slate-500 text-xs py-1\">No static records yet</div>''
        else concat (map (\<lambda>p. ''<div class=\"flex items-center justify-between py-1.5 px-3 rounded-lg bg-slate-950/60 border border-slate-800 text-xs\">''
               @ record_row_html p @ ''</div>'') (obj_entries records)))"

section \<open>The panels a configuration paints\<close>

definition renderAPIKeyDisplay :: "unit page" where
  "renderAPIKeyDisplay = do {
     w \<leftarrow> State_Monad.get;
     let rawKey = jget (cfg_server (currentConfig w)) ''api_key'';
     if \<not> has_el w ''api-key-display'' \<or> \<not> truthy rawKey then ret ()
     else if isAPIKeyMasked w then set_text ''api-key-display'' (concat (replicate 36 u_bullet))
     else set_text ''api-key-display'' (js_string rawKey) }"

text \<open>The address the API examples are generated with: the certificate's name before the IP.\<close>

definition snippet_origin :: "dash \<Rightarrow> jsval \<Rightarrow> string" where
  "snippet_origin w pubIP =
     (let tls = js_or (jget (currentConfig w) ''tls'') (JObj []);
          https = truthy (jget tls ''panel_https'');
          port = js_or (jget (cfg_server (currentConfig w)) ''web_port'')
                   (js_or (JStr (l_port (loc w))) (JNum (Fin 8080)));
          dm = (if truthy (jget tls ''domain'') then js_trim (js_string (jget tls ''domain''))
                else '''');
          host = (if dm \<noteq> '''' then dm else js_string pubIP);
          isDefaultPort = (https \<and> js_number port = Fin 443 \<or>
                           \<not> https \<and> js_number port = Fin 80)
      in (if https then ''https'' else ''http'') @ ''://'' @ host @
         (if isDefaultPort then '''' else '':'' @ js_string port))"

definition snippet_base :: "dash \<Rightarrow> jsval \<Rightarrow> string" where
  "snippet_base w pubIP = snippet_origin w pubIP @ adminBase w @ ''/api/v2''"

definition snippet_curl :: "string \<Rightarrow> string \<Rightarrow> string" where
  "snippet_curl apiBase apiKey =
     (let cont = '' '' @ [CHR 0x5C] @ nl; q = [CHR 0x22]; a = [CHR 0x27] in
      ''# 1. Check Engine Health'' @ nl @
      ''curl -s '' @ q @ apiBase @ ''/status'' @ q @ cont @
      ''  -H '' @ q @ ''X-API-Key: '' @ apiKey @ q @ nl @ nl @
      ''# 2. Create User Account (30 Days). v2 answers 201 with the client object;'' @ nl @
      ''#    unknown fields are refused (a typo errors instead of being dropped).'' @ nl @
      ''curl -s -X POST '' @ q @ apiBase @ ''/clients'' @ q @ cont @
      ''  -H '' @ q @ ''X-API-Key: '' @ apiKey @ q @ cont @
      ''  -H '' @ q @ ''Content-Type: application/json'' @ q @ cont @
      ''  -d '' @ a @ ''{'' @ q @ ''display_name'' @ q @ '':'' @ q @ ''Gamer-VIP'' @ q @ '','' @
      q @ ''validity_days'' @ q @ '':30}'' @ a)"

definition snippet_python :: "string \<Rightarrow> string \<Rightarrow> string \<Rightarrow> string" where
  "snippet_python apiBase origin apiKey =
     (let q = [CHR 0x22]; a = [CHR 0x27] in
      ''import requests'' @ nl @ nl @
      ''API_URL = '' @ q @ apiBase @ q @ nl @
      ''ORIGIN = '' @ q @ origin @ q @ nl @
      ''HEADERS = {'' @ q @ ''X-API-Key'' @ q @ '': '' @ q @ apiKey @ q @ ''}'' @ nl @ nl @
      ''# Create subscriber account on plan purchase'' @ nl @
      ''def create_smartdns_user(username, days=30):'' @ nl @
      ''    res = requests.post(f'' @ q @ ''{API_URL}/clients'' @ q @ '', headers=HEADERS, json={'' @ nl @
      ''        '' @ q @ ''display_name'' @ q @ '': username,'' @ nl @
      ''        '' @ q @ ''validity_days'' @ q @ '': days'' @ nl @
      ''    })'' @ nl @
      ''    res.raise_for_status()          # 201 with the client object'' @ nl @
      ''    client = res.json()'' @ nl @
      ''    return f'' @ q @ ''{ORIGIN}/ip/{client['' @ a @ ''token'' @ a @ '']}'' @ q)"

definition snippet_nodejs :: "string \<Rightarrow> string \<Rightarrow> string \<Rightarrow> string" where
  "snippet_nodejs apiBase origin apiKey =
     (let a = [CHR 0x27]; bt = [CHR 0x60] in
      ''const axios = require('' @ a @ ''axios'' @ a @ '');'' @ nl @ nl @
      ''const ORIGIN = '' @ a @ origin @ a @ '';'' @ nl @
      ''const client = axios.create({'' @ nl @
      ''  baseURL: '' @ a @ apiBase @ a @ '','' @ nl @
      ''  headers: { '' @ a @ ''X-API-Key'' @ a @ '': '' @ a @ apiKey @ a @ '' }'' @ nl @
      ''});'' @ nl @ nl @
      ''// Example Telegram Bot Handler'' @ nl @
      ''async function onBuySubscription(ctx, username) {'' @ nl @
      ''  // 201 Created answers the client object; its token builds the 1-click'' @ nl @
      ''  // register link. ORIGIN is the const above '' @ u_dash @ '' this runs in Node, where'' @ nl @
      ''  // window.location does not exist.'' @ nl @
      ''  const { data, status } = await client.post('' @ a @ ''/clients'' @ a @
      '', { display_name: username, validity_days: 30 });'' @ nl @
      ''  if (status === 201) {'' @ nl @
      ''    ctx.reply('' @ bt @ ''SmartDNS Created! Register IP: ${ORIGIN}/ip/${data.token}'' @ bt @ '');'' @ nl @
      ''  }'' @ nl @ ''}'')"

definition updateCodeSnippets :: "jsval \<Rightarrow> jsval \<Rightarrow> unit page" where
  "updateCodeSnippets pubIP apiKey = do {
     w \<leftarrow> State_Monad.get;
     let origin = snippet_origin w pubIP;
     let base = snippet_base w pubIP;
     let key = js_string apiKey;
     set_text ''snippet-curl'' (snippet_curl base key);
     set_text ''snippet-python'' (snippet_python base origin key);
     set_text ''snippet-nodejs'' (snippet_nodejs base origin key) }"

section \<open>Hooks of the other panels\<close>

definition renderSubOriginPreview :: "unit page" where
  "renderSubOriginPreview = do {
     w \<leftarrow> State_Monad.get;
     let tls = js_or (jget (currentConfig w) ''tls'') (JObj []);
     let dm = js_trim (value_of w ''sub-domain-input'');
     let distinct = (dm \<noteq> '''' \<and> JStr dm \<noteq> js_or (jget tls ''domain'') (JStr ''''));
     let https = (distinct \<or> truthy (jget tls ''panel_https''));
     let host = js_or (JStr dm) (js_or (jget tls ''domain'')
                  (js_or (jget (cfg_server (currentConfig w)) ''public_ip'') (JStr ''<server>'')));
     let rawPort = js_or (JNum (parseInt10 (value_of w ''sub-port-input'')))
                     (jget (cfg_server (currentConfig w)) ''web_port'');
     let isDefault = (https \<and> rawPort = JNum (Fin 443) \<or> \<not> https \<and> rawPort = JNum (Fin 80));
     set_text ''sub-origin-preview''
       ((if https then ''https'' else ''http'') @ ''://'' @ js_string host @
        (if isDefault \<or> \<not> truthy rawPort then '''' else '':'' @ js_string rawPort) @ ''/sub/'') }"

definition renderSubscriptionSettings :: "unit page" where
  "renderSubscriptionSettings = do {
     w \<leftarrow> State_Monad.get;
     let sub = jget (currentConfig w) ''subscription'';
     if \<not> truthy sub \<or> \<not> has_el w ''sub-enabled-input'' \<or> \<not> has_el w ''sub-domain-input'' \<or>
        \<not> has_el w ''sub-port-input'' \<or> \<not> has_el w ''sub-title-input''
     then ret ()
     else do {
       set_checked ''sub-enabled-input'' (truthy (jget sub ''enabled''));
       set_value ''sub-domain-input'' (js_string (js_or (jget sub ''domain'') (JStr '''')));
       set_value ''sub-port-input'' (js_string (js_or (jget sub ''port'') (JStr '''')));
       set_value ''sub-title-input'' (js_string (js_or (jget sub ''title'') (JStr '''')));
       renderSubOriginPreview } }"

definition renderAdminPath :: "unit page" where
  "renderAdminPath = do {
     w \<leftarrow> State_Monad.get;
     let p = jget (cfg_server (currentConfig w)) ''admin_path'';
     set_text ''admin-path-display''
       (if truthy p then ''/'' @ js_string p @ ''/dash/'' else ''/'' @ u_ellipsis) }"

definition start_task :: "string \<Rightarrow> task \<Rightarrow> unit page" where
  "start_task path t = do {
     w \<leftarrow> State_Monad.get; send (mk_req w ''GET'' path JUndef); spawn t }"

definition config_hooks :: "unit page" where
  "config_hooks = do {
     w \<leftarrow> State_Monad.get;
     if \<not> listenersAttached w then ret ()
     else do {
       renderSubscriptionSettings;
       renderAdminPath;
       start_task ''/api/auth/2fa/status'' TRenderTwoFactor;
       start_task ''/api/auth/ldap'' TRenderLdap } }"

section \<open>renderConfig\<close>

definition render_version :: "jsval \<Rightarrow> unit page" where
  "render_version cfg =
     (let v = jget cfg ''version'' in
      if \<not> truthy v \<or> \<not> truthy (jget v ''display'') then ret ()
      else do {
        let versionOnly = js_string (jget v ''display'');
        let versionWithHash = versionOnly @ '' ['' @ js_string (jget v ''hash'') @ '']'';
        set_text ''app-version-badge'' versionOnly;
        set_text ''app-version-footer'' versionWithHash;
        set_text ''app-version-badge-mobile'' versionOnly;
        set_title ''app-version-badge-mobile'' versionWithHash })"

definition doh_guide :: "jsval \<Rightarrow> jsval \<Rightarrow> string" where
  "doh_guide cfg pubIP =
     (case jget cfg ''doh_url'' of
        JStr u \<Rightarrow> if u \<noteq> '''' then u
          else ''http://'' @ js_string pubIP @ '':'' @
               js_string (js_or (jget (jget cfg ''dns'') ''doh_port'') (JNum (Fin 9443))) @ ''/dns-query''
      | _ \<Rightarrow> ''http://'' @ js_string pubIP @ '':'' @
               js_string (js_or (jget (jget cfg ''dns'') ''doh_port'') (JNum (Fin 9443))) @ ''/dns-query'')"

definition render_guide :: "jsval \<Rightarrow> unit page" where
  "render_guide cfg = do {
     let pubIP = js_or (jget (cfg_server cfg) ''public_ip'') (JStr ''127.0.0.1'');
     set_text ''header-public-ip'' (js_string pubIP);
     set_text ''current-admin-name''
       (js_string (js_or (jget (cfg_server cfg) ''admin_username'') (JStr ''admin'')));
     set_text ''guide-win-ip'' (js_string pubIP);
     set_text ''guide-console-ip'' (js_string pubIP);
     set_text ''guide-doh-url'' (doh_guide cfg pubIP);
     set_title ''guide-doh-url'' (doh_guide cfg pubIP) }"

definition render_tls :: "jsval \<Rightarrow> unit page" where
  "render_tls cfg =
     (let tls = jget cfg ''tls'';
          dotHost = js_or (jget tls ''dot_domain'') (js_or (jget tls ''domain'') (JStr '''')) in
      do {
        only_if (truthy dotHost) (set_text ''guide-dot-hostname'' (js_string dotHost));
        only_if (truthy (jget tls ''domain''))
          (set_value ''ssl-domain-input'' (js_string (jget tls ''domain'')));
        only_if (truthy tls)
          (set_value ''dot-domain-input'' (js_string (js_or (jget tls ''dot_domain'') (JStr ''''))));
        only_if (truthy (jget tls ''email''))
          (set_value ''ssl-email-input'' (js_string (jget tls ''email''))) })"

text \<open>The idle window shown: the configured one when it is a positive number, else 15.\<close>

definition idle_shown :: "jsval \<Rightarrow> string" where
  "idle_shown cfg =
     (case js_number (jget (cfg_server cfg) ''session_idle_minutes'') of
        Fin x \<Rightarrow> if 0 < x then num_str (Fin x) else ''15'' | _ \<Rightarrow> ''15'')"

definition render_bind :: "jsval \<Rightarrow> unit page" where
  "render_bind cfg =
     (let apiBind = js_or (jget (cfg_server cfg) ''api_bind'') (JStr ''127.0.0.1'');
          public = (apiBind = JStr ''0.0.0.0'') in
      do {
        set_value ''session-idle-minutes'' (idle_shown cfg);
        set_text ''api-bind-badge''
          (if public then ''0.0.0.0 (Public HTTPS)'' else ''127.0.0.1 (Localhost Only)'');
        set_class ''api-bind-badge''
          (if public
           then ''px-2.5 py-1 rounded-full text-[10px] font-mono font-bold bg-cyan-500/20 text-cyan-300 border border-cyan-500/30''
           else ''px-2.5 py-1 rounded-full text-[10px] font-mono font-bold bg-emerald-500/20 text-emerald-300 border border-emerald-500/30'');
        set_checked ''toggle-public-api'' public })"

definition render_switches :: "jsval \<Rightarrow> unit page" where
  "render_switches cfg = do {
     for_each (\<lambda>(i, k). setSwitch i (jget (cfg_rules cfg) k)) render_table;
     setSwitch ''preset-downloads''
       (JBool (jget (cfg_rules cfg) ''enable_downloads'' = JBool True)) }"

definition render_lists :: "jsval \<Rightarrow> unit page" where
  "render_lists cfg = do {
     renderList ''custom-proxied-list'' (jget (cfg_rules cfg) ''custom_proxied'') ''remove-proxied'';
     renderList ''custom-blocked-list'' (jget (cfg_rules cfg) ''custom_blocked'') ''remove-blocked'';
     renderList ''tokens-list'' (jget (jget cfg ''access'') ''doh_tokens'') ''remove-token'';
     renderCustomRecords (jget (cfg_rules cfg) ''custom_records'') }"

definition render_rest :: "jsval \<Rightarrow> unit page" where
  "render_rest cfg = do {
     render_guide cfg;
     render_tls cfg;
     renderAPIKeyDisplay;
     render_bind cfg;
     updateCodeSnippets (js_or (jget (cfg_server cfg) ''public_ip'') (JStr ''127.0.0.1''))
       (js_or (jget (cfg_server cfg) ''api_key'') (JStr ''hdns_live_your_key_here''));
     render_switches cfg;
     render_lists cfg }"

definition renderConfig :: "jsval \<Rightarrow> bool page" where
  "renderConfig cfg0 =
     (if \<not> truthy cfg0 then ret True
      else if \<not> is_obj cfg0 then do { setConfig cfg0; ret False }
      else do {
        let cfg = normalise cfg0;
        setConfig cfg;
        config_hooks;
        render_version cfg;
        if nullish (cfg_server cfg) then ret False
        else do { render_rest cfg; ret True } })"

section \<open>saveRules\<close>

definition save_payload :: "dash \<Rightarrow> jsval" where
  "save_payload w =
     (let r = cfg_rules (currentConfig w) in
      JObj (map (\<lambda>(k, i). (k, JBool (getSwitch w i))) payload_table @
            map (\<lambda>k. (k, jget r k))
              [''custom_proxied'', ''custom_blocked'', ''custom_direct'', ''custom_records'']))"

text \<open>
  saveRules up to its await builds and posts the payload; what follows the answer stores the
  payload as the new rules. A refusal leaves the page as it is.
\<close>

definition saveRules_start :: "jsval option page" where
  "saveRules_start = do {
     w \<leftarrow> State_Monad.get;
     if \<not> truthy (currentConfig w) \<or> nullish (cfg_rules (currentConfig w)) then ret None
     else do {
       send (mk_req w ''POST'' ''/api/config/rules'' (save_payload w));
       ret (Some (save_payload w)) } }"

definition saveRules_done :: "jsval \<Rightarrow> outcome \<Rightarrow> unit page" where
  "saveRules_done payload oc =
     (case oc of
        NetErr \<Rightarrow> toast_msg ''Failed to save policies'' ''error''
      | Resp r \<Rightarrow>
          if rs_ok r then do {
            w \<leftarrow> State_Monad.get;
            setConfig (jset (currentConfig w) ''rules'' payload);
            toast_msg ''Policies updated & active!'' ''success'' }
          else ret ())"

definition saveRules_with :: "unit page \<Rightarrow> unit page" where
  "saveRules_with after_call = do {
     p \<leftarrow> saveRules_start;
     after_call;
     case p of None \<Rightarrow> ret ()
     | Some payload \<Rightarrow> do { oc \<leftarrow> next_outcome; saveRules_done payload oc } }"

definition saveRules :: "unit page" where
  "saveRules = saveRules_with (ret ())"

section \<open>Handlers over the rules\<close>

definition renderCurrent :: "unit page" where
  "renderCurrent = do { w \<leftarrow> State_Monad.get; _ \<leftarrow> renderConfig (currentConfig w); ret () }"

definition set_rule :: "string \<Rightarrow> jsval \<Rightarrow> jsval \<Rightarrow> jsval" where
  "set_rule k v cfg = jset cfg ''rules'' (jset (cfg_rules cfg) k v)"

text \<open>Add Custom Proxied and Add Custom Blocked: the same handler on two lists.\<close>

definition add_entry :: "string \<Rightarrow> string \<Rightarrow> unit page" where
  "add_entry key inputId = do {
     w \<leftarrow> State_Monad.get;
     let v = js_lower (js_trim (value_of w inputId));
     let old = arr_elems (jget (cfg_rules (currentConfig w)) key);
     if v = '''' \<or> \<not> truthy (currentConfig w) \<or> JStr v \<in> set old then ret ()
     else do {
       setConfig (set_rule key (JArr (old @ [JStr v])) (currentConfig w));
       set_value inputId '''';
       saveRules_with renderCurrent } }"

definition add_proxied :: "unit page" where
  "add_proxied = add_entry ''custom_proxied'' ''new-proxied-input''"

definition add_blocked :: "unit page" where
  "add_blocked = add_entry ''custom_blocked'' ''new-blocked-input''"

definition remove_entry :: "string \<Rightarrow> string \<Rightarrow> unit page" where
  "remove_entry key v = do {
     w \<leftarrow> State_Monad.get;
     if \<not> truthy (currentConfig w) then ret ()
     else do {
       setConfig (set_rule key
         (JArr (filter (\<lambda>x. x \<noteq> JStr v) (arr_elems (jget (cfg_rules (currentConfig w)) key))))
         (currentConfig w));
       saveRules_with renderCurrent } }"

definition add_custom_record :: "unit page" where
  "add_custom_record = do {
     w \<leftarrow> State_Monad.get;
     let dm = js_lower (js_trim (value_of w ''custom-record-domain''));
     let ip = js_trim (value_of w ''custom-record-ip'');
     let old = jget (cfg_rules (currentConfig w)) ''custom_records'';
     if dm = '''' \<or> ip = '''' \<or> \<not> truthy (currentConfig w) then ret ()
     else do {
       setConfig (set_rule ''custom_records''
         (jset (if truthy old then old else JObj []) dm (JStr ip)) (currentConfig w));
       set_value ''custom-record-domain'' '''';
       set_value ''custom-record-ip'' '''';
       saveRules_with renderCurrent } }"

definition remove_record :: "string \<Rightarrow> unit page" where
  "remove_record dm = do {
     w \<leftarrow> State_Monad.get;
     let old = jget (cfg_rules (currentConfig w)) ''custom_records'';
     if \<not> truthy (currentConfig w) \<or> \<not> truthy old then ret ()
     else do {
       setConfig (set_rule ''custom_records'' (jdel old dm) (currentConfig w));
       saveRules_with renderCurrent } }"

text \<open>
  DoH tokens live under \<open>access\<close> and are posted with an unguarded await: a transport failure
  ends the handler, a refusal is not looked at.
\<close>

definition post_access :: "string \<Rightarrow> string \<Rightarrow> unit page" where
  "post_access msg tone = do {
     w \<leftarrow> State_Monad.get;
     oc \<leftarrow> fetch_post ''/api/config/access'' (jget (currentConfig w) ''access'');
     case oc of NetErr \<Rightarrow> ret ()
     | Resp r \<Rightarrow> do { toast_msg msg tone; renderCurrent } }"

definition add_token :: "unit page" where
  "add_token = do {
     w \<leftarrow> State_Monad.get;
     let v = js_trim (value_of w ''new-token-input'');
     let acc = jget (currentConfig w) ''access'';
     let old = arr_elems (jget acc ''doh_tokens'');
     if v = '''' \<or> \<not> truthy (currentConfig w) \<or> JStr v \<in> set old then ret ()
     else do {
       setConfig (jset (currentConfig w) ''access''
         (jset acc ''doh_tokens'' (JArr (old @ [JStr v]))));
       set_value ''new-token-input'' '''';
       post_access ''DoH Token added!'' ''success'' } }"

definition remove_token :: "string \<Rightarrow> unit page" where
  "remove_token v = do {
     w \<leftarrow> State_Monad.get;
     let acc = jget (currentConfig w) ''access'';
     if \<not> truthy (currentConfig w) then ret ()
     else do {
       setConfig (jset (currentConfig w) ''access'' (jset acc ''doh_tokens''
         (JArr (filter (\<lambda>x. x \<noteq> JStr v) (arr_elems (jget acc ''doh_tokens''))))));
       post_access ''DoH Token removed'' ''info'' } }"

section \<open>Quick action profiles and the preset switches\<close>

datatype profile = Gaming | Streamer | Dev | Privacy

fun profile_switches :: "profile \<Rightarrow> string list" where
  "profile_switches Gaming =
    [''preset-riot'', ''preset-epic'', ''preset-steam'', ''preset-pubg'', ''preset-cod'',
     ''preset-supercell'', ''preset-ea'', ''preset-blizzard'', ''preset-ubisoft'',
     ''preset-rockstar'', ''preset-xbox'', ''preset-playstation'', ''preset-nintendo'',
     ''preset-roblox'', ''preset-shooters-extra'', ''preset-anime-gacha'',
     ''preset-sports-racing'', ''preset-coop-survival'', ''preset-platforms-extra'']"
| "profile_switches Streamer =
    [''preset-discord'', ''preset-twitch'', ''preset-kick'', ''preset-spotify'',
     ''preset-soundcloud'']"
| "profile_switches Dev = [''preset-dev403'']"
| "profile_switches Privacy = [''preset-adblock'', ''preset-familysafe'']"

fun profile_toast :: "profile \<Rightarrow> string" where
  "profile_toast Gaming = ''Pro Gamer Profile (All 172 Games) Activated!''"
| "profile_toast Streamer = ''Streamer & Media Profile Activated!''"
| "profile_toast Dev = ''Developer 403 Profile Activated!''"
| "profile_toast Privacy = ''AdBlock & Safe Profile Activated!''"

definition activate_profile :: "profile \<Rightarrow> unit page" where
  "activate_profile p = do {
     for_each (\<lambda>i. setSwitch i (JBool True)) (profile_switches p);
     saveRules_with (toast_msg (profile_toast p) ''success'') }"

text \<open>The operator flips a preset switch: the element changes, then its handler, if any.\<close>

definition flip_switch :: "string \<Rightarrow> unit page" where
  "flip_switch i = do {
     upd i (\<lambda>e. e\<lparr>el_checked := \<not> el_checked e\<rparr>);
     if i \<in> set wired_switches then saveRules else ret () }"

section \<open>Frames of the render functions\<close>

lemmas render_defs =
  renderList_def renderCustomRecords_def renderAPIKeyDisplay_def updateCodeSnippets_def
  renderSubOriginPreview_def renderSubscriptionSettings_def renderAdminPath_def start_task_def
  config_hooks_def render_version_def render_guide_def render_tls_def render_bind_def
  render_switches_def render_lists_def render_rest_def setSwitch_def

lemma keeps_config_render [keeps_intros]:
  "keeps currentConfig config_hooks" "keeps currentConfig (render_version c)"
  "keeps currentConfig (render_rest c)"
  by (auto simp: render_defs Let_def split_beta intro!: keeps_intros)

lemma keeps_has_el_render [keeps_intros]:
  "keeps (\<lambda>w. has_el w j) config_hooks" "keeps (\<lambda>w. has_el w j) (render_version c)"
  "keeps (\<lambda>w. has_el w j) (render_rest c)"
  by (auto simp: render_defs Let_def split_beta intro!: keeps_intros)

lemma checked_setSwitch:
  "checked_of (exec (setSwitch i v) w) j =
     (if j = i \<and> has_el w i then truthy v else checked_of w j)"
  unfolding setSwitch_def checked_of_upd
  by (auto simp: has_el_def checked_of_def split: option.split)

lemma has_el_setSwitch [simp]: "has_el (exec (setSwitch i v) w) j = has_el w j"
  by (simp add: setSwitch_def has_el_upd)

lemma checked_for_each_switch:
  assumes "distinct (map fst tbl)"
  shows "checked_of (exec (for_each (\<lambda>(i, k). setSwitch i (val k)) tbl) w) j =
     (case map_of tbl j of None \<Rightarrow> checked_of w j
      | Some k \<Rightarrow> if has_el w j then truthy (val k) else checked_of w j)"
  using assms
proof (induction tbl arbitrary: w)
  case Nil
  then show ?case by simp
next
  case (Cons p tbl)
  obtain i k where p: "p = (i, k)" by (cases p)
  show ?case
  proof (cases "j = i")
    case True
    then have "map_of tbl j = None"
      using Cons.prems p by (auto simp: map_of_eq_None_iff)
    then show ?thesis using Cons True p by (simp add: checked_setSwitch)
  next
    case False
    then show ?thesis using Cons p by (simp add: checked_setSwitch split: option.split)
  qed
qed

lemma has_el_for_each_switch [simp]:
  "has_el (exec (for_each (\<lambda>(i, k). setSwitch i (val k)) tbl) w) j = has_el w j"
proof (induction tbl arbitrary: w)
  case (Cons p tbl)
  then show ?case by (simp add: split_beta)
qed simp

lemma render_table_distinct: "distinct (map fst render_table)"
  by code_simp

lemma keeps_checked_lists: "keeps (\<lambda>w. checked_of w j) (render_lists c)"
  by (auto simp: render_defs intro!: keeps_intros)

text \<open>What the switches show once a configuration is painted.\<close>

lemma checked_render_rest:
  assumes "has_el w i"
  shows "map_of render_table i = Some k \<Longrightarrow> i \<noteq> ''preset-downloads'' \<Longrightarrow>
      checked_of (exec (render_rest c) w) i = truthy (jget (cfg_rules c) k)"
    and "i = ''preset-downloads'' \<Longrightarrow> checked_of (exec (render_rest c) w) i =
      (jget (cfg_rules c) ''enable_downloads'' = JBool True)"
proof -
  obtain w1 where w1: "exec (render_rest c) w = exec (render_lists c) (exec (render_switches c) w1)"
    and el: "has_el w1 i"
  proof
    let ?w1 = "exec (do { render_guide c; render_tls c; renderAPIKeyDisplay; render_bind c;
        updateCodeSnippets (js_or (jget (cfg_server c) ''public_ip'') (JStr ''127.0.0.1''))
          (js_or (jget (cfg_server c) ''api_key'') (JStr ''hdns_live_your_key_here'')) }) w"
    show "exec (render_rest c) w = exec (render_lists c) (exec (render_switches c) ?w1)"
      by (simp add: render_rest_def)
    have "keeps (\<lambda>w. has_el w i) (do { render_guide c; render_tls c; renderAPIKeyDisplay;
        render_bind c;
        updateCodeSnippets (js_or (jget (cfg_server c) ''public_ip'') (JStr ''127.0.0.1''))
          (js_or (jget (cfg_server c) ''api_key'') (JStr ''hdns_live_your_key_here'')) })"
      by (auto simp: render_defs Let_def intro!: keeps_intros)
    then show "has_el ?w1 i" using assms by (simp add: keeps_def)
  qed
  have "checked_of (exec (render_lists c) w2) i = checked_of w2 i" for w2
    using keeps_checked_lists by (rule keepsD)
  then show "map_of render_table i = Some k \<Longrightarrow> i \<noteq> ''preset-downloads'' \<Longrightarrow>
      checked_of (exec (render_rest c) w) i = truthy (jget (cfg_rules c) k)"
    and "i = ''preset-downloads'' \<Longrightarrow> checked_of (exec (render_rest c) w) i =
      (jget (cfg_rules c) ''enable_downloads'' = JBool True)"
    using el unfolding w1 render_switches_def
    by (simp_all add: checked_setSwitch checked_for_each_switch render_table_distinct)
qed

section \<open>Normalisation\<close>

lemma is_obj_norm_arr [simp]: "is_obj (norm_arr k r) = is_obj r"
  by (simp add: norm_arr_def)

lemma norm_arr_get:
  "is_obj r \<Longrightarrow> jget (norm_arr k r) j =
     (if j = k \<and> \<not> is_arr (jget r k) then JArr [] else jget r j)"
  by (simp add: norm_arr_def)

lemma norm_arr_id: "is_arr (jget r k) \<Longrightarrow> norm_arr k r = r"
  by (simp add: norm_arr_def)

lemma is_obj_norm_obj [simp]: "is_obj (norm_obj c k) = is_obj c"
  by (simp add: norm_obj_def)

lemma norm_obj_get:
  "is_obj c \<Longrightarrow> jget (norm_obj c k) j =
     (if j = k \<and> \<not> object_like (jget c k) then JObj [] else jget c j)"
  by (simp add: norm_obj_def)

definition arr_or_empty :: "jsval \<Rightarrow> jsval" where
  "arr_or_empty v = (if is_arr v then v else JArr [])"

definition obj_or_empty :: "jsval \<Rightarrow> jsval" where
  "obj_or_empty v = (if is_obj v then v else JObj [])"

lemma norm_rules_get:
  assumes "is_obj r"
  shows "jget (norm_rules r) j =
    (if j \<in> {''custom_proxied'', ''custom_blocked'', ''custom_direct''} then arr_or_empty (jget r j)
     else if j = ''custom_records'' then obj_or_empty (jget r j) else jget r j)"
    and "is_obj (norm_rules r)"
  using assms by (auto simp: norm_rules_def norm_arr_get Let_def arr_or_empty_def obj_or_empty_def)

lemma is_obj_normalise [simp]: "is_obj c \<Longrightarrow> is_obj (normalise c)"
  by (simp add: normalise_def Let_def)

lemma normalise_get:
  assumes "is_obj c"
  shows "jget (normalise c) j =
    (if j = ''rules'' then norm_rules (if object_like (jget c j) then jget c j else JObj [])
     else if j = ''access'' then norm_arr ''doh_tokens'' (if object_like (jget c j) then jget c j else JObj [])
     else if j = ''subscription'' then (if object_like (jget c j) then jget c j else JObj [])
     else jget c j)"
  using assms by (simp add: normalise_def Let_def norm_obj_get)

lemma norm_rules_id:
  "is_arr (jget r ''custom_proxied'') \<Longrightarrow> is_arr (jget r ''custom_blocked'') \<Longrightarrow>
   is_arr (jget r ''custom_direct'') \<Longrightarrow> is_obj (jget r ''custom_records'') \<Longrightarrow> norm_rules r = r"
  by (simp add: norm_rules_def norm_arr_id)

text \<open>What the renderers and the handlers rely on of a configuration they are handed.\<close>

definition config_ok :: "jsval \<Rightarrow> bool" where
  "config_ok c \<longleftrightarrow>
     is_obj c \<and> is_obj (cfg_rules c) \<and>
     is_arr (jget (cfg_rules c) ''custom_proxied'') \<and>
     is_arr (jget (cfg_rules c) ''custom_blocked'') \<and>
     is_arr (jget (cfg_rules c) ''custom_direct'') \<and>
     is_obj (jget (cfg_rules c) ''custom_records'') \<and>
     is_obj (jget c ''access'') \<and> is_arr (jget (jget c ''access'') ''doh_tokens'') \<and>
     object_like (jget c ''subscription'')"

lemma normalise_id:
  assumes "config_ok c" shows "normalise c = c"
proof -
  have "jset c ''rules'' (cfg_rules c) = c" "jset c ''access'' (jget c ''access'') = c"
    using assms by (auto simp: config_ok_def intro!: jset_same)
  then show ?thesis using assms
    by (simp add: normalise_def Let_def norm_obj_def norm_rules_id norm_arr_id config_ok_def
        is_obj_object_like)
qed

lemma normalise_ok:
  assumes "is_obj c" "\<not> is_arr (cfg_rules c)" "\<not> is_arr (jget c ''access'')"
  shows "config_ok (normalise c)"
proof -
  have o: "object_like x \<and> \<not> is_arr x \<longleftrightarrow> is_obj x" for x by (cases x) auto
  show ?thesis using assms o[of "cfg_rules c"] o[of "jget c ''access''"]
    by (auto simp: config_ok_def normalise_get norm_rules_get norm_arr_get arr_or_empty_def
        obj_or_empty_def)
qed

section \<open>What a painted configuration saves\<close>

lemma renderConfig_run:
  assumes "is_obj c" "\<not> nullish (cfg_server c)"
  shows "\<exists>w1. exec (renderConfig c) w = exec (render_rest (normalise c)) w1 \<and>
     currentConfig w1 = normalise c \<and> (\<forall>i. has_el w1 i = has_el w i)"
    and "result (renderConfig c) w = True"
    and "currentConfig (exec (renderConfig c) w) = normalise c"
proof -
  let ?m = "do { setConfig (normalise c); config_hooks; render_version (normalise c) }"
  have s: "\<not> nullish (cfg_server (normalise c))" using assms by (simp add: normalise_get)
  have e: "exec (renderConfig c) w = exec (render_rest (normalise c)) (exec ?m w)"
    using assms s by (simp add: renderConfig_def Let_def)
  have "keeps (\<lambda>w. has_el w i) ?m" for i
    by (auto intro!: keeps_intros)
  then have h: "has_el (exec ?m w) i = has_el w i" for i by (simp add: keeps_def)
  have k: "keeps currentConfig config_hooks" "keeps currentConfig (render_version (normalise c))"
    "keeps currentConfig (render_rest (normalise c))" by (auto intro!: keeps_intros)
  have cc: "currentConfig (exec ?m w) = normalise c"
    using k by (simp add: keeps_def page_simps)
  show "\<exists>w1. exec (renderConfig c) w = exec (render_rest (normalise c)) w1 \<and>
     currentConfig w1 = normalise c \<and> (\<forall>i. has_el w1 i = has_el w i)"
    using e h cc by blast
  show "result (renderConfig c) w = True"
    using assms s by (simp add: renderConfig_def Let_def)
  show "currentConfig (exec (renderConfig c) w) = normalise c"
    using k(3) cc unfolding e by (simp add: keeps_def)
qed

end
