(* ===== verification/Rules_Page.thy ===== *)
theory Rules_Page
  imports Config_Rules
begin

text \<open>
  The Rules page as a whole: what a painted configuration saves again, what one save does on
  each answer, and the invariant of the configuration over every handler of the page. The
  operations are those of Config_Rules; \<open>rules_step\<close> is the page as a transition system.
\<close>

section \<open>Properties\<close>

definition custom_keys :: "string list" where
  "custom_keys = [''custom_proxied'', ''custom_blocked'', ''custom_direct'', ''custom_records'']"

lemma custom_keys_apart: "k \<in> set custom_keys \<Longrightarrow> k \<notin> fst ` set payload_table"
proof -
  have "\<forall>k \<in> set custom_keys. k \<notin> set (map fst payload_table)" by code_simp
  then show "k \<in> set custom_keys \<Longrightarrow> ?thesis" by simp
qed

lemma save_payload_get:
  assumes "k \<in> set custom_keys"
  shows "jget (save_payload w) k = jget (cfg_rules (currentConfig w)) k"
proof -
  have "map_of (map (\<lambda>(k, i). (k, JBool (getSwitch w i))) payload_table) k = None"
    using custom_keys_apart[OF assms] by (force simp: map_of_eq_None_iff split: prod.splits)
  then show ?thesis using assms
    by (auto simp: save_payload_def Let_def map_add_def custom_keys_def split: option.splits)
qed

lemma is_obj_save_payload [simp]: "is_obj (save_payload w)"
  by (simp add: save_payload_def Let_def)

text \<open>The value of a rule a served configuration stands for.\<close>

definition rule_on :: "jsval \<Rightarrow> string \<Rightarrow> bool" where
  "rule_on c k = (if k = ''enable_downloads'' then jget (cfg_rules c) k = JBool True
                  else truthy (jget (cfg_rules c) k))"

lemma payload_tables_agree:
  "(k, i) \<in> set payload_table \<Longrightarrow>
     (i = ''preset-downloads'' \<and> k = ''enable_downloads'') \<or>
     (map_of render_table i = Some k \<and> i \<noteq> ''preset-downloads'' \<and> k \<noteq> ''enable_downloads'')"
proof -
  have "\<forall>(k, i) \<in> set payload_table. 
     (i = ''preset-downloads'' \<and> k = ''enable_downloads'') \<or>
     (map_of render_table i = Some k \<and> i \<noteq> ''preset-downloads'' \<and> k \<noteq> ''enable_downloads'')"
    by code_simp
  then show "(k, i) \<in> set payload_table \<Longrightarrow> ?thesis" by blast
qed

lemma switch_after_render:
  assumes "is_obj c" "\<not> nullish (cfg_server c)" "(k, i) \<in> set payload_table" "has_el w i"
  shows "checked_of (exec (renderConfig c) w) i = rule_on (normalise c) k"
proof -
  obtain w1 where w1: "exec (renderConfig c) w = exec (render_rest (normalise c)) w1" "has_el w1 i"
    using renderConfig_run(1)[OF assms(1,2), of w] assms(4) by metis
  show ?thesis
    using payload_tables_agree[OF assms(3)] checked_render_rest[OF w1(2)]
    unfolding w1 rule_on_def by auto
qed

text \<open>
  C1. What a configuration paints is what saving it posts: after renderConfig, the payload of
  saveRules holds under each of its 31 rule keys the value the served rule stands for, and the
  four custom collections of the normalised configuration, unchanged.
\<close>

theorem render_then_save:
  assumes "is_obj c" "\<not> nullish (cfg_server c)"
    and "\<And>k i. (k, i) \<in> set payload_table \<Longrightarrow> has_el w i"
  shows "save_payload (exec (renderConfig c) w) =
    JObj (map (\<lambda>(k, i). (k, JBool (rule_on (normalise c) k))) payload_table @
          map (\<lambda>k. (k, jget (cfg_rules (normalise c)) k))
            [''custom_proxied'', ''custom_blocked'', ''custom_direct'', ''custom_records''])"
proof -
  have "map (\<lambda>(k, i). (k, JBool (getSwitch (exec (renderConfig c) w) i))) payload_table =
        map (\<lambda>(k, i). (k, JBool (rule_on (normalise c) k))) payload_table"
    using switch_after_render[OF assms(1,2)] assms(3)
    by (auto simp: getSwitch_def intro!: map_cong)
  then show ?thesis
    using renderConfig_run(3)[OF assms(1,2)] by (simp only: save_payload_def Let_def)
qed

definition sample_config :: jsval where
  "sample_config = JObj
     [(''server'', JObj [(''public_ip'', JStr ''192.0.2.1'')]),
      (''rules'', JObj [(''enable_steam'', JBool True), (''custom_proxied'', JArr [JStr ''a.test''])])]"

theorem render_then_save_witness:
  "save_payload (exec (renderConfig sample_config) (sample_page JNull [])) =
    JObj (map (\<lambda>(k, i). (k, JBool (rule_on (normalise sample_config) k))) payload_table @
          map (\<lambda>k. (k, jget (cfg_rules (normalise sample_config)) k))
            [''custom_proxied'', ''custom_blocked'', ''custom_direct'', ''custom_records''])"
  by (rule render_then_save) (simp_all add: sample_config_def)

text \<open>
  Normalising a served configuration gives the shape every renderer and handler relies on
  (rules, the three custom lists, the records, the tokens), leaves the value of every rule
  switch as it was served, and normalising again changes nothing.
\<close>

theorem normalise_correct:
  assumes "is_obj c" "\<not> is_arr (cfg_rules c)" "\<not> is_arr (jget c ''access'')"
  shows "config_ok (normalise c) \<and> normalise (normalise c) = normalise c \<and>
    map (\<lambda>(k, i). jget (cfg_rules (normalise c)) k) payload_table =
    map (\<lambda>(k, i). jget (cfg_rules c) k) payload_table"
proof -
  have "jget (cfg_rules (normalise c)) k = jget (cfg_rules c) k" if "k \<notin> set custom_keys" for k
  proof (cases "object_like (cfg_rules c)")
    case True
    then have "is_obj (cfg_rules c)" using assms(2) by (cases "cfg_rules c") auto
    then show ?thesis using that assms(1) True
      by (simp add: normalise_get norm_rules_get custom_keys_def)
  next
    case False
    then have "jget (cfg_rules c) k = JUndef" by (cases "cfg_rules c") auto
    then show ?thesis using that assms(1) False
      by (simp add: normalise_get norm_rules_get custom_keys_def)
  qed
  then have "map (\<lambda>(k, i). jget (cfg_rules (normalise c)) k) payload_table =
    map (\<lambda>(k, i). jget (cfg_rules c) k) payload_table"
    using custom_keys_apart by (intro map_cong) (force split: prod.splits)+
  then show ?thesis using normalise_ok[OF assms] normalise_id by blast
qed

theorem normalise_correct_witness:
  "config_ok (normalise sample_config) \<and>
   normalise (normalise sample_config) = normalise sample_config"
  using normalise_correct[of sample_config] by (simp add: sample_config_def)

section \<open>Saving\<close>

lemma saveRules_run:
  assumes "is_obj (currentConfig w)" "\<not> nullish (cfg_rules (currentConfig w))"
  shows "exec (saveRules_with m) w =
    (let w1 = exec m (w\<lparr>sent := sent w @ [mk_req w ''POST'' ''/api/config/rules'' (save_payload w)]\<rparr>)
     in exec (saveRules_done (save_payload w) (case net w1 of [] \<Rightarrow> NetErr | x # _ \<Rightarrow> x))
          (w1\<lparr>net := tl (net w1)\<rparr>))"
  using assms by (simp add: saveRules_with_def saveRules_start_def page_simps Let_def is_obj_truthy)

section \<open>The rule handlers keep the configuration in shape\<close>

definition rules_ok :: "jsval \<Rightarrow> bool" where
  "rules_ok c \<longleftrightarrow> config_ok c \<and> \<not> nullish (cfg_server c) \<and>
     distinct (arr_elems (jget (cfg_rules c) ''custom_proxied'')) \<and>
     distinct (arr_elems (jget (cfg_rules c) ''custom_blocked'')) \<and>
     distinct (arr_elems (jget (jget c ''access'') ''doh_tokens''))"

lemma rules_ok_parts:
  "rules_ok c \<Longrightarrow> is_obj c" "rules_ok c \<Longrightarrow> is_obj (cfg_rules c)"
  "rules_ok c \<Longrightarrow> \<not> nullish (cfg_server c)" "rules_ok c \<Longrightarrow> normalise c = c"
  "rules_ok c \<Longrightarrow> \<not> nullish (cfg_rules c)" "rules_ok c \<Longrightarrow> is_obj (jget c ''access'')"
  by (auto simp: rules_ok_def config_ok_def normalise_id)

lemma rules_ok_save:
  assumes "rules_ok (currentConfig w)"
  shows "rules_ok (jset (currentConfig w) ''rules'' (save_payload w))"
  using assms by (simp add: rules_ok_def config_ok_def save_payload_get custom_keys_def)

lemma config_renderCurrent:
  "rules_ok (currentConfig w) \<Longrightarrow> currentConfig (exec renderCurrent w) = currentConfig w"
  using renderConfig_run(3)[of "currentConfig w" w]
  by (simp add: renderCurrent_def rules_ok_parts)

lemma config_saveRules_done:
  "currentConfig (exec (saveRules_done p oc) w) =
     (case oc of Resp r \<Rightarrow> if rs_ok r then jset (currentConfig w) ''rules'' p else currentConfig w
      | NetErr \<Rightarrow> currentConfig w)"
  by (cases oc) (auto simp: saveRules_done_def page_simps)

lemma config_saveRules_with:
  assumes "rules_ok (currentConfig w)"
    and m: "\<And>w'. currentConfig w' = currentConfig w \<Longrightarrow> currentConfig (exec m w') = currentConfig w"
  shows "currentConfig (exec (saveRules_with m) w) \<in>
     {currentConfig w, jset (currentConfig w) ''rules'' (save_payload w)}"
  using assms
  by (auto simp: saveRules_run rules_ok_parts config_saveRules_done Let_def split: outcome.splits)

lemma rules_ok_saveRules_with:
  assumes "rules_ok (currentConfig w)"
    and "\<And>w'. currentConfig w' = currentConfig w \<Longrightarrow> currentConfig (exec m w') = currentConfig w"
  shows "rules_ok (currentConfig (exec (saveRules_with m) w))"
    and "k \<in> set custom_keys \<Longrightarrow>
      jget (cfg_rules (currentConfig (exec (saveRules_with m) w))) k =
      jget (cfg_rules (currentConfig w)) k"
  using config_saveRules_with[OF assms] rules_ok_save[OF assms(1)] assms(1)
  by (auto simp: save_payload_get rules_ok_parts)

lemma rules_ok_save_render:
  assumes "rules_ok (currentConfig w)"
  shows "rules_ok (currentConfig (exec (saveRules_with renderCurrent) w))"
    and "k \<in> set custom_keys \<Longrightarrow>
      jget (cfg_rules (currentConfig (exec (saveRules_with renderCurrent) w))) k =
      jget (cfg_rules (currentConfig w)) k"
  using rules_ok_saveRules_with[OF assms, of renderCurrent] config_renderCurrent assms by simp_all

lemma rules_ok_set_rule:
  assumes "rules_ok c"
  shows "distinct xs \<Longrightarrow> k \<in> {''custom_proxied'', ''custom_blocked''} \<Longrightarrow> rules_ok (set_rule k (JArr xs) c)"
    and "is_obj r \<Longrightarrow> rules_ok (set_rule ''custom_records'' r c)"
  using assms by (auto simp: rules_ok_def config_ok_def set_rule_def)

lemma set_rule_get: "rules_ok c \<Longrightarrow> jget (cfg_rules (set_rule k v c)) j = (if j = k then v else jget (cfg_rules c) j)"
  by (simp add: set_rule_def rules_ok_parts)

lemma rules_ok_set_tokens:
  "rules_ok c \<Longrightarrow> distinct xs \<Longrightarrow>
   rules_ok (jset c ''access'' (jset (jget c ''access'') ''doh_tokens'' (JArr xs)))"
  by (simp add: rules_ok_def config_ok_def)

lemma rules_ok_post_access:
  "rules_ok (currentConfig w) \<Longrightarrow> currentConfig (exec (post_access m t) w) = currentConfig w"
  by (auto simp: post_access_def fetch_auth_run exec_showToast config_renderCurrent split: outcome.splits)

lemma add_entry_config:
  fixes inp :: string
  assumes "rules_ok (currentConfig w)" "key \<in> {''custom_proxied'', ''custom_blocked''}"
  defines "v \<equiv> js_lower (js_trim (value_of w inp))"
    and "old \<equiv> arr_elems (jget (cfg_rules (currentConfig w)) key)"
  shows "rules_ok (currentConfig (exec (add_entry key inp) w))"
    and "jget (cfg_rules (currentConfig (exec (add_entry key inp) w))) key =
      JArr (if v = '''' \<or> JStr v \<in> set old then old else old @ [JStr v])"
proof -
  let ?c = "set_rule key (JArr (old @ [JStr v])) (currentConfig w)"
  have d: "distinct old" and arr: "jget (cfg_rules (currentConfig w)) key = JArr old"
    using assms(1,2) unfolding old_def
    by (auto simp: rules_ok_def config_ok_def elim!: is_arr.elims)
  let ?w1 = "exec (set_value inp '''') (w\<lparr>currentConfig := ?c\<rparr>)"
  have c1: "currentConfig ?w1 = ?c" by (simp add: exec_upd)
  have ok: "rules_ok (currentConfig ?w1)" if "JStr v \<notin> set old"
    using rules_ok_set_rule(1)[OF assms(1) _ assms(2)] d that unfolding c1 by simp
  have run: "exec (add_entry key inp) w = (if v = '''' \<or> JStr v \<in> set old then w
      else exec (saveRules_with renderCurrent) ?w1)"
    using assms(1) by (simp add: add_entry_def Let_def v_def old_def exec_prims rules_ok_parts)
  have k: "key \<in> set custom_keys" using assms(2) by (auto simp: custom_keys_def)
  show "rules_ok (currentConfig (exec (add_entry key inp) w))"
    using assms(1) ok rules_ok_save_render(1)[of ?w1] unfolding run by auto
  show "jget (cfg_rules (currentConfig (exec (add_entry key inp) w))) key =
      JArr (if v = '''' \<or> JStr v \<in> set old then old else old @ [JStr v])"
    using assms(1) ok rules_ok_save_render(2)[OF _ k, of ?w1] arr unfolding run c1
    by (auto simp: set_rule_get)
qed

lemma remove_entry_config:
  assumes "rules_ok (currentConfig w)" "key \<in> {''custom_proxied'', ''custom_blocked''}"
  shows "rules_ok (currentConfig (exec (remove_entry key v) w))"
    and "jget (cfg_rules (currentConfig (exec (remove_entry key v) w))) key =
      JArr (filter (\<lambda>x. x \<noteq> JStr v) (arr_elems (jget (cfg_rules (currentConfig w)) key)))"
proof -
  let ?c = "set_rule key (JArr (filter (\<lambda>x. x \<noteq> JStr v)
        (arr_elems (jget (cfg_rules (currentConfig w)) key)))) (currentConfig w)"
  have d: "distinct (arr_elems (jget (cfg_rules (currentConfig w)) key))"
    using assms(1,2) by (auto simp: rules_ok_def)
  have ok: "rules_ok ?c" using rules_ok_set_rule(1)[OF assms(1) _ assms(2)] d by simp
  have run: "exec (remove_entry key v) w = exec (saveRules_with renderCurrent) (w\<lparr>currentConfig := ?c\<rparr>)"
    using assms(1) by (simp add: remove_entry_def exec_prims rules_ok_parts)
  have k: "key \<in> set custom_keys" using assms(2) by (auto simp: custom_keys_def)
  show "rules_ok (currentConfig (exec (remove_entry key v) w))"
    using ok rules_ok_save_render(1)[of "w\<lparr>currentConfig := ?c\<rparr>"] unfolding run by simp
  show "jget (cfg_rules (currentConfig (exec (remove_entry key v) w))) key =
      JArr (filter (\<lambda>x. x \<noteq> JStr v) (arr_elems (jget (cfg_rules (currentConfig w)) key)))"
    using ok rules_ok_save_render(2)[OF _ k, of "w\<lparr>currentConfig := ?c\<rparr>"] assms(1) unfolding run
    by (simp add: set_rule_get)
qed


lemma rules_ok_records:
  assumes "rules_ok (currentConfig w)"
  shows "rules_ok (currentConfig (exec add_custom_record w))"
    and "rules_ok (currentConfig (exec (remove_record dm) w))"
proof -
  let ?c = "currentConfig w"
  let ?old = "jget (cfg_rules ?c) ''custom_records''"
  have o: "is_obj ?old" using assms by (simp add: rules_ok_def config_ok_def)
  then have j: "is_obj (jdel ?old dm)" by (cases ?old) auto
  have "rules_ok (currentConfig (exec (saveRules_with renderCurrent)
      (exec (set_value b '''') (exec (set_value a '''')
        (w\<lparr>currentConfig := set_rule ''custom_records'' (jset ?old d v) ?c\<rparr>)))))" for a b d v
    using rules_ok_set_rule(2)[OF assms] o
    by (intro rules_ok_save_render(1)) (simp add: exec_upd)
  then show "rules_ok (currentConfig (exec add_custom_record w))"
    using assms o by (simp add: add_custom_record_def Let_def exec_prims rules_ok_parts)
  have "rules_ok (currentConfig (exec (saveRules_with renderCurrent)
        (w\<lparr>currentConfig := set_rule ''custom_records'' (jdel ?old dm) ?c\<rparr>)))"
    using rules_ok_set_rule(2)[OF assms j] by (intro rules_ok_save_render(1)) simp
  then show "rules_ok (currentConfig (exec (remove_record dm) w))"
    using assms o by (simp add: remove_record_def exec_prims rules_ok_parts)
qed

lemma rules_ok_tokens:
  assumes "rules_ok (currentConfig w)"
  shows "rules_ok (currentConfig (exec add_token w))"
    and "rules_ok (currentConfig (exec (remove_token v) w))"
proof -
  let ?c = "currentConfig w"
  let ?old = "arr_elems (jget (jget ?c ''access'') ''doh_tokens'')"
  let ?set = "\<lambda>xs. jset ?c ''access'' (jset (jget ?c ''access'') ''doh_tokens'' (JArr xs))"
  have d: "distinct ?old" using assms by (simp add: rules_ok_def)
  have post: "rules_ok (currentConfig (exec (post_access m t) w'))"
    if "rules_ok (currentConfig w')" for m t w'
    using that by (simp add: rules_ok_post_access)
  have "rules_ok (currentConfig (exec (post_access m t)
      (exec (set_value i '''') (w\<lparr>currentConfig := ?set (?old @ [JStr x])\<rparr>))))"
    if "JStr x \<notin> set ?old" for m t i x
    using rules_ok_set_tokens[OF assms, of "?old @ [JStr x]"] d that
    by (intro post) (simp add: exec_upd)
  then show "rules_ok (currentConfig (exec add_token w))"
    using assms by (simp add: add_token_def Let_def exec_prims rules_ok_parts)
  have "rules_ok (currentConfig (exec (post_access m t)
      (w\<lparr>currentConfig := ?set (filter (\<lambda>x. x \<noteq> JStr v) ?old)\<rparr>)))" for m t
    using rules_ok_set_tokens[OF assms, of "filter (\<lambda>x. x \<noteq> JStr v) ?old"] d
    by (intro post) simp
  then show "rules_ok (currentConfig (exec (remove_token v) w))"
    using assms by (simp add: remove_token_def Let_def exec_prims rules_ok_parts)
qed

lemma config_setSwitch: "currentConfig (exec (setSwitch i v) w) = currentConfig w"
  by (simp add: setSwitch_def exec_upd)

lemma config_for_each_switch:
  "currentConfig (exec (for_each (\<lambda>i. setSwitch i v) is) w) = currentConfig w"
  by (induction "is" arbitrary: w) (simp_all add: config_setSwitch)

lemma rules_ok_switches:
  assumes "rules_ok (currentConfig w)"
  shows "rules_ok (currentConfig (exec saveRules w))"
    and "rules_ok (currentConfig (exec (activate_profile p) w))"
    and "rules_ok (currentConfig (exec (flip_switch i) w))"
proof -
  have save: "rules_ok (currentConfig (exec saveRules w'))" if "rules_ok (currentConfig w')" for w'
    unfolding saveRules_def using that by (intro rules_ok_saveRules_with) simp_all
  show "rules_ok (currentConfig (exec saveRules w))" using assms by (rule save)
  show "rules_ok (currentConfig (exec (flip_switch i) w))"
    using assms save by (simp add: flip_switch_def exec_upd)
  have "currentConfig (exec (toast_msg m t) w') = currentConfig w'" for m t w'
    by (simp add: exec_showToast)
  then show "rules_ok (currentConfig (exec (activate_profile p) w))"
    unfolding activate_profile_def using assms
    by (simp add: config_for_each_switch rules_ok_saveRules_with(1))
qed

text \<open>
  The Rules page as a transition system: the operator types, flips a switch, activates a
  profile, adds or removes an entry, record or token, and the network answers as it likes.
\<close>

inductive rules_step :: "dash \<Rightarrow> dash \<Rightarrow> bool" where
  answers: "rules_step w (w\<lparr>net := n\<rparr>)"
| types: "rules_step w (exec (set_value i v) w)"
| flips: "rules_step w (exec (flip_switch i) w)"
| profile: "rules_step w (exec (activate_profile p) w)"
| adds: "m \<in> {add_proxied, add_blocked, add_custom_record, add_token} \<Longrightarrow>
         rules_step w (exec m w)"
| removes: "m \<in> {remove_entry ''custom_proxied'' v, remove_entry ''custom_blocked'' v,
                 remove_record v, remove_token v} \<Longrightarrow> rules_step w (exec m w)"

lemma rules_step_ok:
  assumes "rules_step w w'" "rules_ok (currentConfig w)"
  shows "rules_ok (currentConfig w')"
  using assms
proof cases
  case adds
  then show ?thesis using assms(2) rules_ok_records(1) rules_ok_tokens(1)
    by (auto simp: add_proxied_def add_blocked_def intro: add_entry_config(1))
next
  case removes
  then show ?thesis using assms(2) rules_ok_records(2) rules_ok_tokens(2)
    by (auto intro: remove_entry_config(1))
qed (simp_all add: exec_upd rules_ok_switches)

text \<open>
  C9. Whatever the operator does on the Rules page and whatever the network answers, the
  configuration keeps the shape the renderers need, and neither custom list nor the token list
  ever holds an entry twice.
\<close>

theorem rules_page_invariant:
  assumes "rules_step\<^sup>*\<^sup>* w w'" "rules_ok (currentConfig w)"
  shows "rules_ok (currentConfig w')"
  using assms by (induction rule: rtranclp_induct) (auto intro: rules_step_ok)

lemma rules_ok_sample: "rules_ok (normalise sample_config)"
  by (simp add: rules_ok_def config_ok_def normalise_get norm_rules_get norm_arr_get
      arr_or_empty_def obj_or_empty_def sample_config_def)

theorem rules_page_invariant_witness:
  "rules_ok (currentConfig (exec add_blocked (exec (set_value ''new-blocked-input'' ''Ads.test'')
     (sample_page (normalise sample_config) [NetErr]))))"
  by (rule rules_page_invariant[of "sample_page (normalise sample_config) [NetErr]"])
    (auto simp: rules_ok_sample intro!: rules_step.adds rules_step.types
      intro: rtranclp.rtrancl_into_rtrancl)

text \<open>
  Adding an entry appends the trimmed, lower-cased input to its list once, and only if it
  is new; removing it afterwards gives the old list back. Both hold whatever the network says.
\<close>

theorem add_remove_entry:
  assumes "rules_ok (currentConfig w)" "key \<in> {''custom_proxied'', ''custom_blocked''}"
    and "v = js_lower (js_trim (value_of w inp))"
    and "old = arr_elems (jget (cfg_rules (currentConfig w)) key)"
    and "v \<noteq> ''''" "JStr v \<notin> set old"
  shows "jget (cfg_rules (currentConfig (exec (add_entry key inp) w))) key = JArr (old @ [JStr v]) \<and>
    jget (cfg_rules (currentConfig (exec (remove_entry key v) (exec (add_entry key inp) w)))) key =
      JArr old"
proof -
  let ?w1 = "exec (add_entry key inp) w"
  have ok: "rules_ok (currentConfig ?w1)" and
    add: "jget (cfg_rules (currentConfig ?w1)) key = JArr (old @ [JStr v])"
    using add_entry_config[OF assms(1,2), of inp] assms(3-6) by auto
  have "filter (\<lambda>x. x \<noteq> JStr v) old = old"
    using assms(6) by (metis (mono_tags, lifting) filter_True)
  then show ?thesis using add remove_entry_config(2)[OF ok assms(2)] by simp
qed

theorem add_remove_entry_witness:
  "jget (cfg_rules (currentConfig (exec (add_entry ''custom_proxied'' ''new-proxied-input'')
     (exec (set_value ''new-proxied-input'' '' B.test '')
       (sample_page (normalise sample_config) []))))) ''custom_proxied'' =
   JArr [JStr ''a.test'', JStr ''b.test'']"
proof -
  let ?w = "exec (set_value ''new-proxied-input'' '' B.test '')
       (sample_page (normalise sample_config) [])"
  have r: "rules_ok (currentConfig ?w)" using rules_ok_sample by (simp add: exec_upd)
  have v: "''b.test'' = js_lower (js_trim (value_of ?w ''new-proxied-input''))" by code_simp
  have o: "[JStr ''a.test''] = arr_elems (jget (cfg_rules (currentConfig ?w)) ''custom_proxied'')"
    by code_simp
  show ?thesis using add_remove_entry[OF r _ v o] by simp
qed

lemma checked_for_each_set:
  "checked_of (exec (for_each (\<lambda>i. setSwitch i v) is) w) j =
     (if j \<in> set is \<and> has_el w j then truthy v else checked_of w j)"
proof (induction "is" arbitrary: w)
  case (Cons i "is")
  then show ?case by (auto simp: checked_setSwitch)
qed simp

text \<open>
  Activating a profile turns its own switches on, leaves every other switch as it was, and
  no profile turns the downloads category on; the rules it posts are read after that.
\<close>

theorem profile_switches_only:
  assumes "rules_ok (currentConfig w)"
  shows "let w1 = exec (for_each (\<lambda>i. setSwitch i (JBool True)) (profile_switches p)) w;
             w' = exec (activate_profile p) w in
    (checked_of w' j = (if j \<in> set (profile_switches p) \<and> has_el w j then True else checked_of w j)) \<and>
    checked_of w' ''preset-downloads'' = checked_of w ''preset-downloads'' \<and>
    sent w' = sent w @ [mk_req w ''POST'' ''/api/config/rules'' (save_payload w1)]"
proof -
  let ?w1 = "exec (for_each (\<lambda>i. setSwitch i (JBool True)) (profile_switches p)) w"
  have "\<exists>d. exec (for_each (\<lambda>i. setSwitch i (JBool True)) xs) w = w\<lparr>dom := d\<rparr>" for xs w
  proof (induction xs arbitrary: w)
    case Nil
    have "w = w\<lparr>dom := dom w\<rparr>" by simp
    then show ?case by (metis exec_for_each_Cons(1))
  next
    case (Cons x xs)
    from Cons[of "exec (setSwitch x (JBool True)) w"] show ?case
      by (auto simp: setSwitch_def exec_upd)
  qed
  then obtain d where d: "?w1 = w\<lparr>dom := d\<rparr>" by blast
  have c: "rules_ok (currentConfig ?w1)" using assms by (simp add: config_for_each_switch)
  have "exec (activate_profile p) w = exec (saveRules_with (toast_msg (profile_toast p) ''success'')) ?w1"
    by (simp add: activate_profile_def)
  then have run: "checked_of (exec (activate_profile p) w) j = checked_of ?w1 j"
    "sent (exec (activate_profile p) w) =
       sent ?w1 @ [mk_req ?w1 ''POST'' ''/api/config/rules'' (save_payload ?w1)]" for j
    using c by (simp_all add: saveRules_run rules_ok_parts saveRules_done_def exec_showToast
        exec_prims checked_of_def Let_def split: outcome.split)
  have "''preset-downloads'' \<notin> set (profile_switches p)" by (cases p) simp_all
  then show ?thesis
    using checked_for_each_set[where ?is = "profile_switches p" and v = "JBool True" and w = w] d
    unfolding Let_def run by (auto simp: mk_req_def api_def)
qed

theorem profile_switches_only_witness:
  "checked_of (exec (activate_profile Dev) (sample_page (normalise sample_config) [])) ''preset-dev403''"
  using profile_switches_only[of "sample_page (normalise sample_config) []" Dev "''preset-dev403''"]
    rules_ok_sample by (simp add: Let_def)

text \<open>
  The switches the panel paints but gives no change handler are exactly the Google, AI and
  social ones: flipping one of them posts nothing and leaves the rules as they were, so the
  switch shows a state the server does not have.
\<close>

theorem unwired_switches:
  "filter (\<lambda>i. i \<notin> set wired_switches) (map fst render_table) =
     [''preset-google'', ''preset-ai'', ''preset-social''] \<and>
   sent (exec (flip_switch ''preset-ai'') w) = sent w \<and>
   currentConfig (exec (flip_switch ''preset-ai'') w) = currentConfig w \<and>
   checked_of (exec (flip_switch ''preset-ai'') w) ''preset-ai'' =
     (has_el w ''preset-ai'' \<and> \<not> checked_of w ''preset-ai'')"
proof -
  have "filter (\<lambda>i. i \<notin> set wired_switches) (map fst render_table) =
     [''preset-google'', ''preset-ai'', ''preset-social'']"
    by code_simp
  moreover have "''preset-ai'' \<notin> set wired_switches" by code_simp
  ultimately show ?thesis
    by (auto simp: flip_switch_def exec_upd checked_of_def has_el_def split: option.split)
qed
end
