(* ===== verification/Modals.thy ===== *)
theory Modals
  imports Js_Prelude
begin

text \<open>
  The behaviour of the static modals (app.js, MODAL_IDS to initModalA11y): which modal is on
  top, what Escape, Tab and a press on the backdrop do, and where the focus goes when a modal
  opens and closes.

  The document is a parameter, a tree of elements; what a script changes in it, the class
  hidden, the disabled controls and the focus, is the state. What a click on a control does is a
  parameter too. A Tab that the script lets through is the browser's: it goes to the next element
  of the document order that can have the focus.
\<close>

section \<open>Documents\<close>

text \<open>
  The name of an element is its id, and for one without an id a name that tells it apart. The
  kinds are those of the selector: controls (which can be disabled), hidden inputs, links,
  other elements the browser stops at because of their tabindex, and the rest.
\<close>

datatype kind = Plain | Control | HiddenInput | Link | TabStop

record node =
  nd_name :: string
  nd_kind :: kind
  nd_close :: "string option"
  nd_popover :: bool

datatype tree = El node "tree list"

fun node_of :: "tree \<Rightarrow> node" where "node_of (El n ts) = n"

fun child_list :: "tree \<Rightarrow> tree list" where "child_list (El n ts) = ts"

definition name_of :: "tree \<Rightarrow> string" where "name_of t = nd_name (node_of t)"

text \<open>The elements of a tree in document order, and with each whether it is displayed.\<close>

fun subtrees :: "tree \<Rightarrow> tree list" where
  "subtrees (El n ts) = El n ts # concat (map subtrees ts)"

fun marked :: "(string \<Rightarrow> bool) \<Rightarrow> bool \<Rightarrow> tree \<Rightarrow> (node \<times> bool) list" where
  "marked hid v (El n ts) =
     (n, v \<and> \<not> hid (nd_name n)) # concat (map (marked hid (v \<and> \<not> hid (nd_name n))) ts)"

definition getElementById :: "tree \<Rightarrow> string \<Rightarrow> tree option" where
  "getElementById doc i = (if i = '''' then None else find (\<lambda>t. name_of t = i) (subtrees doc))"

definition descendants :: "tree \<Rightarrow> tree list" where
  "descendants t = tl (subtrees t)"

definition contains :: "tree \<Rightarrow> string \<Rightarrow> bool" where
  "contains t a \<longleftrightarrow> a \<in> name_of ` set (subtrees t)"

section \<open>State\<close>

text \<open>The focused element is a name, the empty one when nothing of the page has the focus.\<close>

record mstate =
  ms_hidden :: "string \<Rightarrow> bool"
  ms_disabled :: "string \<Rightarrow> bool"
  ms_active :: string
  ms_dialog :: bool
  ms_was_open :: "string \<Rightarrow> bool"
  ms_return :: "string \<rightharpoonup> string"

type_synonym clicks = "string \<Rightarrow> mstate \<Rightarrow> mstate"

datatype key = KEscape | KTab | KOther

record keypress =
  kp_key :: key
  kp_shift :: bool
  kp_prevented :: bool

section \<open>The code\<close>

definition MODAL_IDS :: "string list" where
  "MODAL_IDS = [''login-modal'', ''change-pwd-modal'', ''diagnostics-modal'', ''edit-client-modal'',
     ''add-client-modal'', ''client-created-modal'', ''custom-policy-modal'']"

definition isShown :: "mstate \<Rightarrow> tree option \<Rightarrow> bool" where
  "isShown s el = (case el of None \<Rightarrow> False | Some t \<Rightarrow> \<not> ms_hidden s (name_of t))"

definition topmostOpenModal :: "tree \<Rightarrow> mstate \<Rightarrow> tree option" where
  "topmostOpenModal doc s =
     foldl (\<lambda>found i. if isShown s (getElementById doc i) then getElementById doc i else found) None MODAL_IDS"

definition modalPanel :: "tree \<Rightarrow> tree" where
  "modalPanel m = (case child_list m of [] \<Rightarrow> m | c # _ \<Rightarrow> c)"

definition modalCloseControl :: "tree \<Rightarrow> mstate \<Rightarrow> tree \<Rightarrow> tree option" where
  "modalCloseControl doc s m =
     (case nd_close (node_of m) of None \<Rightarrow> None
      | Some i \<Rightarrow> if isShown s (getElementById doc i) then getElementById doc i else None)"

text \<open>\<open>offsetParent !== null\<close>: neither the element nor one around it is hidden.\<close>

definition displayed :: "tree \<Rightarrow> mstate \<Rightarrow> node \<Rightarrow> bool" where
  "displayed doc s n \<longleftrightarrow> (n, True) \<in> set (marked (ms_hidden s) True doc)"

definition MODAL_FOCUSABLE :: "mstate \<Rightarrow> node \<Rightarrow> bool" where
  "MODAL_FOCUSABLE s n =
     (case nd_kind n of Control \<Rightarrow> \<not> ms_disabled s (nd_name n) | Link \<Rightarrow> True | _ \<Rightarrow> False)"

definition modalFocusables :: "tree \<Rightarrow> mstate \<Rightarrow> tree \<Rightarrow> string list" where
  "modalFocusables doc s panel =
     map nd_name (filter (displayed doc s) (filter (MODAL_FOCUSABLE s) (map node_of (descendants panel))))"

fun closeFirst :: "mstate \<Rightarrow> tree list \<Rightarrow> mstate option" where
  "closeFirst s [] = None"
| "closeFirst s (p # ps) =
     (if isShown s (Some p) then Some (s\<lparr>ms_hidden := (ms_hidden s)(name_of p := True)\<rparr>) else closeFirst s ps)"

definition popovers :: "tree \<Rightarrow> tree list" where
  "popovers m = filter (\<lambda>t. nd_popover (node_of t)) (descendants m)"

definition closeNestedPopover :: "mstate \<Rightarrow> tree \<Rightarrow> mstate option" where
  "closeNestedPopover s m = closeFirst s (popovers m)"

text \<open>The results are the new state and whether the default action is prevented.\<close>

definition onEscape :: "tree \<Rightarrow> clicks \<Rightarrow> mstate \<Rightarrow> tree \<Rightarrow> mstate \<times> bool" where
  "onEscape doc click s m =
     (case closeNestedPopover s m of Some s' \<Rightarrow> (s', True)
      | None \<Rightarrow> (case modalCloseControl doc s m of None \<Rightarrow> (s, False)
                 | Some b \<Rightarrow> (click (name_of b) s, True)))"

definition onTab :: "tree \<Rightarrow> mstate \<Rightarrow> tree \<Rightarrow> bool \<Rightarrow> mstate \<times> bool" where
  "onTab doc s m shift =
     (let panel = modalPanel m; fs = modalFocusables doc s panel in
      if fs = [] then (s, False)
      else let inside = contains panel (ms_active s) in
        if shift \<and> (\<not> inside \<or> ms_active s = hd fs) then (s\<lparr>ms_active := last fs\<rparr>, True)
        else if \<not> shift \<and> (\<not> inside \<or> ms_active s = last fs) then (s\<lparr>ms_active := hd fs\<rparr>, True)
        else (s, False))"

definition onKeydown :: "tree \<Rightarrow> clicks \<Rightarrow> keypress \<Rightarrow> mstate \<Rightarrow> mstate \<times> bool" where
  "onKeydown doc click e s =
     (if kp_prevented e then (s, True)
      else if kp_key e = KOther then (s, False)
      else if ms_dialog s then (s, False)
      else case topmostOpenModal doc s of
             None \<Rightarrow> (s, False)
           | Some m \<Rightarrow> if kp_key e = KEscape then onEscape doc click s m
                      else onTab doc s m (kp_shift e))"

definition onMousedown :: "tree \<Rightarrow> clicks \<Rightarrow> string \<Rightarrow> mstate \<Rightarrow> mstate" where
  "onMousedown doc click target s =
     (case getElementById doc target of None \<Rightarrow> s
      | Some m \<Rightarrow>
          if target \<notin> set MODAL_IDS \<or> \<not> isShown s (Some m) then s
          else (case modalCloseControl doc s m of None \<Rightarrow> s | Some b \<Rightarrow> click (name_of b) s))"


section \<open>The browser's Tab\<close>

text \<open>
  The stops of the document are the displayed elements that can have the focus, in document
  order. Past the last one, and from an element that is no stop, the focus leaves the page.
\<close>

definition tab_order :: "tree \<Rightarrow> mstate \<Rightarrow> string list" where
  "tab_order doc s =
     map (nd_name \<circ> fst) (filter (\<lambda>(n, v). v \<and> (MODAL_FOCUSABLE s n \<or> nd_kind n = TabStop))
       (marked (ms_hidden s) True doc))"

definition follower :: "string list \<Rightarrow> string \<Rightarrow> string" where
  "follower xs a = (case dropWhile (\<lambda>x. x \<noteq> a) xs of _ # y # _ \<Rightarrow> y | _ \<Rightarrow> '''')"

definition browser_tab :: "tree \<Rightarrow> bool \<Rightarrow> mstate \<Rightarrow> mstate" where
  "browser_tab doc shift s =
     s\<lparr>ms_active := follower (if shift then rev (tab_order doc s) else tab_order doc s) (ms_active s)\<rparr>"

definition press_key :: "tree \<Rightarrow> clicks \<Rightarrow> keypress \<Rightarrow> mstate \<Rightarrow> mstate" where
  "press_key doc click e s =
     (let (s', prevented) = onKeydown doc click e s in
      if prevented \<or> kp_key e \<noteq> KTab then s' else browser_tab doc (kp_shift e) s')"

datatype input = Key keypress | Press string

fun on_input :: "tree \<Rightarrow> clicks \<Rightarrow> input \<Rightarrow> mstate \<Rightarrow> mstate" where
  "on_input doc click (Key e) s = press_key doc click e s"
| "on_input doc click (Press target) s = onMousedown doc click target s"

section \<open>Trees\<close>

lemma subtrees_self [simp]: "t \<in> set (subtrees t)"
  by (cases t) simp

lemma subtrees_Cons: "subtrees t = t # descendants t"
  by (cases t) (simp add: descendants_def)

lemma subtrees_child: "c \<in> set (child_list t) \<Longrightarrow> c \<in> set (subtrees t)"
  by (cases t) (auto intro: subtrees_self)

lemma subtrees_trans: "t \<in> set (subtrees doc) \<Longrightarrow> set (subtrees t) \<subseteq> set (subtrees doc)"
proof (induction doc)
  case (El n ts)
  then show ?case by auto
qed

lemma panel_in: "m \<in> set (subtrees doc) \<Longrightarrow> modalPanel m \<in> set (subtrees doc)"
proof -
  assume m: "m \<in> set (subtrees doc)"
  have "modalPanel m \<in> set (subtrees m)"
    by (cases "child_list m") (auto simp: modalPanel_def intro: subtrees_child)
  then show ?thesis using subtrees_trans[OF m] by blast
qed

lemma marked_nodes: "map fst (marked hid v t) = map node_of (subtrees t)"
proof (induction t arbitrary: v)
  case (El n ts)
  have "map fst (concat (map (marked hid w) ts)) = map node_of (concat (map subtrees ts))" for w
    using El.IH by (induction ts) simp_all
  then show ?case by simp
qed

text \<open>The elements of a subtree stand together in the document order.\<close>

lemma marked_subtree:
  "t \<in> set (subtrees doc) \<Longrightarrow> \<exists>xs v ys. marked hid w doc = xs @ marked hid v t @ ys"
proof (induction doc arbitrary: w)
  case (El n ts)
  show ?case
  proof (cases "t = El n ts")
    case True
    have "marked hid w (El n ts) = [] @ marked hid w t @ []" by (simp only: True append_Nil append_Nil2)
    then show ?thesis by blast
  next
    case False
    then obtain c where c: "c \<in> set ts" "t \<in> set (subtrees c)" using El.prems by auto
    let ?w = "w \<and> \<not> hid (nd_name n)"
    obtain as bs where ts: "ts = as @ c # bs" using c(1) by (meson split_list)
    obtain xs v ys where "marked hid ?w c = xs @ marked hid v t @ ys" using El.IH[OF c] by blast
    then have "marked hid w (El n ts) =
        ((n, ?w) # concat (map (marked hid ?w) as) @ xs) @ marked hid v t @ (ys @ concat (map (marked hid ?w) bs))"
      by (simp add: ts)
    then show ?thesis by blast
  qed
qed

lemma getElement_Some: "getElementById doc i = Some t \<Longrightarrow> t \<in> set (subtrees doc) \<and> name_of t = i"
  by (auto simp: getElementById_def find_Some_iff split: if_splits)

lemma topmost_modal:
  assumes "topmostOpenModal doc s = Some m"
  shows "m \<in> set (subtrees doc)" "name_of m \<in> set MODAL_IDS" "getElementById doc (name_of m) = Some m"
    "\<not> ms_hidden s (name_of m)"
proof -
  have "foldl (\<lambda>found i. if isShown s (f i) then f i else found) a xs = Some m \<Longrightarrow>
      a = Some m \<or> (\<exists>i\<in>set xs. f i = Some m \<and> isShown s (Some m))" for f :: "string \<Rightarrow> tree option" and a xs
    by (induction xs arbitrary: a) (fastforce split: if_splits)+
  then obtain i where i: "i \<in> set MODAL_IDS" "getElementById doc i = Some m" "isShown s (Some m)"
    using assms unfolding topmostOpenModal_def by blast
  then show "m \<in> set (subtrees doc)" "name_of m \<in> set MODAL_IDS" "getElementById doc (name_of m) = Some m"
    "\<not> ms_hidden s (name_of m)"
    using getElement_Some[OF i(2)] by (simp_all add: isShown_def)
qed

lemma topmost_hidden: "ms_hidden s' = ms_hidden s \<Longrightarrow> topmostOpenModal doc s' = topmostOpenModal doc s"
  by (simp add: topmostOpenModal_def isShown_def cong: option.case_cong)

lemma closeFirst_None: "closeFirst s ps = None \<longleftrightarrow> list_all (\<lambda>p. ms_hidden s (name_of p)) ps"
  by (induction ps) (auto simp: isShown_def)

section \<open>Dismissing a modal\<close>

text \<open>A modal offers its close control when the one it declares is in the document and not hidden.\<close>

definition offers_close :: "tree \<Rightarrow> mstate \<Rightarrow> tree \<Rightarrow> string \<Rightarrow> bool" where
  "offers_close doc s m i \<longleftrightarrow> nd_close (node_of m) = Some i \<and> i \<noteq> '''' \<and>
     (\<exists>t \<in> set (subtrees doc). name_of t = i) \<and> \<not> ms_hidden s i"

lemma close_offered:
  assumes "offers_close doc s m i"
  shows "\<exists>b. modalCloseControl doc s m = Some b \<and> name_of b = i"
proof -
  obtain t where i: "nd_close (node_of m) = Some i" "i \<noteq> ''''" "t \<in> set (subtrees doc)" "name_of t = i"
    "\<not> ms_hidden s i"
    using assms by (auto simp: offers_close_def)
  then obtain b where "getElementById doc i = Some b"
    by (cases "getElementById doc i") (auto simp: getElementById_def find_None_iff)
  then show ?thesis using getElement_Some[of doc i b] i(1,5) by (simp add: modalCloseControl_def isShown_def)
qed

lemma close_control: "modalCloseControl doc s m = None \<longleftrightarrow> (\<forall>i. \<not> offers_close doc s m i)"
proof -
  have "\<exists>i. offers_close doc s m i" if b: "modalCloseControl doc s m = Some b" for b
  proof -
    obtain i where i: "nd_close (node_of m) = Some i" "getElementById doc i = Some b" "isShown s (Some b)"
      using b by (auto simp: modalCloseControl_def split: option.splits if_splits)
    then have "i \<noteq> ''''" "b \<in> set (subtrees doc)" "name_of b = i"
      using getElement_Some[OF i(2)] by (auto simp: getElementById_def)
    then show ?thesis using i by (auto simp: offers_close_def isShown_def)
  qed
  then show ?thesis using close_offered[of doc s m] by (cases "modalCloseControl doc s m") auto
qed

definition off_modals :: "tree \<Rightarrow> input \<Rightarrow> bool" where
  "off_modals m e = (case e of Key k \<Rightarrow> True | Press target \<Rightarrow> target \<notin> set MODAL_IDS - {name_of m})"

definition gated :: "tree \<Rightarrow> tree \<Rightarrow> mstate \<Rightarrow> bool" where
  "gated doc m s \<longleftrightarrow> topmostOpenModal doc s = Some m \<and> (\<forall>i. \<not> offers_close doc s m i) \<and>
     (\<forall>p \<in> set (popovers m). ms_hidden s (name_of p))"

lemma gated_input:
  assumes "gated doc m s" "off_modals m e"
  shows "ms_hidden (on_input doc click e s) = ms_hidden s"
proof -
  have t: "topmostOpenModal doc s = Some m" and c: "modalCloseControl doc s m = None"
    and p: "closeNestedPopover s m = None"
    using assms(1) by (auto simp: gated_def close_control closeNestedPopover_def closeFirst_None list_all_iff)
  show ?thesis
  proof (cases e)
    case (Key k)
    have "ms_hidden (fst (onKeydown doc click k s)) = ms_hidden s"
      using t c p by (auto simp: onKeydown_def onEscape_def onTab_def Let_def)
    then show ?thesis by (cases "onKeydown doc click k s") (simp add: Key press_key_def browser_tab_def)
  next
    case (Press target)
    then have "target \<in> set MODAL_IDS \<Longrightarrow> target = name_of m" using assms(2) by (simp add: off_modals_def)
    then show ?thesis
      using topmost_modal(3)[OF t] c by (auto simp: Press onMousedown_def split: option.split)
  qed
qed

lemma gated_inputs:
  assumes "gated doc m s" "list_all (off_modals m) es"
  shows "ms_hidden (fold (on_input doc click) es s) = ms_hidden s \<and> gated doc m (fold (on_input doc click) es s)"
  using assms
proof (induction es arbitrary: s)
  case (Cons e es)
  let ?s = "on_input doc click e s"
  have h: "ms_hidden ?s = ms_hidden s" using gated_input Cons.prems by simp
  then have "gated doc m ?s"
    using Cons.prems(1) topmost_hidden[OF h] by (simp add: gated_def offers_close_def)
  then show ?case using Cons.IH[of ?s] Cons.prems(2) h by simp
qed simp

text \<open>
  C36. A modal that does not offer its close control cannot be dismissed, and one that does is
  dismissed by that control alone. With the topmost modal's declared control missing from
  the document or hidden, or none declared, and no popover of it open, no sequence of key presses
  and of presses on its backdrop or elsewhere outside the modals changes what is hidden; where
  the control is offered, Escape and a press on the backdrop each are one click on it.
\<close>

theorem gate_not_dismissible:
  assumes "topmostOpenModal doc s = Some m" "list_all (\<lambda>p. ms_hidden s (name_of p)) (popovers m)"
  shows "((\<forall>i. \<not> offers_close doc s m i) \<longrightarrow> list_all (off_modals m) es \<longrightarrow>
      ms_hidden (fold (on_input doc click) es s) = ms_hidden s \<and>
      topmostOpenModal doc (fold (on_input doc click) es s) = Some m) \<and>
    (\<forall>i. offers_close doc s m i \<longrightarrow>
      on_input doc click (Press (name_of m)) s = click i s \<and>
      (\<not> ms_dialog s \<longrightarrow>
        on_input doc click (Key \<lparr>kp_key = KEscape, kp_shift = sh, kp_prevented = False\<rparr>) s = click i s))"
proof -
  have "ms_hidden (fold (on_input doc click) es s) = ms_hidden s \<and>
      topmostOpenModal doc (fold (on_input doc click) es s) = Some m"
    if "\<forall>i. \<not> offers_close doc s m i" "list_all (off_modals m) es"
    using gated_inputs[of doc m s es click] assms that by (simp add: gated_def list_all_iff)
  moreover have "on_input doc click (Press (name_of m)) s = click i s \<and>
      (\<not> ms_dialog s \<longrightarrow>
        on_input doc click (Key \<lparr>kp_key = KEscape, kp_shift = sh, kp_prevented = False\<rparr>) s = click i s)"
    if o: "offers_close doc s m i" for i
  proof -
    obtain b where "modalCloseControl doc s m = Some b" "name_of b = i" using close_offered[OF o] by blast
    moreover have "closeNestedPopover s m = None" using assms(2) by (simp add: closeNestedPopover_def closeFirst_None)
    ultimately show ?thesis
      using topmost_modal[OF assms(1)] assms(1)
      by (simp add: onMousedown_def press_key_def onKeydown_def onEscape_def isShown_def)
  qed
  ultimately show ?thesis by blast
qed

section \<open>Sample documents\<close>

definition el :: "string \<Rightarrow> kind \<Rightarrow> tree list \<Rightarrow> tree" where
  "el i k ts = El \<lparr>nd_name = i, nd_kind = k, nd_close = None, nd_popover = False\<rparr> ts"

definition pwd_modal :: tree where
  "pwd_modal = El \<lparr>nd_name = ''change-pwd-modal'', nd_kind = Plain, nd_close = Some ''change-pwd-cancel'', nd_popover = False\<rparr>
     [el ''change-pwd-panel'' Plain [el ''current-admin-pass'' Control [], el ''new-admin-pass'' Control [],
        el ''change-pwd-buttons'' Plain [el ''change-pwd-cancel'' Control [], el ''change-pwd-save'' Control []]]]"

definition sample_doc :: tree where
  "sample_doc = el ''body'' Plain [el ''open-settings'' Control [], pwd_modal, el ''guide-win-ip'' TabStop []]"

text \<open>The forced mode: the dialog is open and its cancel button is hidden.\<close>

definition forced :: "string \<Rightarrow> mstate" where
  "forced a = \<lparr>ms_hidden = (\<lambda>i. i = ''change-pwd-cancel''), ms_disabled = (\<lambda>i. False),
     ms_active = a, ms_dialog = False, ms_was_open = (\<lambda>i. False), ms_return = Map.empty\<rparr>"

lemma forced_top: "topmostOpenModal sample_doc (forced a) = Some pwd_modal"
  by code_simp

theorem gate_not_dismissible_witness:
  "ms_hidden (fold (on_input sample_doc (\<lambda>b s. s\<lparr>ms_hidden := (\<lambda>i. True)\<rparr>))
     [Key \<lparr>kp_key = KEscape, kp_shift = False, kp_prevented = False\<rparr>, Press ''change-pwd-modal'']
     (forced ''new-admin-pass'')) = (\<lambda>i. i = ''change-pwd-cancel'')"
proof -
  have p: "list_all (\<lambda>p. ms_hidden (forced ''new-admin-pass'') (name_of p)) (popovers pwd_modal)"
    by (simp add: popovers_def descendants_def pwd_modal_def el_def)
  have o: "\<not> offers_close sample_doc (forced ''new-admin-pass'') pwd_modal i" for i
    by (simp add: offers_close_def pwd_modal_def forced_def)
  have m: "list_all (off_modals pwd_modal)
      [Key \<lparr>kp_key = KEscape, kp_shift = False, kp_prevented = False\<rparr>, Press ''change-pwd-modal'']"
    by (simp add: off_modals_def pwd_modal_def name_of_def)
  have "ms_hidden (forced ''new-admin-pass'') = (\<lambda>i. i = ''change-pwd-cancel'')" by (simp add: forced_def)
  then show ?thesis
    using conjunct1[OF gate_not_dismissible[OF forced_top p]] o m by metis
qed

section \<open>The Tab trap\<close>

lemma part_filter:
  assumes "distinct (map fst rows)" "set part \<subseteq> set rows"
  shows "filter (\<lambda>n. (n, True) \<in> set rows) (map fst part) = map fst (filter snd part)"
proof -
  have "(n, True) \<in> set rows \<longleftrightarrow> b" if "(n, b) \<in> set part" for n b
    using that assms eq_key_imp_eq_value[OF assms(1), of n b True] by (cases b) auto
  then show ?thesis by (auto simp: filter_map intro!: arg_cong[of _ _ "map fst"] filter_cong)
qed

text \<open>The elements the browser stops at in a panel.\<close>

definition panel_stops :: "tree \<Rightarrow> mstate \<Rightarrow> tree \<Rightarrow> string list" where
  "panel_stops doc s panel = filter (contains panel) (tab_order doc s)"

definition plain_panel :: "tree \<Rightarrow> bool" where
  "plain_panel panel \<longleftrightarrow> nd_kind (node_of panel) = Plain \<and>
     list_all (\<lambda>t. nd_kind (node_of t) \<noteq> TabStop) (descendants panel)"

definition distinct_names :: "tree \<Rightarrow> bool" where
  "distinct_names doc \<longleftrightarrow> distinct (map name_of (subtrees doc))"

lemma names_nodes: "map name_of ts = map nd_name (map node_of ts)"
  by (simp add: name_of_def)

lemma distinct_outer: "distinct (xs @ ys @ zs) \<Longrightarrow> a \<in> set xs \<union> set zs \<Longrightarrow> a \<notin> set ys"
  by auto

lemma stops_of_panel:
  assumes "distinct_names doc" "panel \<in> set (subtrees doc)" "plain_panel panel"
  shows "\<exists>as bs. tab_order doc s = as @ modalFocusables doc s panel @ bs"
    "panel_stops doc s panel = modalFocusables doc s panel" "distinct (tab_order doc s)"
proof -
  let ?hid = "ms_hidden s" and ?rows = "marked (ms_hidden s) True doc"
  let ?stop = "\<lambda>(n, v). v \<and> (MODAL_FOCUSABLE s n \<or> nd_kind n = TabStop)"
  let ?names = "\<lambda>rs. map (nd_name \<circ> fst) (filter ?stop rs)"
  obtain xs v ys where rows: "?rows = xs @ marked ?hid v panel @ ys"
    using marked_subtree[OF assms(2)] by blast
  have nm: "map nd_name (map fst ?rows) = map name_of (subtrees doc)"
    unfolding marked_nodes names_nodes ..
  then have dn: "distinct (map nd_name (map fst ?rows))" using assms(1) by (simp only: distinct_names_def)
  then have d: "distinct (map fst ?rows)" by (metis distinct_map)
  obtain b rest where part: "marked ?hid v panel = (node_of panel, b) # rest"
    by (cases panel) simp
  have rest: "map fst rest = map node_of (descendants panel)"
    using marked_nodes[of ?hid v panel] part subtrees_Cons[of panel] by simp
  have kinds: "nd_kind n \<noteq> TabStop" if "(n, b) \<in> set rest" for n b
  proof -
    have "n \<in> set (map fst rest)" using that by force
    then show ?thesis using assms(3) unfolding rest plain_panel_def list_all_iff by auto
  qed
  have "filter ?stop (marked ?hid v panel) = filter (\<lambda>(n, v). v \<and> MODAL_FOCUSABLE s n) rest"
    using assms(3) by (auto simp: part plain_panel_def MODAL_FOCUSABLE_def dest: kinds intro!: filter_cong)
  also have "\<dots> = filter snd (filter (MODAL_FOCUSABLE s \<circ> fst) rest)"
    by (auto intro!: filter_cong)
  finally have "?names (marked ?hid v panel) =
      map nd_name (map fst (filter snd (filter (MODAL_FOCUSABLE s \<circ> fst) rest)))" by simp
  also have "\<dots> = modalFocusables doc s panel"
    using part_filter[OF d, of "filter (MODAL_FOCUSABLE s \<circ> fst) rest"]
    by (simp add: modalFocusables_def rest[symmetric] displayed_def filter_map rows part subset_iff)
  finally have mid: "?names (marked ?hid v panel) = modalFocusables doc s panel" .
  have order: "tab_order doc s = ?names xs @ modalFocusables doc s panel @ ?names ys"
    by (simp add: tab_order_def rows mid)
  then show "\<exists>as bs. tab_order doc s = as @ modalFocusables doc s panel @ bs" by blast
  show dt: "distinct (tab_order doc s)"
    using dn unfolding tab_order_def by (simp add: distinct_map_filter)
  have "contains panel a \<longleftrightarrow> a \<in> set (map nd_name (map fst (marked ?hid v panel)))" for a
    unfolding marked_nodes by (auto simp: contains_def name_of_def)
  then have inside: "contains panel a \<longleftrightarrow> a \<in> set (map nd_name (map fst (marked ?hid v panel)))" for a .
  have dr: "distinct (map nd_name (map fst xs) @ map nd_name (map fst (marked ?hid v panel)) @ map nd_name (map fst ys))"
    using dn by (simp only: rows map_append)
  have out: "\<not> contains panel a" if "a \<in> set (map nd_name (map fst xs)) \<union> set (map nd_name (map fst ys))" for a
    unfolding inside by (rule distinct_outer[OF dr that])
  have "\<not> contains panel a" if "a \<in> set (?names xs) \<union> set (?names ys)" for a
    using that by (intro out) auto
  then have "filter (contains panel) (?names xs) = []" "filter (contains panel) (?names ys) = []"
    unfolding filter_empty_conv by blast+
  moreover have "contains panel a" if "a \<in> set (?names (marked ?hid v panel))" for a
    using that unfolding inside by auto
  then have "filter (contains panel) (modalFocusables doc s panel) = modalFocusables doc s panel"
    unfolding mid[symmetric] by (intro filter_True) blast
  ultimately show "panel_stops doc s panel = modalFocusables doc s panel"
    by (simp add: panel_stops_def order)
qed

lemma follower_nth:
  assumes "distinct xs" "Suc i < length xs"
  shows "follower xs (xs ! i) = xs ! Suc i"
proof -
  have x: "xs = take i xs @ xs ! i # drop (Suc i) xs" using assms(2) by (simp add: id_take_nth_drop)
  then have "xs ! i \<notin> set (take i xs)"
    using assms(1) by (metis disjoint_iff distinct_append list.set_intros(1))
  then have "dropWhile (\<lambda>x. x \<noteq> xs ! i) (take i xs @ xs ! i # drop (Suc i) xs) =
      dropWhile (\<lambda>x. x \<noteq> xs ! i) (xs ! i # drop (Suc i) xs)"
    by (intro dropWhile_append2) metis
  then have "dropWhile (\<lambda>x. x \<noteq> xs ! i) xs = xs ! i # drop (Suc i) xs" unfolding x[symmetric] by simp
  moreover have "drop (Suc i) xs = xs ! Suc i # drop (Suc (Suc i)) xs"
    using assms(2) by (simp add: Cons_nth_drop_Suc)
  ultimately show ?thesis by (simp add: follower_def)
qed

lemma follower_mid:
  assumes "distinct (as @ fs @ bs)" "Suc k < length fs"
  shows "follower (as @ fs @ bs) (fs ! k) = fs ! Suc k"
proof -
  have "(as @ fs @ bs) ! (length as + k) = fs ! k" "(as @ fs @ bs) ! Suc (length as + k) = fs ! Suc k"
    using assms(2) by (simp_all add: nth_append)
  then show ?thesis using follower_nth[OF assms(1), of "length as + k"] assms(2) by simp
qed

definition tab_key :: "bool \<Rightarrow> keypress" where
  "tab_key shift = \<lparr>kp_key = KTab, kp_shift = shift, kp_prevented = False\<rparr>"

definition trapped :: "tree \<Rightarrow> tree \<Rightarrow> mstate \<Rightarrow> bool" where
  "trapped doc m s \<longleftrightarrow> distinct_names doc \<and> topmostOpenModal doc s = Some m \<and> \<not> ms_dialog s \<and>
     plain_panel (modalPanel m)"

definition turn :: "bool \<Rightarrow> int" where
  "turn shift = (if shift then - 1 else 1)"

lemma tab_press:
  assumes "trapped doc m s" "fs = panel_stops doc s (modalPanel m)"
  shows "k < length fs \<Longrightarrow> ms_active s = fs ! k \<Longrightarrow>
      press_key doc click (tab_key sh) s =
      s\<lparr>ms_active := fs ! nat ((int k + turn sh) mod int (length fs))\<rparr>"
    "fs \<noteq> [] \<Longrightarrow> \<not> contains (modalPanel m) (ms_active s) \<Longrightarrow>
      press_key doc click (tab_key sh) s = s\<lparr>ms_active := (if sh then last fs else hd fs)\<rparr>"
proof -
  let ?p = "modalPanel m"
  have top: "topmostOpenModal doc s = Some m" and nd: "\<not> ms_dialog s" using assms(1) by (simp_all add: trapped_def)
  have p: "distinct_names doc" "?p \<in> set (subtrees doc)" "plain_panel ?p"
    using assms(1) panel_in topmost_modal(1)[OF top] by (simp_all add: trapped_def)
  note st = stops_of_panel[OF p, of s]
  have fs: "modalFocusables doc s ?p = fs" using st(2) assms(2) by simp
  obtain as bs where order: "tab_order doc s = as @ fs @ bs" using st(1) fs by auto
  then have dist: "distinct (as @ fs @ bs)" "distinct fs" using st(3) by simp_all
  have ins: "contains ?p (fs ! k)" if "k < length fs" for k
    using nth_mem[OF that] by (simp add: assms(2) panel_stops_def)
  have tab: "press_key doc click (tab_key sh) s =
      (if fs = [] then browser_tab doc sh s
       else if sh \<and> (\<not> contains ?p (ms_active s) \<or> ms_active s = hd fs) then s\<lparr>ms_active := last fs\<rparr>
       else if \<not> sh \<and> (\<not> contains ?p (ms_active s) \<or> ms_active s = last fs) then s\<lparr>ms_active := hd fs\<rparr>
       else browser_tab doc sh s)"
    using top nd by (simp add: press_key_def tab_key_def onKeydown_def onTab_def Let_def fs)
  show "fs \<noteq> [] \<Longrightarrow> \<not> contains ?p (ms_active s) \<Longrightarrow>
      press_key doc click (tab_key sh) s = s\<lparr>ms_active := (if sh then last fs else hd fs)\<rparr>"
    by (simp add: tab)
  show "press_key doc click (tab_key sh) s = s\<lparr>ms_active := fs ! nat ((int k + turn sh) mod int (length fs))\<rparr>"
    if k: "k < length fs" "ms_active s = fs ! k"
  proof (cases sh)
    case True
    show ?thesis
    proof (cases "k = 0")
      case True
      have "(- 1) mod int (length fs) = int (length fs) - 1" using k(1) by (intro zmod_minus1) linarith
      then have "nat ((- 1) mod int (length fs)) = length fs - 1" by (simp only: nat_minus_as_int)
      then show ?thesis
        using k \<open>sh\<close> True unfolding tab by (auto simp: turn_def hd_conv_nth last_conv_nth)
    next
      case False
      have "hd fs = fs ! 0" using k(1) by (intro hd_conv_nth) auto
      then have "ms_active s \<noteq> hd fs"
        using nth_eq_iff_index_eq[OF dist(2), of k 0] k False by fastforce
      moreover have "follower (rev (tab_order doc s)) (fs ! k) = fs ! (k - 1)"
      proof -
        have "rev fs ! (length fs - 1 - k) = fs ! k" "rev fs ! Suc (length fs - 1 - k) = fs ! (k - 1)"
          using k(1) False by (simp_all add: rev_nth) (simp add: Suc_diff_Suc)
        moreover have "distinct (rev bs @ rev fs @ rev as)" using dist(1) by auto
        moreover have "Suc (length fs - 1 - k) < length (rev fs)" using k(1) False by simp
        ultimately show ?thesis
          using follower_mid[of "rev bs" "rev fs" "rev as" "length fs - 1 - k"] by (simp add: order)
      qed
      moreover have "nat ((int k - 1) mod int (length fs)) = k - 1"
        using k(1) False by (simp add: nat_diff_distrib)
      ultimately show ?thesis using k ins[OF k(1)] \<open>sh\<close> unfolding tab by (auto simp: browser_tab_def turn_def)
    qed
  next
    case False
    show ?thesis
    proof (cases "Suc k = length fs")
      case True
      have "(int k + 1) mod int (length fs) = 0" using True by (metis mod_self of_nat_Suc add.commute)
      moreover have "ms_active s = last fs" using k True by (metis diff_Suc_1 last_conv_nth length_0_conv nat.distinct(1))
      ultimately show ?thesis using k False unfolding tab by (auto simp: turn_def hd_conv_nth)
    next
      case last: False
      have "last fs = fs ! (length fs - 1)" using k(1) by (intro last_conv_nth) auto
      then have "ms_active s \<noteq> last fs"
        using k last dist(2) by (auto simp: nth_eq_iff_index_eq)
      moreover have "follower (tab_order doc s) (fs ! k) = fs ! Suc k"
        using follower_mid[OF dist(1), of k] k(1) last by (simp add: order)
      moreover have "nat ((int k + 1) mod int (length fs)) = Suc k" using k(1) last by simp
      ultimately show ?thesis using k ins[OF k(1)] False unfolding tab by (auto simp: browser_tab_def turn_def)
    qed
  qed
qed

lemma stops_active [simp]:
  "panel_stops doc (s\<lparr>ms_active := a\<rparr>) p = panel_stops doc s p"
  "trapped doc m (s\<lparr>ms_active := a\<rparr>) = trapped doc m s"
proof -
  have m: "MODAL_FOCUSABLE (s\<lparr>ms_active := a\<rparr>) = MODAL_FOCUSABLE s"
    by (simp add: fun_eq_iff MODAL_FOCUSABLE_def split: kind.split)
  show "panel_stops doc (s\<lparr>ms_active := a\<rparr>) p = panel_stops doc s p"
    by (simp add: panel_stops_def tab_order_def m)
  show "trapped doc m (s\<lparr>ms_active := a\<rparr>) = trapped doc m s"
    by (simp add: trapped_def topmost_hidden[of "s\<lparr>ms_active := a\<rparr>" s])
qed

text \<open>
  C37. The Tab trap: with a modal on top and no dialog over it, Tab and Shift+Tab go round the
  elements of its panel the browser can stop at, in document order, whether the script or the
  browser moves the focus. From the k-th of n of them any sequence of presses leads to the one
  k plus the Tabs minus the Shift+Tabs, counted round n; and from anywhere outside the panel
  the first Tab goes to the first and the first Shift+Tab to the last. (In a panel that is no stop
  itself and has no element that is a stop by its tabindex only, as none in the page has.)
\<close>

theorem tab_stays_inside:
  assumes "trapped doc m s" "fs = panel_stops doc s (modalPanel m)"
  shows "(\<forall>k < length fs. ms_active s = fs ! k \<longrightarrow>
      fold (\<lambda>sh. press_key doc click (tab_key sh)) shs s =
      s\<lparr>ms_active := fs ! nat ((int k + sum_list (map turn shs)) mod int (length fs))\<rparr>) \<and>
    (fs \<noteq> [] \<longrightarrow> \<not> contains (modalPanel m) (ms_active s) \<longrightarrow>
      press_key doc click (tab_key sh) s = s\<lparr>ms_active := (if sh then last fs else hd fs)\<rparr>)"
proof -
  have "fold (\<lambda>sh. press_key doc click (tab_key sh)) shs s =
      s\<lparr>ms_active := fs ! nat ((int k + sum_list (map turn shs)) mod int (length fs))\<rparr>"
    if "k < length fs" "ms_active s = fs ! k" for k
    using assms that
  proof (induction shs arbitrary: s k)
    case (Cons sh shs)
    let ?k = "nat ((int k + turn sh) mod int (length fs))"
    let ?s = "s\<lparr>ms_active := fs ! ?k\<rparr>"
    have n: "0 < int (length fs)" using Cons.prems(3) by (cases fs) simp_all
    then have k: "?k < length fs" "int ?k = (int k + turn sh) mod int (length fs)"
      by (simp_all add: nat_less_iff)
    have "(int ?k + x) mod int (length fs) = (int k + (turn sh + x)) mod int (length fs)" for x
      unfolding k(2) by (simp add: mod_add_left_eq add.assoc)
    then show ?case
      using Cons.IH[of ?s ?k] Cons.prems k(1) tab_press(1)[OF Cons.prems] by simp
  qed simp
  then show ?thesis using tab_press(2)[OF assms] by blast
qed

text \<open>In the forced mode three controls are left; the hidden one is passed over.\<close>

lemma forced_stops:
  "panel_stops sample_doc (forced a) (modalPanel pwd_modal) =
     [''current-admin-pass'', ''new-admin-pass'', ''change-pwd-save'']"
  by code_simp

theorem tab_stays_inside_witness:
  "ms_active (fold (\<lambda>sh. press_key sample_doc (\<lambda>b s. s) (tab_key sh)) [False, False]
     (forced ''new-admin-pass'')) = ''current-admin-pass''"
proof -
  have "trapped sample_doc pwd_modal (forced ''new-admin-pass'')"
    unfolding trapped_def forced_top
    by (simp add: forced_def)
      (simp add: distinct_names_def sample_doc_def pwd_modal_def el_def plain_panel_def modalPanel_def descendants_def name_of_def)
  note r = conjunct1[OF tab_stays_inside[OF this forced_stops[symmetric], of "\<lambda>b s. s" "[False, False]"],
      rule_format, of 1]
  have "ms_active (forced ''new-admin-pass'') = [''current-admin-pass'', ''new-admin-pass'', ''change-pwd-save''] ! 1"
    by (simp add: forced_def)
  from r[OF _ this] show ?thesis by (simp add: turn_def)
qed

section \<open>Focus in, focus back\<close>







text \<open>An open popover of the modal takes Escape, and nothing else is hidden or clicked.\<close>

lemma escape_popover_first:
  assumes "topmostOpenModal doc s = Some m" "\<not> ms_dialog s" "p \<in> set (popovers m)" "\<not> ms_hidden s (name_of p)"
  shows "\<exists>q \<in> set (popovers m). \<not> ms_hidden s (name_of q) \<and>
    onKeydown doc click \<lparr>kp_key = KEscape, kp_shift = sh, kp_prevented = False\<rparr> s =
      (s\<lparr>ms_hidden := (ms_hidden s)(name_of q := True)\<rparr>, True)"
proof -
  have "\<exists>q \<in> set ps. \<not> ms_hidden s (name_of q) \<and>
      closeFirst s ps = Some (s\<lparr>ms_hidden := (ms_hidden s)(name_of q := True)\<rparr>)"
    if "p \<in> set ps" for ps
    using that assms(4) by (induction ps) (auto simp: isShown_def)
  from this[OF assms(3)] show ?thesis
    using assms(1,2) by (auto simp: onKeydown_def onEscape_def closeNestedPopover_def)
qed

end
