(* ===== verification/Session.thy ===== *)
theory Session
  imports Config_Rules
begin

text \<open>
  Signing in and out (app.js) and the two panels that end a session (modules/twofa.js): where
  the token is kept, what the boot sequence loads and when the login dialog comes back, the
  credential change, the second factor and the LDAP settings.

  An async function called without await is cut in two at its first await: \<open>loadConfig_start\<close>
  and \<open>loadConfig_rest\<close>, \<open>bootDashboard_start\<close> and \<open>bootDashboard_rest\<close>. What bootDashboard
  starts once the configuration is there belongs to the other theories and is the task
  \<open>TPanels\<close>.
\<close>

section \<open>The token store\<close>

definition stored :: "(string \<rightharpoonup> string) \<Rightarrow> string \<Rightarrow> string" where
  "stored st k = (case st k of None \<Rightarrow> '''' | Some v \<Rightarrow> v)"

definition initial_token :: "(string \<rightharpoonup> string) \<Rightarrow> string" where
  "initial_token st =
     (if stored st ''jozmozdns_token'' \<noteq> '''' then stored st ''jozmozdns_token''
      else stored st ''JozmozDNS_token'')"

text \<open>The script's variables when the page is loaded again.\<close>

definition page_load :: "dash \<Rightarrow> dash" where
  "page_load w = w\<lparr>authToken := initial_token (storage w), currentConfig := JNull,
     currentCustomPolicies := [], clientsDataCache := JNull, isAPIKeyMasked := True,
     listenersAttached := False\<rparr>"

definition keep_token :: "jsval \<Rightarrow> unit page" where
  "keep_token tk = do {
     setToken (if truthy tk then js_string tk else '''');
     setItem ''jozmozdns_token'' (js_string tk);
     setItem ''JozmozDNS_token'' (js_string tk) }"

section \<open>Dialogs\<close>

definition showLoginModal :: "unit page" where
  "showLoginModal = set_hidden ''login-modal'' False"

definition hideLoginModal :: "unit page" where
  "hideLoginModal = set_hidden ''login-modal'' True"

definition live_user :: "dash \<Rightarrow> jsval" where
  "live_user w = jget (cfg_server (currentConfig w)) ''admin_username''"

definition pwd_modal_texts :: "bool \<Rightarrow> unit page" where
  "pwd_modal_texts forced =
     (if forced then do {
        set_text ''change-pwd-title'' ''Security Setup'';
        set_text ''change-pwd-badge'' ''WEAK ADMIN PASSWORD DETECTED'';
        set_text ''change-pwd-intro'' (''This account is still on a password that fails the current policy. '' @
          ''Anyone who can reach this dashboard may be able to log in with it. '' @
          ''Set a new administrator password now:'');
        set_hidden ''change-pwd-cancel'' True;
        upd ''new-admin-pass'' (\<lambda>e. e\<lparr>el_required := True,
          el_placeholder := ''At least 10 characters''\<rparr>) }
      else do {
        set_text ''change-pwd-title'' ''Administrator Credentials'';
        set_text ''change-pwd-badge'' ''ROTATE YOUR DASHBOARD LOGIN'';
        set_text ''change-pwd-intro'' (''Confirm with your current password. Saving a new password signs out '' @
          ''every session, including this browser, and issues you a fresh one. '' @
          ''Leave the password blank to change only the username.'');
        set_hidden ''change-pwd-cancel'' False;
        upd ''new-admin-pass'' (\<lambda>e. e\<lparr>el_required := False,
          el_placeholder := ''Leave blank to keep the current password''\<rparr>) })"

definition showChangePwdModal :: "bool \<Rightarrow> unit page" where
  "showChangePwdModal forced = do {
     w \<leftarrow> State_Monad.get;
     if \<not> has_el w ''change-pwd-modal'' then ret ()
     else do {
       pwd_modal_texts forced;
       upd ''change-pwd-icon'' (\<lambda>e. e\<lparr>el_icon := (if forced then ''alert-triangle'' else ''user-check'')\<rparr>);
       set_value ''new-admin-user''
         (js_string (js_or (live_user w) (js_or (JStr (value_of w ''new-admin-user'')) (JStr ''admin''))));
       set_hidden ''change-pwd-modal'' False;
       focus ''current-admin-pass'' } }"

definition hideChangePwdModal :: "unit page" where
  "hideChangePwdModal = do {
     set_hidden ''change-pwd-modal'' True;
     set_value ''current-admin-pass'' '''';
     set_value ''new-admin-pass'' '''' }"

section \<open>Loading the configuration\<close>

abbreviation toast_error :: "string \<Rightarrow> unit page" where
  "toast_error m \<equiv> toast_msg m ''error''"

definition load_failed :: "bool page" where
  "load_failed = do {
     toast_error ''Could not reach the server to load the configuration.''; ret False }"

definition load_refused :: "response \<Rightarrow> string \<Rightarrow> bool page" where
  "load_refused r fallback =
     (if rs_status r = 401 then do { showLoginModal; ret False }
      else do { toast_error (errorMessage r fallback); ret False })"

definition loadConfig_start :: "bool page" where
  "loadConfig_start = do {
     w \<leftarrow> State_Monad.get;
     if authToken w = '''' then do { showLoginModal; ret False }
     else do { send (mk_req w ''GET'' ''/api/auth/me'' JUndef); ret True } }"

definition loadConfig_store :: "bool \<Rightarrow> jsval \<Rightarrow> bool page" where
  "loadConfig_store weak cfg = do {
     setConfig cfg;
     painted \<leftarrow> renderConfig cfg;
     if \<not> painted then load_failed
     else do { only_if weak (showChangePwdModal True); ret True } }"

definition loadConfig_rest :: "bool page" where
  "loadConfig_rest = do {
     oc \<leftarrow> next_outcome;
     case oc of NetErr \<Rightarrow> load_failed
     | Resp r \<Rightarrow>
         if rs_status r = 401 \<or> \<not> rs_ok r then load_refused r ''Could not read the account state.''
         else case rs_json r of None \<Rightarrow> load_failed
         | Some me \<Rightarrow>
             if nullish me then load_failed
             else do {
               let weak = (truthy (jget me ''password_weak'') \<or> truthy (jget me ''is_default_password''));
               oc2 \<leftarrow> fetch_get ''/api/config'';
               case oc2 of NetErr \<Rightarrow> load_failed
               | Resp r2 \<Rightarrow>
                   if rs_status r2 = 401 \<or> \<not> rs_ok r2
                   then load_refused r2 ''Could not load the configuration.''
                   else case rs_json r2 of None \<Rightarrow> load_failed
                   | Some cfg \<Rightarrow> loadConfig_store weak cfg } }"

definition loadConfig :: "bool page" where
  "loadConfig = do { waits \<leftarrow> loadConfig_start; if waits then loadConfig_rest else ret False }"

definition bootDashboard_start :: "unit page" where
  "bootDashboard_start = do {
     modify (\<lambda>w. w\<lparr>listenersAttached := True\<rparr>);
     waits \<leftarrow> loadConfig_start;
     only_if waits (spawn TBoot) }"

definition bootDashboard_rest :: "unit page" where
  "bootDashboard_rest = do { authed \<leftarrow> loadConfig_rest; only_if authed (spawn TPanels) }"

definition checkAuthAndBoot :: "unit page" where
  "checkAuthAndBoot = do {
     w \<leftarrow> State_Monad.get;
     if authToken w = '''' then showLoginModal else bootDashboard_start }"

section \<open>Signing in and out\<close>

definition login_request :: "dash \<Rightarrow> request" where
  "login_request w = \<lparr>rq_method = ''POST'', rq_path = api w ''/api/auth/login'', rq_token = None,
     rq_body = JObj [(''username'', JStr (js_trim (value_of w ''login-username''))),
       (''password'', JStr (value_of w ''login-password'')),
       (''code'', JStr (js_trim (value_of w ''login-code'')))]\<rparr>"

definition login_error :: "string \<Rightarrow> unit page" where
  "login_error m = do { set_text ''login-error'' m; set_hidden ''login-error'' False }"

text \<open>\<open>login-code-row\<close> is the div around the code field.\<close>

definition login_refused :: "string \<Rightarrow> response \<Rightarrow> unit page" where
  "login_refused p r = do {
     login_error (errorMessage r ''Invalid credentials'');
     only_if (rs_status r = 401 \<and> p \<noteq> '''' \<and>
              (case rs_json r of None \<Rightarrow> False | Some j \<Rightarrow> truthy (jget j ''twofactor_required'')))
       (set_hidden ''login-code-row'' False) }"

definition login_granted :: "jsval \<Rightarrow> unit page" where
  "login_granted data = do {
     keep_token (jget data ''token'');
     hideLoginModal;
     bootDashboard_start;
     only_if (truthy (jget data ''password_weak'') \<or> truthy (jget data ''is_default_password''))
       (showChangePwdModal True) }"

definition login_submit :: "unit page" where
  "login_submit = do {
     w \<leftarrow> State_Monad.get;
     set_hidden ''login-error'' True;
     send (login_request w);
     oc \<leftarrow> next_outcome;
     case oc of NetErr \<Rightarrow> login_error ''Server connection failed''
     | Resp r \<Rightarrow>
         if \<not> rs_ok r then login_refused (value_of w ''login-password'') r
         else case rs_json r of None \<Rightarrow> login_error ''Server connection failed''
         | Some data \<Rightarrow>
             if nullish data then login_error ''Server connection failed'' else login_granted data }"

definition signOut :: "unit page" where
  "signOut = do {
     _ \<leftarrow> fetch_post ''/api/auth/logout'' (JObj []);
     removeItem ''jozmozdns_token'';
     removeItem ''JozmozDNS_token'';
     setToken '''';
     showLoginModal }"

section \<open>Changing the credentials\<close>

definition pwd_new_username :: "dash \<Rightarrow> string" where
  "pwd_new_username w =
     (let submitted = js_trim (value_of w ''new-admin-user'') in
      if submitted \<noteq> '''' \<and> JStr submitted \<noteq> js_or (live_user w) (JStr ''admin'')
      then submitted else '''')"

definition pwd_payload :: "dash \<Rightarrow> jsval" where
  "pwd_payload w =
     (let p = value_of w ''new-admin-pass''; u = pwd_new_username w;
          c = js_trim (value_of w ''change-pwd-code'') in
      JObj ([(''current_password'', JStr (value_of w ''current-admin-pass''))] @
            (if u \<noteq> '''' then [(''admin_username'', JStr u)] else []) @
            (if p \<noteq> '''' then [(''admin_password'', JStr p)] else []) @
            (if c \<noteq> '''' then [(''code'', JStr c)] else [])))"

definition set_server :: "string \<Rightarrow> jsval \<Rightarrow> unit page" where
  "set_server k v = modify (\<lambda>w. w\<lparr>currentConfig :=
     jset (currentConfig w) ''server'' (jset (cfg_server (currentConfig w)) k v)\<rparr>)"

definition pwd_changed :: "bool \<Rightarrow> jsval \<Rightarrow> unit page" where
  "pwd_changed newPassword data = do {
     w \<leftarrow> State_Monad.get;
     let server = truthy (cfg_server (currentConfig w));
     only_if (truthy (jget data ''token'')) (keep_token (jget data ''token''));
     only_if (server \<and> truthy (jget data ''username'')) (do {
       set_server ''admin_username'' (jget data ''username'');
       set_text ''current-admin-name'' (js_string (jget data ''username'')) });
     only_if (server \<and> newPassword) (set_server ''admin_password_weak'' (JBool False));
     hideChangePwdModal;
     toast_msg (if newPassword then ''Credentials updated '' @ u_dash @ '' other sessions have been signed out''
                else ''Username updated'') ''success'' }"

definition pwd_submit :: "unit page" where
  "pwd_submit = do {
     w \<leftarrow> State_Monad.get;
     let newPassword = (value_of w ''new-admin-pass'' \<noteq> '''');
     if \<not> newPassword \<and> pwd_new_username w = '''' then hideChangePwdModal
     else if value_of w ''current-admin-pass'' = '''' then do {
       toast_error ''Enter your current password to confirm the change'';
       focus ''current-admin-pass'' }
     else do {
       set_hidden ''change-pwd-2fa-row''
         (\<not> truthy (jget (jget (currentConfig w) ''auth'') ''totp_enabled''));
       oc \<leftarrow> fetch_post ''/api/config/server'' (pwd_payload w);
       case oc of NetErr \<Rightarrow> toast_error ''Error updating credentials''
       | Resp r \<Rightarrow>
           if \<not> rs_ok r then toast_error (errorMessage r ''Failed to update credentials'')
           else let data = (case rs_json r of None \<Rightarrow> JObj [] | Some j \<Rightarrow> j) in
             if nullish data then toast_error ''Error updating credentials''
             else pwd_changed newPassword data } }"

section \<open>Two-factor authentication\<close>

text \<open>The panel, when the status its renderer asked for arrives.\<close>

definition renderTwoFactor_done :: "outcome \<Rightarrow> unit page" where
  "renderTwoFactor_done oc =
     (case oc of NetErr \<Rightarrow> ret ()
      | Resp r \<Rightarrow>
          if \<not> rs_ok r then ret ()
          else case rs_json r of None \<Rightarrow> ret ()
          | Some s \<Rightarrow>
              if nullish s then ret ()
              else do {
                let enabled = truthy (jget s ''totp_enabled'');
                let enrolling = truthy (jget s ''totp_enrolling'');
                set_text ''twofa-status''
                  (if enabled then ''ENABLED'' else if enrolling then ''ENROLLMENT OPEN'' else ''OFF'');
                set_class ''twofa-status'' (''font-mono '' @
                  (if enabled then ''text-emerald-400''
                   else if enrolling then ''text-amber-400'' else ''text-slate-300''));
                set_hidden ''twofa-off-box'' enabled;
                set_hidden ''twofa-on-box'' (\<not> enabled);
                set_hidden ''twofa-enroll-box'' (\<not> (enrolling \<and> \<not> enabled)) })"

definition admin_name :: "dash \<Rightarrow> jsval" where
  "admin_name w = js_or (live_user w) (JStr ''admin'')"

text \<open>
  What success does in enable, disable and the LDAP save: one of the two stored copies of the
  token is dropped, the variable emptied, the page reloaded.
\<close>

definition end_session :: "unit page" where
  "end_session = do {
     removeItem ''JozmozDNS_token'';
     setToken '''';
     navigate NavReload }"

definition twofa_begin :: "unit page" where
  "twofa_begin = do {
     w \<leftarrow> State_Monad.get;
     if value_of w ''twofa-enable-password'' = ''''
     then toast_error ''Enter your current password to start enrollment.''
     else do {
       set_disabled ''twofa-begin-btn'' True;
       oc \<leftarrow> fetch_post ''/api/auth/2fa/setup''
         (JObj [(''username'', admin_name w),
                (''current_password'', JStr (value_of w ''twofa-enable-password''))]);
       (case oc of NetErr \<Rightarrow> toast_error ''Could not reach the server.''
        | Resp r \<Rightarrow>
            if \<not> rs_ok r then toast_error (errorMessage r ''Could not start the enrollment'')
            else case rs_json r of None \<Rightarrow> toast_error ''Could not reach the server.''
            | Some data \<Rightarrow>
                if nullish data then toast_error ''Could not reach the server.''
                else do {
                  set_text ''twofa-secret-display''
                    (js_string (js_or (jget data ''secret'') (JStr '''')));
                  set_text ''twofa-uri-display''
                    (js_string (js_or (jget data ''otpauth_uri'') (JStr '''')));
                  set_hidden ''twofa-enroll-box'' False;
                  set_value ''twofa-enable-password'' '''';
                  start_task ''/api/auth/2fa/status'' TRenderTwoFactor });
       set_disabled ''twofa-begin-btn'' False } }"

definition twofa_post :: "string \<Rightarrow> string \<Rightarrow> string \<Rightarrow> string \<Rightarrow> string \<Rightarrow> unit page" where
  "twofa_post path pwd code refused done = do {
     w \<leftarrow> State_Monad.get;
     oc \<leftarrow> fetch_post path
       (JObj [(''username'', admin_name w), (''current_password'', JStr pwd),
              (''code'', JStr (js_trim code))]);
     case oc of NetErr \<Rightarrow> toast_error ''Could not reach the server.''
     | Resp r \<Rightarrow>
         if \<not> rs_ok r then toast_error (errorMessage r refused)
         else do { toast_msg done ''success''; end_session } }"

definition twofa_confirm :: "unit page" where
  "twofa_confirm = do {
     w \<leftarrow> State_Monad.get;
     if \<not> has_el w ''twofa-enable-code'' then ret ()
     else if value_of w ''twofa-confirm-password'' = '''' then do {
       toast_error ''Enter your current password again to confirm enrollment.'';
       focus ''twofa-confirm-password'' }
     else do {
       set_disabled ''twofa-confirm-btn'' True;
       twofa_post ''/api/auth/2fa/enable'' (value_of w ''twofa-confirm-password'')
         (value_of w ''twofa-enable-code'')
         (''Confirmation refused '' @ u_dash @ '' check the password and code'')
         ''Two-factor enabled. Please sign in again.'';
       set_disabled ''twofa-confirm-btn'' False;
       set_value ''twofa-confirm-password'' '''' } }"

definition twofa_disable :: "unit page" where
  "twofa_disable = do {
     w \<leftarrow> State_Monad.get;
     if \<not> has_el w ''twofa-disable-password'' \<or> \<not> has_el w ''twofa-disable-code'' then ret ()
     else if value_of w ''twofa-disable-password'' = '''' \<or>
             js_trim (value_of w ''twofa-disable-code'') = ''''
     then toast_error ''Both the current password and a current code are required to disable 2FA.''
     else do {
       set_disabled ''twofa-disable-btn'' True;
       twofa_post ''/api/auth/2fa/disable'' (value_of w ''twofa-disable-password'')
         (value_of w ''twofa-disable-code'')
         (''Disable refused '' @ u_dash @ '' check both fields'')
         ''Two-factor disabled. Please sign in again.'';
       set_disabled ''twofa-disable-btn'' False } }"

section \<open>LDAP\<close>

definition renderLdap_done :: "outcome \<Rightarrow> unit page" where
  "renderLdap_done oc =
     (case oc of NetErr \<Rightarrow> ret ()
      | Resp r \<Rightarrow>
          if \<not> rs_ok r then ret ()
          else case rs_json r of None \<Rightarrow> ret ()
          | Some s \<Rightarrow>
              if nullish s then ret ()
              else do {
                let fld = (\<lambda>k. js_string (js_or (jget s k) (JStr '''')));
                set_checked ''ldap-enabled-input'' (truthy (jget s ''ldap_enabled''));
                set_value ''ldap-mode-input'' (js_string (js_or (jget s ''ldap_login_mode'') (JStr ''local'')));
                set_value ''ldap-url-input'' (fld ''ldap_server_url'');
                set_value ''ldap-userattr-input'' (fld ''ldap_user_attr'');
                set_value ''ldap-binddn-input'' (fld ''ldap_bind_dn'');
                set_value ''ldap-basedn-input'' (fld ''ldap_base_dn'');
                set_value ''ldap-bindpw-input'' '''' })"

definition ldap_url_ok :: "string \<Rightarrow> bool" where
  "ldap_url_ok u \<longleftrightarrow> js_startsWith u ''ldap://'' \<or> js_startsWith u ''ldaps://''"

definition ldap_payload :: "dash \<Rightarrow> jsval" where
  "ldap_payload w =
     (let fld = (\<lambda>i. JStr (js_trim (value_of w i))) in
      JObj [(''enabled'', JStr (if checked_of w ''ldap-enabled-input'' then ''true'' else ''false'')),
            (''current_password'', JStr (value_of w ''ldap-admin-password'')),
            (''code'', fld ''ldap-totp-code''),
            (''ldap_server_url'', fld ''ldap-url-input''),
            (''ldap_bind_dn'', fld ''ldap-binddn-input''),
            (''ldap_bind_password'', JStr (value_of w ''ldap-bindpw-input'')),
            (''ldap_base_dn'', fld ''ldap-basedn-input''),
            (''ldap_user_attr'', fld ''ldap-userattr-input''),
            (''ldap_login_mode'', JStr (value_of w ''ldap-mode-input''))])"

definition ldap_save :: "unit page" where
  "ldap_save = do {
     w \<leftarrow> State_Monad.get;
     let url = js_trim (value_of w ''ldap-url-input'');
     if \<not> has_el w ''ldap-enabled-input'' \<or> \<not> has_el w ''ldap-mode-input'' then ret ()
     else if checked_of w ''ldap-enabled-input'' \<and> url \<noteq> '''' \<and> \<not> ldap_url_ok url
     then toast_error ''The server URL must start with ldap:// or ldaps://''
     else if value_of w ''ldap-admin-password'' = ''''
     then toast_error ''Enter your current password to save the directory settings.''
     else do {
       set_disabled ''ldap-save-btn'' True;
       set_text ''ldap-save-status'' (''Saving'' @ u_ellipsis);
       oc \<leftarrow> fetch_post ''/api/auth/ldap'' (ldap_payload w);
       (case oc of NetErr \<Rightarrow> do {
            set_text ''ldap-save-status'' ''''; toast_error ''Could not reach the server.'' }
        | Resp r \<Rightarrow>
            if \<not> rs_ok r then do {
              set_text ''ldap-save-status'' '''';
              toast_error (errorMessage r ''The server refused the LDAP settings'') }
            else do {
              set_text ''ldap-save-status'' ''Saved.'';
              toast_msg (''LDAP settings saved '' @ u_dash @ '' sign in again.'') ''success'';
              end_session });
       set_disabled ''ldap-save-btn'' False } }"

section \<open>The store as an interface\<close>

text \<open>
  What the sign-in and sign-out code needs of a credential store: a written token is read back
  by the next page, an erased one is not. \<open>run_ops\<close> is a history of sign-ins and sign-outs.
\<close>

datatype store_op = SignIn string | SignOut

locale token_store =
  fixes wr :: "string \<Rightarrow> 's \<Rightarrow> 's" and erase :: "'s \<Rightarrow> 's" and rd :: "'s \<Rightarrow> string"
  assumes rd_wr: "t \<noteq> '''' \<Longrightarrow> rd (wr t s) = t"
    and rd_erase: "rd (erase s) = ''''"
begin

fun run_op :: "store_op \<Rightarrow> 's \<Rightarrow> 's" where
  "run_op (SignIn t) s = wr t s"
| "run_op SignOut s = erase s"

lemma last_op_decides:
  "SignIn '''' \<notin> set ops \<Longrightarrow>
   rd (fold run_op ops s) =
     (if ops = [] then rd s else case last ops of SignIn t \<Rightarrow> t | SignOut \<Rightarrow> '''')"
  by (induction ops rule: rev_induct) (auto simp: rd_erase split: store_op.split, metis rd_wr)

end

definition write_token :: "string \<Rightarrow> (string \<rightharpoonup> string) \<Rightarrow> (string \<rightharpoonup> string)" where
  "write_token t st = st(''jozmozdns_token'' \<mapsto> t, ''JozmozDNS_token'' \<mapsto> t)"

definition erase_token :: "(string \<rightharpoonup> string) \<Rightarrow> (string \<rightharpoonup> string)" where
  "erase_token st = st(''jozmozdns_token'' := None, ''JozmozDNS_token'' := None)"

interpretation panel_store: token_store write_token erase_token initial_token
  by unfold_locales (auto simp: write_token_def erase_token_def initial_token_def stored_def)

section \<open>What the pieces do\<close>

lemma exec_keep_token [page_simps]:
  "exec (keep_token tk) w =
     w\<lparr>authToken := (if truthy tk then js_string tk else ''''),
       storage := write_token (js_string tk) (storage w)\<rparr>"
  by (simp add: keep_token_def exec_prims write_token_def)

lemma keeps_store_prims:
  "keeps storage (upd i g)" "keeps storage (send r)" "keeps storage next_outcome"
  "keeps storage (focus i)" "keeps storage (showToast m ty)" "keeps storage (fetch_auth mt p b)"
  "keeps storage (spawn t)" "keeps storage (setConfig c)"
  "keeps authToken (upd i g)" "keeps authToken (send r)" "keeps authToken next_outcome"
  "keeps authToken (focus i)" "keeps authToken (showToast m ty)"
  "keeps authToken (fetch_auth mt p b)" "keeps authToken (spawn t)" "keeps authToken (setConfig c)"
  by (simp_all add: keeps_def page_simps)

declare keeps_store_prims [keeps_intros]

lemma keeps_store_dialogs [keeps_intros]:
  "keeps storage showLoginModal" "keeps storage hideLoginModal"
  "keeps storage (showChangePwdModal b)" "keeps storage hideChangePwdModal"
  "keeps authToken showLoginModal" "keeps authToken hideLoginModal"
  "keeps authToken (showChangePwdModal b)" "keeps authToken hideChangePwdModal"
  by (auto simp: showLoginModal_def hideLoginModal_def showChangePwdModal_def pwd_modal_texts_def
      hideChangePwdModal_def intro!: keeps_intros)

lemma keeps_store_boot [keeps_intros]:
  "keeps storage bootDashboard_start" "keeps authToken bootDashboard_start"
  by (auto simp: bootDashboard_start_def loadConfig_start_def intro!: keeps_intros)
    (simp_all add: keeps_def)

text \<open>
  C3. Signing out ends the session on this browser whatever the daemon answers: the request
  carries the old token, no stored copy of it is left for the next page load, the variable is
  empty and the login dialog is up.
\<close>

theorem signOut_ends_session:
  "let w' = exec signOut w in
     sent w' = sent w @ [mk_req w ''POST'' ''/api/auth/logout'' (JObj [])] \<and>
     authToken w' = '''' \<and> authToken (page_load w') = '''' \<and>
     shown w' ''login-modal'' = has_el w ''login-modal''"
proof -
  have "authToken (page_load (exec signOut w)) = initial_token (erase_token (storage w))"
    by (simp add: signOut_def page_load_def page_simps showLoginModal_def erase_token_def)
  then show ?thesis
    using panel_store.rd_erase
    by (auto simp: signOut_def page_simps showLoginModal_def shown_def has_el_def split: option.split)
qed

text \<open>
  C35. A granted sign-in is remembered: the token the server sent is the one requests carry and
  the one the next page load starts from, and the login dialog is gone.
\<close>

theorem login_remembered:
  assumes "net w = Resp r # rest" "rs_ok r" "rs_json r = Some data"
    and "jget data ''token'' = JStr t" "t \<noteq> ''''"
  shows "authToken (exec login_submit w) = t \<and>
    authToken (page_load (exec login_submit w)) = t"
proof -
  have nn: "\<not> nullish data" using assms(4) by (cases data) auto
  have k: "keeps storage (do { hideLoginModal; bootDashboard_start; only_if b (showChangePwdModal True) })"
     "keeps authToken (do { hideLoginModal; bootDashboard_start; only_if b (showChangePwdModal True) })" for b
    by (auto intro!: keeps_intros)
  have "storage (exec (login_granted data) w') = write_token t (storage w')"
    "authToken (exec (login_granted data) w') = t" for w'
    using keepsD[OF k(1)] keepsD[OF k(2)] assms(4,5)
    by (simp_all add: login_granted_def exec_keep_token)
  then show ?thesis
    using assms nn panel_store.rd_wr[OF assms(5)]
    by (simp add: login_submit_def page_load_def page_simps)
qed

theorem login_remembered_witness:
  "authToken (page_load (exec login_submit
     (sample_page JNull [resp_ok (JObj [(''token'', JStr ''t1'')])]))) = ''t1''"
  using login_remembered[of "sample_page JNull [resp_ok (JObj [(''token'', JStr ''t1'')])]" _ "[]"
      "JObj [(''token'', JStr ''t1'')]" "''t1''"]
  by (simp add: resp_ok_def rs_ok_def)

text \<open>
  Confirming the second factor empties the variable and reloads, but drops only one of the
  two stored copies of the token: after the reload the page is signed in with the old token
  again, in contrast to signOut.
\<close>

theorem twofa_confirm_keeps_token:
  assumes "net w = Resp r # rest" "rs_ok r" "has_el w ''twofa-enable-code''"
    and "value_of w ''twofa-confirm-password'' \<noteq> ''''"
    and "storage w ''jozmozdns_token'' = Some t" "t \<noteq> ''''"
  shows "let w' = exec twofa_confirm w in
    authToken w' = '''' \<and> navs w' = navs w @ [NavReload] \<and> authToken (page_load w') = t"
  using assms
  by (simp add: twofa_confirm_def twofa_post_def end_session_def page_simps page_load_def
      initial_token_def stored_def Let_def)

theorem twofa_confirm_keeps_token_witness:
  "authToken (page_load (exec twofa_confirm
     ((exec (set_value ''twofa-confirm-password'' ''pw'')
        (sample_page JNull [resp_ok JNull]))\<lparr>storage := [''jozmozdns_token'' \<mapsto> ''old'']\<rparr>))) = ''old''"
  using twofa_confirm_keeps_token[of "(exec (set_value ''twofa-confirm-password'' ''pw'')
        (sample_page JNull [resp_ok JNull]))\<lparr>storage := [''jozmozdns_token'' \<mapsto> ''old'']\<rparr>" _ "[]" "''old''"]
  by (simp add: resp_ok_def rs_ok_def page_simps Let_def has_el_def value_of_def blank_elem_def)

definition small_config :: jsval where
  "small_config = JObj [(''server'', JObj [(''public_ip'', JStr ''192.0.2.1'')])]"

text \<open>The answers that let a load go on.\<close>

definition answered_ok :: "outcome \<Rightarrow> bool" where
  "answered_ok oc = (case oc of NetErr \<Rightarrow> False | Resp r \<Rightarrow> rs_ok r)"

definition is_401 :: "outcome \<Rightarrow> bool" where
  "is_401 oc = (case oc of NetErr \<Rightarrow> False | Resp r \<Rightarrow> rs_status r = 401)"

definition has_body :: "outcome \<Rightarrow> bool" where
  "has_body oc = (case oc of NetErr \<Rightarrow> False
     | Resp r \<Rightarrow> (case rs_json r of None \<Rightarrow> False | Some j \<Rightarrow> \<not> nullish j))"

lemmas load_defs = loadConfig_rest_def load_refused_def load_failed_def showLoginModal_def

text \<open>
  C32. A configuration is never painted from a response that is not a success: if the account
  probe or the configuration request fails in transport or with any error status, loadConfig
  returns false, the configuration and every switch on the page stay as they were, and a 401
  brings the login dialog back.
\<close>

theorem loadConfig_refused:
  assumes "net w = oc1 # oc2 # rest" "\<not> answered_ok oc1 \<or> \<not> answered_ok oc2"
  shows "result loadConfig_rest w = False \<and>
    currentConfig (exec loadConfig_rest w) = currentConfig w \<and>
    checked_of (exec loadConfig_rest w) i = checked_of w i \<and>
    ((is_401 oc1 \<or> (answered_ok oc1 \<and> is_401 oc2 \<and> has_body oc1) \<longrightarrow> shown (exec loadConfig_rest w) ''login-modal'' = has_el w ''login-modal''))"
proof (cases oc1)
  case NetErr
  then show ?thesis using assms(1)
    by (simp add: load_defs page_simps is_401_def answered_ok_def checked_of_def)
next
  case r: (Resp r)
  have nok: "\<not> rs_ok r'" if "rs_status r' = 401" for r' using that by (simp add: rs_ok_def)
  show ?thesis
  proof (cases "rs_ok r")
    case False
    then show ?thesis using assms(1) r
      by (auto simp: load_defs page_simps is_401_def answered_ok_def checked_of_def shown_def has_el_def
          split: option.split)
  next
    case True
    then have o2: "\<not> answered_ok oc2" using assms(2) r by (simp add: answered_ok_def)
    show ?thesis
    proof (cases oc2)
      case NetErr
      then show ?thesis using assms(1) r True nok[of r]
        by (auto simp: load_defs page_simps is_401_def checked_of_def Let_def split: option.split)
    next
      case (Resp r2)
      then show ?thesis using assms(1) r True o2 nok[of r]
        by (auto simp: load_defs page_simps is_401_def answered_ok_def checked_of_def Let_def has_body_def
            shown_def has_el_def split: option.split)
    qed
  qed
qed

theorem loadConfig_refused_witness:
  "currentConfig (exec loadConfig_rest
     (sample_page small_config [resp_ok (JObj []), resp_err 500 (JObj [(''error'', JStr ''x'')])])) =
   small_config"
  using loadConfig_refused[of "sample_page small_config [resp_ok (JObj []),
      resp_err 500 (JObj [(''error'', JStr ''x'')])]" "resp_ok (JObj [])"
      "resp_err 500 (JObj [(''error'', JStr ''x'')])" "[]"]
  by (simp add: answered_ok_def resp_err_def rs_ok_def)

lemma has_el_pwd_modal [simp]: "has_el (exec (pwd_modal_texts b) w) j = has_el w j"
  by (simp add: pwd_modal_texts_def has_el_upd)

lemma showChangePwd_shown:
  assumes "has_el w ''change-pwd-modal''"
  shows "shown (exec (showChangePwdModal b) w) ''change-pwd-modal''"
    and "has_el w ''change-pwd-cancel'' \<Longrightarrow>
      shown (exec (showChangePwdModal b) w) ''change-pwd-cancel'' = (\<not> b)"
  using assms by (simp_all add: showChangePwdModal_def pwd_modal_texts_def view_simps)

text \<open>
  The weak-password gate opens after a load that succeeds: when the account probe flags
  the password and the configuration arrives, loadConfig returns true, the configuration is the
  normalised one, and the credential dialog is up in its forced mode, with no way to cancel.
\<close>

theorem loadConfig_weak_password:
  assumes "net w = Resp r1 # Resp r2 # rest" "rs_ok r1" "rs_ok r2"
    and "rs_json r1 = Some me" "truthy (jget me ''password_weak'')"
    and "rs_json r2 = Some c" "is_obj c" "\<not> nullish (cfg_server c)"
    and "has_el w ''change-pwd-modal''" "has_el w ''change-pwd-cancel''"
  shows "result loadConfig_rest w = True \<and>
    currentConfig (exec loadConfig_rest w) = normalise c \<and>
    shown (exec loadConfig_rest w) ''change-pwd-modal'' \<and>
    \<not> shown (exec loadConfig_rest w) ''change-pwd-cancel''"
proof -
  let ?w1 = "w\<lparr>sent := sent w @ [mk_req (w\<lparr>net := Resp r2 # rest\<rparr>) ''GET'' ''/api/config'' JUndef],
    net := rest, currentConfig := c\<rparr>"
  let ?w2 = "exec (renderConfig c) ?w1"
  have nn: "\<not> nullish me" using assms(5) by (cases me) auto
  have n401: "rs_status r1 \<noteq> 401" "rs_status r2 \<noteq> 401" using assms(2,3) by (auto simp: rs_ok_def)
  obtain w1 where "?w2 = exec (render_rest (normalise c)) w1" and h: "\<And>i. has_el w1 i = has_el ?w1 i"
    using renderConfig_run(1)[OF assms(7,8), of ?w1] by metis
  moreover have "keeps (\<lambda>w. has_el w i) (render_rest (normalise c))" for i
    by (rule keeps_has_el_render)
  ultimately have el: "has_el ?w2 i = has_el w i" for i by (simp add: keeps_def)
  have kc: "keeps currentConfig (showChangePwdModal True)"
    by (auto simp: showChangePwdModal_def pwd_modal_texts_def intro!: keeps_intros)
  have run: "result loadConfig_rest w = True"
    "exec loadConfig_rest w = exec (showChangePwdModal True) ?w2"
    using assms(1-8) nn n401 renderConfig_run(2)[OF assms(7,8)]
    by (simp_all add: loadConfig_rest_def loadConfig_store_def page_simps mk_req_def api_def)
  then show ?thesis
    using showChangePwd_shown[of ?w2 True] el assms(9,10) renderConfig_run(3)[OF assms(7,8)]
      keepsD[OF kc] by simp
qed

theorem loadConfig_weak_password_witness:
  "shown (exec loadConfig_rest (sample_page JNull
     [resp_ok (JObj [(''password_weak'', JBool True)]), resp_ok small_config])) ''change-pwd-modal''"
  using loadConfig_weak_password[of "sample_page JNull
     [resp_ok (JObj [(''password_weak'', JBool True)]), resp_ok small_config]" _ _ "[]"
     "JObj [(''password_weak'', JBool True)]" small_config]
  by (simp add: resp_ok_def rs_ok_def small_config_def)

text \<open>
  A refused sign-in changes no credential: it shows the server's explanation, and reveals
  the code row only when a non-empty password came back with a 401 that asks for the second
  factor; a row already up stays up.
\<close>

theorem login_refused_effect:
  assumes "net w = Resp r # rest" "\<not> rs_ok r"
  shows "let w' = exec login_submit w in
    authToken w' = authToken w \<and> storage w' = storage w \<and>
    (case dom w' ''login-error'' of None \<Rightarrow> True
     | Some e \<Rightarrow> el_text e = errorMessage r ''Invalid credentials'' \<and> \<not> el_hidden e) \<and>
    shown w' ''login-code-row'' =
      (shown w ''login-code-row'' \<or>
       (has_el w ''login-code-row'' \<and> rs_status r = 401 \<and> value_of w ''login-password'' \<noteq> '''' \<and>
        (\<exists>j. rs_json r = Some j \<and> truthy (jget j ''twofactor_required''))))"
  using assms
  by (auto simp: login_submit_def login_refused_def login_error_def page_simps Let_def shown_def
      has_el_def split: option.split)

theorem login_refused_effect_witness:
  "authToken (exec login_submit (sample_page JNull [resp_err 429 JNull])) = ''tok''"
  using login_refused_effect[of "sample_page JNull [resp_err 429 JNull]"]
  by (simp add: resp_err_def rs_ok_def Let_def)

text \<open>
  A credential change the server accepts keeps this browser signed in: with a replacement
  token in the answer both the variable and the store hold it, without one both are untouched.
\<close>

theorem pwd_submit_token:
  assumes "value_of w ''current-admin-pass'' \<noteq> ''''"
    and "value_of w ''new-admin-pass'' \<noteq> '''' \<or> pwd_new_username w \<noteq> ''''"
    and "net w = Resp r # rest" "rs_ok r" "rs_json r = Some data" "\<not> nullish data"
  shows "authToken (exec pwd_submit w) =
      (if truthy (jget data ''token'') then js_string (jget data ''token'') else authToken w) \<and>
    storage (exec pwd_submit w) =
      (if truthy (jget data ''token'') then write_token (js_string (jget data ''token'')) (storage w)
       else storage w)"
proof -
  have p: "storage (exec (pwd_changed b data) w') =
      (if truthy (jget data ''token'') then write_token (js_string (jget data ''token'')) (storage w')
       else storage w')"
    "authToken (exec (pwd_changed b data) w') =
      (if truthy (jget data ''token'') then js_string (jget data ''token'') else authToken w')" for b w'
    by (simp_all add: pwd_changed_def Let_def exec_keep_token exec_showToast hideChangePwdModal_def
        exec_upd set_server_def)
  show ?thesis
    using assms p by (auto simp: pwd_submit_def page_simps Let_def)
qed

theorem pwd_submit_token_witness:
  "authToken (exec pwd_submit (exec (set_value ''new-admin-pass'' ''n'')
     (exec (set_value ''current-admin-pass'' ''o'')
       (sample_page JNull [resp_ok (JObj [(''token'', JStr ''t2'')])])))) = ''t2''"
  using pwd_submit_token[of "exec (set_value ''new-admin-pass'' ''n'')
     (exec (set_value ''current-admin-pass'' ''o'')
       (sample_page JNull [resp_ok (JObj [(''token'', JStr ''t2'')])]))" _ "[]"
       "JObj [(''token'', JStr ''t2'')]"]
  by (simp add: resp_ok_def rs_ok_def page_simps value_of_def blank_elem_def)

end
