(* ===== verification/Custom_Policies.thy ===== *)
theory Custom_Policies
  imports Session
begin

text \<open>
  The operator's own routing policies (app.js, CUSTOM OPERATOR POLICIES): which of the served
  policies are custom ones, the cards, the form that turns a text of domains into a domain
  list, the switch of a card, and deletion.

  Markup is written without the line breaks and indentation between its tags; Persian text is
  given by its UTF-8 bytes. The answer of a confirmation dialog is an argument, as is the clock
  (\<open>Date.now()\<close>) that names a new policy.
\<close>

section \<open>Loading\<close>

text \<open>\<open>None\<close>: a truthy key that is not a string has no startsWith.\<close>

definition custom_policy :: "jsval \<Rightarrow> bool option" where
  "custom_policy p =
     (if \<not> truthy p then Some False
      else if jget p ''category'' = JStr ''custom_policy'' then Some True
      else case jget p ''key'' of
             JStr k \<Rightarrow> Some (k \<noteq> '''' \<and> js_startsWith k ''custom_policy_'')
           | v \<Rightarrow> if truthy v then None else Some False)"

fun filter_custom :: "jsval list \<Rightarrow> jsval list option" where
  "filter_custom [] = Some []"
| "filter_custom (p # ps) =
     (case custom_policy p of None \<Rightarrow> None
      | Some b \<Rightarrow> map_option (\<lambda>qs. if b then p # qs else qs) (filter_custom ps))"

section \<open>Cards\<close>

definition policies_empty_html :: "string" where
  "policies_empty_html =
     ''<div id=\"custom-policies-empty\" class=\"col-span-full glass-panel p-6 text-center text-slate-400 border border-slate-800/80 border-dashed rounded-xl\"><i data-feather=\"compass\" class=\"w-7 h-7 mx-auto text-slate-600 mb-2\"></i><div class=\"font-bold text-slate-300 font-heading text-xs sm:text-sm\">'' @
     hx ''D987D986D988D8B220D8B3DB8CD8A7D8B3D8AA20D8A7D8AED8AAD8B5D8A7D8B5DB8C20D8ABD8A8D8AA20D986DAA9D8B1D8AFD987E2808CD8A7DB8CD8AF'' @
     ''</div><p class=\"text-[11px] text-slate-500 mt-1\">'' @
     hx ''D8A8D8A720DAA9D984DB8CDAA920D8B1D988DB8C20C2ABD8A7D981D8B2D988D8AFD98620D8B3DB8CD8A7D8B3D8AA20D8A7D8AED8AAD8B5D8A7D8B5DB8CC2BBD88C20D8A8D8A7D8B2DB8C20DB8CD8A720D8B3D8B1D988DB8CD8B320D8AFD984D8AED988D8A7D98720D8AED988D8AF20D8B1D8A720D8A7D8B6D8A7D981D98720DAA9D986DB8CD8AF'' @
     ''.</p></div>''"

definition action_badge :: "string \<Rightarrow> string" where
  "action_badge act =
     (if act = ''BLOCK'' then ''<span class=\"badge bg-red-500/20 text-red-300 border border-red-500/30 text-[9px] font-mono\">BLOCK</span>''
      else if act = ''DIRECT'' then ''<span class=\"badge bg-emerald-500/20 text-emerald-300 border border-emerald-500/30 text-[9px] font-mono\">DIRECT</span>''
      else ''<span class=\"badge bg-cyan-500/20 text-cyan-300 border border-cyan-500/30 text-[9px] font-mono\">PROXY</span>'')"

definition card_accent :: "string \<Rightarrow> string" where
  "card_accent act =
     (if act = ''BLOCK'' then ''border-red-500/30''
      else if act = ''DIRECT'' then ''border-emerald-500/30''
      else ''border-cyan-500/30'')"

definition domain_html :: "jsval \<Rightarrow> string" where
  "domain_html d =
     ''<span class=\"px-1.5 py-0.5 rounded bg-slate-900 border border-slate-800 text-[10px] font-mono text-cyan-300 truncate max-w-full inline-block\">'' @
     escapeHTML d @ ''</span>''"

definition policy_card_class :: "string \<Rightarrow> string" where
  "policy_card_class act =
     ''glass-panel policy-card p-4 flex flex-col justify-between border '' @ card_accent act @
     '' relative group''"

definition policy_card_html :: "string \<Rightarrow> jsval list \<Rightarrow> jsval \<Rightarrow> string" where
  "policy_card_html act ds p =
     (let domains = js_join '' '' (map domain_html ds) in
     ''<div><div class=\"flex items-start justify-between gap-2 mb-2\"><div class=\"flex items-center gap-2 min-w-0\"><span class=\"policy-icon text-cyan-400 bg-cyan-500/10 p-1.5 rounded-lg shrink-0\"><i data-feather=\"target\" class=\"w-4 h-4\"></i></span><div class=\"min-w-0\"><h4 class=\"text-xs sm:text-sm font-bold text-white font-heading truncate\" title=\"'' @
     escapeHTML (jget p ''name'') @ ''\">'' @ escapeHTML (jget p ''name'') @
     ''</h4><div class=\"flex items-center gap-1.5 mt-0.5\">'' @ action_badge act @
     ''<span class=\"text-[10px] text-slate-400 font-mono\">'' @ nat_str (length ds) @ '' '' @
     hx ''D8AFD8A7D985D986D987'' @
     ''</span></div></div></div><label class=\"switch shrink-0\"><input type=\"checkbox\" class=\"toggle-custom-policy-btn\" data-key=\"'' @
     escapeHTML (jget p ''key'') @ ''\" '' @
     (if truthy (jget p ''enabled'') then ''checked'' else '''') @
     ''><span class=\"slider\"></span></label></div><div class=\"mt-2.5 flex flex-wrap gap-1 max-h-20 overflow-y-auto\">'' @
     (if domains = '''' then
       ''<span class=\"text-slate-500 text-[10px] italic\">'' @
     hx ''D8A8D8AFD988D98620D8AFD8A7D985D986D987'' @ ''</span>''
      else domains) @
     ''</div></div><div class=\"flex items-center justify-end gap-1.5 mt-3 pt-2.5 border-t border-slate-800/80\"><button type=\"button\" class=\"edit-custom-policy-btn inline-flex items-center gap-1 px-2.5 py-1 rounded bg-slate-800 hover:bg-slate-700 text-slate-300 text-[11px] font-medium transition cursor-pointer\" data-key=\"'' @
     escapeHTML (jget p ''key'') @
     ''\" aria-label=\"Edit policy\"><i data-feather=\"edit-2\" class=\"w-3 h-3\"></i><span>'' @
     hx ''D988DB8CD8B1D8A7DB8CD8B4'' @
     ''</span></button><button type=\"button\" class=\"del-custom-policy-btn inline-flex items-center gap-1 px-2.5 py-1 rounded bg-red-500/10 hover:bg-red-500/20 text-red-400 border border-red-500/20 text-[11px] font-medium transition cursor-pointer\" data-key=\"'' @
     escapeHTML (jget p ''key'') @
     ''\" aria-label=\"Delete policy\"><i data-feather=\"trash-2\" class=\"w-3 h-3\"></i><span>'' @
     hx ''D8ADD8B0D981'' @ ''</span></button></div>'')"


definition domain_list :: "jsval \<Rightarrow> jsval list" where
  "domain_list p = arr_elems (jget p ''custom_domains'')"

definition policy_card :: "jsval \<Rightarrow> string" where
  "policy_card p =
     (let act = js_upper (js_string (js_or (jget p ''action'') (JStr ''PROXY''))) in
      ''<div class=\"'' @ policy_card_class act @ ''\">'' @ policy_card_html act (domain_list p) p @ ''</div>'')"

definition renderCustomPolicies :: "jsval list \<Rightarrow> unit page" where
  "renderCustomPolicies ps =
     set_text ''custom-policies-grid''
       (if ps = [] then policies_empty_html else concat (map policy_card ps))"

definition loadCustomPolicies :: "unit page" where
  "loadCustomPolicies = do {
     w \<leftarrow> State_Monad.get;
     if authToken w = '''' then ret ()
     else do {
       oc \<leftarrow> fetch_get ''/api/policies'';
       case oc of NetErr \<Rightarrow> ret ()
       | Resp r \<Rightarrow>
           if \<not> rs_ok r then ret ()
           else case rs_json r of None \<Rightarrow> ret ()
           | Some data \<Rightarrow>
               (case filter_custom (arr_elems (jget data ''policies'')) of None \<Rightarrow> ret ()
                | Some ps \<Rightarrow>
                    if nullish data then ret ()
                    else do {
                      modify (\<lambda>w. w\<lparr>currentCustomPolicies := ps\<rparr>);
                      renderCustomPolicies ps }) } }"

section \<open>The form\<close>

definition policy_open :: "unit page" where
  "policy_open = do {
     set_value ''custom-policy-key'' '''';
     set_value ''custom-policy-name'' '''';
     set_value ''custom-policy-action'' ''PROXY'';
     set_checked ''custom-policy-subdomains'' True;
     set_value ''custom-policy-domains'' '''';
     set_checked ''custom-policy-enabled'' True;
     set_text ''custom-policy-title'' ''Add Custom Policy'';
     set_hidden ''custom-policy-modal'' False }"


definition line_sep :: "char \<Rightarrow> bool" where
  "line_sep c \<longleftrightarrow> c \<in> {CHR 0x0D, CHR 0x0A, CHR '',''}"

definition domain_lines :: "string \<Rightarrow> string list" where
  "domain_lines raw = filter (\<lambda>d. d \<noteq> '''') (map (\<lambda>d. js_lower (js_trim d)) (split_on line_sep raw))"

definition with_wildcard :: "bool \<Rightarrow> string \<Rightarrow> string list" where
  "with_wildcard includeSubs d =
     (if includeSubs \<and> \<not> js_startsWith d ''*.'' then [d, ''*.'' @ d] else [d])"

definition policy_domains :: "bool \<Rightarrow> string \<Rightarrow> string list" where
  "policy_domains includeSubs raw = uniq (concat (map (with_wildcard includeSubs) (domain_lines raw)))"



section \<open>The cards' controls\<close>

definition find_policy :: "string \<Rightarrow> jsval list \<Rightarrow> jsval option" where
  "find_policy k ps = find (\<lambda>p. jget p ''key'' = JStr k) ps"

fun set_first :: "(jsval \<Rightarrow> bool) \<Rightarrow> (jsval \<Rightarrow> jsval) \<Rightarrow> jsval list \<Rightarrow> jsval list" where
  "set_first P f [] = []"
| "set_first P f (p # ps) = (if P p then f p # ps else p # set_first P f ps)"

text \<open>The switch of a card was set to \<open>on\<close>; the result is the state it is left in.\<close>

definition toggle_policy :: "string \<Rightarrow> bool \<Rightarrow> bool page" where
  "toggle_policy k on = do {
     w \<leftarrow> State_Monad.get;
     case find_policy k (currentCustomPolicies w) of None \<Rightarrow> ret on
     | Some p \<Rightarrow> do {
         let p' = jset p ''enabled'' (JBool on);
         modify (\<lambda>w. w\<lparr>currentCustomPolicies :=
           set_first (\<lambda>p. jget p ''key'' = JStr k) (\<lambda>_. p') (currentCustomPolicies w)\<rparr>);
         oc \<leftarrow> fetch_post ''/api/policies'' p';
         case oc of
           NetErr \<Rightarrow> do { toast_error ''Network error updating policy''; ret (\<not> on) }
         | Resp r \<Rightarrow>
             if rs_ok r then do { toast_msg ''Policy updated!'' ''success''; ret on }
             else do { toast_error ''Failed to update policy status''; ret (\<not> on) } } }"


definition delete_policy :: "string \<Rightarrow> (string \<Rightarrow> bool) \<Rightarrow> unit page" where
  "delete_policy k confirm = do {
     w \<leftarrow> State_Monad.get;
     let name = (case find_policy k (currentCustomPolicies w) of None \<Rightarrow> JStr k
                 | Some p \<Rightarrow> jget p ''name'');
     if \<not> confirm (''Delete Custom Policy \"'' @ js_string name @ ''\"?'') then ret ()
     else do {
       oc \<leftarrow> fetch_post ''/api/policies/delete'' (JObj [(''key'', JStr k)]);
       case oc of NetErr \<Rightarrow> toast_error ''Network error deleting policy''
       | Resp r \<Rightarrow>
           if rs_ok r then do { toast_msg ''Custom policy deleted!'' ''success''; loadCustomPolicies }
           else toast_error (errorMessage r ''Failed to delete policy'') } }"

lemma line_sep_lower [simp]: "line_sep (lower_char c) = line_sep c"
  unfolding line_sep_def insert_iff empty_iff char_code[of "lower_char c"] char_code[of c]
    of_lower_char by auto

section \<open>Domain lists\<close>

definition clean_domain :: "string \<Rightarrow> bool" where
  "clean_domain d \<longleftrightarrow> d \<noteq> '''' \<and> (\<forall>c\<in>set d. \<not> line_sep c) \<and> js_trim d = d \<and> js_lower d = d"

lemma domain_lines_clean: "d \<in> set (domain_lines raw) \<Longrightarrow> clean_domain d"
proof -
  assume "d \<in> set (domain_lines raw)"
  then obtain s where s: "s \<in> set (split_on line_sep raw)" "d = js_lower (js_trim s)" "d \<noteq> ''''"
    by (auto simp: domain_lines_def)
  have "\<not> line_sep c" if "c \<in> set d" for c
    using that s(2) split_on_pieces[OF s(1)] set_js_trim[of s] by (auto simp: js_lower_def)
  then show ?thesis using s by (simp add: clean_domain_def js_lower_trim)
qed


lemma clean_wildcard: "clean_domain d \<Longrightarrow> clean_domain (''*.'' @ d)"
proof -
  assume d: "clean_domain d"
  have "js_trim (''*.'' @ d) = ''*.'' @ d"
  proof (rule dropWhile_trim_id)
    have "\<not> is_space (last d)" using d js_trim_last[of d] by (simp add: clean_domain_def)
    then show "''*.'' @ d = [] \<or> \<not> is_space (hd (''*.'' @ d)) \<and> \<not> is_space (last (''*.'' @ d))"
      using d by (simp add: is_space_def clean_domain_def)
  qed
  moreover have "js_lower ''*.'' = ''*.''" by code_simp
  ultimately show ?thesis using d
    by (auto simp: clean_domain_def line_sep_def js_lower_def)
qed

lemma policy_domains_clean: "d \<in> set (policy_domains s raw) \<Longrightarrow> clean_domain d"
  using domain_lines_clean clean_wildcard
  by (auto simp: policy_domains_def with_wildcard_def split: if_splits)



section \<open>Properties\<close>










text \<open>
  A posted domain list has no duplicate and no blank, and every entry is trimmed and
  lower-case; with subdomains asked for, each line that is not a wildcard comes with its own.
\<close>

theorem policy_domains_correct:
  "distinct (policy_domains wild raw) \<and>
   list_all clean_domain (policy_domains wild raw) \<and>
   set (policy_domains wild raw) =
     set (domain_lines raw) \<union>
     {''*.'' @ d | d. d \<in> set (domain_lines raw) \<and> wild \<and> \<not> js_startsWith d ''*.''}"
proof -
  have "list_all clean_domain (policy_domains wild raw)"
    using policy_domains_clean by (auto simp: list_all_iff)
  then show ?thesis
    by (auto simp: policy_domains_def with_wildcard_def split: if_splits)
qed

text \<open>
  When the server refuses or the network fails, the switch of a card goes back to where it
  was, but the policy the script holds keeps the state that was refused: the next edit of that
  policy starts from it.
\<close>

theorem toggle_policy_refused:
  assumes "find_policy k (currentCustomPolicies w) = Some p" "is_obj p" "k \<noteq> ''''"
    and "net w = oc # rest" "\<not> answered_ok oc"
  shows "result (toggle_policy k on) w = (\<not> on) \<and>
    (\<exists>q. find_policy k (currentCustomPolicies (exec (toggle_policy k on) w)) = Some q \<and>
      jget q ''enabled'' = JBool on)"
proof -
  let ?p = "jset p ''enabled'' (JBool on)"
  have "find_policy k (set_first (\<lambda>p. jget p ''key'' = JStr k) (\<lambda>_. ?p) ps) = Some ?p"
    if "find_policy k ps = Some p" for ps
    using that assms(2) by (induction ps) (auto simp: find_policy_def split: if_splits)
  then have "find_policy k (currentCustomPolicies (exec (toggle_policy k on) w)) = Some ?p"
    using assms by (auto simp: toggle_policy_def page_simps answered_ok_def Let_def split: outcome.splits)
  moreover have "result (toggle_policy k on) w = (\<not> on)"
    using assms by (auto simp: toggle_policy_def page_simps answered_ok_def Let_def split: outcome.splits)
  ultimately show ?thesis using assms(2) by simp
qed

theorem toggle_policy_refused_witness:
  "result (toggle_policy ''custom_policy_1'' True) ((sample_page JNull [NetErr])
     \<lparr>currentCustomPolicies := [JObj [(''key'', JStr ''custom_policy_1''), (''enabled'', JBool False)]]\<rparr>) = False"
  using toggle_policy_refused[of "''custom_policy_1''" "(sample_page JNull [NetErr])
     \<lparr>currentCustomPolicies := [JObj [(''key'', JStr ''custom_policy_1''), (''enabled'', JBool False)]]\<rparr>"
     "JObj [(''key'', JStr ''custom_policy_1''), (''enabled'', JBool False)]" NetErr "[]" True]
  by (simp add: find_policy_def answered_ok_def)

end
