(* ===== verification/Recent_Window.thy ===== *)
theory Recent_Window
  imports Main
begin

text \<open>
  A bounded window on a sequence of arrivals, the interface the query stream and the chart
  share: \<open>push\<close> adds one arrival, \<open>newest_first\<close> is what the window shows, \<open>cap\<close> its size.
\<close>

locale recent_window =
  fixes push :: "'a \<Rightarrow> 'w \<Rightarrow> 'w" and newest_first :: "'w \<Rightarrow> 'b list"
    and entry :: "'a \<Rightarrow> 'b" and ok :: "'w \<Rightarrow> bool" and cap :: nat
  assumes ok_push: "ok w \<Longrightarrow> ok (push x w)"
    and shows_push: "ok w \<Longrightarrow> newest_first (push x w) = take cap (entry x # newest_first w)"
    and ok_bound: "ok w \<Longrightarrow> length (newest_first w) \<le> cap"
begin

lemma ok_fold: "ok w \<Longrightarrow> ok (fold push xs w)"
  by (induction xs arbitrary: w) (auto intro: ok_push)

text \<open>After any number of arrivals the window holds the last \<open>cap\<close> of them, newest first.\<close>

lemma shows_fold:
  "ok w \<Longrightarrow> newest_first (fold push xs w) = take cap (rev (map entry xs) @ newest_first w)"
proof (induction xs rule: rev_induct)
  case Nil
  then show ?case using ok_bound by simp
next
  case (snoc x xs)
  have "newest_first (fold push (xs @ [x]) w) =
      take cap (entry x # take cap (rev (map entry xs) @ newest_first w))"
    using snoc shows_push[OF ok_fold[OF snoc.prems]] by simp
  then show ?case by (cases cap) (simp_all add: take_Cons' min_def)
qed

end

end
