(* ===== verification/Query_Stream.thy ===== *)
theory Query_Stream
  imports Session Recent_Window
begin

text \<open>
  The live query stream (app.js, LIVE QUERY STREAM): the buffer of the last 200 queries, the
  filter, the rows and the two placeholders, and the events that touch them: server events, the
  filter and search controls, Pause, Clear, tab switches, the tab's visibility and the animation
  frame that coalesces repaints.

  \<open>senv\<close> holds what the browser contributes: the time of day of a timestamp and of now, and the
  text of the members every object inherits (a plain-object table has them as keys). The daemon
  sends the fields of a query as strings; another type in domain, client_ip or account_name
  raises a TypeError in the source and is outside the model. Markup is written without the
  indentation of its templates.
\<close>

section \<open>Rows\<close>

record senv =
  se_time :: "jsval \<Rightarrow> string"
  se_now :: string
  se_proto :: "string \<Rightarrow> string option"

definition str_field :: "jsval \<Rightarrow> string \<Rightarrow> string \<Rightarrow> string" where
  "str_field q k d = js_string (js_or (jget q k) (JStr d))"

definition STREAM_ACTION_BADGES :: "(string \<times> string) list" where
  "STREAM_ACTION_BADGES =
    [(''PROXY'', ''<span class=\"badge badge-proxy\">PROXY</span>''),
     (''PROXY_IPV6_SINK'', ''<span class=\"badge badge-proxy\">PROXY '' @ hx ''C2B7'' @ '' IPv6 SINK</span>''),
     (''BLOCK'', ''<span class=\"badge badge-block\">BLOCK</span>''),
     (''RATELIMIT'', ''<span class=\"badge badge-block\">RATE LIMITED</span>''),
     (''QUOTA'', ''<span class=\"badge badge-block\">QUOTA</span>''),
     (''CUSTOM'', ''<span class=\"badge badge-custom\">CUSTOM</span>''),
     (''CACHED'', ''<span class=\"badge badge-direct\">DIRECT</span>''),
     (''STALE'', ''<span class=\"badge badge-cached\">STALE</span>''),
     (''DIRECT'', ''<span class=\"badge badge-direct\">DIRECT</span>'')]"

definition client_display :: "string \<Rightarrow> string \<Rightarrow> string" where
  "client_display accountName clientIP =
     (if accountName = ''Public'' then
       ''<div class=\"flex flex-col\"><span class=\"text-slate-300 font-mono text-xs leading-tight\">'' @
       escapeHTML (JStr clientIP) @
       ''</span><span class=\"text-[10px] text-slate-500 font-mono\">Public / Direct</span></div>''
      else
       ''<div class=\"flex flex-col\"><span class=\"text-cyan-400 font-bold font-mono text-xs leading-tight\">'' @
       escapeHTML (JStr accountName) @
       ''</span><span class=\"text-[10px] text-slate-400 font-mono\">'' @
       escapeHTML (JStr clientIP) @ ''</span></div>'')"

definition action_cell :: "senv \<Rightarrow> jsval \<Rightarrow> string" where
  "action_cell env q =
     (let action = js_or (jget q ''action'') (JStr ''DIRECT'') in
      case map_of STREAM_ACTION_BADGES (js_string action) of
        Some b \<Rightarrow> b
      | None \<Rightarrow> (case se_proto env (js_string action) of Some t \<Rightarrow> t
                 | None \<Rightarrow> ''<span class=\"badge badge-unknown\">'' @ escapeHTML action @ ''</span>''))"

definition cache_cell :: "jsval \<Rightarrow> string" where
  "cache_cell q = (if truthy (jget q ''cached'') then ''<span class=\"badge badge-cached ms-1\">RAM</span>'' else '''')"

definition latency_cell :: "jsval \<Rightarrow> string" where
  "latency_cell q =
     (case jget q ''latency_ms'' of
        JNum n \<Rightarrow> num_fixed 1 n
      | _ \<Rightarrow> (case jget q ''latency'' of
                JNum (Fin x) \<Rightarrow> to_fixed 1 (fl (x / 1000000))
              | JNum n \<Rightarrow> num_fixed 1 n
              | _ \<Rightarrow> to_fixed 1 0)) @ '' ms''"

definition time_cell :: "senv \<Rightarrow> jsval \<Rightarrow> string" where
  "time_cell env q =
     (if truthy (jget q ''timestamp'') then se_time env (jget q ''timestamp'') else se_now env)"

definition rule_cell :: "jsval \<Rightarrow> jsval" where
  "rule_cell q = js_or (jget q ''rule_name'') (js_or (jget q ''rule_matched'')
     (js_or (jget q ''rule'') (JStr ''Default Direct'')))"

definition queryRowHTML :: "senv \<Rightarrow> jsval \<Rightarrow> string" where
  "queryRowHTML env q =
     ''<td class=\"py-2.5 px-2 sm:px-3 text-slate-400 whitespace-nowrap\">'' @ time_cell env q @
     ''</td><td class=\"py-2.5 px-2 sm:px-3\">'' @
     client_display (str_field q ''account_name'' ''Public'') (str_field q ''client_ip'' '''') @
     ''</td><td class=\"py-2.5 px-2 sm:px-3 text-purple-400 font-bold hidden sm:table-cell\">'' @
     escapeHTML (js_or (jget q ''protocol'') (JStr ''UDP'')) @
     ''</td><td class=\"py-2.5 px-2 sm:px-3 text-cyan-300 font-semibold max-w-[120px] sm:max-w-xs truncate\" title=\"'' @
     escapeHTML (jget q ''domain'') @ ''\">'' @ escapeHTML (jget q ''domain'') @
     ''</td><td class=\"py-2.5 px-2 sm:px-3 text-slate-400 hidden sm:table-cell\">'' @
     escapeHTML (rule_cell q) @ ''</td><td class=\"py-2.5 px-2 sm:px-3\">'' @ action_cell env q @
     cache_cell q @
     ''</td><td class=\"py-2.5 px-2 sm:px-3 text-end text-emerald-400 font-mono\">'' @
     latency_cell q @ ''</td>''"

definition newQueryRow :: "senv \<Rightarrow> jsval \<Rightarrow> string" where
  "newQueryRow env q =
     ''<tr class=\"hover:bg-slate-800/40 transition border-b border-slate-800/40\">'' @ queryRowHTML env q @ ''</tr>''"

definition STREAM_LISTENING_ROW :: string where
  "STREAM_LISTENING_ROW =
     ''<tr class=\"stream-placeholder\"><td colspan=\"7\" class=\"py-12 text-center text-slate-500\"><div class=\"flex flex-col items-center gap-2\"><div class=\"pulse-dot\"></div><span>Listening for live DNS queries...</span></div></td></tr>''"

definition streamNoMatchRow :: "string \<times> string \<Rightarrow> nat \<Rightarrow> string" where
  "streamNoMatchRow f held =
     (case f of (action, search) \<Rightarrow>
      let bits = (if action \<noteq> ''ALL'' then [''action <span class=\"text-slate-300\">'' @ escapeHTML (JStr action) @ ''</span>''] else []) @
                 (if search \<noteq> '''' then [''&ldquo;<span class=\"text-slate-300\">'' @ escapeHTML (JStr search) @ ''</span>&rdquo;''] else []);
          what = (if bits \<noteq> [] then js_join '' and '' bits else ''the current filter'');
          lead = (if held = 1 then ''The one query received so far does not match''
                  else ''None of the last '' @ nat_str held @ '' queries match'') in
      ''<tr class=\"stream-placeholder\"><td colspan=\"7\" class=\"py-12 text-center text-slate-500\"><div class=\"flex flex-col items-center gap-1.5\"><div class=\"font-bold text-slate-400 font-heading\">No Match</div><p class=\"text-xs\">'' @
      lead @ '' '' @ what @
      ''.</p><button class=\"clear-stream-filter-btn mt-1.5 text-[11px] font-bold text-cyan-400 border border-cyan-500/30 bg-cyan-500/10 px-3 py-1.5 rounded-lg hover:bg-cyan-500/20 transition\">Show all queries</button></div></td></tr>'')"

section \<open>The table\<close>

definition STREAM_BUFFER_MAX :: nat where "STREAM_BUFFER_MAX = 200"

record stream =
  streamBuffer :: "jsval list"
  isStreamPaused :: bool
  streamPendingRender :: bool
  st_tab :: string
  st_hidden :: bool
  st_filter :: string
  st_search :: string
  st_tbody :: string

definition streamFilterState :: "stream \<Rightarrow> string \<times> string" where
  "streamFilterState s = (st_filter s, js_trim (js_lower (st_search s)))"

definition queryMatchesStream :: "jsval \<Rightarrow> string \<times> string \<Rightarrow> bool" where
  "queryMatchesStream q f =
     (case f of (action, search) \<Rightarrow>
        (action = ''ALL'' \<or>
         (if action = ''CACHED'' then truthy (jget q ''cached'') else jget q ''action'' = JStr action)) \<and>
        (search = '''' \<or>
         js_includes (js_lower (str_field q ''domain'' '''')) search \<or>
         js_includes (str_field q ''client_ip'' '''') search \<or>
         js_includes (js_lower (str_field q ''account_name'' ''Public'')) search))"

definition stream_rows :: "stream \<Rightarrow> jsval list" where
  "stream_rows s = filter (\<lambda>q. queryMatchesStream q (streamFilterState s)) (streamBuffer s)"

definition stream_html :: "senv \<Rightarrow> stream \<Rightarrow> string" where
  "stream_html env s =
     (if streamBuffer s = [] then STREAM_LISTENING_ROW
      else if stream_rows s = [] then streamNoMatchRow (streamFilterState s) (length (streamBuffer s))
      else concat (map (newQueryRow env) (stream_rows s)))"

definition renderQueryStream :: "senv \<Rightarrow> stream \<Rightarrow> stream" where
  "renderQueryStream env s = s\<lparr>st_tbody := stream_html env s\<rparr>"

section \<open>Arrivals\<close>

definition buffer_push :: "jsval \<Rightarrow> jsval list \<Rightarrow> jsval list" where
  "buffer_push q b = (let b' = q # b in if length b' > STREAM_BUFFER_MAX then butlast b' else b')"

definition pushStreamQuery :: "jsval \<Rightarrow> stream \<Rightarrow> stream" where
  "pushStreamQuery q s =
     (if \<not> truthy q then s
      else let s1 = s\<lparr>streamBuffer := buffer_push q (streamBuffer s)\<rparr> in
        if st_hidden s1 \<or> st_tab s1 \<noteq> ''stream'' then s1
        else if isStreamPaused s1 then s1
        else if streamPendingRender s1 then s1
        else s1\<lparr>streamPendingRender := True\<rparr>)"

definition on_frame :: "senv \<Rightarrow> stream \<Rightarrow> stream" where
  "on_frame env s =
     (let s1 = s\<lparr>streamPendingRender := False\<rparr> in
      if st_hidden s1 \<or> st_tab s1 \<noteq> ''stream'' \<or> isStreamPaused s1 then s1
      else renderQueryStream env s1)"

definition seedStreamQueries :: "senv \<Rightarrow> jsval list \<Rightarrow> stream \<Rightarrow> stream" where
  "seedStreamQueries env l s =
     renderQueryStream env (s\<lparr>streamBuffer := take STREAM_BUFFER_MAX l\<rparr>)"

section \<open>Events\<close>

text \<open>
  The payload of a server event is the result of JSON.parse, \<open>None\<close> when it throws. \<open>Message\<close>
  is an event without a name.
\<close>

datatype stream_event =
    Query "jsval option"
  | History "jsval option"
  | Message "jsval option"
  | SetFilter string
  | SetSearch string
  | ShowAll
  | TogglePause
  | ClearStream
  | Frame
  | TabSwitch string
  | Visibility bool

fun on_event :: "senv \<Rightarrow> stream_event \<Rightarrow> stream \<Rightarrow> stream" where
  "on_event env (Query d) s =
     (if isStreamPaused s then s
      else case d of None \<Rightarrow> s | Some q \<Rightarrow> pushStreamQuery q s)"
| "on_event env (History d) s =
     (case d of Some (JArr l) \<Rightarrow> seedStreamQueries env l s | _ \<Rightarrow> s)"
| "on_event env (Message d) s =
     (if isStreamPaused s then s
      else case d of None \<Rightarrow> s
           | Some (JArr l) \<Rightarrow> seedStreamQueries env l s
           | Some q \<Rightarrow> pushStreamQuery q s)"
| "on_event env (SetFilter v) s = renderQueryStream env (s\<lparr>st_filter := v\<rparr>)"
| "on_event env (SetSearch v) s = renderQueryStream env (s\<lparr>st_search := v\<rparr>)"
| "on_event env ShowAll s = renderQueryStream env (s\<lparr>st_filter := ''ALL'', st_search := ''''\<rparr>)"
| "on_event env TogglePause s = s\<lparr>isStreamPaused := \<not> isStreamPaused s\<rparr>"
| "on_event env ClearStream s = renderQueryStream env (s\<lparr>streamBuffer := []\<rparr>)"
| "on_event env Frame s = (if streamPendingRender s then on_frame env s else s)"
| "on_event env (TabSwitch t) s =
     (let s1 = s\<lparr>st_tab := t\<rparr> in if t = ''stream'' then renderQueryStream env s1 else s1)"
| "on_event env (Visibility h) s =
     (let s1 = s\<lparr>st_hidden := h\<rparr> in
      if \<not> h \<and> st_tab s1 = ''stream'' \<and> \<not> isStreamPaused s1 then renderQueryStream env s1 else s1)"

section \<open>Opening the stream\<close>

definition uri_unreserved :: "char \<Rightarrow> bool" where
  "uri_unreserved c \<longleftrightarrow>
     (let n = of_char c :: nat in
      n \<in> {48..57} \<or> n \<in> {65..90} \<or> n \<in> {97..122} \<or>
      c \<in> {CHR ''-'', CHR ''_'', CHR ''.'', CHR ''!'', CHR ''~'', CHR ''*'', CHR 0x27, CHR ''('', CHR '')''})"

definition hex_digit :: "nat \<Rightarrow> char" where
  "hex_digit n = ''0123456789ABCDEF'' ! n"

definition encodeURIComponent :: "string \<Rightarrow> string" where
  "encodeURIComponent s = concat (map (\<lambda>c. if uri_unreserved c then [c]
     else [CHR 0x25, hex_digit (of_char c div 16), hex_digit (of_char c mod 16)]) s)"

text \<open>The result is the address the EventSource is opened with.\<close>

definition startLiveStream :: "string page" where
  "startLiveStream = do {
     w \<leftarrow> State_Monad.get;
     let base = api w ''/api/stream/queries'';
     if authToken w = '''' then ret base
     else do {
       oc \<leftarrow> fetch_auth ''POST'' ''/api/auth/sse-ticket'' JUndef;
       ret (case oc of NetErr \<Rightarrow> base
            | Resp r \<Rightarrow>
                if \<not> rs_ok r then base
                else case rs_json r of None \<Rightarrow> base
                | Some tj \<Rightarrow>
                    if nullish tj then base
                    else base @ ''?ticket='' @ encodeURIComponent (js_string (jget tj ''ticket''))) } }"

section \<open>The buffer\<close>

interpretation stream_window: recent_window buffer_push "\<lambda>b. b" "\<lambda>q. q"
  "\<lambda>b. length b \<le> STREAM_BUFFER_MAX" STREAM_BUFFER_MAX
proof
  fix b :: "jsval list" and q
  assume b: "length b \<le> STREAM_BUFFER_MAX"
  show "length (buffer_push q b) \<le> STREAM_BUFFER_MAX"
    using b by (simp add: buffer_push_def Let_def)
  show "buffer_push q b = take STREAM_BUFFER_MAX (q # b)"
    using b by (cases "length b = STREAM_BUFFER_MAX") (simp_all add: buffer_push_def Let_def butlast_conv_take)
qed simp

lemma buffer_pushStreamQuery:
  "streamBuffer (pushStreamQuery q s) =
     (if truthy q then buffer_push q (streamBuffer s) else streamBuffer s)"
  "isStreamPaused (pushStreamQuery q s) = isStreamPaused s"
  by (simp_all add: pushStreamQuery_def Let_def)

lemma unpaused_event:
  "e \<noteq> TogglePause \<Longrightarrow> isStreamPaused (on_event env e s) = isStreamPaused s"
  by (cases e) (auto simp: buffer_pushStreamQuery renderQueryStream_def seedStreamQueries_def
      on_frame_def Let_def split: option.splits jsval.splits)

text \<open>
  What the page has been handed, newest first: a history batch says what came before, Clear
  starts again, and nothing else counts.
\<close>

fun handed :: "stream_event \<Rightarrow> jsval list \<Rightarrow> jsval list" where
  "handed (Query (Some q)) l = (if truthy q then q # l else l)"
| "handed (History (Some (JArr xs))) l = xs"
| "handed (Message (Some (JArr xs))) l = xs"
| "handed (Message (Some q)) l = (if truthy q then q # l else l)"
| "handed ClearStream l = []"
| "handed _ l = l"

lemma buffer_event:
  assumes "\<not> isStreamPaused s" "e \<noteq> TogglePause" "streamBuffer s = take STREAM_BUFFER_MAX l"
  shows "streamBuffer (on_event env e s) = take STREAM_BUFFER_MAX (handed e l)"
proof -
  have p: "buffer_push q (take STREAM_BUFFER_MAX l) = take STREAM_BUFFER_MAX (q # l)"
    for q and l :: "jsval list"
    using stream_window.shows_push[of "take STREAM_BUFFER_MAX l" q] by (simp add: take_Cons' STREAM_BUFFER_MAX_def)
  show ?thesis
    using assms
    by (induction e l rule: handed.induct)
      (auto simp: buffer_pushStreamQuery p renderQueryStream_def seedStreamQueries_def on_frame_def
        Let_def split: option.split jsval.split)
qed

text \<open>
  C29. The buffer holds the last two hundred queries the page was handed, newest first, whatever
  the view shows: as long as Pause is not pressed, through any mixture of arrivals, history
  batches, filter and search changes, tab switches, hiding, repaints and clearing, it is the
  first two hundred of what came since the last batch or Clear, and turning the filter and the
  search off lists every one of them again.
\<close>

theorem stream_holds_last_200:
  assumes "length (streamBuffer s) \<le> 200" "\<not> isStreamPaused s" "TogglePause \<notin> set es"
    and "s' = fold (on_event env) es s"
  shows "streamBuffer s' = take 200 (fold handed es (streamBuffer s)) \<and>
    stream_rows (on_event env ShowAll s') = take 200 (fold handed es (streamBuffer s))"
proof -
  have "streamBuffer (fold (on_event env) es s) = take STREAM_BUFFER_MAX (fold handed es l)"
    if "streamBuffer s = take STREAM_BUFFER_MAX l" for l
    using assms(2,3) that
  proof (induction es arbitrary: s l)
    case (Cons e es)
    then have "e \<noteq> TogglePause" "TogglePause \<notin> set es" by auto
    then show ?case
      using Cons.IH[of "on_event env e s" "handed e l"] Cons.prems(1,3) buffer_event[of s e l env]
        unpaused_event[of e env s] by simp
  qed simp
  then have "streamBuffer s' = take STREAM_BUFFER_MAX (fold handed es (streamBuffer s))"
    using assms(1,4) by (simp add: STREAM_BUFFER_MAX_def)
  then show ?thesis
    by (simp add: STREAM_BUFFER_MAX_def stream_rows_def renderQueryStream_def streamFilterState_def
        queryMatchesStream_def js_lower_def)
qed

definition sample_stream :: "jsval list \<Rightarrow> stream" where
  "sample_stream b = \<lparr>streamBuffer = b, isStreamPaused = False, streamPendingRender = False,
     st_tab = ''stream'', st_hidden = False, st_filter = ''ALL'', st_search = '''',
     st_tbody = STREAM_LISTENING_ROW\<rparr>"

definition sample_senv :: senv where
  "sample_senv = \<lparr>se_time = (\<lambda>t. ''10:00''), se_now = ''10:01'', se_proto = Map.empty\<rparr>"

theorem stream_holds_last_200_witness:
  "streamBuffer (fold (on_event sample_senv)
     [Query (Some (JObj [])), SetFilter ''BLOCK'', TabSwitch ''settings'', Query (Some (JObj [(''domain'', JStr ''a'')]))]
     (sample_stream [])) = [JObj [(''domain'', JStr ''a'')], JObj []]"
  using stream_holds_last_200[of "sample_stream []"
      "[Query (Some (JObj [])), SetFilter ''BLOCK'', TabSwitch ''settings'', Query (Some (JObj [(''domain'', JStr ''a'')]))]"
      _ sample_senv, OF _ _ _ refl]
  by (simp only: sample_stream_def) simp

text \<open>While the stream is paused an arrival is not kept at all.\<close>

lemma paused_arrival_lost: "isStreamPaused s \<Longrightarrow> on_event env (Query d) s = s"
  by simp

section \<open>The table and the buffer\<close>

text \<open>While the Logs view is on screen and no repaint is due, the table shows the buffer.\<close>

definition in_view :: "stream \<Rightarrow> bool" where
  "in_view s \<longleftrightarrow> \<not> st_hidden s \<and> st_tab s = ''stream''"

definition in_sync :: "senv \<Rightarrow> stream \<Rightarrow> bool" where
  "in_sync env s \<longleftrightarrow> (in_view s \<and> \<not> streamPendingRender s \<longrightarrow> st_tbody s = stream_html env s)"

lemma stream_html_tbody [simp]:
  "stream_html env (s\<lparr>st_tbody := t\<rparr>) = stream_html env s"
  "stream_html env (s\<lparr>streamPendingRender := b\<rparr>) = stream_html env s"
  "stream_html env (s\<lparr>st_hidden := h\<rparr>) = stream_html env s"
  "stream_html env (s\<lparr>st_tab := tb\<rparr>) = stream_html env s"
  by (simp_all add: stream_html_def stream_rows_def streamFilterState_def)

lemma in_sync_render [simp]: "in_sync env (renderQueryStream env s)"
  by (simp add: in_sync_def renderQueryStream_def in_view_def)

lemma in_sync_push: "in_sync env s \<Longrightarrow> \<not> isStreamPaused s \<Longrightarrow> in_sync env (pushStreamQuery q s)"
  by (auto simp: in_sync_def pushStreamQuery_def Let_def in_view_def)

lemma in_sync_event:
  assumes "in_sync env s" "\<not> isStreamPaused s" "e \<noteq> TogglePause"
  shows "in_sync env (on_event env e s)"
proof (cases e)
  case (Query d)
  then show ?thesis using assms in_sync_push by (cases d) auto
next
  case (Message d)
  then show ?thesis using assms in_sync_push
    by (auto simp: seedStreamQueries_def split: option.split jsval.split)
next
  case Frame
  then show ?thesis using assms(1)
    using assms(2) by (auto simp: on_frame_def Let_def) (auto simp: in_sync_def in_view_def)
next
  case (TabSwitch t)
  then show ?thesis by (auto simp: Let_def) (simp add: in_sync_def in_view_def)
next
  case (Visibility h)
  then show ?thesis using assms(2) by (auto simp: Let_def) (auto simp: in_sync_def in_view_def)
qed (use assms in \<open>auto simp: seedStreamQueries_def split: option.splits jsval.splits\<close>)

text \<open>
  C12. As long as nobody presses Pause, the table cannot go stale: through arrivals on any tab,
  history batches, filter and search changes, clearing, tab switches, hiding and showing the
  page and repaint frames, the Logs view shows exactly the buffered queries that match the
  filter whenever it is on screen and no repaint is due.
\<close>

theorem stream_table_in_sync:
  assumes "in_sync env s" "\<not> isStreamPaused s" "TogglePause \<notin> set es"
    and "s' = fold (on_event env) es s" "in_view s'" "\<not> streamPendingRender s'"
  shows "st_tbody s' = stream_html env s'"
proof -
  have "in_sync env (fold (on_event env) es s)"
    using assms(1-3)
    by (induction es arbitrary: s) (auto simp: in_sync_event unpaused_event)
  then show ?thesis using assms(4-6) by (simp add: in_sync_def)
qed

theorem stream_table_in_sync_witness:
  "st_tbody (fold (on_event sample_senv) [Query (Some (JObj [])), Frame] (sample_stream [])) =
   stream_html sample_senv (fold (on_event sample_senv) [Query (Some (JObj [])), Frame] (sample_stream []))"
  by (rule stream_table_in_sync[of sample_senv "sample_stream []"
        "[Query (Some (JObj [])), Frame]", OF _ _ _ refl])
    (simp_all add: in_sync_def in_view_def sample_stream_def stream_html_def pushStreamQuery_def
      on_frame_def renderQueryStream_def Let_def)

text \<open>
  Pressing Pause between an arrival and its repaint frame loses the repaint: the query is
  in the buffer, but after Resume the table still shows what it showed before, with no repaint
  due.
\<close>

theorem pause_loses_repaint:
  assumes "in_view s" "\<not> isStreamPaused s" "\<not> streamPendingRender s" "truthy q"
  shows "let s' = fold (on_event env) [Query (Some q), TogglePause, Frame, TogglePause] s in
    streamBuffer s' = buffer_push q (streamBuffer s) \<and> st_tbody s' = st_tbody s \<and>
    in_view s' \<and> \<not> streamPendingRender s' \<and> \<not> isStreamPaused s'"
  using assms by (simp add: pushStreamQuery_def on_frame_def in_view_def Let_def)

theorem pause_loses_repaint_witness:
  "st_tbody (fold (on_event sample_senv) [Query (Some (JObj [])), TogglePause, Frame, TogglePause] (sample_stream [])) =
   STREAM_LISTENING_ROW"
  using pause_loses_repaint[of "sample_stream []" "JObj []" sample_senv]
  by (simp add: in_view_def sample_stream_def Let_def)

section \<open>Markup\<close>

lemma tags_badge: "(k, b) \<in> set STREAM_ACTION_BADGES \<Longrightarrow> tags b = 2"
proof -
  have "\<forall>(k, b) \<in> set STREAM_ACTION_BADGES. tags b = 2" by code_simp
  then show "(k, b) \<in> set STREAM_ACTION_BADGES \<Longrightarrow> ?thesis" by blast
qed

lemma tags_parts:
  "tags (client_display a c) = 6"
  "se_proto env = Map.empty \<Longrightarrow> tags (action_cell env q) = 2"
  "tags (cache_cell q) = (if truthy (jget q ''cached'') then 2 else 0)"
  using tags_badge
  by (auto simp: client_display_def action_cell_def cache_cell_def tags_Cons Let_def
      dest!: map_of_SomeD split: option.splits)

lemma tags_latency: "tags (latency_cell q) = 0"
proof -
  have "CHR ''<'' \<notin> set (num_fixed 1 n)" for n using to_fixed_no_lt by (cases n) auto
  then show ?thesis using to_fixed_no_lt
    by (intro tags_no_lt) (auto simp: latency_cell_def split: jsval.splits jsnum.splits)
qed

text \<open>
  A query cannot bring markup into the table: the row of any query opens and closes the
  same twenty-two tags, two more when the answer came from the cache, whatever the domain, the
  address, the account, the protocol, the rule and the action hold.
\<close>

theorem row_markup_fixed:
  assumes "se_proto env = Map.empty" "CHR ''<'' \<notin> set (time_cell env q)"
  shows "tags (queryRowHTML env q) = 22 + (if truthy (jget q ''cached'') then 2 else 0)"
  using assms
  by (simp add: queryRowHTML_def tags_parts tags_latency tags_no_lt tags_Cons)

theorem row_markup_fixed_witness:
  "tags (queryRowHTML \<lparr>se_time = (\<lambda>t. ''10:00''), se_now = ''10:01'', se_proto = Map.empty\<rparr>
     (JObj [(''domain'', JStr ''<img src=x>''), (''action'', JStr ''<b>''), (''cached'', JBool True)])) = 24"
  using row_markup_fixed[of "\<lparr>se_time = (\<lambda>t. ''10:00''), se_now = ''10:01'', se_proto = Map.empty\<rparr>"
     "JObj [(''domain'', JStr ''<img src=x>''), (''action'', JStr ''<b>''), (''cached'', JBool True)]"]
  by (simp add: time_cell_def)

section \<open>The ticket\<close>

text \<open>
  The address the stream is opened with never depends on the session token: with any two
  tokens and the same answers it is the same, the plain address or the one with the one-time
  ticket, percent-encoded.
\<close>

theorem stream_url_without_token:
  assumes "t1 \<noteq> ''''" "t2 \<noteq> ''''"
  shows "result startLiveStream (w\<lparr>authToken := t1\<rparr>) = result startLiveStream (w\<lparr>authToken := t2\<rparr>) \<and>
    (let base = adminBase w @ ''/api/stream/queries'' in
     result startLiveStream (w\<lparr>authToken := t1\<rparr>) \<in>
       insert base {base @ ''?ticket='' @ encodeURIComponent t | t. True})"
  using assms
  by (auto simp: startLiveStream_def fetch_auth_run(2) api_def Let_def
      split: list.split outcome.split option.split)

theorem stream_url_without_token_witness:
  "result startLiveStream ((sample_page JNull [resp_ok (JObj [(''ticket'', JStr ''a/b'')])])\<lparr>authToken := ''x''\<rparr>) =
   result startLiveStream ((sample_page JNull [resp_ok (JObj [(''ticket'', JStr ''a/b'')])])\<lparr>authToken := ''y''\<rparr>)"
  using stream_url_without_token[of "''x''" "''y''"] by simp

end
