(* ===== verification/Panel_Routes.thy ===== *)
theory Panel_Routes
  imports Js_Prelude
begin

text \<open>
  Where the panel lives and which tab it shows (app.js, ADMIN_BASE, switchTab and
  handleRouteFromURL): the hidden admin namespace read from the address, the two route tables,
  the tab switch with what it loads, and the way back from an address to a tab.

  \<open>router\<close> is the part of the page these functions touch: the address, the pushed history, the
  tab contents and which navigation entries are marked. \<open>rt_contents\<close> lists the tab contents
  the markup has.
\<close>

section \<open>The namespace\<close>

definition is_hex :: "char \<Rightarrow> bool" where
  "is_hex c \<longleftrightarrow> (let n = of_char c :: nat in n \<in> {48..57} \<or> n \<in> {97..102})"

definition admin_base_of :: "string \<Rightarrow> string" where
  "admin_base_of path =
     (case path of
        c # r \<Rightarrow>
          if c = CHR ''/'' \<and> length r \<ge> 16 \<and> list_all is_hex (take 16 r) \<and>
             (drop 16 r = [] \<or> hd (drop 16 r) = CHR ''/'')
          then ''/'' @ take 16 r else ''''
      | [] \<Rightarrow> '''')"

definition DASH_BASE :: "string \<Rightarrow> string" where
  "DASH_BASE base = base @ ''/dash''"

section \<open>Routes\<close>

definition tabRoutes :: "(string \<times> string) list" where
  "tabRoutes =
    [(''dashboard'', ''/home''), (''clients'', ''/clients''), (''gaming'', ''/gaming''),
     (''policy'', ''/rules''), (''stream'', ''/logs''), (''api'', ''/api''),
     (''rules'', ''/settings''), (''connect'', ''/guide'')]"

definition routeTabs :: "(string \<times> string) list" where
  "routeTabs =
    [(''/home'', ''dashboard''), (''/dashboard'', ''dashboard''), (''/panel'', ''dashboard''),
     (''/login'', ''dashboard''), (''/clients'', ''clients''), (''/gaming'', ''gaming''),
     (''/rules'', ''policy''), (''/policy'', ''policy''), (''/logs'', ''stream''),
     (''/stream'', ''stream''), (''/api'', ''api''), (''/settings'', ''rules''),
     (''/guide'', ''connect''), (''/connect'', ''connect'')]"

datatype tab_load = LoadClients | InitGaming | RenderGaming | LoadPolicies | RenderStream

record router =
  rt_base :: string
  rt_path :: string
  rt_pushed :: "string list"
  rt_tab :: string
  rt_contents :: "string list"
  rt_hidden :: "string \<Rightarrow> bool"
  rt_marked :: "string \<Rightarrow> bool"
  rt_loads :: "tab_load list"

definition tab_loads :: "string \<Rightarrow> tab_load list" where
  "tab_loads t =
     (if t = ''clients'' then [LoadClients]
      else if t = ''gaming'' then [InitGaming, RenderGaming]
      else if t = ''policy'' then [LoadPolicies]
      else if t = ''stream'' then [RenderStream] else [])"

definition push_route :: "string \<Rightarrow> router \<Rightarrow> router" where
  "push_route t s =
     (case map_of tabRoutes t of
        None \<Rightarrow> s
      | Some r \<Rightarrow> let p = DASH_BASE (rt_base s) @ r in
          if rt_path s = p then s else s\<lparr>rt_path := p, rt_pushed := rt_pushed s @ [p]\<rparr>)"

definition switchTab :: "string \<Rightarrow> bool \<Rightarrow> router \<Rightarrow> router" where
  "switchTab t updateUrl s =
     (let el = ''tab-'' @ t;
          s1 = s\<lparr>rt_tab := t, rt_marked := (\<lambda>n. n = t),
                 rt_hidden := (\<lambda>i. i \<in> set (rt_contents s) \<or> rt_hidden s i)\<rparr>;
          s2 = (if el \<in> set (rt_contents s1)
                then s1\<lparr>rt_hidden := (rt_hidden s1)(el := False),
                        rt_loads := rt_loads s1 @ tab_loads t\<rparr> else s1) in
      if updateUrl then push_route t s2 else s2)"

definition strip_slash :: "string \<Rightarrow> string" where
  "strip_slash p = (if p \<noteq> [] \<and> last p = CHR ''/'' then butlast p else p)"

definition route_of :: "string \<Rightarrow> string \<Rightarrow> string" where
  "route_of base path =
     (let stripped = strip_slash (js_lower path);
          withoutBase =
            (if base \<noteq> '''' \<and> js_startsWith stripped (base @ ''/dash'')
             then let r = drop (length (base @ ''/dash'')) stripped in if r = '''' then ''/'' else r
             else stripped);
          p = (if withoutBase = '''' then ''/home'' else withoutBase) in
      case map_of routeTabs p of None \<Rightarrow> ''dashboard'' | Some t \<Rightarrow> t)"

definition handleRouteFromURL :: "router \<Rightarrow> router" where
  "handleRouteFromURL s = switchTab (route_of (rt_base s) (rt_path s)) False s"

section \<open>Lemmas\<close>

lemma hex_lower: "is_hex c \<Longrightarrow> lower_char c = c"
  by (auto simp: is_hex_def lower_char_def Let_def)

text \<open>A valid namespace: a slash and sixteen lower-case hexadecimal digits.\<close>

definition valid_base :: "string \<Rightarrow> bool" where
  "valid_base b \<longleftrightarrow> (\<exists>h. b = ''/'' @ h \<and> length h = 16 \<and> list_all is_hex h)"

lemma admin_base_valid: "admin_base_of p = '''' \<or> valid_base (admin_base_of p)"
  by (auto simp: admin_base_of_def valid_base_def split: list.splits)

lemma admin_base_prefix: "valid_base b \<Longrightarrow> admin_base_of (b @ ''/dash'' @ r) = b"
  by (auto simp: admin_base_of_def valid_base_def)

lemma valid_base_lower: "valid_base b \<Longrightarrow> js_lower b = b"
proof -
  assume "valid_base b"
  then obtain h where h: "b = ''/'' @ h" "list_all is_hex h" by (auto simp: valid_base_def)
  have "map lower_char h = h" using h(2) hex_lower by (auto simp: list_all_iff intro!: map_idI)
  moreover have "lower_char (CHR ''/'') = CHR ''/''" by code_simp
  ultimately show ?thesis using h(1) by (simp add: js_lower_def)
qed

lemma route_table: "(t, r) \<in> set tabRoutes \<Longrightarrow>
  js_lower r = r \<and> strip_slash r = r \<and> r \<noteq> [] \<and> map_of routeTabs r = Some t \<and>
  map_of tabRoutes t = Some r \<and>
  map_of routeTabs (''/dash'' @ r) = None \<and> js_lower (''/dash'' @ r) = ''/dash'' @ r"
proof -
  have "\<forall>(t, r) \<in> set tabRoutes. js_lower r = r \<and> strip_slash r = r \<and> r \<noteq> [] \<and>
    map_of routeTabs r = Some t \<and> map_of tabRoutes t = Some r \<and>
    map_of routeTabs (''/dash'' @ r) = None \<and> js_lower (''/dash'' @ r) = ''/dash'' @ r" by code_simp
  then show "(t, r) \<in> set tabRoutes \<Longrightarrow> ?thesis" by blast
qed

lemma strip_slash_append: "r \<noteq> [] \<Longrightarrow> strip_slash (a @ r) = a @ strip_slash r"
  by (auto simp: strip_slash_def butlast_append)

lemma path_after_switch:
  assumes "(t, r) \<in> set tabRoutes"
  shows "rt_path (switchTab t True s) = DASH_BASE (rt_base s) @ r"
    and "rt_base (switchTab t True s) = rt_base s"
  using route_table[OF assms] by (auto simp: switchTab_def push_route_def Let_def)

section \<open>Properties\<close>

text \<open>
  C27. The address a tab switch leaves behind leads back to that tab: loading it again recovers
  the install's namespace from it and routes to the same tab.
\<close>

theorem route_roundtrip:
  assumes "valid_base (rt_base s)" "(t, r) \<in> set tabRoutes"
  shows "let p = rt_path (switchTab t True s) in
    admin_base_of p = rt_base s \<and> route_of (admin_base_of p) p = t"
proof -
  let ?b = "rt_base s" and ?d = "''/dash''"
  have p: "rt_path (switchTab t True s) = ?b @ ?d @ r"
    using path_after_switch(1)[OF assms(2)] by (simp add: DASH_BASE_def)
  have r: "js_lower r = r" "strip_slash r = r" "r \<noteq> []" "map_of routeTabs r = Some t"
    using route_table[OF assms(2)] by auto
  have "js_lower ?d = ?d" by code_simp
  then have "js_lower (?b @ ?d @ r) = ?b @ ?d @ r"
    using r valid_base_lower[OF assms(1)] by (simp add: js_lower_def)
  then have "strip_slash (js_lower (?b @ ?d @ r)) = (?b @ ?d) @ r"
    using r strip_slash_append[of r "?b @ ?d"] by simp
  moreover have "js_startsWith ((?b @ ?d) @ r) (?b @ ?d)" unfolding js_startsWith_iff by blast
  moreover have "?b \<noteq> []" using assms(1) by (auto simp: valid_base_def)
  ultimately have "route_of ?b (?b @ ?d @ r) = t"
    using r by (simp add: route_of_def Let_def)
  then show ?thesis unfolding p using admin_base_prefix[OF assms(1), of r] by (simp add: Let_def)
qed

definition sample_router :: "string \<Rightarrow> router" where
  "sample_router b = \<lparr>rt_base = b, rt_path = b @ ''/dash/'', rt_pushed = [], rt_tab = ''dashboard'',
     rt_contents = [''tab-dashboard'', ''tab-clients'', ''tab-stream''], rt_hidden = (\<lambda>i. False),
     rt_marked = (\<lambda>t. False), rt_loads = []\<rparr>"

theorem route_roundtrip_witness:
  "let p = rt_path (switchTab ''stream'' True (sample_router ''/0123456789abcdef'')) in
   admin_base_of p = rt_base (sample_router ''/0123456789abcdef'') \<and>
   route_of (admin_base_of p) p = ''stream''"
proof -
  have "list_all is_hex ''0123456789abcdef''" by code_simp
  then have v: "valid_base (rt_base (sample_router ''/0123456789abcdef''))"
    by (simp add: valid_base_def sample_router_def)
  have "(''stream'', ''/logs'') \<in> set tabRoutes" by (simp add: tabRoutes_def)
  from route_roundtrip[OF v this] show ?thesis .
qed

text \<open>
  Reached without a namespace, the panel pushes addresses it cannot read back: every tab
  but the first routes to the dashboard after a reload, because the /dash prefix is stripped
  only behind a namespace.
\<close>

theorem no_base_routes_lost:
  assumes "rt_base s = ''''" "(t, r) \<in> set tabRoutes"
  shows "rt_path (switchTab t True s) = ''/dash'' @ r \<and>
    route_of '''' (rt_path (switchTab t True s)) = ''dashboard''"
proof -
  have p: "rt_path (switchTab t True s) = ''/dash'' @ r"
    using path_after_switch(1)[OF assms(2), of s] assms(1) by (simp add: DASH_BASE_def)
  have "strip_slash (''/dash'' @ r) = ''/dash'' @ r"
    using strip_slash_append[of r "''/dash''"] route_table[OF assms(2)] by metis
  then show ?thesis unfolding p using route_table[OF assms(2)]
    by (simp add: route_of_def Let_def)
qed

theorem no_base_routes_lost_witness:
  "route_of '''' (rt_path (switchTab ''clients'' True (sample_router ''''))) = ''dashboard''"
  by (rule no_base_routes_lost[of "sample_router ''''" "''clients''" "''/clients''", THEN conjunct2])
    (simp_all add: sample_router_def tabRoutes_def)

text \<open>
  A tab switch shows one tab: of the tab contents only the target's is visible, only its
  navigation entries are marked, and what the tab needs is loaded when its content exists.
\<close>

theorem switch_shows_one_tab:
  assumes "c \<in> set (rt_contents s)"
  shows "let s' = switchTab t upd s in
    (rt_hidden s' c \<longleftrightarrow> c \<noteq> ''tab-'' @ t) \<and> (rt_marked s' n \<longleftrightarrow> n = t) \<and>
    rt_loads s' = rt_loads s @ (if ''tab-'' @ t \<in> set (rt_contents s) then tab_loads t else [])"
  using assms by (auto simp: switchTab_def push_route_def Let_def split: option.splits)

theorem switch_shows_one_tab_witness:
  "rt_hidden (switchTab ''clients'' True (sample_router '''')) ''tab-stream''"
  using switch_shows_one_tab[of "''tab-stream''" "sample_router ''''" "''clients''" True]
  by (simp add: sample_router_def Let_def)

end
