(* ===== verification/Single_Flight.thy ===== *)
theory Single_Flight
  imports Main
begin

text \<open>
  The guard several parts of the panel put around an asynchronous run: a flag that is set when
  a run starts, makes a second start return at once, and is cleared when the run settles.
  \<open>running\<close> counts the runs actually under way. The locale states the guard's contract and
  what a client may conclude; the components interpret it on their own entry and exit.
\<close>

locale single_flight =
  fixes busy :: "'s \<Rightarrow> bool" and running :: "'s \<Rightarrow> nat"
    and enter :: "'s \<Rightarrow> 's" and leave :: "'s \<Rightarrow> 's"
  assumes enter_busy: "busy s \<Longrightarrow> busy (enter s) \<and> running (enter s) = running s"
    and enter_idle: "\<not> busy s \<Longrightarrow>
      running (enter s) = (if busy (enter s) then Suc (running s) else running s)"
    and leave_idle: "\<not> busy (leave s)"
    and leave_running: "running (leave s) = running s - 1"
begin

definition guarded :: "'s \<Rightarrow> bool" where
  "guarded s \<longleftrightarrow> running s = (if busy s then 1 else 0)"

lemma guarded_enter: "guarded s \<Longrightarrow> guarded (enter s)"
  using enter_busy[of s] enter_idle[of s] by (cases "busy s") (auto simp: guarded_def)

lemma guarded_leave: "guarded s \<Longrightarrow> guarded (leave s)"
  using leave_idle[of s] leave_running[of s] by (auto simp: guarded_def split: if_splits)

lemma no_overlap: "guarded s \<Longrightarrow> running s \<le> 1"
  by (simp add: guarded_def)

inductive runs :: "'s \<Rightarrow> 's \<Rightarrow> bool" where
  enters: "runs s (enter s)"
| leaves: "busy s \<Longrightarrow> runs s (leave s)"

lemma guarded_runs: "runs\<^sup>*\<^sup>* s s' \<Longrightarrow> guarded s \<Longrightarrow> guarded s'"
  by (induction rule: rtranclp_induct) (auto elim!: runs.cases intro: guarded_enter guarded_leave)

lemma never_two: "runs\<^sup>*\<^sup>* s s' \<Longrightarrow> guarded s \<Longrightarrow> running s' \<le> 1"
  using guarded_runs no_overlap by blast

end

end
