(* ===== verification/Stats_Poll.thy ===== *)
theory Stats_Poll
  imports Single_Flight
begin

text \<open>
  The polling of /api/stats (app.js, pollStatsOnce and startStatsPolling) as a state machine.
  A pending timer is an identifier with its delay; \<open>handle\<close> is the variable statsPollTimer,
  which may lose track of a timer that is still pending. \<open>outstanding\<close> counts the requests in
  flight, \<open>listeners\<close> how many times the visibilitychange listener was added.
\<close>

section \<open>The code\<close>

record poll =
  timers :: "(nat \<times> nat) list"
  handle :: "nat option"
  next_id :: nat
  inFlight :: bool
  outstanding :: nat
  failures :: nat
  hidden :: bool
  listeners :: nat

definition STATS_POLL_MS :: nat where "STATS_POLL_MS = 1000"
definition STATS_POLL_MAX_BACKOFF_MS :: nat where "STATS_POLL_MAX_BACKOFF_MS = 8000"

definition poll_delay :: "nat \<Rightarrow> nat" where
  "poll_delay f =
     (if 0 < f then min (STATS_POLL_MS * 2 ^ f) STATS_POLL_MAX_BACKOFF_MS else STATS_POLL_MS)"

text \<open>pollStatsOnce up to its await.\<close>

definition poll_enter :: "poll \<Rightarrow> poll" where
  "poll_enter s =
     (if inFlight s then s
      else let s1 = s\<lparr>handle := None\<rparr> in
        if hidden s1 then s1
        else s1\<lparr>inFlight := True, outstanding := Suc (outstanding s1)\<rparr>)"

text \<open>How updateStats ended: it returned without a token, succeeded, or failed.\<close>

datatype poll_result = NoToken | Fresh | Failed

fun next_failures :: "poll_result \<Rightarrow> nat \<Rightarrow> nat" where
  "next_failures NoToken f = f"
| "next_failures Fresh f = 0"
| "next_failures Failed f = Suc f"

text \<open>The rest of pollStatsOnce, after the await.\<close>

definition poll_settle :: "poll_result \<Rightarrow> poll \<Rightarrow> poll" where
  "poll_settle r s =
     (let s1 = s\<lparr>inFlight := False, outstanding := outstanding s - 1,
                 failures := next_failures r (failures s)\<rparr> in
      if hidden s1 then s1
      else s1\<lparr>timers := timers s1 @ [(next_id s1, poll_delay (failures s1))],
              handle := Some (next_id s1), next_id := Suc (next_id s1)\<rparr>)"

definition clear_handle :: "poll \<Rightarrow> poll" where
  "clear_handle s = s\<lparr>timers := filter (\<lambda>t. Some (fst t) \<noteq> handle s) (timers s), handle := None\<rparr>"

definition on_visibility :: "poll \<Rightarrow> poll" where
  "on_visibility s =
     (if hidden s then clear_handle s else if handle s = None then poll_enter s else s)"

definition set_visibility :: "bool \<Rightarrow> poll \<Rightarrow> poll" where
  "set_visibility h s = (on_visibility ^^ listeners s) (s\<lparr>hidden := h\<rparr>)"

definition startStatsPolling :: "poll \<Rightarrow> poll" where
  "startStatsPolling s = poll_enter (s\<lparr>listeners := Suc (listeners s)\<rparr>)"

definition timer_fires :: "nat \<Rightarrow> poll \<Rightarrow> poll" where
  "timer_fires i s = poll_enter (s\<lparr>timers := filter (\<lambda>t. fst t \<noteq> i) (timers s)\<rparr>)"

inductive poll_step :: "poll \<Rightarrow> poll \<Rightarrow> bool" where
  settles: "inFlight s \<Longrightarrow> poll_step s (poll_settle r s)"
| fires: "i \<in> fst ` set (timers s) \<Longrightarrow> poll_step s (timer_fires i s)"
| visibility: "hidden s \<noteq> h \<Longrightarrow> poll_step s (set_visibility h s)"

definition idle_poll :: "bool \<Rightarrow> poll" where
  "idle_poll h = \<lparr>timers = [], handle = None, next_id = 0, inFlight = False, outstanding = 0,
     failures = 0, hidden = h, listeners = 0\<rparr>"

section \<open>The guard\<close>

interpretation poll_guard: single_flight inFlight outstanding poll_enter "poll_settle r"
  by unfold_locales (auto simp: poll_enter_def poll_settle_def Let_def)

section \<open>Lemmas\<close>

text \<open>One chain: a request in flight or one pending timer that the handle knows, never both.\<close>

definition one_chain :: "poll \<Rightarrow> bool" where
  "one_chain s \<longleftrightarrow>
     listeners s = 1 \<and> outstanding s = (if inFlight s then 1 else 0) \<and>
     (case timers s of
        [] \<Rightarrow> handle s = None \<and> (hidden s \<or> inFlight s)
      | [t] \<Rightarrow> handle s = Some (fst t) \<and> \<not> inFlight s \<and> \<not> hidden s
      | _ \<Rightarrow> False)"

lemmas poll_defs = poll_enter_def poll_settle_def clear_handle_def on_visibility_def
  set_visibility_def startStatsPolling_def timer_fires_def one_chain_def Let_def

lemma one_chain_start: "one_chain (startStatsPolling (idle_poll h))"
  by (simp add: poll_defs idle_poll_def)

lemma one_chain_step:
  assumes "poll_step s s'" "one_chain s"
  shows "one_chain s'"
  using assms
proof (cases rule: poll_step.cases)
  case (settles r)
  then show ?thesis using assms(2) by (auto simp: poll_defs split: list.splits)
next
  case (fires i)
  then show ?thesis using assms(2) by (auto simp: poll_defs split: list.splits)
next
  case (visibility h)
  have "listeners s = Suc 0" using assms(2) by (simp add: one_chain_def)
  then show ?thesis using visibility assms(2)
    by (cases h) (auto simp: poll_defs split: list.splits)
qed

section \<open>Properties\<close>

text \<open>
  C21. Polling started once is one chain for the rest of the page's life, through timers,
  answers in any order and the tab being hidden and shown: never two requests in flight, never
  a timer beside a request, none pending while hidden, and a visible tab always has the next
  poll in flight or scheduled.
\<close>

theorem polling_one_chain:
  assumes "poll_step\<^sup>*\<^sup>* (startStatsPolling (idle_poll h)) s"
  shows "outstanding s + length (timers s) \<le> 1 \<and>
    (hidden s \<longrightarrow> timers s = []) \<and>
    (\<not> hidden s \<longrightarrow> outstanding s + length (timers s) = 1)"
proof -
  have "one_chain s" using assms
    by (induction rule: rtranclp_induct) (auto intro: one_chain_start one_chain_step)
  then show ?thesis by (auto simp: one_chain_def split: list.splits)
qed

theorem polling_one_chain_witness:
  "length (timers (poll_settle Failed (startStatsPolling (idle_poll False)))) \<le> 1"
proof -
  have "poll_step (startStatsPolling (idle_poll False))
      (poll_settle Failed (startStatsPolling (idle_poll False)))"
    by (rule poll_step.settles) (simp add: poll_defs idle_poll_def)
  from polling_one_chain[OF r_into_rtranclp[of poll_step, OF this]] show ?thesis by linarith
qed

text \<open>
  The delay to the next poll is one second after a success, doubles with each failure in a
  row and stops at eight seconds, from the third failure on.
\<close>

theorem poll_backoff:
  assumes "inFlight s" "\<not> hidden s"
  shows "let f = next_failures r (failures s) in
    timers (poll_settle r s) = timers s @ [(next_id s, poll_delay f)] \<and>
    poll_delay f = (if f = 0 then 1000 else if f = 1 then 2000 else if f = 2 then 4000 else 8000)"
proof -
  have d: "poll_delay f = (if f = 0 then 1000 else if f = 1 then 2000 else if f = 2 then 4000 else 8000)" for f
  proof (cases "f < 3")
    case True
    then consider "f = 0" | "f = 1" | "f = 2" by linarith
    then show ?thesis
      by cases (simp_all add: poll_delay_def STATS_POLL_MS_def STATS_POLL_MAX_BACKOFF_MS_def)
  next
    case False
    then have "(2::nat) ^ 3 \<le> 2 ^ f" by (intro power_increasing) auto
    then have "(8000::nat) \<le> 1000 * 2 ^ f" by simp
    then show ?thesis using False
      by (simp add: poll_delay_def STATS_POLL_MS_def STATS_POLL_MAX_BACKOFF_MS_def min_def)
  qed
  show ?thesis using assms d by (simp add: poll_settle_def Let_def)
qed

theorem poll_backoff_witness:
  "poll_delay (next_failures Failed (failures (startStatsPolling (idle_poll False)))) = 2000"
  using poll_backoff[of "startStatsPolling (idle_poll False)" Failed]
  by (simp add: startStatsPolling_def poll_enter_def idle_poll_def Let_def)

text \<open>
  Starting the polling a second time, as signing in again on the same page does, leaves two
  chains: the timer of the first is forgotten but not cleared, and once the new request has
  settled two timers are pending.
\<close>

theorem second_start_two_chains:
  assumes "one_chain s" "\<not> hidden s" "\<not> inFlight s"
  shows "outstanding (startStatsPolling s) + length (timers (startStatsPolling s)) = 2 \<and>
    length (timers (poll_settle r (startStatsPolling s))) = 2 \<and>
    listeners (startStatsPolling s) = 2"
  using assms by (auto simp: poll_defs split: list.splits)

theorem second_start_two_chains_witness:
  "length (timers (poll_settle Fresh (startStatsPolling
     (poll_settle Fresh (startStatsPolling (idle_poll False)))))) = 2"
  using second_start_two_chains[of "poll_settle Fresh (startStatsPolling (idle_poll False))" Fresh]
  by (simp add: poll_defs idle_poll_def)

end
