(* ===== verification/Telemetry.thy ===== *)
theory Telemetry
  imports Session Stats_Poll Recent_Window
begin

text \<open>
  The home tab (app.js, updateStats to renderUpstreams, and the chart): one answer of
  /api/stats painted into the tiles, the health badge and its failure counter, the status
  lines, the upstream list with its repaint signature, and the chart's window of samples.

  \<open>L\<close> is the browser's toLocaleString on finite numbers. The upstream row is written without
  the comment and the indentation of its template.
\<close>

section \<open>Health, sizes, comparisons\<close>

definition markStatsHealth :: "bool \<Rightarrow> string \<Rightarrow> unit page" where
  "markStatsHealth ok reason =
     (if ok then do {
        modify (\<lambda>w. w\<lparr>statsFailures := 0\<rparr>);
        set_class ''live-engine-badge'' ''text-[10px] font-mono text-cyan-400 px-2.5 py-0.5 rounded-full bg-cyan-500/10 border border-cyan-500/30 flex items-center gap-1.5'';
        set_title ''live-engine-badge'' ''The dashboard is receiving live telemetry'';
        set_class ''live-engine-dot'' ''pulse-dot'';
        set_text ''live-engine-label'' ''LIVE ENGINE'' }
      else do {
        modify (\<lambda>w. w\<lparr>statsFailures := Suc (statsFailures w)\<rparr>);
        w \<leftarrow> State_Monad.get;
        if statsFailures w < 2 then ret ()
        else do {
          set_class ''live-engine-badge'' ''text-[10px] font-mono text-amber-400 px-2.5 py-0.5 rounded-full bg-amber-500/10 border border-amber-500/30 flex items-center gap-1.5'';
          set_title ''live-engine-badge''
            ((if reason \<noteq> '''' then reason else ''Telemetry stopped'') @
             '' '' @ hx ''E28094'' @ '' every number on this page is from the last successful poll'');
          set_class ''live-engine-dot'' ''pulse-dot is-stale'';
          set_text ''live-engine-label'' (''STALE '' @ hx ''E28094'' @ '' NO TELEMETRY'') } })"

definition formatBytes :: "jsval \<Rightarrow> string" where
  "formatBytes v =
     (case v of
        JNum (Fin b) \<Rightarrow>
          if b < 0 then u_dash
          else if b < 1024 then int_str (js_round b) @ '' B''
          else if b < 1024 * 1024 then to_fixed 1 (fl (b / 1024)) @ '' KB''
          else if b < 1024 * 1024 * 1024 then to_fixed 1 (fl (b / (1024 * 1024))) @ '' MB''
          else to_fixed 2 (fl (b / (1024 * 1024 * 1024))) @ '' GB''
      | _ \<Rightarrow> u_dash)"

text \<open>
  \<open>toLocaleString\<close> depends on the browser; \<open>L\<close> is its formatting of finite numbers.
\<close>

fun locale_str :: "(rat \<Rightarrow> string) \<Rightarrow> jsval \<Rightarrow> string" where
  "locale_str L (JNum (Fin x)) = L x"
| "locale_str L v = js_string v"

definition num_gt :: "jsval \<Rightarrow> rat \<Rightarrow> bool" where
  "num_gt v c = (case js_number v of Fin x \<Rightarrow> c < x | PosInf \<Rightarrow> True | _ \<Rightarrow> False)"

definition num_ge :: "jsval \<Rightarrow> rat \<Rightarrow> bool" where
  "num_ge v c = (case js_number v of Fin x \<Rightarrow> c \<le> x | PosInf \<Rightarrow> True | _ \<Rightarrow> False)"

definition num_le :: "jsval \<Rightarrow> rat \<Rightarrow> bool" where
  "num_le v c = (case js_number v of Fin x \<Rightarrow> x \<le> c | NegInf \<Rightarrow> True | _ \<Rightarrow> False)"

text \<open>One status line: its text, class and title.\<close>

definition set_line :: "string \<Rightarrow> string \<times> string \<times> string \<Rightarrow> unit page" where
  "set_line i l = (case l of (t, c, ti) \<Rightarrow>
     upd i (\<lambda>e. e\<lparr>el_text := t, el_class := c, el_title := ti\<rparr>))"

definition rate_limit_line :: "(rat \<Rightarrow> string) \<Rightarrow> jsval \<Rightarrow> jsval \<Rightarrow> string \<times> string \<times> string" where
  "rate_limit_line L qps dropped =
     (if \<not> truthy qps \<or> num_le qps 0 then
        (''Limit: off'', ''text-slate-500'', ''Per-source rate limiting is disabled (access.rate_limit_qps = 0)'')
      else let n = js_or dropped (JNum (Fin 0)) in
        (''Limit: '' @ js_string qps @ ''/s '' @ hx ''C2B7'' @ '' '' @ locale_str L n @ '' dropped'',
         if num_gt n 0 then ''text-amber-400 font-bold'' else ''text-slate-400'',
         if num_gt n 0
         then locale_str L n @ '' queries dropped or refused for exceeding '' @ js_string qps @ '' qps per source since start''
         else ''Limiting at '' @ js_string qps @ '' qps per source; nothing dropped so far''))"

definition renderRateLimit :: "(rat \<Rightarrow> string) \<Rightarrow> jsval \<Rightarrow> jsval \<Rightarrow> unit page" where
  "renderRateLimit L qps dropped = set_line ''stat-ratelimit'' (rate_limit_line L qps dropped)"

definition lat_fmt :: "jsval \<Rightarrow> string" where
  "lat_fmt v = (case v of JNum (Fin x) \<Rightarrow> if x < 10 then to_fixed 2 x else to_fixed 1 x | _ \<Rightarrow> u_dash)"

definition has_samples :: "jsval \<Rightarrow> bool" where
  "has_samples d \<longleftrightarrow> truthy d \<and> num_gt (jget d ''count'') 0"

definition lat_badge :: "(rat \<Rightarrow> string) \<Rightarrow> jsval \<Rightarrow> jsval \<Rightarrow> string \<times> string" where
  "lat_badge L miss all =
     (if has_samples miss then
        (locale_str L (jget miss ''count'') @ '' resolved'',
         ''Queries answered by an upstream rather than from cache, since the daemon started'')
      else if has_samples all then
        (''every answer from cache'', ''No query has needed an upstream resolver yet'')
      else (''no data yet'', ''The resolver has not answered a query yet''))"

definition lat_tone :: "jsval \<Rightarrow> string" where
  "lat_tone miss =
     (if has_samples miss \<and> num_ge (jget miss ''p50_ms'') 60 then ''text-red-400''
      else if has_samples miss \<and> num_ge (jget miss ''p50_ms'') 25 then ''text-amber-400''
      else ''text-emerald-400'')"

definition lat_all :: "(rat \<Rightarrow> string) \<Rightarrow> jsval \<Rightarrow> string" where
  "lat_all L all =
     (if has_samples all then
       ''p50 '' @ lat_fmt (jget all ''p50_ms'') @ '' '' @ hx ''C2B7'' @ '' p95 '' @
       lat_fmt (jget all ''p95_ms'') @ '' '' @ hx ''C2B7'' @ '' p99 '' @
       lat_fmt (jget all ''p99_ms'') @ '' ms over '' @ locale_str L (jget all ''count'')
      else u_dash)"

definition renderLatency :: "(rat \<Rightarrow> string) \<Rightarrow> jsval \<Rightarrow> jsval \<Rightarrow> unit page" where
  "renderLatency L miss all =
     (let cell = (\<lambda>k. if has_samples miss then lat_fmt (jget miss k) else u_dash) in
      do {
        set_text ''stat-lat-p50'' (cell ''p50_ms'');
        set_text ''stat-lat-p95'' (cell ''p95_ms'');
        set_text ''stat-lat-p99'' (cell ''p99_ms'');
        set_text ''stat-lat-max'' (cell ''max_ms'');
        set_text ''stat-lat-count'' (fst (lat_badge L miss all));
        set_title ''stat-lat-count'' (snd (lat_badge L miss all));
        set_class ''stat-lat-p50''
          (''text-lg sm:text-xl font-extrabold font-mono '' @ lat_tone miss);
        set_text ''stat-lat-all'' (lat_all L all) })"

definition fail_rate :: "jsval \<Rightarrow> jsval \<Rightarrow> jsnum" where
  "fail_rate failed started =
     (if \<not> num_gt started 0 then Fin 0
      else case (js_number failed, js_number started) of
             (Fin f, Fin s) \<Rightarrow> Fin (fl (fl (f / s) * 100))
           | (Fin f, _) \<Rightarrow> Fin 0
           | (_, PosInf) \<Rightarrow> NaN
           | (n, _) \<Rightarrow> n)"

definition cache_line :: "(rat \<Rightarrow> string) \<Rightarrow> jsval \<Rightarrow> string \<times> string \<times> string" where
  "cache_line L data =
     (let f = (\<lambda>k. js_or (jget data k) (JNum (Fin 0)));
          served = f ''stale_served''; started = f ''refresh_started'';
          failed = f ''refresh_failed''; dropped = f ''refresh_dropped'' in
      if \<not> truthy served \<and> \<not> truthy started \<and> \<not> truthy failed \<and> \<not> truthy dropped then
        (''Cache refresh: healthy'', ''text-slate-500'',
         ''No background refresh has run yet, no stale answer has been served'')
      else
        (''Cache refresh: '' @ locale_str L served @ '' stale '' @ hx ''C2B7'' @ '' '' @ locale_str L failed @ '' failed '' @ hx ''C2B7'' @ '' '' @ locale_str L dropped @ '' skipped'',
         if num_gt failed 0 then ''text-amber-400 font-bold'' else ''text-slate-400'',
         if num_gt failed 0 then
           locale_str L failed @ '' of '' @ locale_str L started @
           '' background refreshes failed ('' @ num_fixed 1 (fail_rate failed started) @
           ''%) while '' @ locale_str L served @
           '' stale answer(s) were served. Clients are getting instant replies from a cache nothing is refilling '' @
           hx ''E28094'' @ '' check the upstream resolvers before the grace window closes.''
         else if num_gt dropped 0 then
           locale_str L started @ '' background refresh(es) succeeded, '' @ locale_str L dropped @
           '' were skipped because the refresh worker pool was saturated. Skipped renewals are not errors; they simply expire normally.''
         else
           locale_str L started @ '' background refresh(es) run, none failed. '' @
           locale_str L served @
           '' expired entry/entries were served instantly while being renewed.''))"

definition renderCacheHealth :: "(rat \<Rightarrow> string) \<Rightarrow> jsval \<Rightarrow> unit page" where
  "renderCacheHealth L data = set_line ''stat-cache-health'' (cache_line L data)"

definition drops_line :: "(rat \<Rightarrow> string) \<Rightarrow> jsval \<Rightarrow> string \<times> string \<times> string" where
  "drops_line L data =
     (let refused = js_or (jget data ''relays_refused'') (JNum (Fin 0));
          unreadable = js_or (jget data ''relays_unreadable'') (JNum (Fin 0)) in
      if \<not> truthy refused \<and> \<not> truthy unreadable then
        (''no drops'', ''text-slate-500'',
         ''Every connection that reached the proxy named a destination and was relayed'')
      else
        (js_join ('' '' @ u_middot @ '' '')
           ((if truthy refused then [locale_str L refused @ '' refused''] else []) @
            (if truthy unreadable then [locale_str L unreadable @ '' unreadable''] else [])),
         if num_gt unreadable 0 then ''text-amber-400 font-bold'' else ''text-slate-400'',
         if num_gt unreadable 0 then
           locale_str L unreadable @ '' connection(s) arrived without naming a destination '' @
           hx ''E28094'' @
           '' no TLS SNI and no HTTP Host header. A few are port scans. A rising count means a proxied name is sending clients here for traffic this relay cannot carry; check the server log for the sampled \"unreadable destination\" lines, which name the port and the first bytes.''
         else
           locale_str L refused @
           '' connection(s) dropped for a blocked target, a self-dial, or a full relay table''))"

definition renderProxyDrops :: "(rat \<Rightarrow> string) \<Rightarrow> jsval \<Rightarrow> unit page" where
  "renderProxyDrops L data = set_line ''stat-proxy-drops'' (drops_line L data)"

definition FEATHER_TRASH_SVG :: string where
  "FEATHER_TRASH_SVG = ''<svg xmlns=\"http://www.w3.org/2000/svg\" width=\"24\" height=\"24\" viewBox=\"0 0 24 24\" fill=\"none\" stroke=\"currentColor\" stroke-width=\"2\" stroke-linecap=\"round\" stroke-linejoin=\"round\" class=\"w-3 h-3\"><polyline points=\"3 6 5 6 21 6\"></polyline><path d=\"M19 6v14a2 2 0 0 1-2 2H7a2 2 0 0 1-2-2V6m3 0V4a2 2 0 0 1 2-2h4a2 2 0 0 1 2 2v2\"></path></svg>''"

text \<open>The measured latency in milliseconds, when there is one.\<close>

definition latency_ms :: "jsval \<Rightarrow> rat option" where
  "latency_ms u =
     (case js_number (jget u ''latency'') of
        Fin x \<Rightarrow> let l = fl (x / 1000000) in if 0 < l then Some l else None
      | _ \<Rightarrow> None)"

definition upstream_tone :: "rat option \<Rightarrow> string \<times> string" where
  "upstream_tone lo =
     (case lo of
        None \<Rightarrow> (''text-slate-400 bg-slate-500/10 border-slate-600/40'', ''w-2 h-2 rounded-full bg-slate-600'')
      | Some l \<Rightarrow>
          if 80 < l then (''text-red-400 bg-red-500/10 border-red-500/30'', ''w-2 h-2 rounded-full bg-red-400'')
          else if 40 < l then (''text-yellow-400 bg-yellow-500/10 border-yellow-500/30'', ''w-2 h-2 rounded-full bg-yellow-400'')
          else (''text-emerald-400 bg-emerald-500/10 border-emerald-500/30'', ''w-2 h-2 rounded-full bg-emerald-400''))"

definition upstream_row_html :: "jsval \<Rightarrow> string" where
  "upstream_row_html u =
     (let lo = latency_ms u;
          badgeClass = fst (upstream_tone lo); dotClass = snd (upstream_tone lo);
          latText = (case lo of None \<Rightarrow> u_dash | Some l \<Rightarrow> to_fixed 1 l @ '' ms'');
          latTitle = (if lo \<noteq> None then ''Last measured round-trip'' else ''Not measured yet '' @ hx ''E28094'' @ '' no answer has been timed from this upstream'')
      in ''<div class=\"'' @ ''flex items-center justify-between py-1.5 px-3 rounded-lg bg-slate-950/70 border border-slate-800 text-xs'' @ ''\">'' @
       ''<div class=\"flex items-center gap-2\"><span class=\"'' @ dotClass @
       ''\" aria-hidden=\"true\"></span><span class=\"font-mono text-slate-200\">'' @
       escapeHTML (jget u ''address'') @
       ''</span></div><div class=\"flex items-center gap-2\"><span class=\"px-2 py-0.5 rounded border '' @
       badgeClass @ '' text-[10px] font-bold font-mono\" title=\"'' @ latTitle @ ''\">'' @
       latText @
       ''</span><button class=\"remove-upstream inline-flex items-center justify-center w-6 h-6 shrink-0 rounded text-slate-500 hover:text-red-400 hover:bg-red-500/10 transition\" data-addr=\"'' @
       escapeHTML (jget u ''address'') @
       ''\" title=\"Remove upstream\" aria-label=\"Remove upstream '' @
       escapeHTML (jget u ''address'') @ ''\">'' @ FEATHER_TRASH_SVG @ ''</button></div>'' @ ''</div>'')"

definition upstream_sig :: "jsval list \<Rightarrow> string" where
  "upstream_sig us = js_join ''|''
     (map (\<lambda>u. js_string (jget u ''address'') @ '':'' @ js_string (js_or (jget u ''latency'') (JNum (Fin 0)))) us)"

text \<open>The result is whether the call returned: anything but a list of objects raises a TypeError.\<close>

definition renderUpstreams :: "jsval \<Rightarrow> bool page" where
  "renderUpstreams ups = do {
     w \<leftarrow> State_Monad.get;
     if \<not> has_el w ''upstreams-list'' then ret True
     else if \<not> truthy ups \<or> ups = JArr [] then do {
       only_if (lastUpstreamsSig w \<noteq> ''empty'') (do {
         set_text ''upstreams-list'' ''<div class=\"text-slate-500 text-xs py-2\">No upstreams configured</div>'';
         modify (\<lambda>w. w\<lparr>lastUpstreamsSig := ''empty''\<rparr>) });
       ret True }
     else case ups of
       JArr us \<Rightarrow>
         if list_ex nullish us then ret False
         else if upstream_sig us = lastUpstreamsSig w then ret True
         else do {
           modify (\<lambda>w. w\<lparr>lastUpstreamsSig := upstream_sig us\<rparr>);
           set_text ''upstreams-list'' (concat (map upstream_row_html us));
           ret True }
     | _ \<Rightarrow> ret False }"

section \<open>The chart\<close>

definition QPS_CHART_POINTS :: nat where "QPS_CHART_POINTS = 60"

definition initChart :: "unit page" where
  "initChart = modify (\<lambda>w.
     if has_el w ''qpsChart'' \<and> chartAvailable w
     then w\<lparr>qpsChart := Some (replicate QPS_CHART_POINTS (JNum (Fin 0)))\<rparr> else w)"

definition chart_point :: "jsval \<Rightarrow> jsval" where
  "chart_point v = (case v of JNum (Fin x) \<Rightarrow> if 0 \<le> x then v else JNull | _ \<Rightarrow> JNull)"

definition chart_shift :: "jsval \<Rightarrow> jsval list \<Rightarrow> jsval list" where
  "chart_shift v d = tl d @ [chart_point v]"

definition pushChartData :: "jsval \<Rightarrow> unit page" where
  "pushChartData v = do {
     w \<leftarrow> State_Monad.get;
     if activeDashTab w \<noteq> ''dashboard'' then ret ()
     else do {
       only_if (qpsChart w = None) initChart;
       modify (\<lambda>w. w\<lparr>qpsChart := map_option (chart_shift v) (qpsChart w)\<rparr>) } }"

section \<open>One answer of the statistics endpoint\<close>

definition num_tile :: "jsval \<Rightarrow> nat \<Rightarrow> string" where
  "num_tile v d = (case v of JNum (Fin x) \<Rightarrow> to_fixed d x | _ \<Rightarrow> u_dash)"

definition count_tile :: "(rat \<Rightarrow> string) \<Rightarrow> jsval \<Rightarrow> string" where
  "count_tile L v = (case v of JNum (Fin x) \<Rightarrow> L x | _ \<Rightarrow> u_dash)"

definition is_number :: "jsval \<Rightarrow> bool" where
  "is_number v = (case v of JNum n \<Rightarrow> True | _ \<Rightarrow> False)"

definition pct_tile :: "jsval \<Rightarrow> string" where
  "pct_tile v = (if is_number v then num_tile v 1 @ ''%'' else u_dash)"

definition stat_tiles :: "(rat \<Rightarrow> string) \<Rightarrow> jsval \<Rightarrow> (string \<times> string) list" where
  "stat_tiles L data =
     (let g = jget data;
          sysCPU = (if is_number (g ''system_cpu_percent'') \<and> num_ge (g ''system_cpu_percent'') 0
                    then num_tile (g ''system_cpu_percent'') 1 @ ''%'' else u_dash);
          sysMemOK = (is_number (g ''system_mem_used_mb'') \<and> num_ge (g ''system_mem_used_mb'') 0);
          mem = (\<lambda>k. if sysMemOK then num_tile (g k) 0 else u_dash) in
      [(''stat-qps'', num_tile (g ''qps'') 1),
       (''stat-total-queries'', count_tile L (g ''total_queries'')),
       (''stat-cache-ratio'', pct_tile (g ''cache_hit_ratio'')),
       (''stat-cache-entries'', count_tile L (g ''cache_entries'')),
       (''stat-proxy-active'', count_tile L (g ''active_proxy_conns'')),
       (''stat-proxy-total'', count_tile L (g ''total_proxy_conns'')),
       (''stat-cpu-percent'', pct_tile (g ''cpu_usage_percent'')),
       (''stat-cpu-cores'', count_tile L (g ''num_cpu'')),
       (''stat-memory'', if is_number (g ''ram_usage_mb'') then num_tile (g ''ram_usage_mb'') 1 else u_dash),
       (''stat-cpu-sys'', sysCPU),
       (''stat-mem-sys-used'', mem ''system_mem_used_mb''),
       (''stat-mem-sys-total'', mem ''system_mem_total_mb''),
       (''stat-mem-sys-pct'', mem ''system_mem_percent''),
       (''stat-speed-in'', num_tile (g ''speed_in_kbps'') 1),
       (''stat-speed-out'', num_tile (g ''speed_out_kbps'') 1),
       (''stat-traffic-total'', formatBytes (g ''total_bytes_transferred''))])"

definition paint_stats :: "(rat \<Rightarrow> string) \<Rightarrow> jsval \<Rightarrow> bool page" where
  "paint_stats L data =
     (if nullish data then ret False
      else do {
        for_each (\<lambda>(i, t). set_text i t) (stat_tiles L data);
        renderRateLimit L (jget data ''rate_limit_qps'') (jget data ''rate_limited'');
        renderLatency L (jget data ''latency_uncached'') (jget data ''latency'');
        renderCacheHealth L data;
        renderProxyDrops L data;
        painted \<leftarrow> renderUpstreams (jget data ''upstreams'');
        if \<not> painted then ret False
        else do { pushChartData (jget data ''qps''); ret True } })"

definition stats_lost :: "unit page" where
  "stats_lost = markStatsHealth False ''The dashboard cannot reach the daemon''"

definition updateStats :: "(rat \<Rightarrow> string) \<Rightarrow> unit page" where
  "updateStats L = do {
     w \<leftarrow> State_Monad.get;
     if authToken w = '''' then ret ()
     else do {
       oc \<leftarrow> fetch_get ''/api/stats'';
       case oc of NetErr \<Rightarrow> stats_lost
       | Resp r \<Rightarrow>
           if \<not> rs_ok r
           then markStatsHealth False (''The server answered '' @ nat_str (rs_status r))
           else case rs_json r of None \<Rightarrow> stats_lost
           | Some data \<Rightarrow> do {
               painted \<leftarrow> paint_stats L data;
               if painted then markStatsHealth True '''' else stats_lost } } }"

section \<open>The failure counter\<close>

text \<open>How one call of updateStats ends, in the terms of the polling machine.\<close>

definition stats_result :: "(rat \<Rightarrow> string) \<Rightarrow> dash \<Rightarrow> poll_result" where
  "stats_result L w =
     (if authToken w = '''' then NoToken
      else case (case net w of [] \<Rightarrow> NetErr | x # _ \<Rightarrow> x) of
             NetErr \<Rightarrow> Failed
           | Resp r \<Rightarrow>
               if \<not> rs_ok r then Failed
               else case rs_json r of None \<Rightarrow> Failed
               | Some data \<Rightarrow>
                   if result (paint_stats L data) (exec (fetch_get ''/api/stats'') w)
                   then Fresh else Failed)"

lemma keeps_failures [keeps_intros]:
  "keeps statsFailures (upd i g)" "keeps statsFailures (fetch_auth m p b)"
  "keeps statsFailures (set_line i l)" "keeps statsFailures initChart"
  by (simp_all add: keeps_def page_simps set_line_def initChart_def split: prod.split)

lemma keeps_failures_modify [keeps_intros]:
  "(\<And>w. statsFailures (f w) = statsFailures w) \<Longrightarrow> keeps statsFailures (modify f)"
  by (simp add: keeps_def)

lemma keeps_case_jsval [keeps_intros]:
  "(\<And>us. keeps f (g us)) \<Longrightarrow> keeps f m \<Longrightarrow>
   keeps f (case v of JArr us \<Rightarrow> g us | _ \<Rightarrow> m)"
  by (cases v) auto

lemma keeps_failures_parts [keeps_intros]:
  "keeps statsFailures (renderRateLimit L a b)" "keeps statsFailures (renderLatency L a b)"
  "keeps statsFailures (renderCacheHealth L a)" "keeps statsFailures (renderProxyDrops L a)"
  "keeps statsFailures (renderUpstreams a)" "keeps statsFailures (pushChartData a)"
  by (auto simp: renderRateLimit_def renderLatency_def renderCacheHealth_def renderProxyDrops_def
      renderUpstreams_def pushChartData_def Let_def intro!: keeps_intros)

lemma keeps_failures_paint: "keeps statsFailures (paint_stats L data)"
  by (auto simp: paint_stats_def intro!: keeps_intros)

lemma failures_mark:
  "statsFailures (exec (markStatsHealth ok r) w) = (if ok then 0 else Suc (statsFailures w))"
  by (simp add: markStatsHealth_def page_simps)

lemma label_mark:
  "has_el w ''live-engine-label'' \<Longrightarrow>
   text_of (exec (markStatsHealth ok r) w) ''live-engine-label'' =
     (if ok then ''LIVE ENGINE''
      else if 1 \<le> statsFailures w then ''STALE '' @ u_dash @ '' NO TELEMETRY''
      else text_of w ''live-engine-label'')"
  by (auto simp: markStatsHealth_def page_simps text_of_def has_el_def)

lemma has_el_paint: "keeps (\<lambda>w. has_el w j) (paint_stats L data)"
proof -
  have m: "keeps (\<lambda>w. has_el w j) (modify f)" if "\<And>w. has_el (f w) j = has_el w j" for f
    using that by (simp add: keeps_def)
  have i: "keeps (\<lambda>w. has_el w j) initChart"
    unfolding initChart_def by (rule m) simp
  have l: "keeps (\<lambda>w. has_el w j) (set_line k x)" for k x
    by (simp add: set_line_def keeps_has_el_upd split: prod.split)
  show ?thesis
    by (auto simp: paint_stats_def renderRateLimit_def renderLatency_def renderCacheHealth_def
        renderProxyDrops_def renderUpstreams_def pushChartData_def Let_def
        intro!: keeps_intros m i l)
qed

text \<open>
  C34. One poll moves the failure counter of the page exactly as the polling machine assumes, so
  the backoff and the badge agree: a painted answer resets it and lights LIVE ENGINE, anything
  that cannot be painted counts one failure, and from the second failure in a row the badge
  says that the numbers are stale.
\<close>

theorem updateStats_health:
  assumes "has_el w ''live-engine-label''"
  shows "let w' = exec (updateStats L) w; r = stats_result L w in
    statsFailures w' = next_failures r (statsFailures w) \<and>
    (r = Fresh \<longrightarrow> text_of w' ''live-engine-label'' = ''LIVE ENGINE'') \<and>
    (r = Failed \<and> 2 \<le> statsFailures w' \<longrightarrow>
       text_of w' ''live-engine-label'' = ''STALE '' @ u_dash @ '' NO TELEMETRY'')"
proof -
  let ?w1 = "exec (fetch_get ''/api/stats'') w"
  have w1: "statsFailures ?w1 = statsFailures w" "has_el ?w1 ''live-engine-label''"
    using assms by (simp_all add: page_simps)
  have p: "statsFailures (exec (paint_stats L d) ?w1) = statsFailures w"
    "has_el (exec (paint_stats L d) ?w1) ''live-engine-label''" for d
    using keeps_failures_paint[of L d] has_el_paint[of "''live-engine-label''" L d] w1
    by (simp_all add: keeps_def)
  show ?thesis
  proof (cases "authToken w = ''''")
    case True
    then show ?thesis by (simp add: updateStats_def stats_result_def)
  next
    case False
    let ?G = "\<lambda>w0 ok. (\<exists>r. exec (updateStats L) w = exec (markStatsHealth ok r) w0) \<and>
      statsFailures w0 = statsFailures w \<and> has_el w0 ''live-engine-label'' \<and>
      stats_result L w = (if ok then Fresh else Failed)"
    have "\<exists>w0 ok. ?G w0 ok"
    proof (cases "\<exists>r d. result (fetch_get ''/api/stats'') w = Resp r \<and> rs_ok r \<and> rs_json r = Some d")
      case True
      then obtain r d where "result (fetch_get ''/api/stats'') w = Resp r" "rs_ok r" "rs_json r = Some d"
        by blast
      then have "?G (exec (paint_stats L d) ?w1) (result (paint_stats L d) ?w1)"
        using False p[of d]
        by (auto simp: updateStats_def stats_result_def stats_lost_def fetch_auth_run(2))
      then show ?thesis by blast
    next
      case bad: False
      have "?G ?w1 False"
      proof (cases "result (fetch_get ''/api/stats'') w")
        case NetErr
        then show ?thesis using False w1
          by (auto simp: updateStats_def stats_result_def stats_lost_def fetch_auth_run(2))
      next
        case (Resp r)
        then show ?thesis using False w1 bad
          by (cases "rs_ok r"; cases "rs_json r"; simp add: updateStats_def stats_result_def
              stats_lost_def fetch_auth_run(2); blast)
      qed
      then show ?thesis by blast
    qed
    then show ?thesis by (auto simp: failures_mark label_mark Let_def split: if_splits)
  qed
qed

theorem updateStats_health_witness:
  "statsFailures (exec (updateStats (\<lambda>x. ''7'')) (sample_page JNull [NetErr])) = 1"
  using updateStats_health[of "sample_page JNull [NetErr]" "\<lambda>x. ''7''"]
  by (simp add: Let_def stats_result_def) (simp add: sample_page_def)

section \<open>The chart's window\<close>

interpretation chart_window: recent_window chart_shift rev chart_point
  "\<lambda>d. length d = QPS_CHART_POINTS" QPS_CHART_POINTS
proof
  fix d :: "jsval list" and v
  assume d: "length d = QPS_CHART_POINTS"
  then obtain x xs where "d = x # xs" by (cases d) (auto simp: QPS_CHART_POINTS_def)
  then show "length (chart_shift v d) = QPS_CHART_POINTS"
    "rev (chart_shift v d) = take QPS_CHART_POINTS (chart_point v # rev d)"
    using d by (auto simp: chart_shift_def QPS_CHART_POINTS_def)
qed simp

text \<open>
  While the home tab is showing, the chart is a sixty-sample window: after any number of
  polls it holds the last sixty points in order, a missing or negative rate as a gap.
\<close>

theorem chart_shows_last_minute:
  assumes "activeDashTab w = ''dashboard''" "qpsChart w = Some d" "length d = 60"
  shows "qpsChart (exec (for_each pushChartData vs) w) =
    Some (drop (length vs) (d @ map chart_point vs))"
proof -
  have "qpsChart (exec (for_each pushChartData vs) w) = Some (fold chart_shift vs d)"
    using assms(1,2)
    by (induction vs arbitrary: w d) (simp_all add: pushChartData_def)
  moreover have "rev (fold chart_shift vs d) = take 60 (rev (d @ map chart_point vs))"
    using chart_window.shows_fold[of d vs] assms(3) by (simp add: QPS_CHART_POINTS_def)
  moreover have "take 60 (rev (d @ map chart_point vs)) = rev (drop (length vs) (d @ map chart_point vs))"
    using assms(3) by (cases "length vs \<le> 60") (simp_all add: take_rev)
  ultimately show ?thesis by (metis rev_rev_ident)
qed

theorem chart_shows_last_minute_witness:
  "qpsChart (exec (for_each pushChartData [JNum (Fin 5), JUndef])
     ((sample_page JNull [])\<lparr>qpsChart := Some (replicate 60 (JNum (Fin 0)))\<rparr>)) =
   Some (drop 2 (replicate 60 (JNum (Fin 0)) @ [JNum (Fin 5), JNull]))"
proof -
  let ?w = "(sample_page JNull [])\<lparr>qpsChart := Some (replicate 60 (JNum (Fin 0)))\<rparr>"
  have "activeDashTab ?w = ''dashboard''" by (simp add: sample_page_def)
  from chart_shows_last_minute[OF this, of "replicate 60 (JNum (Fin 0))" "[JNum (Fin 5), JUndef]"]
  show ?thesis by (simp add: chart_point_def)
qed

section \<open>The repaint signature\<close>

text \<open>The upstreams the daemon sends: a string address, a latency in whole nanoseconds or none.\<close>

definition upstream_ok :: "jsval \<Rightarrow> bool" where
  "upstream_ok u \<longleftrightarrow> is_obj u \<and>
     (\<exists>a. jget u ''address'' = JStr a \<and> CHR ''|'' \<notin> set a) \<and>
     (jget u ''latency'' = JUndef \<or> (\<exists>n. jget u ''latency'' = JNum (Fin (of_nat n))))"

definition sig_of :: "jsval \<Rightarrow> string" where
  "sig_of u = js_string (jget u ''address'') @ '':'' @ js_string (js_or (jget u ''latency'') (JNum (Fin 0)))"

definition latency_nat :: "jsval \<Rightarrow> nat" where
  "latency_nat u = (case jget u ''latency'' of JNum (Fin x) \<Rightarrow> nat \<lfloor>x\<rfloor> | _ \<Rightarrow> 0)"

lemma sig_of_nat:
  assumes "upstream_ok u" "jget u ''address'' = JStr a"
  shows "sig_of u = a @ '':'' @ nat_str (latency_nat u)"
    and "latency_ms u = (let l = fl (of_nat (latency_nat u) / 1000000) in if 0 < l then Some l else None)"
proof -
  have s: "js_string (JNum (Fin (of_nat n))) = nat_str n" for n
    by (simp add: num_str_fin_def int_str_def)
  have f0: "fl 0 = 0" by (simp add: fl_def)
  from assms(1) consider "jget u ''latency'' = JUndef"
    | n where "jget u ''latency'' = JNum (Fin (of_nat n))" by (auto simp: upstream_ok_def)
  then show "sig_of u = a @ '':'' @ nat_str (latency_nat u)"
    "latency_ms u = (let l = fl (of_nat (latency_nat u) / 1000000) in if 0 < l then Some l else None)"
    using s s[of 0] f0 assms(2)
    by (cases; simp add: sig_of_def js_or_def latency_nat_def latency_ms_def)+
qed

lemma last_colon:
  assumes "a @ '':'' @ s = b @ '':'' @ t" "CHR '':'' \<notin> set s" "CHR '':'' \<notin> set t"
  shows "a = b \<and> s = t"
proof -
  have "rev s @ CHR '':'' # rev a = rev t @ CHR '':'' # rev b"
    using arg_cong[OF assms(1), of rev] by simp
  then have "takeWhile (\<lambda>c. c \<noteq> CHR '':'') (rev s @ CHR '':'' # rev a) =
      takeWhile (\<lambda>c. c \<noteq> CHR '':'') (rev t @ CHR '':'' # rev b)" by simp
  moreover have "takeWhile (\<lambda>c. c \<noteq> CHR '':'') (rev x @ CHR '':'' # y) = rev x"
    if "CHR '':'' \<notin> set x" for x y
    using that by (subst takeWhile_append2) auto
  ultimately have "rev s = rev t" using assms(2,3) by simp
  then show ?thesis using assms(1) by simp
qed

lemma sig_determines_row:
  assumes "upstream_ok u" "upstream_ok v" "sig_of u = sig_of v"
  shows "upstream_row_html u = upstream_row_html v"
proof -
  obtain a b where ab: "jget u ''address'' = JStr a" "jget v ''address'' = JStr b"
    using assms(1,2) by (auto simp: upstream_ok_def)
  have nc: "CHR '':'' \<notin> set (nat_str n)" for n
    using nat_str_digits[of "CHR '':''" n] by (auto simp: is_digit_def)
  have "a = b \<and> nat_str (latency_nat u) = nat_str (latency_nat v)"
    using assms(3) nc unfolding sig_of_nat(1)[OF assms(1) ab(1)] sig_of_nat(1)[OF assms(2) ab(2)]
    by (intro last_colon) auto
  then have "a = b" "latency_nat u = latency_nat v" using nat_str_inj by auto
  then have "a = b" "latency_ms u = latency_ms v"
    using sig_of_nat(2)[OF assms(1) ab(1)] sig_of_nat(2)[OF assms(2) ab(2)] by simp_all
  then show ?thesis using ab by (simp add: upstream_row_html_def)
qed

lemma sig_no_bar: "upstream_ok u \<Longrightarrow> CHR ''|'' \<notin> set (sig_of u)"
proof -
  assume u: "upstream_ok u"
  then obtain a where a: "jget u ''address'' = JStr a" "CHR ''|'' \<notin> set a"
    by (auto simp: upstream_ok_def)
  have "CHR ''|'' \<notin> set (nat_str n)" for n
    using nat_str_digits[of "CHR ''|''" n] by (auto simp: is_digit_def)
  then show ?thesis using a by (simp add: sig_of_nat(1)[OF u a(1)])
qed

lemma sig_determines_list:
  assumes "upstream_sig us = upstream_sig vs" "us \<noteq> []" "vs \<noteq> []"
    and "\<forall>u\<in>set us. upstream_ok u" "\<forall>v\<in>set vs. upstream_ok v"
  shows "map upstream_row_html us = map upstream_row_html vs"
proof -
  have "map sig_of us = map sig_of vs"
  proof (rule join_inj)
    show "js_join [CHR ''|''] (map sig_of us) = js_join [CHR ''|''] (map sig_of vs)"
      using assms(1) unfolding upstream_sig_def sig_of_def[abs_def] .
  qed (use assms(2-5) sig_no_bar in auto)
  then show ?thesis using assms(4,5)
  proof (induction us arbitrary: vs)
    case (Cons u us)
    then obtain v vs' where "vs = v # vs'" by (cases vs) auto
    then show ?case using Cons sig_determines_row[of u v] by auto
  qed simp
qed

text \<open>
  C33. Skipping the repaint when the signature is the one painted last never leaves an old list
  on screen: after painting one list of upstreams and then another, the container shows exactly
  the rows of the second, whether or not the second call repainted.
\<close>

theorem upstreams_always_current:
  assumes "\<forall>u\<in>set us. upstream_ok u" "\<forall>v\<in>set vs. upstream_ok v" "us \<noteq> []" "vs \<noteq> []"
    and "has_el w ''upstreams-list''" "lastUpstreamsSig w \<noteq> upstream_sig vs"
  shows "text_of (exec (renderUpstreams (JArr us)) (exec (renderUpstreams (JArr vs)) w))
      ''upstreams-list'' = concat (map upstream_row_html us)"
proof -
  let ?w1 = "exec (renderUpstreams (JArr vs)) w"
  have n: "\<not> list_ex nullish xs" if "\<forall>u\<in>set xs. upstream_ok u" for xs
  proof -
    have "\<not> nullish u" if "u \<in> set xs" for u
      using that \<open>\<forall>u\<in>set xs. upstream_ok u\<close> by (cases u) (auto simp: upstream_ok_def)
    then show ?thesis by (auto simp: list_ex_iff)
  qed
  have w1: "text_of ?w1 ''upstreams-list'' = concat (map upstream_row_html vs)"
    "lastUpstreamsSig ?w1 = upstream_sig vs" "has_el ?w1 ''upstreams-list''"
    using assms(2,4-6) n[of vs]
    by (auto simp: renderUpstreams_def page_simps text_of_def has_el_def)
  show ?thesis
  proof (cases "upstream_sig us = upstream_sig vs")
    case True
    then have "map upstream_row_html us = map upstream_row_html vs"
      using assms(1-4) by (intro sig_determines_list) auto
    then show ?thesis using True w1 assms(1,3) n[of us] by (simp add: renderUpstreams_def)
  next
    case False
    then show ?thesis using w1 assms(1,3) n[of us]
      by (auto simp: renderUpstreams_def page_simps text_of_def has_el_def)
  qed
qed

theorem upstreams_always_current_witness:
  "text_of (exec (renderUpstreams (JArr [JObj [(''address'', JStr ''1.1.1.1:53''), (''latency'', JNum (Fin 9))]]))
     (exec (renderUpstreams (JArr [JObj [(''address'', JStr ''1.1.1.1:53'')]])) (sample_page JNull [])))
     ''upstreams-list'' =
   upstream_row_html (JObj [(''address'', JStr ''1.1.1.1:53''), (''latency'', JNum (Fin 9))])"
proof -
  have "(9::rat) = of_nat 9" by simp
  then have "\<exists>n. (9::rat) = of_nat n" by blast
  moreover have "lastUpstreamsSig (sample_page JNull []) = ''''" by (simp add: sample_page_def)
  ultimately show ?thesis
    using upstreams_always_current[of "[JObj [(''address'', JStr ''1.1.1.1:53''), (''latency'', JNum (Fin 9))]]"
      "[JObj [(''address'', JStr ''1.1.1.1:53'')]]" "sample_page JNull []"]
    by (simp add: upstream_ok_def upstream_sig_def)
qed

end
