(* ===== verification/Dialogs.thy ===== *)
theory Dialogs
  imports Html_Escape
begin

text \<open>
  The in-app dialogs (app.js, showDialog, confirmAction, promptForValue): what a dialog shows,
  the events it reacts to, and the value its promise is resolved with.

  \<open>desk\<close> is the part of the page the dialogs share: the one registered as active, the running
  number, the dialogs whose elements and listeners are on the page, and the promises resolved
  so far. A dialog whose \<open>finish\<close> has run is off the page, so it gets no further event.
\<close>

section \<open>Options and appearance\<close>

record dialog_opts =
  o_prompt :: bool
  o_destructive :: bool
  o_title :: string
  o_hint :: string
  o_message :: string
  o_label :: string
  o_placeholder :: string
  o_value :: string
  o_mask :: bool
  o_validate :: "(string \<Rightarrow> string) option"
  o_cancelText :: string
  o_confirmText :: string

definition confirm_opts :: dialog_opts where
  "confirm_opts = \<lparr>o_prompt = False, o_destructive = False, o_title = '''', o_hint = '''',
     o_message = '''', o_label = '''', o_placeholder = '''', o_value = '''', o_mask = False,
     o_validate = None, o_cancelText = '''', o_confirmText = ''''\<rparr>"

definition prompt_opts :: dialog_opts where
  "prompt_opts = confirm_opts\<lparr>o_prompt := True\<rparr>"

definition cancel_value :: "dialog_opts \<Rightarrow> jsval" where
  "cancel_value o' = (if o_prompt o' then JNull else JBool False)"

record dialog_tone =
  tn_icon :: string
  tn_panel :: string
  tn_badge :: string
  tn_hint :: string
  tn_submit :: string

definition tone_of :: "dialog_opts \<Rightarrow> dialog_tone" where
  "tone_of o' =
     (if o_destructive o' then
        \<lparr>tn_icon = ''alert-triangle'',
         tn_panel = ''glass-panel p-6 w-full max-w-md border border-red-500/40 shadow-2xl shadow-red-500/10'',
         tn_badge = ''w-10 h-10 rounded-xl bg-red-500/20 flex items-center justify-center text-red-400 border border-red-500/30 shrink-0'',
         tn_hint = ''text-xs text-red-400 font-mono'',
         tn_submit = ''flex-1 py-3 bg-gradient-to-r from-red-600 to-rose-600 hover:from-red-700 hover:to-rose-700 text-onfill font-bold rounded-lg transition duration-200 shadow-lg shadow-red-500/20 text-sm font-heading''\<rparr>
      else
        \<lparr>tn_icon = ''help-circle'',
         tn_panel = ''glass-panel p-6 w-full max-w-md border border-cyan-500/40 shadow-2xl shadow-cyan-500/10'',
         tn_badge = ''w-10 h-10 rounded-xl bg-cyan-500/20 flex items-center justify-center text-cyan-400 border border-cyan-500/30 shrink-0'',
         tn_hint = ''text-xs text-cyan-400 font-mono'',
         tn_submit = ''flex-1 py-3 bg-gradient-to-r from-cyan-500 to-blue-500 hover:from-cyan-400 text-slate-950 font-bold rounded-lg transition duration-200 shadow-lg shadow-cyan-500/20 text-sm font-heading''\<rparr>)"

text \<open>The node tree of a dialog: text nodes hold text, \<open>Node tag class attributes children\<close>.\<close>

datatype node = Text string | Node string string "(string \<times> string) list" "node list"

definition dlg_id :: "string \<Rightarrow> nat \<Rightarrow> string" where
  "dlg_id part seq = ''dialog-'' @ part @ ''-'' @ nat_str seq"

definition or_text :: "string \<Rightarrow> string \<Rightarrow> string" where
  "or_text s d = (if s = '''' then d else s)"

definition header_node :: "dialog_opts \<Rightarrow> nat \<Rightarrow> node" where
  "header_node o' seq =
     (let t = tone_of o' in
      Node ''div'' ''flex items-center gap-3 mb-4'' []
       [Node ''div'' (tn_badge t) [(''aria-hidden'', ''true'')]
          [Node ''i'' '''' [(''data-feather'', tn_icon t)] []],
        Node ''div'' '''' []
         (Node ''h2'' ''text-lg font-bold text-white tracking-wide font-heading''
            [(''id'', dlg_id ''title'' seq)] [Text (or_text (o_title o') ''Confirm'')] #
          (if o_hint o' = '''' then [] else [Node ''p'' (tn_hint t) [] [Text (o_hint o')]]))])"

definition field_node :: "dialog_opts \<Rightarrow> nat \<Rightarrow> node" where
  "field_node o' seq =
     Node ''div'' '''' []
      [Node ''label'' ''block text-xs font-semibold text-slate-400 mb-1''
         [(''for'', dlg_id ''input'' seq)] [Text (or_text (o_label o') ''VALUE'')],
       Node ''input'' ''w-full px-4 py-2.5 rounded-lg bg-slate-950/80 border border-slate-700 text-white focus:outline-none focus:border-cyan-400 text-sm font-mono''
         ([(''id'', dlg_id ''input'' seq), (''type'', if o_mask o' then ''password'' else ''text''),
           (''value'', o_value o'), (''autocomplete'', ''off''), (''spellcheck'', ''false'')] @
          (if o_placeholder o' = '''' then [] else [(''placeholder'', o_placeholder o')]) @
          [(''aria-describedby'', dlg_id ''error'' seq)]) [],
       Node ''p'' ''mt-1.5 text-[11px] text-red-400 leading-relaxed hidden''
         [(''id'', dlg_id ''error'' seq), (''role'', ''alert''), (''aria-live'', ''assertive'')] []]"

definition buttons_node :: "dialog_opts \<Rightarrow> node" where
  "buttons_node o' =
     Node ''div'' ''flex gap-3'' []
      [Node ''button'' ''px-4 py-3 bg-slate-800 hover:bg-slate-700 text-slate-300 font-bold rounded-lg transition duration-200 text-sm font-heading''
         [(''type'', ''button'')] [Text (or_text (o_cancelText o') ''CANCEL'')],
       Node ''button'' (tn_submit (tone_of o')) [(''type'', ''submit'')]
         [Text (or_text (o_confirmText o') (if o_prompt o' then ''SAVE'' else ''CONFIRM''))]]"

definition dialog_nodes :: "dialog_opts \<Rightarrow> nat \<Rightarrow> node" where
  "dialog_nodes o' seq =
     Node ''div'' ''fixed inset-0 z-50 flex items-center justify-center bg-black/85 backdrop-blur-md px-4'' []
      [Node ''div'' (tn_panel (tone_of o'))
         [(''role'', ''dialog''), (''aria-modal'', ''true''),
          (''aria-labelledby'', dlg_id ''title'' seq), (''aria-describedby'', dlg_id ''msg'' seq)]
         [header_node o' seq,
          Node ''p'' ''text-xs text-slate-300 leading-relaxed mb-5 whitespace-pre-line''
            [(''id'', dlg_id ''msg'' seq)] [Text (o_message o')],
          Node ''form'' ''space-y-4'' [(''novalidate'', '''')]
            ((if o_prompt o' then [field_node o' seq] else []) @ [buttons_node o'])]]"

section \<open>Life of a dialog\<close>

datatype focus_at = Outside string | OnInput nat | OnCancel nat | OnSubmit nat

record dialog =
  dg_seq :: nat
  dg_opts :: dialog_opts
  dg_input :: string
  dg_error :: "string option"
  dg_returnTo :: focus_at

record desk =
  activeDialog :: "nat option"
  dialogSeq :: nat
  on_page :: "dialog list"
  resolved :: "(nat \<times> jsval) list"
  focus_now :: focus_at

text \<open>
  \<open>finish\<close> of the dialog number \<open>n\<close>: without a value the promise gets the cancel value. The
  focus goes back to whatever opened the dialog while that is still on the page.
\<close>

definition still_there :: "dialog list \<Rightarrow> focus_at \<Rightarrow> bool" where
  "still_there ds f = (case f of Outside i \<Rightarrow> True | OnInput n \<Rightarrow> n \<in> dg_seq ` set ds
     | OnCancel n \<Rightarrow> n \<in> dg_seq ` set ds | OnSubmit n \<Rightarrow> n \<in> dg_seq ` set ds)"

definition finish :: "nat \<Rightarrow> jsval option \<Rightarrow> desk \<Rightarrow> desk" where
  "finish n res s =
     (case filter (\<lambda>d. dg_seq d = n) (on_page s) of
        [] \<Rightarrow> s
      | d # _ \<Rightarrow>
          let rest = filter (\<lambda>d. dg_seq d \<noteq> n) (on_page s) in
          s\<lparr>activeDialog := (if activeDialog s = Some n then None else activeDialog s),
            on_page := rest,
            focus_now := (if still_there rest (dg_returnTo d) then dg_returnTo d
                          else Outside ''body''),
            resolved := resolved s @
              [(n, case res of None \<Rightarrow> cancel_value (dg_opts d) | Some v \<Rightarrow> v)]\<rparr>)"

definition opening_focus :: "dialog_opts \<Rightarrow> nat \<Rightarrow> focus_at" where
  "opening_focus o' n =
     (if o_prompt o' then OnInput n else if o_destructive o' then OnCancel n else OnSubmit n)"

definition showDialog :: "dialog_opts \<Rightarrow> desk \<Rightarrow> desk" where
  "showDialog o' s0 =
     (let s = (case activeDialog s0 of None \<Rightarrow> s0 | Some k \<Rightarrow> finish k None s0);
          n = Suc (dialogSeq s) in
      s\<lparr>dialogSeq := n, activeDialog := Some n,
        on_page := on_page s @ [\<lparr>dg_seq = n, dg_opts = o', dg_input = o_value o',
          dg_error = None, dg_returnTo = focus_now s\<rparr>],
        focus_now := opening_focus o' n\<rparr>)"

definition problem_of :: "dialog_opts \<Rightarrow> string \<Rightarrow> string" where
  "problem_of o' v =
     (case o_validate o' of Some f \<Rightarrow> f v
      | None \<Rightarrow> if v \<noteq> '''' then '''' else ''This field cannot be empty.'')"

definition edit_dialog :: "nat \<Rightarrow> (dialog \<Rightarrow> dialog) \<Rightarrow> desk \<Rightarrow> desk" where
  "edit_dialog n f s = s\<lparr>on_page := map (\<lambda>d. if dg_seq d = n then f d else d) (on_page s)\<rparr>"

definition submit_dialog :: "dialog \<Rightarrow> desk \<Rightarrow> desk" where
  "submit_dialog d s =
     (if \<not> o_prompt (dg_opts d) then finish (dg_seq d) (Some (JBool True)) s
      else let value = js_trim (dg_input d); problem = problem_of (dg_opts d) value in
        if problem \<noteq> '''' then
          (edit_dialog (dg_seq d) (\<lambda>x. x\<lparr>dg_error := Some problem\<rparr>) s)
            \<lparr>focus_now := OnInput (dg_seq d)\<rparr>
        else finish (dg_seq d) (Some (JStr value)) s)"

text \<open>
  The focusable elements of a panel in document order, and where Tab goes: it wraps at both
  ends, and focus found outside the panel is pulled back in. The browser moves the focus
  inside the panel; \<open>next_in\<close> is that.
\<close>

definition focusables :: "dialog \<Rightarrow> focus_at list" where
  "focusables d = (if o_prompt (dg_opts d) then [OnInput (dg_seq d)] else []) @
     [OnCancel (dg_seq d), OnSubmit (dg_seq d)]"

fun next_in :: "focus_at \<Rightarrow> focus_at list \<Rightarrow> focus_at" where
  "next_in f (x # y # xs) = (if f = x then y else next_in f (y # xs))"
| "next_in f xs = f"

definition tab_key :: "bool \<Rightarrow> dialog \<Rightarrow> desk \<Rightarrow> desk" where
  "tab_key shift d s =
     (let fs = focusables d; inside = focus_now s \<in> set fs in
      s\<lparr>focus_now :=
        (if shift \<and> (\<not> inside \<or> focus_now s = hd fs) then last fs
         else if \<not> shift \<and> (\<not> inside \<or> focus_now s = last fs) then hd fs
         else if shift then next_in (focus_now s) (rev fs) else next_in (focus_now s) fs)\<rparr>)"

text \<open>Enter or Space on the focused control activates it; in the text field Enter submits.\<close>

definition enter_key :: "dialog \<Rightarrow> desk \<Rightarrow> desk" where
  "enter_key d s =
     (if focus_now s = OnCancel (dg_seq d) then finish (dg_seq d) None s
      else if focus_now s \<in> {OnSubmit (dg_seq d), OnInput (dg_seq d)} then submit_dialog d s
      else s)"

datatype press = Escape | CancelClick | BackdropDown bool | Submit | Type string
  | Tab bool | Enter | FocusMoves focus_at

definition on_dialog :: "press \<Rightarrow> dialog \<Rightarrow> desk \<Rightarrow> desk" where
  "on_dialog p d s = (let n = dg_seq d in
     case p of
       Escape \<Rightarrow> finish n None s
     | CancelClick \<Rightarrow> finish n None s
     | BackdropDown on_itself \<Rightarrow> if on_itself then finish n None s else s
     | Submit \<Rightarrow> submit_dialog d s
     | Type t \<Rightarrow> if o_prompt (dg_opts d)
                 then edit_dialog n (\<lambda>x. x\<lparr>dg_input := t, dg_error := None\<rparr>) s else s
     | Tab shift \<Rightarrow> tab_key shift d s
     | Enter \<Rightarrow> enter_key d s
     | FocusMoves f \<Rightarrow> s\<lparr>focus_now := f\<rparr>)"

inductive dialog_step :: "desk \<Rightarrow> desk \<Rightarrow> bool" where
  opens: "dialog_step s (showDialog o' s)"
| pressed: "d \<in> set (on_page s) \<Longrightarrow> dialog_step s (on_dialog p d s)"

inductive_cases dialog_stepE: "dialog_step s t"

section \<open>One promise per dialog, one dialog at a time\<close>

definition fresh_desk :: desk where
  "fresh_desk = \<lparr>activeDialog = None, dialogSeq = 0, on_page = [], resolved = [],
     focus_now = Outside ''body''\<rparr>"

abbreviation desk_reachable :: "desk \<Rightarrow> bool" where
  "desk_reachable s \<equiv> dialog_step\<^sup>*\<^sup>* fresh_desk s"

definition one_dialog :: "desk \<Rightarrow> bool" where
  "one_dialog s \<longleftrightarrow>
     map dg_seq (on_page s) = (case activeDialog s of None \<Rightarrow> [] | Some n \<Rightarrow> [n]) \<and>
     distinct (map fst (resolved s) @ map dg_seq (on_page s)) \<and>
     set (map fst (resolved s) @ map dg_seq (on_page s)) = {1..dialogSeq s}"

named_theorems desk_simps \<open>effects on the desk\<close>

lemma finish_only [desk_simps]:
  "on_page s = [d] \<Longrightarrow> activeDialog s = Some (dg_seq d) \<Longrightarrow>
   finish (dg_seq d) r s = s\<lparr>activeDialog := None, on_page := [],
     focus_now := (if still_there [] (dg_returnTo d) then dg_returnTo d else Outside ''body''),
     resolved := resolved s @ [(dg_seq d, case r of None \<Rightarrow> cancel_value (dg_opts d) | Some v \<Rightarrow> v)]\<rparr>"
  by (simp add: finish_def)

lemma one_dialog_page:
  "one_dialog s \<Longrightarrow> d \<in> set (on_page s) \<Longrightarrow> on_page s = [d] \<and> activeDialog s = Some (dg_seq d)"
  by (auto simp: one_dialog_def split: option.splits)

lemma one_dialog_finish:
  assumes "one_dialog s" "d \<in> set (on_page s)"
  shows "one_dialog (finish (dg_seq d) r s)"
  using assms one_dialog_page[OF assms] by (auto simp: one_dialog_def desk_simps)

lemma one_dialog_show:
  assumes "one_dialog s" shows "one_dialog (showDialog o' s)"
proof -
  define t where "t = (case activeDialog s of None \<Rightarrow> s | Some k \<Rightarrow> finish k None s)"
  have t: "one_dialog t \<and> activeDialog t = None"
  proof (cases "activeDialog s")
    case (Some k)
    then obtain d where "on_page s = [d]" "dg_seq d = k"
      using assms by (auto simp: one_dialog_def)
    then show ?thesis using assms Some one_dialog_finish[of s d None]
      by (auto simp: t_def desk_simps)
  qed (use assms in \<open>simp add: t_def\<close>)
  then have "one_dialog (t\<lparr>dialogSeq := Suc (dialogSeq t), activeDialog := Some (Suc (dialogSeq t)),
      on_page := on_page t @ [x\<lparr>dg_seq := Suc (dialogSeq t)\<rparr>], focus_now := f\<rparr>)" for x :: dialog and f
    using atLeastAtMostSuc_conv[of 1 "dialogSeq t"]
    by (auto simp: one_dialog_def set_eq_iff image_iff) (metis Suc_n_not_le_n fst_conv)
  note add = this[where x="\<lparr>dg_seq = 0, dg_opts = o', dg_input = o_value o', dg_error = None,
      dg_returnTo = focus_now t\<rparr>" and f="opening_focus o' (Suc (dialogSeq t))"]
  from add show ?thesis by (simp add: showDialog_def t_def[symmetric] Let_def)
qed

lemma one_dialog_edit:
  "(\<And>d. dg_seq (f d) = dg_seq d) \<Longrightarrow> one_dialog s \<Longrightarrow> one_dialog (edit_dialog n f s)"
proof -
  assume f: "\<And>d. dg_seq (f d) = dg_seq d" and s: "one_dialog s"
  have "map dg_seq (on_page (edit_dialog n f s)) = map dg_seq (on_page s)"
    using f by (auto simp: edit_dialog_def)
  moreover have "resolved (edit_dialog n f s) = resolved s" "dialogSeq (edit_dialog n f s) = dialogSeq s"
    "activeDialog (edit_dialog n f s) = activeDialog s" by (simp_all add: edit_dialog_def)
  ultimately show ?thesis using s unfolding one_dialog_def by metis
qed

lemma one_dialog_focus [simp]: "one_dialog (s\<lparr>focus_now := f\<rparr>) = one_dialog s"
  by (simp add: one_dialog_def)

lemma one_dialog_submit:
  "one_dialog s \<Longrightarrow> d \<in> set (on_page s) \<Longrightarrow> one_dialog (submit_dialog d s)"
  by (simp add: submit_dialog_def Let_def one_dialog_finish one_dialog_edit)

lemma one_dialog_press:
  "one_dialog s \<Longrightarrow> d \<in> set (on_page s) \<Longrightarrow> one_dialog (on_dialog p d s)"
  by (cases p) (simp_all add: on_dialog_def Let_def tab_key_def enter_key_def one_dialog_finish
      one_dialog_submit one_dialog_edit)

lemma reachable_one_dialog:
  assumes "desk_reachable s" shows "one_dialog s"
  using assms
proof (induction rule: rtranclp_induct)
  case (step s t)
  then show ?case by (auto elim!: dialog_stepE intro: one_dialog_show one_dialog_press)
qed (simp add: fresh_desk_def one_dialog_def)

text \<open>
  C6. Whatever is opened and pressed, in any order: at most one dialog is on the page, it is
  the active one, and of the dialogs opened so far every other promise has been resolved
  exactly once and the open one not yet.
\<close>

theorem dialog_promises:
  assumes "desk_reachable s"
  shows "map dg_seq (on_page s) = (case activeDialog s of None \<Rightarrow> [] | Some n \<Rightarrow> [n]) \<and>
    distinct (map fst (resolved s)) \<and>
    set (map fst (resolved s)) = {1..dialogSeq s} - set_option (activeDialog s)"
proof -
  have "one_dialog s" using assms by (rule reachable_one_dialog)
  then show ?thesis by (auto simp: one_dialog_def split: option.splits)
qed

theorem dialog_promises_witness:
  "map fst (resolved (showDialog prompt_opts (showDialog confirm_opts fresh_desk))) = [1]"
proof -
  have r: "desk_reachable (showDialog prompt_opts (showDialog confirm_opts fresh_desk))"
    by (blast intro: dialog_step.opens rtranclp.rtrancl_into_rtrancl)
  show ?thesis
    using dialog_promises[OF r]
    by (simp add: showDialog_def finish_def fresh_desk_def confirm_opts_def prompt_opts_def Let_def)
qed

lemma reachable_answers:
  assumes "desk_reachable s" "d \<in> set (on_page s)"
    and "resolved (on_dialog p d s) \<noteq> resolved s"
  shows "\<exists>v. resolved (on_dialog p d s) = resolved s @ [(dg_seq d, v)] \<and>
    (v = cancel_value (dg_opts d) \<or>
     (p = Submit \<or> p = Enter) \<and>
       (if o_prompt (dg_opts d)
        then v = JStr (js_trim (dg_input d)) \<and> problem_of (dg_opts d) (js_trim (dg_input d)) = ''''
        else v = JBool True))"
proof -
  have d: "on_page s = [d]" "activeDialog s = Some (dg_seq d)"
    using one_dialog_page[OF reachable_one_dialog] assms by auto
  have submit: "resolved (submit_dialog d s) = resolved s \<or>
    (\<exists>v. resolved (submit_dialog d s) = resolved s @ [(dg_seq d, v)] \<and>
      (if o_prompt (dg_opts d)
       then v = JStr (js_trim (dg_input d)) \<and> problem_of (dg_opts d) (js_trim (dg_input d)) = ''''
       else v = JBool True))"
    using d by (simp add: submit_dialog_def edit_dialog_def Let_def desk_simps)
  show ?thesis
    using assms(3) d submit
    by (cases p) (auto simp: on_dialog_def Let_def desk_simps tab_key_def enter_key_def
        edit_dialog_def split: if_splits)
qed

text \<open>
  The answer a caller acts on: a confirmation is true only through Submit or Enter, never
  through Escape, Cancel, the backdrop or another dialog opening, and a prompt resolves to null
  or to a trimmed text its validation accepts.
\<close>

theorem dialog_answers:
  assumes "desk_reachable s" "d \<in> set (on_page s)"
    and "resolved (on_dialog p d s) \<noteq> resolved s"
  shows "\<exists>v. resolved (on_dialog p d s) = resolved s @ [(dg_seq d, v)] \<and>
    (v = cancel_value (dg_opts d) \<or>
     (p = Submit \<or> p = Enter) \<and>
       (if o_prompt (dg_opts d)
        then v = JStr (js_trim (dg_input d)) \<and> problem_of (dg_opts d) (js_trim (dg_input d)) = ''''
        else v = JBool True))"
  using assms by (rule reachable_answers)

definition ip_prompt :: dialog_opts where
  "ip_prompt = prompt_opts\<lparr>o_value := '' a ''\<rparr>"

theorem dialog_answers_witness:
  "resolved (on_dialog Submit (hd (on_page (showDialog ip_prompt fresh_desk)))
     (showDialog ip_prompt fresh_desk)) = [(1, JStr ''a'')]"
proof -
  let ?s = "showDialog ip_prompt fresh_desk"
  have r: "desk_reachable ?s" by (blast intro: dialog_step.opens)
  have d: "hd (on_page ?s) \<in> set (on_page ?s)" by (simp add: showDialog_def fresh_desk_def Let_def)
  have v: "map snd (resolved (on_dialog Submit (hd (on_page ?s)) ?s)) = [JStr ''a'']"
    "resolved ?s = []" "dg_seq (hd (on_page ?s)) = 1"
    by code_simp+
  show ?thesis
    using dialog_answers[OF r d, of Submit] v by auto
qed

text \<open>
  A destructive confirmation opened over whatever was there cannot be confirmed by the
  keystroke that opened it: a press of Enter right after it appears, or after Tab and back,
  answers false.
\<close>

theorem destructive_enter_cancels:
  assumes "desk_reachable s" "o_destructive o'" "\<not> o_prompt o'"
  shows "let s1 = showDialog o' s; d = last (on_page s1);
             s2 = on_dialog (Tab True) d (on_dialog (Tab False) d s1) in
    on_page s1 = [d] \<and> dg_opts d = o' \<and>
    resolved (on_dialog Enter d s1) = resolved s1 @ [(dg_seq d, JBool False)] \<and>
    resolved (on_dialog Enter d s2) = resolved s1 @ [(dg_seq d, JBool False)]"
proof -
  let ?s = "showDialog o' s"
  have one: "one_dialog ?s" using assms(1) by (simp add: reachable_one_dialog one_dialog_show)
  moreover define d where "d = last (on_page ?s)"
  ultimately have ds: "on_page ?s = butlast (on_page ?s) @ [d]" "dg_opts d = o'"
      "activeDialog ?s = Some (dg_seq d)" "focus_now ?s = OnCancel (dg_seq d)"
    using assms(2,3) by (simp_all add: showDialog_def Let_def opening_focus_def)
  have "d \<in> set (on_page ?s)" by (subst ds(1)) simp
  then have "on_page ?s = [d]" using one_dialog_page one by blast
  then show ?thesis using ds assms(2,3)
    by (simp add: Let_def on_dialog_def enter_key_def tab_key_def desk_simps cancel_value_def
        focusables_def)
qed

theorem destructive_enter_cancels_witness:
  "resolved (on_dialog Enter (last (on_page (showDialog (confirm_opts\<lparr>o_destructive := True\<rparr>) fresh_desk)))
     (showDialog (confirm_opts\<lparr>o_destructive := True\<rparr>) fresh_desk)) = [(1, JBool False)]"
proof -
  have "resolved (showDialog (confirm_opts\<lparr>o_destructive := True\<rparr>) fresh_desk) = []"
    "dg_seq (last (on_page (showDialog (confirm_opts\<lparr>o_destructive := True\<rparr>) fresh_desk))) = 1"
    by code_simp+
  then show ?thesis
    using destructive_enter_cancels[of fresh_desk "confirm_opts\<lparr>o_destructive := True\<rparr>"]
    by (simp add: Let_def confirm_opts_def)
qed

end
