(* ===== verification/Time_Stamps.thy ===== *)
theory Time_Stamps
  imports Js_Prelude
begin

text \<open>
  Dates as the front end uses them: days of the Gregorian calendar and back, Date's reading of
  an RFC 3339 time stamp (the form the daemon sends), toISOString and the local fields of an
  instant. Instants are milliseconds since 1 January 1970.
\<close>

section \<open>Time stamps\<close>

text \<open>Days since 1 January 1970 of a day of the Gregorian calendar.\<close>

definition days_civil :: "int \<Rightarrow> int \<Rightarrow> int \<Rightarrow> int" where
  "days_civil y m d =
     (let y' = (if m \<le> 2 then y - 1 else y);
          yoe = y' mod 400;
          doy = (153 * (m + (if m > 2 then - 3 else 9)) + 2) div 5 + d - 1 in
      (y' div 400) * 146097 + yoe * 365 + yoe div 4 - yoe div 100 + doy - 719468)"

definition days_in_month :: "int \<Rightarrow> int \<Rightarrow> int" where
  "days_in_month y m =
     (if m = 2 then (if y mod 4 = 0 \<and> (y mod 100 \<noteq> 0 \<or> y mod 400 = 0) then 29 else 28)
      else if m \<in> {4, 6, 9, 11} then 30 else 31)"

definition field_at :: "string \<Rightarrow> nat \<Rightarrow> nat \<Rightarrow> int option" where
  "field_at s i n =
     (let t = take n (drop i s) in
      if length t = n \<and> list_all is_digit t then Some (int (digits_val t)) else None)"

definition char_at :: "string \<Rightarrow> nat \<Rightarrow> char \<Rightarrow> bool" where
  "char_at s i c \<longleftrightarrow> take 1 (drop i s) = [c]"

text \<open>The offset of a time stamp in minutes: \<open>Z\<close> or a sign, hours and minutes.\<close>

definition zone_minutes :: "string \<Rightarrow> int option" where
  "zone_minutes z =
     (if z = ''Z'' then Some 0
      else if length z = 6 \<and> char_at z 3 (CHR '':'') \<and> (hd z = CHR ''+'' \<or> hd z = CHR ''-'') then
        (case (field_at z 1 2, field_at z 4 2) of
           (Some h, Some m) \<Rightarrow>
             if h < 24 \<and> m < 60 then Some ((if hd z = CHR ''-'' then - 1 else 1) * (60 * h + m))
             else None
         | _ \<Rightarrow> None)
      else None)"

definition fraction_ms :: "string \<Rightarrow> (int \<times> string) option" where
  "fraction_ms r =
     (if char_at r 0 (CHR ''.'') then
        (let f = takeWhile is_digit (tl r) in
         if f = [] then None
         else Some (int (digits_val (take 3 (f @ ''000''))), dropWhile is_digit (tl r)))
      else Some (0, r))"

definition iso_ms :: "string \<Rightarrow> int option" where
  "iso_ms s =
     (case (field_at s 0 4, field_at s 5 2, field_at s 8 2) of
        (Some y, Some m, Some d) \<Rightarrow>
          (case (field_at s 11 2, field_at s 14 2, field_at s 17 2, fraction_ms (drop 19 s)) of
             (Some h, Some mi, Some sec, Some (ms, z)) \<Rightarrow>
               (case zone_minutes z of
                  Some off \<Rightarrow>
                    if char_at s 4 (CHR ''-'') \<and> char_at s 7 (CHR ''-'') \<and> char_at s 10 (CHR ''T'') \<and>
                       char_at s 13 (CHR '':'') \<and> char_at s 16 (CHR '':'') \<and> 1 \<le> m \<and> m \<le> 12 \<and>
                       1 \<le> d \<and> d \<le> days_in_month y m \<and> h < 24 \<and> mi < 60 \<and> sec < 60
                    then Some (((days_civil y m d * 24 + h) * 60 + mi - off) * 60000 + sec * 1000 + ms)
                    else None
                | None \<Rightarrow> None)
           | _ \<Rightarrow> None)
      | _ \<Rightarrow> None)"

text \<open>The time value of \<open>new Date(v)\<close>; \<open>None\<close> is an invalid date.\<close>

definition js_date :: "jsval \<Rightarrow> int option" where
  "js_date v =
     (case v of
        JUndef \<Rightarrow> None
      | JNull \<Rightarrow> Some 0
      | JBool b \<Rightarrow> Some (if b then 1 else 0)
      | JNum (Fin x) \<Rightarrow>
          if \<bar>x\<bar> \<le> 8640000000000000 then Some (if 0 \<le> x then \<lfloor>x\<rfloor> else \<lceil>x\<rceil>) else None
      | JNum _ \<Rightarrow> None
      | _ \<Rightarrow> iso_ms (js_string v))"

definition zero_time :: string where "zero_time = ''0001-01-01T00:00:00Z''"

definition time_set :: "jsval \<Rightarrow> bool" where
  "time_set v \<longleftrightarrow> truthy v \<and> v \<noteq> JStr zero_time"

section \<open>From days back to the calendar\<close>

text \<open>
  The year of the era, the month and the day are found by counting the starts that are not
  after the day. Years of an era begin in March, so that a leap day is the last of its year.
\<close>

definition era_year_start :: "int \<Rightarrow> int" where
  "era_year_start y = y * 365 + y div 4 - y div 100"

definition month_start :: "int \<Rightarrow> int" where
  "month_start mp = (153 * mp + 2) div 5"

definition starts_until :: "(int \<Rightarrow> int) \<Rightarrow> nat \<Rightarrow> int \<Rightarrow> int" where
  "starts_until st n x = int (length (filter (\<lambda>k. st (int k) \<le> x) [0..<n])) - 1"

definition civil_of_days :: "int \<Rightarrow> int \<times> int \<times> int" where
  "civil_of_days z0 =
     (let z = z0 + 719468;
          doe = z mod 146097;
          yoe = starts_until era_year_start 400 doe;
          doy = doe - era_year_start yoe;
          mp = starts_until month_start 12 doy;
          d = doy - month_start mp + 1;
          m = (if mp < 10 then mp + 3 else mp - 9);
          y = yoe + (z div 146097) * 400 in
      (if m \<le> 2 then y + 1 else y, m, d))"

record moment =
  f_year :: int
  f_month :: int
  f_day :: int
  f_hour :: int
  f_min :: int
  f_sec :: int
  f_ms :: int

text \<open>The fields of an instant in a zone \<open>tz\<close> minutes ahead of UTC.\<close>

definition fields_of :: "int \<Rightarrow> int \<Rightarrow> moment" where
  "fields_of tz t =
     (let l = t + tz * 60000; s = l mod 86400000; (y, m, d) = civil_of_days (l div 86400000) in
      \<lparr>f_year = y, f_month = m, f_day = d, f_hour = s div 3600000, f_min = s div 60000 mod 60,
       f_sec = s div 1000 mod 60, f_ms = s mod 1000\<rparr>)"

definition ms_of_fields :: "int \<Rightarrow> moment \<Rightarrow> int" where
  "ms_of_fields tz f =
     ((days_civil (f_year f) (f_month f) (f_day f) * 24 + f_hour f) * 60 + f_min f - tz) * 60000
       + f_sec f * 1000 + f_ms f"

definition pad2 :: "int \<Rightarrow> string" where
  "pad2 n = pad_start 2 (CHR ''0'') (int_str n)"

definition pad_num :: "nat \<Rightarrow> int \<Rightarrow> string" where
  "pad_num k n = pad_start k (CHR ''0'') (int_str n)"

text \<open>toISOString for the years 0 to 9999.\<close>

definition to_iso :: "int \<Rightarrow> string" where
  "to_iso t =
     (let f = fields_of 0 t in
      pad_num 4 (f_year f) @ ''-'' @ pad2 (f_month f) @ ''-'' @ pad2 (f_day f) @ ''T'' @
      pad2 (f_hour f) @ '':'' @ pad2 (f_min f) @ '':'' @ pad2 (f_sec f) @ ''.'' @
      pad_num 3 (f_ms f) @ ''Z'')"

definition valid_date :: "int \<Rightarrow> int \<Rightarrow> int \<Rightarrow> bool" where
  "valid_date y m d \<longleftrightarrow> 1 \<le> m \<and> m \<le> 12 \<and> 1 \<le> d \<and> d \<le> days_in_month y m"

section \<open>The calendar and its inverse\<close>

lemma starts_until_eq:
  assumes "\<And>a b. a < b \<Longrightarrow> b < int n \<Longrightarrow> st a < st b"
    and "0 \<le> k" "k < int n" "st k \<le> x" "k + 1 < int n \<Longrightarrow> x < st (k + 1)"
  shows "starts_until st n x = k"
proof -
  have "st (int j) \<le> x \<longleftrightarrow> j < Suc (nat k)" if "j < n" for j
  proof
    assume l: "st (int j) \<le> x"
    show "j < Suc (nat k)"
    proof (rule ccontr)
      assume "\<not> ?thesis"
      then have "k + 1 \<le> int j" using assms(2) by linarith
      then have "x < st (int j)"
        using assms(1)[of "k + 1" "int j"] assms(5) that by (cases "k + 1 = int j") auto
      then show False using l by simp
    qed
  next
    assume "j < Suc (nat k)"
    then have "int j \<le> k" using assms(2) by linarith
    then show "st (int j) \<le> x" using assms(1)[of "int j" k] assms(3,4) by (cases "int j = k") auto
  qed
  then have "filter (\<lambda>j. st (int j) \<le> x) [0..<n] = filter (\<lambda>j. j < Suc (nat k)) [0..<n]"
    by (intro filter_cong) auto
  also have "\<dots> = [0..<Suc (nat k)]"
  proof -
    have "[0..<n] = [0..<Suc (nat k)] @ [Suc (nat k)..<n]"
      using assms(2,3) upt_add_eq_append[of 0 "Suc (nat k)" "n - Suc (nat k)"] by auto
    then show ?thesis by simp
  qed
  finally show ?thesis using assms(2) by (simp add: starts_until_def)
qed

lemma era_year_mono: "a < b \<Longrightarrow> era_year_start a < era_year_start b"
  unfolding era_year_start_def by linarith

lemma month_start_mono: "a < b \<Longrightarrow> month_start a < month_start b"
  unfolding month_start_def by linarith

lemma div_mod_small:
  "0 \<le> (r :: int) \<Longrightarrow> r < n \<Longrightarrow> (q * n + r) div n = q"
  "0 \<le> (r :: int) \<Longrightarrow> r < n \<Longrightarrow> (q * n + r) mod n = r"
  using int_div_pos_eq[of "q * n + r" n q r] int_mod_pos_eq[of "q * n + r" n q r]
  by (simp_all add: mult.commute)

lemma div_next:
  assumes "0 < (n :: int)"
  shows "(k + 1) div n = k div n + (if (k + 1) mod n = 0 then 1 else 0)"
proof (cases "k mod n = n - 1")
  case True
  then have e: "k + 1 = n * (k div n + 1) + 0"
    using mult_div_mod_eq[of n k] distrib_left[of n "k div n" 1] by linarith
  have "(k + 1) div n = k div n + 1" using int_div_pos_eq[OF e] assms by simp
  moreover have "(k + 1) mod n = 0" by (subst e) simp
  ultimately show ?thesis by simp
next
  case False
  have e: "k + 1 = n * (k div n) + (k mod n + 1)"
    using mult_div_mod_eq[of n k] by linarith
  have r: "0 \<le> k mod n + 1" "k mod n + 1 < n"
    using assms False pos_mod_bound[OF assms, of k] pos_mod_sign[OF assms, of k] by auto
  have "(k + 1) div n = k div n" "(k + 1) mod n = k mod n + 1"
    using int_div_pos_eq[OF e r] int_mod_pos_eq[OF e r] by simp_all
  moreover have "k mod n + 1 \<noteq> 0" using pos_mod_sign[OF assms, of k] by linarith
  ultimately show ?thesis by simp
qed

text \<open>The length of a month, counted from March.\<close>

lemma month_length:
  assumes "valid_date y m d"
  defines "mp \<equiv> m + (if m > 2 then - 3 else 9)"
  shows "0 \<le> mp" "mp < 12" "month_start mp + d - 1 < month_start (mp + 1) \<or> mp = 11"
    "mp = 11 \<Longrightarrow> d \<le> (if y mod 4 = 0 \<and> (y mod 100 \<noteq> 0 \<or> y mod 400 = 0) then 29 else 28)"
proof -
  have "m = 1 \<or> m = 2 \<or> m = 3 \<or> m = 4 \<or> m = 5 \<or> m = 6 \<or> m = 7 \<or> m = 8 \<or> m = 9 \<or>
      m = 10 \<or> m = 11 \<or> m = 12"
  proof -
    have "1 \<le> m" "m \<le> 12" using assms(1) by (simp_all add: valid_date_def)
    then show ?thesis by presburger
  qed
  then show "0 \<le> mp" "mp < 12" "month_start mp + d - 1 < month_start (mp + 1) \<or> mp = 11"
    "mp = 11 \<Longrightarrow> d \<le> (if y mod 4 = 0 \<and> (y mod 100 \<noteq> 0 \<or> y mod 400 = 0) then 29 else 28)"
    using assms(1) by (auto simp: mp_def valid_date_def days_in_month_def month_start_def)
qed

lemma civil_of_days_civil:
  assumes "valid_date y m d"
  shows "civil_of_days (days_civil y m d) = (y, m, d)"
proof -
  define y' where "y' = (if m \<le> 2 then y - 1 else y)"
  define yoe where "yoe = y' mod 400"
  define mp where "mp = m + (if m > 2 then - 3 else 9)"
  define doy where "doy = month_start mp + d - 1"
  have days: "days_civil y m d + 719468 = (y' div 400) * 146097 + (era_year_start yoe + doy)"
    by (simp add: days_civil_def y'_def yoe_def mp_def doy_def month_start_def era_year_start_def Let_def)
  have mp: "0 \<le> mp" "mp < 12" and d1: "1 \<le> d"
    using month_length[OF assms] assms by (auto simp: mp_def valid_date_def)
  have ms: "month_start mp \<le> 337" "mp = 11 \<longrightarrow> month_start mp = 337" "0 \<le> month_start mp"
    "mp < 11 \<longrightarrow> month_start (mp + 1) \<le> 337"
    using mp by (auto simp: month_start_def)
  have yoe: "0 \<le> yoe" "yoe < 400" by (simp_all add: yoe_def)
  have leap: "mp = 11 \<Longrightarrow> d \<le> (if (yoe + 1) mod 4 = 0 \<and> ((yoe + 1) mod 100 \<noteq> 0 \<or> (yoe + 1) mod 400 = 0) then 29 else 28)"
  proof -
    assume 11: "mp = 11"
    then have "m = 2" using assms by (auto simp: mp_def valid_date_def split: if_splits)
    then have y: "y = y' + 1" by (simp add: y'_def)
    have "y mod 4 = (yoe + 1) mod 4" "y mod 100 = (yoe + 1) mod 100" "y mod 400 = (yoe + 1) mod 400"
    proof -
      define q where "q = y' div 400"
      have e: "y = (yoe + 1) + 400 * q" by (simp add: y yoe_def q_def)
      show "y mod 4 = (yoe + 1) mod 4" "y mod 100 = (yoe + 1) mod 100" "y mod 400 = (yoe + 1) mod 400"
        using mod_mult_self2[of "yoe + 1" 4 "100 * q"] mod_mult_self2[of "yoe + 1" 100 "4 * q"]
          mod_mult_self2[of "yoe + 1" 400 q] by (simp_all add: e)
    qed
    then show ?thesis using month_length(4)[OF assms] 11 by (auto simp: mp_def)
  qed
  have step: "era_year_start (yoe + 1) - era_year_start yoe =
      365 + (if (yoe + 1) mod 4 = 0 then 1 else 0) - (if (yoe + 1) mod 100 = 0 then 1 else 0)"
  proof -
    have "(yoe + 1) div 4 = yoe div 4 + (if (yoe + 1) mod 4 = 0 then 1 else 0)"
      "(yoe + 1) div 100 = yoe div 100 + (if (yoe + 1) mod 100 = 0 then 1 else 0)"
      by (rule div_next; simp)+
    then show ?thesis by (simp add: era_year_start_def)
  qed
  have doy: "0 \<le> doy" "doy \<le> 365" "yoe < 399 \<longrightarrow> doy < era_year_start (yoe + 1) - era_year_start yoe"
  proof -
    have small: "mp < 11 \<longrightarrow> doy < 337"
      using month_length(3)[OF assms] ms(4) by (auto simp: doy_def mp_def)
    have big: "mp = 11 \<longrightarrow> doy = 336 + d" using ms(2) by (simp add: doy_def)
    show "0 \<le> doy" using d1 ms(3) by (simp add: doy_def)
    show "doy \<le> 365" using small big leap mp by (cases "mp = 11") (auto split: if_splits)
    have "yoe < 399 \<Longrightarrow> (yoe + 1) mod 400 \<noteq> 0" using yoe by simp
    then show "yoe < 399 \<longrightarrow> doy < era_year_start (yoe + 1) - era_year_start yoe"
      using small big leap mp unfolding step by (cases "mp = 11") (auto split: if_splits)
  qed
  have end399: "era_year_start 399 = 145731" by (simp add: era_year_start_def)
  have r: "0 \<le> era_year_start yoe + doy" "era_year_start yoe + doy < 146097"
  proof -
    have "0 \<le> era_year_start yoe" using yoe by (simp add: era_year_start_def)
    then show "0 \<le> era_year_start yoe + doy" using doy by simp
    have "era_year_start (yoe + 1) \<le> era_year_start 399" if "yoe < 399"
      using that era_year_mono[of "yoe + 1" 399] by (cases "yoe + 1 = 399") auto
    then show "era_year_start yoe + doy < 146097"
      using doy yoe end399 by (cases "yoe = 399") auto
  qed
  have "(days_civil y m d + 719468) div 146097 = y' div 400"
    "(days_civil y m d + 719468) mod 146097 = era_year_start yoe + doy"
    using r unfolding days by simp_all
  moreover have "starts_until era_year_start 400 (era_year_start yoe + doy) = yoe"
    using yoe doy by (intro starts_until_eq) (auto intro: era_year_mono)
  moreover have "starts_until month_start 12 doy = mp"
    using mp d1 month_length(3)[OF assms]
    by (intro starts_until_eq) (auto intro: month_start_mono simp: doy_def mp_def)
  moreover have "yoe + (y' div 400) * 400 = y'" by (simp add: yoe_def)
  ultimately show ?thesis
    using assms by (auto simp: civil_of_days_def Let_def doy_def y'_def mp_def valid_date_def)
qed

lemma starts_until_bounds:
  assumes "\<And>a b. a < b \<Longrightarrow> st a < st b" "st 0 \<le> x" "0 < n"
  defines "k \<equiv> starts_until st n x"
  shows "0 \<le> k \<and> k < int n \<and> st k \<le> x \<and> (k + 1 < int n \<longrightarrow> x < st (k + 1))"
proof -
  define j where "j = Max {j. j < n \<and> st (int j) \<le> x}"
  have f: "finite {j. j < n \<and> st (int j) \<le> x}" "0 \<in> {j. j < n \<and> st (int j) \<le> x}"
    using assms by auto
  have "j \<in> {j. j < n \<and> st (int j) \<le> x}" unfolding j_def using f by (intro Max_in) auto
  then have j: "j < n" "st (int j) \<le> x" by auto
  have "x < st (int j + 1)" if "int j + 1 < int n"
  proof (rule ccontr)
    assume "\<not> ?thesis"
    then have "Suc j \<in> {j. j < n \<and> st (int j) \<le> x}" using that by (simp add: add.commute)
    then have "Suc j \<le> j" unfolding j_def using f(1) by (rule Max_ge[rotated])
    then show False by simp
  qed
  then show ?thesis
    using j assms(1) starts_until_eq[of n st "int j" x] by (auto simp: k_def)
qed

lemma civil_of_days_ok:
  assumes "civil_of_days z = (y, m, d)"
  shows "valid_date y m d \<and> days_civil y m d = z"
proof -
  define q where "q = (z + 719468) div 146097"
  define doe where "doe = (z + 719468) mod 146097"
  define yoe where "yoe = starts_until era_year_start 400 doe"
  define doy where "doy = doe - era_year_start yoe"
  define mp where "mp = starts_until month_start 12 doy"
  have doe: "0 \<le> doe" "doe < 146097" "z + 719468 = q * 146097 + doe"
    by (simp_all add: doe_def q_def)
  have y: "0 \<le> yoe" "yoe < 400" "era_year_start yoe \<le> doe" "yoe + 1 < 400 \<longrightarrow> doe < era_year_start (yoe + 1)"
    using starts_until_bounds[of era_year_start doe 400] era_year_mono doe(1)
    by (auto simp: yoe_def era_year_start_def)
  have mp: "0 \<le> mp" "mp < 12" "month_start mp \<le> doy" "mp + 1 < 12 \<longrightarrow> doy < month_start (mp + 1)"
    using starts_until_bounds[of month_start doy 12] month_start_mono y(3)
    by (auto simp: mp_def month_start_def doy_def)
  have step: "era_year_start (yoe + 1) - era_year_start yoe =
      365 + (if (yoe + 1) mod 4 = 0 then 1 else 0) - (if (yoe + 1) mod 100 = 0 then 1 else 0)"
    using div_next[of 4 yoe] div_next[of 100 yoe] by (simp add: era_year_start_def)
  have len: "doy \<le> 364 \<or> doy = 365 \<and> (yoe + 1) mod 4 = 0 \<and> ((yoe + 1) mod 100 \<noteq> 0 \<or> (yoe + 1) mod 400 = 0)"
  proof (cases "yoe = 399")
    case True
    then show ?thesis using doe by (auto simp: doy_def era_year_start_def)
  next
    case False
    then have "doy < era_year_start (yoe + 1) - era_year_start yoe" using y by (simp add: doy_def)
    then show ?thesis unfolding step by (auto split: if_splits)
  qed
  define y' where "y' = yoe + q * 400"
  have eq: "d = doy - month_start mp + 1" "m = (if mp < 10 then mp + 3 else mp - 9)"
    "y = (if m \<le> 2 then y' + 1 else y')"
    using assms
    by (auto simp: civil_of_days_def Let_def q_def[symmetric] doe_def[symmetric] yoe_def[symmetric]
        doy_def[symmetric] mp_def[symmetric] y'_def)
  have ym: "(y' + 1) mod 4 = (yoe + 1) mod 4" "(y' + 1) mod 100 = (yoe + 1) mod 100"
    "(y' + 1) mod 400 = (yoe + 1) mod 400"
  proof -
    have e: "y' + 1 = (yoe + 1) + 400 * q" by (simp add: y'_def)
    show "(y' + 1) mod 4 = (yoe + 1) mod 4" "(y' + 1) mod 100 = (yoe + 1) mod 100"
      "(y' + 1) mod 400 = (yoe + 1) mod 400"
      using mod_mult_self2[of "yoe + 1" 4 "100 * q"] mod_mult_self2[of "yoe + 1" 100 "4 * q"]
        mod_mult_self2[of "yoe + 1" 400 q] by (simp_all add: e)
  qed
  have "d \<le> days_in_month y m"
  proof (cases "mp = 11")
    case True
    then have "m = 2" "y = y' + 1" "d = doy - 336" using eq by (simp_all add: month_start_def)
    then show ?thesis using len ym by (auto simp: days_in_month_def)
  next
    case False
    then have "mp = 0 \<or> mp = 1 \<or> mp = 2 \<or> mp = 3 \<or> mp = 4 \<or> mp = 5 \<or> mp = 6 \<or> mp = 7 \<or> mp = 8 \<or>
        mp = 9 \<or> mp = 10"
      using mp(1,2) by presburger
    then show ?thesis using mp(3,4) eq(1,2)
      by (elim disjE) (simp_all add: days_in_month_def month_start_def)
  qed
  then have "valid_date y m d"
    using mp eq(1,2) by (auto simp: valid_date_def)
  moreover have "(if m \<le> 2 then y - 1 else y) = y'" using eq(3) by simp
  moreover have "m + (if m > 2 then - 3 else 9) = mp" using eq(2) mp by (auto split: if_splits)
  moreover have "y' mod 400 = yoe" "y' div 400 = q"
    using y by (simp_all add: y'_def)
  ultimately have "valid_date y m d \<and> days_civil y m d = q * 146097 + (era_year_start yoe + doy) - 719468"
    using eq(1) by (simp add: days_civil_def Let_def era_year_start_def month_start_def)
  then show ?thesis using doe(3) by (simp add: doy_def)
qed

section \<open>Fields and instants\<close>

definition fields_ok :: "moment \<Rightarrow> bool" where
  "fields_ok f \<longleftrightarrow> valid_date (f_year f) (f_month f) (f_day f) \<and> 0 \<le> f_hour f \<and> f_hour f < 24 \<and>
     0 \<le> f_min f \<and> f_min f < 60 \<and> 0 \<le> f_sec f \<and> f_sec f < 60 \<and> 0 \<le> f_ms f \<and> f_ms f < 1000"

lemma fields_of_ms: 
  assumes "fields_ok f" shows "fields_of tz (ms_of_fields tz f) = f"
proof -
  define d where "d = days_civil (f_year f) (f_month f) (f_day f)"
  define s where "s = ((f_hour f * 60 + f_min f) * 60 + f_sec f) * 1000 + f_ms f"
  have l: "ms_of_fields tz f + tz * 60000 = 86400000 * d + s"
    by (simp add: ms_of_fields_def d_def s_def algebra_simps)
  have b: "0 \<le> s" "s < 86400000" using assms by (auto simp: s_def fields_ok_def)
  have dm: "(ms_of_fields tz f + tz * 60000) div 86400000 = d"
    "(ms_of_fields tz f + tz * 60000) mod 86400000 = s"
    using b unfolding l by simp_all
  have r: "0 \<le> f_ms f" "f_ms f < 1000" "0 \<le> f_sec f" "f_sec f < 60" "0 \<le> f_min f" "f_min f < 60"
    using assms by (auto simp: fields_ok_def)
  have s1: "s div 1000 = (f_hour f * 60 + f_min f) * 60 + f_sec f" "s mod 1000 = f_ms f"
    using int_div_pos_eq[OF s_def[unfolded mult.commute[of _ 1000]]]
      int_mod_pos_eq[OF s_def[unfolded mult.commute[of _ 1000]]] r by simp_all
  have s2: "s div 60000 = f_hour f * 60 + f_min f"
  proof -
    have "s div 60000 = s div 1000 div 60" using zdiv_zmult2_eq[of 60 s 1000] by simp
    then show ?thesis using r s1 by simp
  qed
  have s3: "s div 3600000 = f_hour f"
  proof -
    have "s div 3600000 = s div 60000 div 60" using zdiv_zmult2_eq[of 60 s 60000] by simp
    then show ?thesis using r s2 by simp
  qed
  have c: "civil_of_days d = (f_year f, f_month f, f_day f)"
    unfolding d_def using assms by (intro civil_of_days_civil) (simp add: fields_ok_def)
  have s4: "((f_hour f * 60 + f_min f) * 60 + f_sec f) mod 60 = f_sec f"
    "(f_hour f * 60 + f_min f) mod 60 = f_min f"
    using r by (simp_all only: div_mod_small)
  show ?thesis
    by (simp only: fields_of_def Let_def dm c s1 s2 s3 s4 prod.case) (cases f, simp)
qed

lemma ms_of_fields_of: "ms_of_fields tz (fields_of tz t) = t \<and> fields_ok (fields_of tz t)"
proof -
  define l where "l = t + tz * 60000"
  define s where "s = l mod 86400000"
  obtain y m d where c: "civil_of_days (l div 86400000) = (y, m, d)" by (cases "civil_of_days (l div 86400000)")
  have v: "valid_date y m d" "days_civil y m d = l div 86400000"
    using civil_of_days_ok[OF c] by simp_all
  have s: "0 \<le> s" "s < 86400000" "l = 86400000 * (l div 86400000) + s"
    by (simp_all add: s_def)
  have parts: "s = s div 3600000 * 3600000 + s div 60000 mod 60 * 60000 + s div 1000 mod 60 * 1000 + s mod 1000"
  proof -
    have "s div 60000 = s div 1000 div 60" using zdiv_zmult2_eq[of 60 s 1000] by simp
    moreover have "s div 3600000 = s div 60000 div 60" using zdiv_zmult2_eq[of 60 s 60000] by simp
    moreover have "s = s div 1000 * 1000 + s mod 1000"
      "s div 1000 = s div 1000 div 60 * 60 + s div 1000 mod 60"
      "s div 60000 = s div 60000 div 60 * 60 + s div 60000 mod 60"
      by (rule div_mult_mod_eq[symmetric])+
    ultimately show ?thesis by linarith
  qed
  have f: "fields_of tz t = \<lparr>f_year = y, f_month = m, f_day = d, f_hour = s div 3600000,
      f_min = s div 60000 mod 60, f_sec = s div 1000 mod 60, f_ms = s mod 1000\<rparr>"
    using c by (simp add: fields_of_def Let_def l_def[symmetric] s_def[symmetric])
  have "ms_of_fields tz (fields_of tz t) = t"
  proof -
    have "ms_of_fields tz (fields_of tz t) = ((l div 86400000 * 24 + s div 3600000) * 60 +
        s div 60000 mod 60 - tz) * 60000 + s div 1000 mod 60 * 1000 + s mod 1000"
      by (simp only: f ms_of_fields_def v moment.select_convs)
    also have "\<dots> = t"
    proof -
      have "l = 86400000 * q + r \<Longrightarrow> r = a * 3600000 + b * 60000 + c * 1000 + e \<Longrightarrow>
          l = t + tz * 60000 \<Longrightarrow> ((q * 24 + a) * 60 + b - tz) * 60000 + c * 1000 + e = t"
        for q r a b c e l :: int by (simp add: algebra_simps)
      then show ?thesis using s(3) parts l_def by blast
    qed
    finally show ?thesis .
  qed
  moreover have "s div 3600000 < 24"
    using s(2) div_pos_pos_trivial zdiv_mono1[of s 86399999 3600000] by simp
  moreover have "0 \<le> s div 3600000" using s(1) by (simp add: pos_imp_zdiv_nonneg_iff)
  moreover have "fields_ok (fields_of tz t)"
    unfolding f fields_ok_def moment.select_convs
    using v(1) calculation(2,3) by (intro conjI) (assumption | rule pos_mod_sign pos_mod_bound | simp)+
  ultimately show ?thesis by blast
qed

section \<open>Printed dates\<close>

text \<open>
  The text the date picker and the edit form put into the expiry field, and Date's reading of
  it as local time. \<open>legacy\<close> is the engine's reading of any other text, which the language
  leaves to the implementation.
\<close>

definition date_time_sep :: "char \<Rightarrow> moment \<Rightarrow> string" where
  "date_time_sep sep f =
     int_str (f_year f) @ ''-'' @ pad2 (f_month f) @ ''-'' @ pad2 (f_day f) @ [sep] @
     pad2 (f_hour f) @ '':'' @ pad2 (f_min f) @ '':00''"

definition date_time_str :: "moment \<Rightarrow> string" where
  "date_time_str f = date_time_sep (CHR '' '') f"

definition local_fields :: "char \<Rightarrow> string \<Rightarrow> moment option" where
  "local_fields sep s =
     (case (field_at s 0 4, field_at s 5 2, field_at s 8 2) of
        (Some y, Some m, Some d) \<Rightarrow>
          (case (field_at s 11 2, field_at s 14 2, field_at s 17 2) of
             (Some h, Some mi, Some sec) \<Rightarrow>
               if length s = 19 \<and> char_at s 4 (CHR ''-'') \<and> char_at s 7 (CHR ''-'') \<and>
                  char_at s 10 sep \<and> char_at s 13 (CHR '':'') \<and> char_at s 16 (CHR '':'') \<and>
                  valid_date y m d \<and> h < 24 \<and> mi < 60 \<and> sec < 60
               then Some \<lparr>f_year = y, f_month = m, f_day = d, f_hour = h, f_min = mi,
                          f_sec = sec, f_ms = 0\<rparr>
               else None
           | _ \<Rightarrow> None)
      | _ \<Rightarrow> None)"

definition date_input :: "(string \<Rightarrow> int option) \<Rightarrow> int \<Rightarrow> char \<Rightarrow> string \<Rightarrow> int option" where
  "date_input legacy tz sep s =
     (case local_fields sep s of Some f \<Rightarrow> Some (ms_of_fields tz f) | None \<Rightarrow> legacy s)"

lemma digits_val_pad: "digits_val (replicate k (CHR ''0'') @ s) = digits_val s"
proof -
  have "digits_val s = foldl (\<lambda>a c. 10 * a + (of_char c - 48)) 0 s" for s by (simp add: digits_val_def)
  moreover have "foldl (\<lambda>a c. 10 * a + (of_char c - 48)) (0 :: nat) (replicate k (CHR ''0'')) = 0"
    by (induction k) auto
  ultimately show ?thesis by simp
qed

lemma pad_num_props:
  assumes "0 \<le> n" "n < 10 ^ k" "0 < k"
  shows "length (pad_num k n) = k" "list_all is_digit (pad_num k n)"
    "int (digits_val (pad_num k n)) = n"
proof -
  have i: "int_str n = nat_str (nat n)" using assms(1) by (simp add: int_str_def)
  have "nat n < 10 ^ k" using assms by (simp add: nat_less_iff)
  then have l: "length (nat_str (nat n)) \<le> k" using assms(3) by (intro nat_str_length)
  show "length (pad_num k n) = k" using l by (simp add: pad_num_def pad_start_def i)
  show "list_all is_digit (pad_num k n)"
    using nat_str_digits by (auto simp: pad_num_def pad_start_def i list_all_iff is_digit_def)
  show "int (digits_val (pad_num k n)) = n"
    using assms(1) by (simp add: pad_num_def pad_start_def i digits_val_pad digits_val_nat_str)
qed

lemma pad2_pad_num: "pad2 n = pad_num 2 n"
  by (simp add: pad2_def pad_num_def)

text \<open>A field that starts after a text of known length and is \<open>k\<close> digits wide.\<close>

lemma field_at_pad:
  "length a = i \<Longrightarrow> 0 \<le> n \<Longrightarrow> n < 10 ^ k \<Longrightarrow> 0 < k \<Longrightarrow> field_at (a @ pad_num k n @ b) i k = Some n"
  using pad_num_props[of n k] by (simp add: field_at_def Let_def)

lemma char_at_app: "length a = i \<Longrightarrow> char_at (a @ c # b) i c' \<longleftrightarrow> c = c'"
  by (simp add: char_at_def)

lemma year_str:
  assumes "1000 \<le> y" "y \<le> 9999" shows "int_str y = pad_num 4 y"
proof -
  have "\<not> nat y < 10" "\<not> nat y div 10 < 10" "\<not> nat y div 10 div 10 < 10" "nat y div 10 div 10 div 10 < 10"
    using assms by linarith+
  then have "length (nat_str (nat y)) = 4"
    by (simp add: nat_str.simps[of "nat y"] nat_str.simps[of "nat y div 10"]
        nat_str.simps[of "nat y div 10 div 10"] nat_str.simps[of "nat y div 10 div 10 div 10"])
  then show ?thesis using assms by (simp add: pad_num_def pad_start_def int_str_def)
qed

lemmas fields_bounds = fields_ok_def valid_date_def

lemma fields_small:
  assumes "fields_ok f"
  shows "0 \<le> f_month f \<and> f_month f < 10 ^ 2" "0 \<le> f_day f \<and> f_day f < 10 ^ 2"
    "0 \<le> f_hour f \<and> f_hour f < 10 ^ 2" "0 \<le> f_min f \<and> f_min f < 10 ^ 2"
    "0 \<le> f_sec f \<and> f_sec f < 10 ^ 2" "0 \<le> f_ms f \<and> f_ms f < 10 ^ 3"
proof -
  have "days_in_month y m \<le> 31" for y m by (simp add: days_in_month_def)
  then have "f_day f \<le> 31" using assms by (auto simp: fields_bounds intro: order_trans)
  then show "0 \<le> f_month f \<and> f_month f < 10 ^ 2" "0 \<le> f_day f \<and> f_day f < 10 ^ 2"
    "0 \<le> f_hour f \<and> f_hour f < 10 ^ 2" "0 \<le> f_min f \<and> f_min f < 10 ^ 2"
    "0 \<le> f_sec f \<and> f_sec f < 10 ^ 2" "0 \<le> f_ms f \<and> f_ms f < 10 ^ 3"
    using assms by (auto simp: fields_bounds)
qed

lemma local_fields_date_time_sep:
  assumes "fields_ok f" "1000 \<le> f_year f" "f_year f \<le> 9999"
  shows "local_fields sep (date_time_sep sep f) = Some (f\<lparr>f_sec := 0, f_ms := 0\<rparr>)"
proof -
  let ?y = "pad_num 4 (f_year f)" and ?m = "pad_num 2 (f_month f)" and ?d = "pad_num 2 (f_day f)"
    and ?h = "pad_num 2 (f_hour f)" and ?i = "pad_num 2 (f_min f)"
  let ?s = "date_time_sep sep f"
  note sm = fields_small[OF assms(1)]
  have y: "0 \<le> f_year f \<and> f_year f < 10 ^ 4" using assms by simp
  have s: "?s = ?y @ CHR ''-'' # ?m @ CHR ''-'' # ?d @ sep # ?h @ CHR '':'' # ?i @ '':00''"
    using assms by (simp add: date_time_sep_def year_str pad2_pad_num)
  have len: "length ?y = 4" "length ?m = 2" "length ?d = 2" "length ?h = 2" "length ?i = 2"
    using y sm pad_num_props(1) by simp_all
  have z: "pad_num 2 0 = ''00''" by code_simp
  have f: "field_at ?s 0 4 = Some (f_year f)" "field_at ?s 5 2 = Some (f_month f)"
    "field_at ?s 8 2 = Some (f_day f)" "field_at ?s 11 2 = Some (f_hour f)"
    "field_at ?s 14 2 = Some (f_min f)" "field_at ?s 17 2 = Some 0"
    using field_at_pad[of "[]" 0 "f_year f" 4] field_at_pad[of "?y @ ''-''" 5 "f_month f" 2]
      field_at_pad[of "?y @ CHR ''-'' # ?m @ ''-''" 8 "f_day f" 2]
      field_at_pad[of "?y @ CHR ''-'' # ?m @ CHR ''-'' # ?d @ [sep]" 11 "f_hour f" 2]
      field_at_pad[of "?y @ CHR ''-'' # ?m @ CHR ''-'' # ?d @ sep # ?h @ '':''" 14 "f_min f" 2]
      field_at_pad[of "?y @ CHR ''-'' # ?m @ CHR ''-'' # ?d @ sep # ?h @ CHR '':'' # ?i @ '':''" 17 0 2 "[]"]
      y sm len
    by (simp_all add: s z)
  have c: "char_at ?s 4 (CHR ''-'')" "char_at ?s 7 (CHR ''-'')" "char_at ?s 10 sep"
    "char_at ?s 13 (CHR '':'')" "char_at ?s 16 (CHR '':'')" "length ?s = 19"
    using len by (simp_all add: s char_at_def)
  show ?thesis
    using assms(1) by (simp add: local_fields_def f c fields_bounds)
qed

lemma local_fields_date_time:
  assumes "fields_ok f" "1000 \<le> f_year f" "f_year f \<le> 9999"
  shows "local_fields (CHR '' '') (date_time_str f) = Some (f\<lparr>f_sec := 0, f_ms := 0\<rparr>)"
  using assms by (simp add: date_time_str_def local_fields_date_time_sep)

text \<open>Date reads back what toISOString printed.\<close>

lemma iso_ms_to_iso:
  assumes "0 \<le> f_year (fields_of 0 t)" "f_year (fields_of 0 t) \<le> 9999"
  shows "iso_ms (to_iso t) = Some t"
proof -
  define f where "f = fields_of 0 t"
  have ok: "fields_ok f" "ms_of_fields 0 f = t" using ms_of_fields_of by (simp_all add: f_def)
  let ?y = "pad_num 4 (f_year f)" and ?m = "pad_num 2 (f_month f)" and ?d = "pad_num 2 (f_day f)"
    and ?h = "pad_num 2 (f_hour f)" and ?i = "pad_num 2 (f_min f)" and ?c = "pad_num 2 (f_sec f)"
    and ?ms = "pad_num 3 (f_ms f)"
  let ?s = "to_iso t"
  note sm = fields_small[OF ok(1)]
  have y: "0 \<le> f_year f \<and> f_year f < 10 ^ 4" using assms by (simp add: f_def)
  have s: "?s = ?y @ CHR ''-'' # ?m @ CHR ''-'' # ?d @ CHR ''T'' # ?h @ CHR '':'' # ?i @ CHR '':'' # ?c @ CHR ''.'' # ?ms @ ''Z''"
    by (simp add: to_iso_def f_def[symmetric] Let_def pad2_pad_num)
  have len: "length ?y = 4" "length ?m = 2" "length ?d = 2" "length ?h = 2" "length ?i = 2"
    "length ?c = 2" "length ?ms = 3"
    using y sm pad_num_props(1) by simp_all
  have f: "field_at ?s 0 4 = Some (f_year f)" "field_at ?s 5 2 = Some (f_month f)"
    "field_at ?s 8 2 = Some (f_day f)" "field_at ?s 11 2 = Some (f_hour f)"
    "field_at ?s 14 2 = Some (f_min f)" "field_at ?s 17 2 = Some (f_sec f)"
    using field_at_pad[of "[]" 0 "f_year f" 4] field_at_pad[of "?y @ ''-''" 5 "f_month f" 2]
      field_at_pad[of "?y @ CHR ''-'' # ?m @ ''-''" 8 "f_day f" 2]
      field_at_pad[of "?y @ CHR ''-'' # ?m @ CHR ''-'' # ?d @ ''T''" 11 "f_hour f" 2]
      field_at_pad[of "?y @ CHR ''-'' # ?m @ CHR ''-'' # ?d @ CHR ''T'' # ?h @ '':''" 14 "f_min f" 2]
      field_at_pad[of "?y @ CHR ''-'' # ?m @ CHR ''-'' # ?d @ CHR ''T'' # ?h @ CHR '':'' # ?i @ '':''" 17 "f_sec f" 2]
      y sm len
    by (simp_all add: s)
  have c: "char_at ?s 4 (CHR ''-'')" "char_at ?s 7 (CHR ''-'')" "char_at ?s 10 (CHR ''T'')"
    "char_at ?s 13 (CHR '':'')" "char_at ?s 16 (CHR '':'')" "drop 19 ?s = CHR ''.'' # ?ms @ ''Z''"
    using len by (simp_all add: s char_at_def)
  have dig: "takeWhile is_digit (?ms @ ''Z'') = ?ms" "dropWhile is_digit (?ms @ ''Z'') = ''Z''"
    "?ms \<noteq> []"
    using pad_num_props(2)[of "f_ms f" 3] sm len(7)
    by (auto simp: takeWhile_append dropWhile_append list_all_iff is_digit_def)
  have fr: "fraction_ms (CHR ''.'' # ?ms @ ''Z'') = Some (f_ms f, ''Z'')"
    using dig len(7) pad_num_props(3)[of "f_ms f" 3] sm
    by (simp add: fraction_ms_def char_at_def Let_def)
  have z: "zone_minutes ''Z'' = Some 0" by (simp add: zone_minutes_def)
  have "iso_ms ?s = Some (ms_of_fields 0 f)"
    using ok(1) by (simp add: iso_ms_def f c fr z fields_bounds ms_of_fields_def)
  then show ?thesis by (simp add: ok(2))
qed

end
