(* ===== verification/Clients.thy ===== *)
theory Clients
  imports Telemetry Dialogs Time_Stamps
begin

text \<open>
  The subscribers tab (app.js, clientAction, isProbablyIP, loadClients to
  initClientEventListeners): reading the list and the access mode, the search, one card per
  subscriber, the actions of the card's buttons and the text of the Telegram card.

  \<open>cenv\<close> is what the cards take from the browser: the clock and the formatting of dates and
  numbers in the operator's locale. \<open>iso_ms\<close> is Date's reading of an RFC 3339 time stamp, the
  form the daemon sends; Date reads other strings in an implementation-defined way and they
  count as invalid here. A renderer returns whether it came back: a value of an unexpected
  shape raises a TypeError. Cards are written without comments and indentation, and an answer
  of a dialog is given by a function of the dialog's options.
\<close>

record cenv =
  ce_now :: int
  ce_date :: "int \<Rightarrow> string"
  ce_time :: "int \<Rightarrow> string"
  ce_num :: "rat \<Rightarrow> string"

section \<open>The texts of a card\<close>

definition is_expired :: "cenv \<Rightarrow> jsval \<Rightarrow> bool" where
  "is_expired env c \<longleftrightarrow> time_set (jget c ''expires_at'') \<and>
     (case js_date (jget c ''expires_at'') of None \<Rightarrow> False | Some t \<Rightarrow> t < ce_now env)"

definition exp_text :: "cenv \<Rightarrow> jsval \<Rightarrow> string" where
  "exp_text env c =
     (if \<not> time_set (jget c ''expires_at'') then ''Lifetime (No Expiry)''
      else case js_date (jget c ''expires_at'') of
             None \<Rightarrow> ''Invalid Date Invalid Date''
           | Some t \<Rightarrow> ce_date env t @ '' '' @ ce_time env t)"

definition exp_short :: "cenv \<Rightarrow> jsval \<Rightarrow> string" where
  "exp_short env c =
     (if \<not> time_set (jget c ''expires_at'') then ''Lifetime (No Expiry)''
      else case js_date (jget c ''expires_at'') of
             None \<Rightarrow> ''Invalid Date'' | Some t \<Rightarrow> ce_date env t)"

definition days_hours :: "int \<Rightarrow> int \<times> int" where
  "days_hours diffMs =
     (diffMs div (1000 * 60 * 60 * 24), (diffMs mod (1000 * 60 * 60 * 24)) div (1000 * 60 * 60))"

definition remaining_text :: "cenv \<Rightarrow> jsval \<Rightarrow> string" where
  "remaining_text env c =
     (if \<not> time_set (jget c ''expires_at'') then ''''
      else case js_date (jget c ''expires_at'') of
             None \<Rightarrow> ''(Expired)''
           | Some t \<Rightarrow>
               if t - ce_now env > 0 then
                 (case days_hours (t - ce_now env) of (days, hours) \<Rightarrow>
                    ''('' @ int_str days @ ''d '' @ int_str hours @ ''h remaining)'')
               else ''(Expired)'')"

definition sub_url :: "string \<Rightarrow> jsval \<Rightarrow> string" where
  "sub_url origin c = origin @ ''/sub/'' @ js_string (jget c ''token'')"

definition reg_url :: "string \<Rightarrow> jsval \<Rightarrow> string" where
  "reg_url origin c = origin @ ''/ip/'' @ js_string (jget c ''token'')"

definition current_ip :: "jsval \<Rightarrow> jsval" where
  "current_ip c = (case arr_elems (jget c ''allowed_ips'') of [] \<Rightarrow> JStr '''' | x # _ \<Rightarrow> x)"

definition positive_num :: "jsval \<Rightarrow> rat" where
  "positive_num v = (case v of JNum (Fin x) \<Rightarrow> if 0 < x then x else 0 | _ \<Rightarrow> 0)"

definition used_bytes :: "jsval \<Rightarrow> rat" where
  "used_bytes c = positive_num (jget c ''traffic_used_bytes'')"

definition limit_gb :: "jsval \<Rightarrow> rat" where
  "limit_gb c = positive_num (jget c ''traffic_limit_gb'')"

definition limit_text :: "jsval \<Rightarrow> string" where
  "limit_text c = (if limit_gb c > 0 then num_str (Fin (limit_gb c)) @ '' GB'' else ''Unlimited'')"

definition used_pct :: "jsval \<Rightarrow> int" where
  "used_pct c = min 999 (js_round (fl (fl (used_bytes c / fl (limit_gb c * 1024 * 1024 * 1024)) * 100)))"

definition used_text :: "jsval \<Rightarrow> string" where
  "used_text c = ''Used: '' @ formatBytes (JNum (Fin (used_bytes c))) @
     (if limit_gb c > 0 then '' '' @ u_middot @ '' '' @ int_str (used_pct c) @ ''%'' else '''')"

definition used_class :: "jsval \<Rightarrow> string" where
  "used_class c =
     (if limit_gb c > 0 then
        (if jget c ''quota_exceeded'' = JBool True then ''text-red-400 font-bold''
         else if 80 \<le> used_pct c then ''text-amber-400 font-bold'' else ''text-slate-500'')
      else ''text-slate-500'')"

definition max_devices :: "jsval \<Rightarrow> string" where
  "max_devices c = js_string (js_or (jget c ''max_devices'') (JNum (Fin 1)))"

definition ips_count :: "jsval \<Rightarrow> string" where
  "ips_count c =
     (case js_or (jget c ''allowed_ips'') (JArr []) of
        JArr xs \<Rightarrow> nat_str (length xs) | v \<Rightarrow> js_string (jget v ''length''))"

definition queries_text :: "cenv \<Rightarrow> jsval \<Rightarrow> string" where
  "queries_text env c = count_tile (ce_num env) (jget c ''total_queries'')"

definition age_text :: "int \<Rightarrow> string" where
  "age_text ageMin =
     (if ageMin < 1 then ''just now''
      else if ageMin < 60 then int_str ageMin @ ''m ago''
      else if ageMin < 1440 then int_str (ageMin div 60) @ ''h ago''
      else int_str (ageMin div 1440) @ ''d ago'')"

definition last_seen_text :: "cenv \<Rightarrow> jsval \<Rightarrow> string" where
  "last_seen_text env c =
     (if \<not> time_set (jget c ''last_seen'') then ''Never''
      else case js_date (jget c ''last_seen'') of
             None \<Rightarrow> ''Never'' | Some t \<Rightarrow> age_text ((ce_now env - t) div 60000))"

section \<open>Markup\<close>

definition clients_notice :: "string \<Rightarrow> string \<Rightarrow> string \<Rightarrow> string \<Rightarrow> string" where
  "clients_notice icon title body titleClass =
     ''<div class=\"clients-placeholder col-span-1 md:col-span-2 glass-panel p-8 text-center text-slate-400 border border-slate-800\"><i data-feather=\"'' @
     icon @ ''\" class=\"w-8 h-8 mx-auto text-slate-600 mb-2\"></i><div class=\"font-bold '' @
     titleClass @ '' font-heading\">'' @ title @
     ''</div><p class=\"text-xs text-slate-500 mt-1\">'' @ body @ ''</p></div>''"

definition no_clients_html :: string where
  "no_clients_html =
     ''<div class=\"clients-placeholder col-span-1 md:col-span-2 glass-panel p-8 text-center text-slate-400 border border-slate-800\"><i data-feather=\"users\" class=\"w-8 h-8 mx-auto text-slate-600 mb-2\"></i><div class=\"font-bold text-slate-300 font-heading\">No Clients Yet</div><p class=\"text-xs text-slate-500 mt-1\">Click \"Add New Client\" above to create client accounts &amp; registration links.</p></div>''"

definition no_match_html :: "nat \<Rightarrow> string \<Rightarrow> string" where
  "no_match_html n searchVal =
     ''<div class=\"clients-placeholder col-span-1 md:col-span-2 glass-panel p-8 text-center text-slate-400 border border-slate-800\"><i data-feather=\"search\" class=\"w-8 h-8 mx-auto text-slate-600 mb-2\"></i><div class=\"font-bold text-slate-300 font-heading\">No Match</div><p class=\"text-xs text-slate-500 mt-1\">None of your '' @
     nat_str n @ '' client(s) match &ldquo;'' @ escapeHTML (JStr searchVal) @
     ''&rdquo;. The search looks at the name, the ID and the registered IPs.</p><button class=\"clear-client-search-btn mt-3 text-[11px] font-bold text-cyan-400 border border-cyan-500/30 bg-cyan-500/10 px-3 py-1.5 rounded-lg hover:bg-cyan-500/20 transition\">Clear search</button></div>''"

definition status_badge :: "cenv \<Rightarrow> jsval \<Rightarrow> string" where
  "status_badge env c =
     (if \<not> truthy (jget c ''enabled'') then ''<span class=\"badge badge-block\">DISABLED</span>''
      else if is_expired env c then ''<span class=\"badge badge-block\">EXPIRED</span>''
      else if jget c ''quota_exceeded'' = JBool True then ''<span class=\"badge badge-block\">NO QUOTA</span>''
      else ''<span class=\"badge badge-direct\">ACTIVE</span>'')"

definition policy_badge :: "jsval \<Rightarrow> string" where
  "policy_badge c =
     (let ps = arr_elems (jget c ''custom_policies'') in
      if ps = [] then ''''
      else
       ''<span class=\"badge bg-purple-500/20 text-purple-300 border border-purple-500/30 text-[9px]\" title=\"'' @
       escapeHTML (JStr (js_join '', '' (map (\<lambda>p. if nullish p then '''' else js_string p) ps))) @
       ''\">'' @ nat_str (length ps) @ '' Policies</span>'')"

definition ip_chip :: "jsval \<Rightarrow> jsval \<Rightarrow> string" where
  "ip_chip c ip =
     ''<span class=\"inline-flex items-center gap-1 ps-2 pe-0.5 py-0.5 rounded-md bg-slate-950 border border-cyan-500/30 text-[11px] font-mono text-cyan-300\"><span>'' @
     escapeHTML ip @
     ''</span><button class=\"remove-client-ip-btn inline-flex items-center justify-center w-6 h-6 rounded hover:text-red-400 hover:bg-red-500/10 transition leading-none\" data-id=\"'' @
     escapeHTML (jget c ''id'') @ ''\" data-ip=\"'' @ escapeHTML ip @
     ''\" title=\"Remove IP\" aria-label=\"Remove IP '' @ escapeHTML ip @ ''\">'' @ hx ''C397'' @
     ''</button></span>''"

definition ips_html :: "jsval \<Rightarrow> string" where
  "ips_html c =
     (let ips = arr_elems (jget c ''allowed_ips'') in
      if ips = [] then ''<span class=\"text-slate-500 text-[11px] italic\">No IPs registered yet (Share link below)</span>''
      else concat (map (ip_chip c) ips))"

definition cycle_html :: "cenv \<Rightarrow> jsval \<Rightarrow> string" where
  "cycle_html env c =
     (if \<not> truthy (jget c ''next_traffic_reset'') then ''''
      else case js_date (jget c ''next_traffic_reset'') of
             None \<Rightarrow> ''''
           | Some t \<Rightarrow>
               ''<div class=\"text-emerald-400/80 text-[9px] inline-flex items-center gap-1\" title=\"Volume resets automatically ('' @
               escapeHTML (js_or (jget c ''traffic_reset_cycle'') (JStr '''')) @
               '')\"><i data-feather=\"rotate-cw\" class=\"w-2.5 h-2.5\"></i>'' @
               escapeHTML (JStr (ce_date env t)) @ ''</div>'')"

definition client_card_html :: "cenv \<Rightarrow> string \<Rightarrow> jsval \<Rightarrow> jsval \<Rightarrow> string" where
  "client_card_html env origin dnsIP c =
     ''<div><div class=\"flex items-start justify-between gap-2 mb-2 pb-2 border-b border-slate-800/80\"><div class=\"min-w-0 flex-1\"><div class=\"flex items-center gap-2 flex-wrap\"><h4 class=\"text-sm font-bold text-white font-heading\">'' @
     escapeHTML (jget c ''name'') @ ''</h4>'' @ status_badge env c @ '' '' @ policy_badge c @
     ''<span class=\"text-[9px] px-1.5 py-0.5 rounded bg-slate-900 border border-slate-700 font-mono text-cyan-300\">'' @
     max_devices c @
     '' Device(s)</span></div><div class=\"text-[10px] text-slate-400 font-mono mt-0.5 truncate\" title=\"Code: '' @
     escapeHTML (jget c ''id'') @ '' '' @ hx ''C2B7'' @ '' Slug: '' @
     escapeHTML (jget c ''token'') @ ''\">Code: <span class=\"text-amber-300 font-bold\">'' @
     escapeHTML (jget c ''id'') @ ''</span> '' @ hx ''C2B7'' @
     '' Slug: <span class=\"text-slate-500\">'' @ escapeHTML (jget c ''token'') @
     ''</span></div></div><div class=\"flex items-center gap-1 shrink-0\"><button class=\"edit-client-btn p-1.5 rounded-lg bg-slate-900 hover:bg-cyan-500/20 text-slate-400 hover:text-cyan-300 border border-slate-800 transition\" data-id=\"'' @
     escapeHTML (jget c ''id'') @
     ''\" title=\"Edit Client\"><i data-feather=\"edit-2\" class=\"w-3.5 h-3.5\"></i></button><button class=\"toggle-client-btn p-1.5 rounded-lg bg-slate-900 hover:bg-slate-800 text-slate-400 hover:text-cyan-400 border border-slate-800 transition\" data-id=\"'' @
     escapeHTML (jget c ''id'') @ ''\" data-enabled=\"'' @
     js_string (JBool (\<not> truthy (jget c ''enabled''))) @ ''\" title=\"'' @
     (if truthy (jget c ''enabled'') then ''Disable Client'' else ''Enable Client'') @
     ''\"><i data-feather=\"'' @ (if truthy (jget c ''enabled'') then ''pause'' else ''play'') @
     ''\" class=\"w-3.5 h-3.5\"></i></button><button class=\"delete-client-btn p-1.5 rounded-lg bg-slate-900 hover:bg-red-500/20 text-slate-400 hover:text-red-400 border border-slate-800 transition\" data-id=\"'' @
     escapeHTML (jget c ''id'') @ ''\" data-name=\"'' @ escapeHTML (jget c ''name'') @
     ''\" title=\"Delete Client\"><i data-feather=\"trash-2\" class=\"w-3.5 h-3.5\"></i></button></div></div><div class=\"flex items-center justify-between text-[10px] font-mono bg-slate-950/80 px-2.5 py-1.5 rounded-lg border border-slate-800/80 mb-2.5\"><span class=\"text-slate-500 font-semibold\">UUID:</span><span class=\"text-cyan-300 truncate max-w-[180px] sm:max-w-[210px] select-all\" title=\"'' @
     escapeHTML (jget c ''uuid'') @ ''\">'' @
     (if escapeHTML (jget c ''uuid'') = '''' then ''N/A'' else escapeHTML (jget c ''uuid'')) @
     ''</span><button class=\"copy-uuid-btn inline-flex items-center justify-center w-6 h-6 shrink-0 rounded text-slate-400 hover:text-cyan-300 hover:bg-cyan-500/10 transition ms-1\" data-uuid=\"'' @
     escapeHTML (jget c ''uuid'') @
     ''\" title=\"Copy UUID\" aria-label=\"Copy UUID\"><i data-feather=\"copy\" class=\"w-3 h-3\"></i></button></div><div class=\"space-y-1.5 mb-3\"><div class=\"flex items-center justify-between text-[11px]\"><span class=\"text-slate-400 font-semibold flex items-center gap-1.5\"><span>Allowed IPs:</span><span class=\"text-[10px] px-1.5 py-0.5 rounded bg-cyan-500/10 text-cyan-300 border border-cyan-500/20 font-mono\">'' @
     ips_count c @ '' / '' @ max_devices c @
     '' limit</span></span><button class=\"add-ip-prompt-btn text-cyan-400 hover:text-cyan-300 text-[10px] font-mono flex items-center justify-center gap-0.5 min-h-[24px] px-1.5 -me-1.5 rounded hover:bg-cyan-500/10 transition\" data-id=\"'' @
     escapeHTML (jget c ''id'') @ ''\" data-ip=\"'' @ escapeHTML (current_ip c) @
     ''\">+ Set IP Manually</button></div><div class=\"flex flex-wrap gap-1.5\">'' @ ips_html c @
     ''</div></div><div class=\"grid grid-cols-3 gap-2 text-[10px] font-mono bg-slate-950/60 p-2.5 rounded-xl border border-slate-800/80\"><div><span class=\"text-slate-500 uppercase\">Plan Expiry</span><div class=\"text-slate-200 font-bold truncate\" title=\"'' @
     escapeHTML (JStr (exp_text env c)) @ ''\">'' @ escapeHTML (JStr (exp_short env c)) @
     ''</div><div class=\"text-emerald-400 text-[9px]\">'' @
     escapeHTML (JStr (remaining_text env c)) @
     ''</div></div><div><span class=\"text-slate-500 uppercase\">Traffic Limit</span><div class=\"text-amber-300 font-bold\">'' @
     limit_text c @ ''</div><div class=\"'' @ used_class c @ '' text-[9px]\">'' @ used_text c @
     ''</div>'' @ cycle_html env c @
     ''</div><div><span class=\"text-slate-500 uppercase\">Queries</span><div class=\"text-cyan-300 font-bold\">'' @
     queries_text env c @ ''</div><div class=\"text-slate-500 text-[9px]\">Last seen: '' @
     last_seen_text env c @
     ''</div></div></div></div><div class=\"grid grid-cols-3 gap-2 pt-2 border-t border-slate-800/80 text-xs\"><button class=\"copy-reg-link-btn py-1.5 px-2 rounded-lg bg-cyan-500/10 hover:bg-cyan-500/20 text-cyan-300 border border-cyan-500/30 text-[11px] font-bold font-heading flex items-center justify-center gap-1 transition truncate\" data-url=\"'' @
     escapeHTML (JStr (sub_url origin c)) @
     ''\"><i data-feather=\"link\" class=\"w-3 h-3 flex-shrink-0\"></i><span>Reg Link</span></button><button class=\"copy-telegram-card-btn py-1.5 px-2 rounded-lg bg-purple-500/10 hover:bg-purple-500/20 text-purple-300 border border-purple-500/30 text-[11px] font-bold font-heading flex items-center justify-center gap-1 transition truncate\" data-id=\"'' @
     escapeHTML (jget c ''id'') @ ''\" data-name=\"'' @ escapeHTML (jget c ''name'') @
     ''\" data-exp=\"'' @ escapeHTML (JStr (exp_text env c)) @ ''\" data-url=\"'' @
     escapeHTML (JStr (sub_url origin c)) @ ''\" data-reg-url=\"'' @
     escapeHTML (JStr (reg_url origin c)) @ ''\" data-secret=\"'' @
     escapeHTML (js_or (jget c ''register_secret'') (JStr '''')) @ ''\" data-ip=\"'' @
     escapeHTML dnsIP @ ''\" data-uuid=\"'' @ escapeHTML (jget c ''uuid'') @
     ''\"><i data-feather=\"send\" class=\"w-3 h-3 flex-shrink-0\"></i><span>Bot Card</span></button><button class=\"renew-client-btn py-1.5 px-2 rounded-lg bg-slate-900 hover:bg-emerald-500/20 text-slate-300 hover:text-emerald-400 border border-slate-800 text-[11px] font-bold font-heading flex items-center justify-center gap-1 transition truncate\" data-id=\"'' @
     escapeHTML (jget c ''id'') @
     ''\"><i data-feather=\"clock\" class=\"w-3 h-3 flex-shrink-0\"></i><span>+30 Days</span></button></div>''"

definition client_card :: "cenv \<Rightarrow> string \<Rightarrow> jsval \<Rightarrow> jsval \<Rightarrow> string" where
  "client_card env origin dnsIP c =
     ''<div class=\"'' @ ''glass-panel p-4 sm:p-5 flex flex-col justify-between space-y-4 border border-slate-800 hover:border-cyan-500/40 transition'' @ ''\">'' @ client_card_html env origin dnsIP c @ ''</div>''"

definition generateClientTelegramMessage ::
    "string \<Rightarrow> string \<Rightarrow> string \<Rightarrow> string \<Rightarrow> string \<Rightarrow> string \<Rightarrow> string" where
  "generateClientTelegramMessage clientId expStr subUrl regApiUrl secret dnsIP =
     (let serverLine = (if dnsIP \<noteq> '''' then dnsIP else ''(server address not configured)'');
          secretLine = (if secret \<noteq> '''' then secret
                        else ''(no secret on file '' @ hx ''E28094'' @ '' regenerate it in the panel)'') in
      hx ''F09F8EAE20D8A7DAA9D8A7D986D8AA'' @ '' SmartDNS '' @
      hx ''D8B4D985D8A720D8A2D985D8A7D8AFD98720D8A7D8B3D8AA0A0AF09F94B920DAA9D8AF20DAA9D8A7D8B1D8A8D8B1DB8C'' @
      '' : '' @ clientId @
      hx ''0AF09F94B920D8AAD8A7D8B1DB8CD8AE20D8A7D986D982D8B6D8A7DB8C20D9BED984D986'' @ '' : '' @
      expStr @
      hx ''0A0AF09F938420D984DB8CD986DAA920D9BED986D98420D8A7D8B4D8AAD8B1D8A7DAA920D8B4D985D8A7'' @
      '' ('' @ hx ''D988D8B6D8B9DB8CD8AAD88C20D8ADD8ACD98520D98820D8AAD985D8AFDB8CD8AF'' @
      ''):'' @ hx ''0A'' @ subUrl @
      hx ''0A0AF09F93B620D8AFDB8C20D8A7D98620D8A7D8B320D8A7D8AED8AAD8B5D8A7D8B5DB8C20D8B4D985D8A7'' @
      '' :'' @ hx ''0AF09F94B9'' @ '' Primary : '' @ serverLine @ hx ''0AF09F94B9'' @
      '' Secondary : 1.1.1.1'' @ hx ''0A0AD985D8B1D8A7D8ADD98420D8ABD8A8D8AA20D8A2DB8CD9BEDB8C'' @
      '' :'' @ hx ''0A'' @ ''1'' @
      hx ''EFB88FE283A320DAAFD988D8B4DB8C20D985D988D8A8D8A7DB8CD98420D98820DAA9D986D8B3D988D98420D8A8D8A7D8B2DB8C20D8B1D8A720D8A8D98720DB8CDAA920D8A7DB8CD986D8AAD8B1D986D8AA20D985D8B4D8AAD8B1DAA920D988D8B5D98420DAA9D986DB8CD8AF'' @
      '' .'' @ hx ''0A'' @ ''2'' @
      hx ''EFB88FE283A320D8A8D8AFD988D98620D981DB8CD984D8AAD8B1D8B4DAA9D986D88C20D984DB8CD986DAA920D9BED986D98420D8A7D8B4D8AAD8B1D8A7DAA920D8A8D8A7D984D8A720D8B1D8A720D8A8D8A7D8B220DAA9D986DB8CD8AF'' @
      '' .'' @ hx ''0A'' @ ''3'' @
      hx ''EFB88FE283A320D8B1D985D8B220D8ABD8A8D8AA20D8B2DB8CD8B120D8B1D8A720D988D8A7D8B1D8AF20DAA9D8B1D8AFD98720D98820D8AFDAA9D985D987D99420C2ABD8ABD8A8D8AA20D8A2DB8CD9BEDB8C20D985D986C2BB20D8B1D8A720D8A8D8B2D986DB8CD8AF'' @
      '' .'' @
      hx ''0AE29D8C20D8AFD8B120D8B5D988D8B1D8AA20D8B9D8AFD98520D8ABD8A8D8AA20D8A2DB8CD9BEDB8CD88C'' @
      '' DNS '' @
      hx ''D8A8D8B1D8A7DB8C20D8B4D985D8A720D985D8AAD8B5D98420D986D8AED988D8A7D987D8AF20D8B4D8AF20E29D8C0A0AF09F949120D8B1D985D8B220D8ABD8A8D8AA20D8A2DB8CD9BEDB8C'' @
      '' (Registration Secret) :'' @ hx ''0A'' @ secretLine @
      hx ''0A0AF09F949720D8A2D8AFD8B1D8B3'' @ '' API '' @ hx ''D8ABD8A8D8AA20D8A2DB8CD9BEDB8C'' @
      '' ('' @ hx ''D8A8D8B1D8A7DB8C20D8A7D8AAD988D985D8A7D8B3DB8CD988D986'' @ ''):'' @
      hx ''0A'' @ regApiUrl)"


section \<open>Searching\<close>

text \<open>\<open>x.includes(s)\<close> on a string or an array; \<open>None\<close> is a TypeError.\<close>

fun includes_val :: "jsval \<Rightarrow> string \<Rightarrow> bool option" where
  "includes_val (JStr t) s = Some (js_includes t s)"
| "includes_val (JArr xs) s = Some (JStr s \<in> set xs)"
| "includes_val _ s = None"

fun some_ip :: "string \<Rightarrow> jsval list \<Rightarrow> bool option" where
  "some_ip s [] = Some False"
| "some_ip s (x # xs) =
     (case includes_val x s of None \<Rightarrow> None | Some b \<Rightarrow> if b then Some True else some_ip s xs)"

definition search_match :: "string \<Rightarrow> jsval \<Rightarrow> bool option" where
  "search_match s c =
     (case jget c ''name'' of
        JStr n \<Rightarrow>
          if js_includes (js_lower n) s then Some True
          else (case includes_val (jget c ''id'') s of
                  None \<Rightarrow> None
                | Some b \<Rightarrow> if b then Some True else some_ip s (arr_elems (jget c ''allowed_ips'')))
      | _ \<Rightarrow> None)"

fun filter_clients :: "string \<Rightarrow> jsval list \<Rightarrow> jsval list option" where
  "filter_clients s [] = Some []"
| "filter_clients s (c # cs) =
     (case search_match s c of
        None \<Rightarrow> None
      | Some b \<Rightarrow> map_option (\<lambda>r. if b then c # r else r) (filter_clients s cs))"

section \<open>The panel\<close>

definition clientsPanelMessage :: "string \<Rightarrow> string \<Rightarrow> string \<Rightarrow> string \<Rightarrow> unit page" where
  "clientsPanelMessage icon title body titleClass = do {
     w \<leftarrow> State_Monad.get;
     only_if (has_el w ''clients-list'') (do {
       set_text ''clients-list'' (clients_notice icon title body titleClass);
       modify (\<lambda>w. w\<lparr>clientsCards := False\<rparr>) }) }"

definition access_mode_view :: "bool \<Rightarrow> unit page" where
  "access_mode_view enforced = do {
     set_checked ''access-mode-switch'' enforced;
     if enforced then do {
       upd ''access-mode-badge'' (\<lambda>e. e\<lparr>el_class := ''badge badge-proxy inline-flex items-center gap-1'',
         el_text := ''<i data-feather=\"lock\" class=\"w-3 h-3\"></i> WHITELIST ENFORCED''\<rparr>);
       upd ''access-mode-status-text'' (\<lambda>e. e\<lparr>
         el_text := ''Whitelist Mode (Only Registered Clients)'',
         el_class := ''text-xs font-mono text-cyan-400 font-bold''\<rparr>) }
     else do {
       upd ''access-mode-badge'' (\<lambda>e. e\<lparr>el_class := ''badge badge-direct inline-flex items-center gap-1'',
         el_text := ''<i data-feather=\"unlock\" class=\"w-3 h-3\"></i> PUBLIC ACCESS''\<rparr>);
       upd ''access-mode-status-text'' (\<lambda>e. e\<lparr>
         el_text := ''Public Mode (Anyone can connect)'',
         el_class := ''text-xs font-mono text-slate-400 font-semibold''\<rparr>) } }"

definition sub_origin :: "dash \<Rightarrow> string" where
  "sub_origin w =
     js_string (js_or (jget (currentConfig w) ''subscription_origin'') (JStr (l_origin (loc w))))"

definition dns_primary_ip :: "dash \<Rightarrow> jsval \<Rightarrow> jsval" where
  "dns_primary_ip w data =
     (let ip = jget data ''public_ip''; h = l_hostname (loc w) in
      if \<not> truthy ip \<or> ip \<in> {JStr ''127.0.0.1'', JStr ''0.0.0.0'', JStr ''localhost''} then
        (if h \<noteq> '''' \<and> h \<noteq> ''127.0.0.1'' \<and> h \<noteq> ''localhost'' then JStr h
         else js_or ip (JStr ''127.0.0.1''))
      else ip)"

text \<open>
  A truthy value with a positive \<open>length\<close> that is not an array has no \<open>join\<close> and no \<open>map\<close>.
\<close>

definition fake_list :: "jsval \<Rightarrow> bool" where
  "fake_list v = (case v of JStr s \<Rightarrow> s \<noteq> '''' | JObj ps \<Rightarrow> num_gt (jget v ''length'') 0 | _ \<Rightarrow> False)"

definition card_ok :: "jsval \<Rightarrow> bool" where
  "card_ok c \<longleftrightarrow> \<not> nullish c \<and> \<not> fake_list (jget c ''custom_policies'') \<and>
     \<not> fake_list (jget c ''allowed_ips'')"

text \<open>The cards up to the first one that raises an exception.\<close>

definition paint_cards :: "cenv \<Rightarrow> jsval \<Rightarrow> jsval list \<Rightarrow> bool page" where
  "paint_cards env data cs = do {
     w \<leftarrow> State_Monad.get;
     let good = takeWhile card_ok cs;
     set_text ''clients-list''
       (concat (map (client_card env (sub_origin w) (dns_primary_ip w data)) good));
     modify (\<lambda>w. w\<lparr>clientsCards := (good \<noteq> [])\<rparr>);
     ret (list_all card_ok cs) }"

definition paint_clients :: "cenv \<Rightarrow> jsval \<Rightarrow> string \<Rightarrow> jsval list \<Rightarrow> jsval list \<Rightarrow> bool page" where
  "paint_clients env data searchVal all cs = do {
     w \<leftarrow> State_Monad.get;
     if \<not> has_el w ''clients-list'' then ret True
     else if cs = [] then do {
       set_text ''clients-list''
         (if all = [] then no_clients_html else no_match_html (length all) searchVal);
       modify (\<lambda>w. w\<lparr>clientsCards := False\<rparr>);
       ret True }
     else paint_cards env data cs }"

definition search_value :: "dash \<Rightarrow> string" where
  "search_value w = js_trim (js_lower (value_of w ''client-search-input''))"

definition renderClientsView :: "cenv \<Rightarrow> jsval \<Rightarrow> bool page" where
  "renderClientsView env data =
     (if \<not> truthy data then ret True
      else do {
        access_mode_view (\<not> truthy (jget data ''allow_all''));
        w \<leftarrow> State_Monad.get;
        let s = search_value w;
        case js_or (jget data ''clients'') (JArr []) of
          JArr all \<Rightarrow>
            (case (if s = '''' then Some all else filter_clients s all) of
               None \<Rightarrow> ret False
             | Some cs \<Rightarrow> paint_clients env data s all cs)
        | _ \<Rightarrow> do {
            only_if (s = '''' \<and> has_el w ''clients-list'') (do {
              set_text ''clients-list'' '''';
              modify (\<lambda>w. w\<lparr>clientsCards := False\<rparr>) });
            ret (s = '''' \<and> \<not> has_el w ''clients-list'') } })"

definition list_unreachable :: "unit page" where
  "list_unreachable = do {
     clientsPanelMessage ''wifi-off'' ''Could not reach the server''
       (''The subscriber list could not be read. Nothing has been changed '' @ u_dash @
        '' this is a failed read, not an empty list.'') ''text-amber-300'';
     toast_msg ''Could not reach the server to load the client list.'' ''error'' }"

definition list_refused :: "response \<Rightarrow> unit page" where
  "list_refused r =
     (let msg = errorMessage r ''The server refused the request.'' in
      do {
        clientsPanelMessage ''alert-triangle'' ''Could not load clients''
          (escapeHTML (JStr msg) @ '' Nothing has been changed '' @ u_dash @
           '' this is a failed read, not an empty list.'') ''text-amber-300'';
        toast_msg msg ''error'' })"

definition list_loading :: "unit page" where
  "list_loading = do {
     w \<leftarrow> State_Monad.get;
     only_if (\<not> (has_el w ''clients-list'' \<and> clientsCards w))
       (clientsPanelMessage ''loader'' (''Loading clients'' @ u_ellipsis)
          ''Reading the subscriber list from the server.'' ''text-slate-300'') }"

definition list_read :: "cenv \<Rightarrow> jsval \<Rightarrow> unit page" where
  "list_read env data = do {
     modify (\<lambda>w. w\<lparr>clientsDataCache := data\<rparr>);
     painted \<leftarrow> renderClientsView env data;
     only_if (\<not> painted) list_unreachable }"

definition list_answered :: "cenv \<Rightarrow> outcome \<Rightarrow> unit page" where
  "list_answered env oc =
     (case oc of NetErr \<Rightarrow> list_unreachable
      | Resp r \<Rightarrow>
          if rs_status r = 401 then showLoginModal
          else if \<not> rs_ok r then list_refused r
          else case rs_json r of None \<Rightarrow> list_unreachable | Some data \<Rightarrow> list_read env data)"

definition loadClients :: "cenv \<Rightarrow> unit page" where
  "loadClients env = do {
     w \<leftarrow> State_Monad.get;
     if authToken w = '''' then ret ()
     else do {
       list_loading;
       oc \<leftarrow> fetch_get ''/api/clients'';
       list_answered env oc } }"

section \<open>Actions\<close>

definition clientAction :: "string \<Rightarrow> jsval \<Rightarrow> string \<Rightarrow> string \<Rightarrow> bool page" where
  "clientAction path payload successMsg tone = do {
     oc \<leftarrow> fetch_post path payload;
     case oc of NetErr \<Rightarrow> do {
       toast_msg (''Could not reach the server '' @ u_dash @ '' the list may be out of date.'') ''error'';
       ret False }
     | Resp r \<Rightarrow>
         if \<not> rs_ok r then do {
           toast_msg (errorMessage r ''The server refused the request'') ''error'';
           ret False }
         else do {
           toast_msg successMsg (if tone = '''' then ''info'' else tone);
           spawn TLoadClients;
           ret True } }"

definition is_hex_colon_dot :: "char \<Rightarrow> bool" where
  "is_hex_colon_dot c \<longleftrightarrow> is_digit c \<or> of_char c \<in> {97..102 :: nat} \<or> of_char c \<in> {65..70 :: nat} \<or>
     c = CHR '':'' \<or> c = CHR ''.''"

text \<open>The pattern of four dot-separated runs of one to three digits.\<close>

definition dotted_quad :: "string \<Rightarrow> bool" where
  "dotted_quad s \<longleftrightarrow> (let ps = split_on (\<lambda>c. c = CHR ''.'') s in
     length ps = 4 \<and> list_all (\<lambda>p. 1 \<le> length p \<and> length p \<le> 3 \<and> list_all is_digit p) ps)"

definition octet_ok :: "string \<Rightarrow> bool" where
  "octet_ok p \<longleftrightarrow>
     (case str_to_num p of Fin x \<Rightarrow> x \<le> 255 | _ \<Rightarrow> False) \<and>
     (p = ''0'' \<or> \<not> js_startsWith p ''0'')"

definition isProbablyIP :: "string \<Rightarrow> bool" where
  "isProbablyIP value =
     (if dotted_quad value then list_all octet_ok (split_on (\<lambda>c. c = CHR ''.'') value)
      else js_includes value '':'' \<and> value \<noteq> '''' \<and> list_all is_hex_colon_dot value \<and>
           \<not> js_includes value '':::'')"

definition renewClient :: "string \<Rightarrow> bool page" where
  "renewClient cid =
     clientAction ''/api/clients/renew''
       (JObj [(''id'', JStr cid), (''extend_days'', JNum (Fin 30))])
       ''Client plan extended by 30 days!'' ''success''"

definition toggleClient :: "string \<Rightarrow> string \<Rightarrow> bool page" where
  "toggleClient cid dataEnabled =
     (let enabled = (dataEnabled = ''true'') in
      clientAction ''/api/clients/toggle''
        (JObj [(''id'', JStr cid), (''enabled'', JBool enabled)])
        (''Client '' @ (if enabled then ''enabled'' else ''disabled'')) '''')"

definition delete_opts :: "string \<Rightarrow> string \<Rightarrow> dialog_opts" where
  "delete_opts cid name = confirm_opts\<lparr>o_destructive := True,
     o_title := ''Delete this subscriber?'',
     o_hint := ''PERMANENT '' @ u_dash @ '' THE ACCOUNT AND ITS TRAFFIC HISTORY ARE GONE'',
     o_message := name @ '' ('' @ cid @ '')'' @ hx ''0A0A'' @ ''Their subscription link stops working immediately and their whitelisted address stops resolving. There is no undo '' @ u_dash @ '' a new account gets a new ID, a new UUID and a new link.'',
     o_confirmText := ''DELETE SUBSCRIBER''\<rparr>"

definition deleteClient :: "(dialog_opts \<Rightarrow> jsval) \<Rightarrow> string \<Rightarrow> string \<Rightarrow> unit page" where
  "deleteClient ask cid name =
     (if \<not> truthy (ask (delete_opts cid name)) then ret ()
      else do {
        clientAction ''/api/clients/delete'' (JObj [(''id'', JStr cid)]) ''Client deleted'' '''';
        ret () })"

definition validate_ip :: "string \<Rightarrow> string" where
  "validate_ip v =
     (if v = '''' then ''Enter an address, or press Cancel to leave it unchanged.''
      else if \<not> isProbablyIP v
      then ''That is not an IP address. Expected something like 2.189.86.32 or 2001:db8::1.''
      else '''')"

definition set_ip_opts :: "string \<Rightarrow> dialog_opts" where
  "set_ip_opts current = prompt_opts\<lparr>
     o_title := ''Set the whitelisted address'',
     o_label := ''IPv4 or IPv6 address'',
     o_placeholder := ''2.189.86.32'',
     o_value := current,
     o_message :=
       (if current \<noteq> '''' then ''This replaces the address on file ('' @ current @ ''). A subscriber has one address at a time '' @ u_dash @ '' the resolver answers whichever one is stored here.''
        else ''A subscriber has one address at a time. The resolver answers the address stored here and refuses every other source.''),
     o_confirmText := ''SAVE ADDRESS'',
     o_validate := Some validate_ip\<rparr>"

definition setClientIP :: "(dialog_opts \<Rightarrow> jsval) \<Rightarrow> string \<Rightarrow> string \<Rightarrow> unit page" where
  "setClientIP ask cid current =
     (let ip = ask (set_ip_opts current) in
      if \<not> truthy ip then ret ()
      else do {
        clientAction ''/api/clients/add_ip'' (JObj [(''id'', JStr cid), (''ip'', ip)])
          (''Whitelisted '' @ js_string ip) ''success'';
        ret () })"

definition remove_ip_opts :: "string \<Rightarrow> dialog_opts" where
  "remove_ip_opts ip = confirm_opts\<lparr>o_destructive := True,
     o_title := ''Remove this address?'',
     o_hint := ''THE SUBSCRIBER STOPS RESOLVING IMMEDIATELY'',
     o_message := ip @ hx ''0A0A'' @ ''This is the only address on file for the account, so removing it leaves nothing whitelisted and every query from them is refused until an address is set again '' @ u_dash @ '' theirs or one they register from the portal.'',
     o_confirmText := ''REMOVE ADDRESS''\<rparr>"

definition removeClientIP :: "(dialog_opts \<Rightarrow> jsval) \<Rightarrow> string \<Rightarrow> string \<Rightarrow> unit page" where
  "removeClientIP ask cid ip =
     (if \<not> truthy (ask (remove_ip_opts ip)) then ret ()
      else do {
        clientAction ''/api/clients/remove_ip'' (JObj [(''id'', JStr cid), (''ip'', JStr ip)])
          ''IP removed from client'' '''';
        ret () })"

definition access_mode_change :: "unit page" where
  "access_mode_change = do {
     w \<leftarrow> State_Monad.get;
     let enforced = checked_of w ''access-mode-switch'';
     oc \<leftarrow> fetch_post ''/api/access/mode'' (JObj [(''allow_all'', JBool (\<not> enforced))]);
     case oc of NetErr \<Rightarrow> toast_msg ''Failed to update access mode'' ''error''
     | Resp r \<Rightarrow>
         only_if (rs_ok r) (do {
           toast_msg (if enforced then ''Whitelist mode enforced (Only registered clients)''
                      else ''Open public mode activated'') ''info'';
           spawn TLoadClients }) }"

text \<open>The search box after its debounce, and the button of the no-match notice.\<close>

definition search_input :: "cenv \<Rightarrow> unit page" where
  "search_input env = do {
     w \<leftarrow> State_Monad.get;
     if \<not> truthy (clientsDataCache w) then ret ()
     else do { renderClientsView env (clientsDataCache w); ret () } }"

definition clear_search :: "cenv \<Rightarrow> unit page" where
  "clear_search env = do {
     w \<leftarrow> State_Monad.get;
     if \<not> has_el w ''client-search-input'' then ret ()
     else do {
       set_value ''client-search-input'' '''';
       painted \<leftarrow> (if truthy (clientsDataCache w) then renderClientsView env (clientsDataCache w)
                  else ret True);
       only_if painted (focus ''client-search-input'') } }"

section \<open>The address check\<close>

definition dotted :: "nat \<Rightarrow> nat \<Rightarrow> nat \<Rightarrow> nat \<Rightarrow> string" where
  "dotted a b c d = js_join ''.'' (map nat_str [a, b, c, d])"

abbreviation is_dot :: "char \<Rightarrow> bool" where "is_dot c \<equiv> c = CHR ''.''"

lemma nat_str_octet: "n \<le> 255 \<Longrightarrow> 1 \<le> length (nat_str n) \<and> length (nat_str n) \<le> 3"
  using nat_str_length[of n 3] by (cases "nat_str n") auto

lemma octet_ok_iff:
  assumes "1 \<le> length p" "length p \<le> 3" "list_all is_digit p"
  shows "octet_ok p \<longleftrightarrow> (\<exists>n \<le> 255. p = nat_str n)"
proof -
  have b: "digits_val p < 10 ^ length p" if "list_all is_digit p" for p
    using that by (induction p rule: rev_induct)
      (auto simp: digits_val_append is_digit_def, simp add: digits_val_def)
  have "(10 :: nat) ^ length p \<le> 10 ^ 3" using assms(2) by (intro power_increasing) auto
  then have "digits_val p < 2 ^ 53" using b[OF assms(3)] by simp
  then have v: "str_to_num p = Fin (of_nat (digits_val p))"
    using assms by (intro str_to_num_digits) auto
  have c: "of_nat (digits_val p) \<le> (255 :: rat) \<longleftrightarrow> digits_val p \<le> 255"
    using of_nat_le_iff[where ?'a = rat, of "digits_val p" 255] by simp
  have z: "js_startsWith p ''0'' \<longleftrightarrow> hd p = CHR ''0''" using assms(1) by (cases p) auto
  have ne: "p \<noteq> []" using assms(1) by auto
  show ?thesis
  proof
    assume "octet_ok p"
    then show "\<exists>n \<le> 255. p = nat_str n"
      using nat_str_digits_val[of p] assms ne
      by (intro exI[of _ "digits_val p"]) (auto simp: octet_ok_def v c z)
  next
    assume "\<exists>n \<le> 255. p = nat_str n"
    then obtain n where n: "n \<le> 255" "p = nat_str n" by blast
    have "p = ''0'' \<or> hd p \<noteq> CHR ''0''"
      using nat_str_canonical n(2) by auto
    moreover have "digits_val p \<le> 255" using n by (simp add: digits_val_nat_str)
    ultimately show "octet_ok p" unfolding octet_ok_def v z using c by auto
  qed
qed

lemma dotted_pieces: "split_on is_dot (dotted a b c d) = map nat_str [a, b, c, d]"
proof -
  have "\<forall>p \<in> set (map nat_str [a, b, c, d]). \<forall>x \<in> set p. \<not> is_dot x"
    using nat_str_digits[of "CHR ''.''"] by (auto simp: is_digit_def)
  then show ?thesis unfolding dotted_def by (intro split_on_join) auto
qed

lemma split_join: "js_join ''.'' (split_on is_dot s) = s"
proof (induction s)
  case (Cons c s)
  then show ?case
    by (cases "split_on is_dot s") (auto simp: split_on_nonempty split: list.splits, case_tac list, auto)
qed simp

text \<open>
  C19. The address check without a colon is exact: it accepts a text if and only if it is the
  canonical dotted form of four numbers up to 255, so no leading zero, no fifth part, no sign
  and no blank gets through; a text with a colon is accepted only if it consists of hexadecimal
  digits, colons and dots without three colons in a row.
\<close>

theorem isProbablyIP_exact:
  "isProbablyIP s \<longleftrightarrow>
     (\<exists>a \<le> 255. \<exists>b \<le> 255. \<exists>c \<le> 255. \<exists>d \<le> 255. s = dotted a b c d) \<or>
     CHR '':'' \<in> set s \<and> list_all is_hex_colon_dot s \<and> \<not> js_includes s '':::''"
proof -
  have colon: "js_includes s '':'' \<longleftrightarrow> CHR '':'' \<in> set s"
    by (auto simp: js_includes_iff in_set_conv_decomp)
  have quad: "dotted_quad s \<and> list_all octet_ok (split_on is_dot s) \<longleftrightarrow>
      (\<exists>a \<le> 255. \<exists>b \<le> 255. \<exists>c \<le> 255. \<exists>d \<le> 255. s = dotted a b c d)" (is "?l \<longleftrightarrow> ?r")
  proof
    assume l: ?l
    obtain p q r t where ps: "split_on is_dot s = [p, q, r, t]"
      using l by (auto simp: dotted_quad_def Let_def eval_nat_numeral length_Suc_conv)
    have "\<exists>n \<le> 255. x = nat_str n" if "x \<in> set [p, q, r, t]" for x
      using l that octet_ok_iff[of x] by (auto simp: dotted_quad_def Let_def ps)
    from this[of p] this[of q] this[of r] this[of t]
    obtain a b c d where "a \<le> 255" "b \<le> 255" "c \<le> 255" "d \<le> 255"
      and "p = nat_str a" "q = nat_str b" "r = nat_str c" "t = nat_str d" by auto
    moreover from this ps have "s = dotted a b c d"
      using split_join[of s] by (simp add: dotted_def)
    ultimately show ?r by blast
  next
    assume ?r
    then obtain a b c d where s: "s = dotted a b c d" and le: "a \<le> 255" "b \<le> 255" "c \<le> 255" "d \<le> 255"
      by blast
    have dig: "list_all is_digit (nat_str n)" for n using nat_str_digits by (auto simp: list_all_iff)
    then show ?l using le nat_str_octet octet_ok_iff[OF _ _ dig]
      by (auto simp: s dotted_quad_def dotted_pieces)
  qed
  have "\<not> CHR '':'' \<in> set s" if "dotted_quad s"
  proof -
    have "list_all (\<lambda>p. list_all is_digit p) (split_on is_dot s)"
      using that by (auto simp: dotted_quad_def Let_def list_all_iff)
    then have "\<forall>x \<in> set (js_join ''.'' (split_on is_dot s)). is_digit x \<or> x = CHR ''.''"
      using set_js_join[of "''.''" "split_on is_dot s"] by (auto simp: list_all_iff)
    then show ?thesis by (auto simp: split_join is_digit_def)
  qed
  then show ?thesis using quad by (auto simp: isProbablyIP_def colon list_all_iff)
qed

theorem isProbablyIP_exact_witness: "isProbablyIP ''10.0.0.255''"
proof -
  have "''10.0.0.255'' = dotted 10 0 0 255" by code_simp
  moreover have "10 \<le> (255 :: nat)" "0 \<le> (255 :: nat)" "(255 :: nat) \<le> 255" by simp_all
  ultimately show ?thesis using isProbablyIP_exact[of "''10.0.0.255''"] by blast
qed

section \<open>The markup of a card\<close>

lemma tags_glyphs: "tags (hx ''C397'') = 0" "tags (hx ''C2B7'') = 0" "tags u_middot = 0"
  by code_simp+

lemma tags_texts:
  "tags (limit_text c) = 0" "tags (used_text c) = 0" "tags (used_class c) = 0"
  "tags (last_seen_text env c) = 0"
proof -
  have f: "CHR ''<'' \<notin> set (formatBytes v)" for v
    using to_fixed_no_lt no_lt_int_str
    by (auto simp: formatBytes_def u_dash_def split: jsval.splits jsnum.splits)
  show "tags (used_text c) = 0"
    using f no_lt_int_str by (intro tags_no_lt) (auto simp: used_text_def u_middot_def)
  show "tags (limit_text c) = 0"
    using no_lt_num_str by (intro tags_no_lt) (auto simp: limit_text_def)
  show "tags (used_class c) = 0" by (auto simp: used_class_def tags_def)
  show "tags (last_seen_text env c) = 0"
    using no_lt_int_str
    by (intro tags_no_lt) (auto simp: last_seen_text_def age_text_def split: option.splits)
qed

lemma tags_card_parts:
  "tags (status_badge env c) = 2"
  "tags (policy_badge c) = (if arr_elems (jget c ''custom_policies'') = [] then 0 else 2)"
  "tags (ip_chip c ip) = 6"
  "tags (cycle_html env c) \<in> {0, 4}"
  using no_lt_nat_str
  by (auto simp: status_badge_def policy_badge_def ip_chip_def cycle_html_def Let_def tags_Cons
      tags_no_lt tags_glyphs split: option.splits)

lemma tags_concat: "tags (concat xs) = sum_list (map tags xs)"
  by (induction xs) auto

lemma tags_ips:
  "tags (ips_html c) = (let n = length (arr_elems (jget c ''allowed_ips'')) in if n = 0 then 2 else 6 * n)"
  by (auto simp: ips_html_def Let_def tags_concat o_def tags_card_parts tags_Cons sum_list_triv)

definition cycle_tags :: "jsval \<Rightarrow> nat" where
  "cycle_tags c = (if truthy (jget c ''next_traffic_reset'') \<and>
     js_date (jget c ''next_traffic_reset'') \<noteq> None then 4 else 0)"

lemma tags_cycle: "tags (cycle_html env c) = cycle_tags c"
  by (auto simp: cycle_html_def cycle_tags_def tags_Cons split: option.splits)

text \<open>
  With the counters of the types the daemon sends, the card of any record opens and closes a
  number of tags that depends only on how many addresses are registered, whether policies are
  set and whether a volume reset is scheduled.
\<close>

lemma card_tags:
  assumes "jget c ''max_devices'' = JUndef \<or> (\<exists>n. jget c ''max_devices'' = JNum n)"
    and "is_arr (jget c ''allowed_ips'') \<or> \<not> truthy (jget c ''allowed_ips'')"
    and "\<And>x. CHR ''<'' \<notin> set (ce_num env x)"
  shows "tags (client_card env origin dnsIP c) = 106 +
    (if arr_elems (jget c ''custom_policies'') = [] then 0 else 2) + cycle_tags c +
    (let n = length (arr_elems (jget c ''allowed_ips'')) in if n = 0 then 2 else 6 * n)"
proof -
  have d: "tags (max_devices c) = 0"
    using assms(1) no_lt_num_str by (intro tags_no_lt) (auto simp: max_devices_def js_or_def)
  have q: "tags (queries_text env c) = 0"
    using assms(3) by (intro tags_no_lt)
      (auto simp: queries_text_def count_tile_def u_dash_def split: jsval.splits jsnum.splits)
  have n: "tags (ips_count c) = 0"
    using assms(2) no_lt_nat_str by (intro tags_no_lt)
      (auto simp: ips_count_def js_or_def split: jsval.splits elim: is_arr.elims)
  have e: "tags (js_string (JBool b)) = 0" for b by (simp add: tags_Cons)
  show ?thesis
    unfolding client_card_def client_card_html_def
    using d q n
    by (simp add: tags_texts tags_card_parts tags_ips tags_cycle e tags_glyphs tags_Cons Let_def)
qed

definition sample_env :: cenv where
  "sample_env = \<lparr>ce_now = 1700000000000, ce_date = (\<lambda>t. ''<date>''), ce_time = (\<lambda>t. ''<time>''),
     ce_num = (\<lambda>x. ''7'')\<rparr>"

section \<open>Plans\<close>

text \<open>
  C40. What a card says about the plan of an enabled account with a valid expiry date agrees
  with the clock: the badge is EXPIRED after that instant and only then, the remaining time
  reads expired from that instant on, and before it the days and hours shown are the whole
  days and hours left, with fewer than twenty-four hours.
\<close>

theorem plan_texts_agree:
  assumes "truthy (jget c ''enabled'')" "time_set (jget c ''expires_at'')"
    and "js_date (jget c ''expires_at'') = Some t"
  shows "let left = t - ce_now env; (days, hours) = days_hours left in
    (status_badge env c = ''<span class=\"badge badge-block\">EXPIRED</span>'' \<longleftrightarrow> left < 0) \<and>
    remaining_text env c =
      (if left \<le> 0 then ''(Expired)''
       else ''('' @ int_str days @ ''d '' @ int_str hours @ ''h remaining)'') \<and>
    0 \<le> hours \<and> hours < 24 \<and>
    days * 86400000 + hours * 3600000 \<le> left \<and> left < days * 86400000 + (hours + 1) * 3600000"
proof -
  define left where "left = t - ce_now env"
  define d where "d = left div 86400000"
  define r where "r = left mod 86400000"
  have l: "left = d * 86400000 + r" "0 \<le> r" "r < 86400000"
    by (simp_all add: d_def r_def)
  define h where "h = r div 3600000"
  have h: "h * 3600000 \<le> r" "r < (h + 1) * 3600000"
    using minus_mod_eq_div_mult[of r 3600000] pos_mod_bound[of 3600000 r] pos_mod_sign[of 3600000 r]
    by (simp_all add: h_def algebra_simps)
  have h24: "0 \<le> h" "h < 24" using l(2,3) by (auto simp: h_def)
  have dh: "days_hours left = (d, h)" by (simp add: days_hours_def d_def r_def h_def)
  have b: "status_badge env c = ''<span class=\"badge badge-block\">EXPIRED</span>'' \<longleftrightarrow> left < 0"
    using assms by (simp add: status_badge_def is_expired_def left_def)
  have m: "remaining_text env c = (if left \<le> 0 then ''(Expired)''
       else ''('' @ int_str d @ ''d '' @ int_str h @ ''h remaining)'')"
    using assms dh by (simp add: remaining_text_def left_def)
  show ?thesis using b m dh h h24 l by (simp add: left_def[symmetric] Let_def)
qed

theorem plan_texts_agree_witness:
  "remaining_text sample_env (JObj [(''enabled'', JBool True), (''expires_at'', JStr ''2023-11-16T00:13:20Z'')]) =
   ''(1d 2h remaining)''"
proof -
  let ?c = "JObj [(''enabled'', JBool True), (''expires_at'', JStr ''2023-11-16T00:13:20Z'')]"
  have "js_date (jget ?c ''expires_at'') = Some 1700093600000" by code_simp
  then have "let left = 1700093600000 - ce_now sample_env; (days, hours) = days_hours left in
    remaining_text sample_env ?c =
      (if left \<le> 0 then ''(Expired)''
       else ''('' @ int_str days @ ''d '' @ int_str hours @ ''h remaining)'')"
    using plan_texts_agree[of ?c 1700093600000 sample_env]
    by (auto simp: time_set_def zero_time_def Let_def split: prod.splits)
  moreover have "ce_now sample_env = 1700000000000" "days_hours 93600000 = (1, 2)"
    "int_str 1 = ''1''" "int_str 2 = ''2''"
    by code_simp+
  ultimately show ?thesis by simp
qed

section \<open>Reading the list\<close>

text \<open>The notices differ from the empty-list notice by their icon, the cards by their class.\<close>

lemma notices_differ:
  "clients_notice ''loader'' a b d \<noteq> no_clients_html"
  "clients_notice ''wifi-off'' a b d \<noteq> no_clients_html"
  "clients_notice ''alert-triangle'' a b d \<noteq> no_clients_html"
  "no_match_html n s \<noteq> no_clients_html"
  by (simp_all add: clients_notice_def no_clients_html_def no_match_html_def)

lemma cards_differ: "concat (map (client_card env o' ip) cs) \<noteq> no_clients_html"
proof (cases cs)
  case (Cons c cs')
  have "take 14 (client_card env o' ip c) = ''<div class=\"gl''" for c
    by (simp add: client_card_def)
  then have "take 14 (concat (map (client_card env o' ip) cs)) = ''<div class=\"gl''"
    unfolding Cons by (simp add: client_card_def)
  moreover have "take 14 no_clients_html \<noteq> ''<div class=\"gl''" by (simp add: no_clients_html_def)
  ultimately show ?thesis by metis
qed (simp add: no_clients_html_def)

lemma panel_message_run:
  "text_of (exec (clientsPanelMessage ic ti bo cl) w) ''clients-list'' =
     (if has_el w ''clients-list'' then clients_notice ic ti bo cl else text_of w ''clients-list'')"
  "clientsDataCache (exec (clientsPanelMessage ic ti bo cl) w) = clientsDataCache w"
  "net (exec (clientsPanelMessage ic ti bo cl) w) = net w"
  "has_el (exec (clientsPanelMessage ic ti bo cl) w) i = has_el w i"
  by (simp_all add: clientsPanelMessage_def page_simps text_of_def has_el_def split: option.splits)

lemma failed_read_run:
  "text_of (exec list_unreachable w) ''clients-list'' \<noteq> no_clients_html \<or>
     text_of (exec list_unreachable w) ''clients-list'' = text_of w ''clients-list''"
  "text_of (exec (list_refused r) w) ''clients-list'' \<noteq> no_clients_html \<or>
     text_of (exec (list_refused r) w) ''clients-list'' = text_of w ''clients-list''"
  "clientsDataCache (exec list_unreachable w) = clientsDataCache w"
  "clientsDataCache (exec (list_refused r) w) = clientsDataCache w"
  using notices_differ
  by (simp_all add: list_unreachable_def list_refused_def panel_message_run page_simps Let_def)

lemma render_empty_only:
  assumes "text_of (exec (renderClientsView env data) w) ''clients-list'' = no_clients_html"
    and "text_of w ''clients-list'' \<noteq> no_clients_html"
  shows "truthy data \<and> js_or (jget data ''clients'') (JArr []) = JArr []"
proof -
  have a: "text_of (exec (access_mode_view b) w) ''clients-list'' = text_of w ''clients-list''" for b w
    by (simp add: access_mode_view_def view_simps)
  have p: "text_of (exec (paint_clients env data s all cs) v) ''clients-list'' = no_clients_html \<Longrightarrow>
      text_of v ''clients-list'' \<noteq> no_clients_html \<Longrightarrow> all = [] \<and> cs = []" for s all cs v
    using notices_differ(4) cards_differ
    by (auto simp: paint_clients_def paint_cards_def view_simps Let_def page_simps text_of_def has_el_def
        split: if_splits option.splits)
  show ?thesis
    using assms a p
    by (auto simp: renderClientsView_def Let_def view_simps has_el_def no_clients_html_def
        split: if_splits jsval.splits option.splits)
qed

definition answered_list :: "dash \<Rightarrow> jsval option" where
  "answered_list w =
     (if authToken w = '''' then None
      else case net w of Resp r # _ \<Rightarrow> if rs_ok r then rs_json r else None | _ \<Rightarrow> None)"

lemma keeps_cache [keeps_intros]:
  "keeps clientsDataCache (upd i g)" "keeps clientsDataCache (showToast m ty)"
  "keeps clientsDataCache (modify (\<lambda>w. w\<lparr>clientsCards := b\<rparr>))"
  by (simp_all add: keeps_def page_simps)

lemma keeps_cache_render: "keeps clientsDataCache (renderClientsView env data)"
  unfolding renderClientsView_def access_mode_view_def paint_clients_def paint_cards_def Let_def
  by (auto intro!: keeps_intros split: jsval.split option.split)

lemma showLoginModal_run:
  "text_of (exec showLoginModal w) ''clients-list'' = text_of w ''clients-list''"
  "clientsDataCache (exec showLoginModal w) = clientsDataCache w"
  by (simp_all add: showLoginModal_def view_simps page_simps text_of_def split: option.splits)

lemma list_loading_run:
  "clientsDataCache (exec list_loading w) = clientsDataCache w"
  "net (exec list_loading w) = net w"
  "text_of (exec list_loading w) ''clients-list'' = no_clients_html \<longrightarrow>
     text_of w ''clients-list'' = no_clients_html"
  using notices_differ by (simp_all add: list_loading_def panel_message_run)

lemma list_read_run:
  "clientsDataCache (exec (list_read env d) w) = d"
  "text_of (exec (list_read env d) w) ''clients-list'' = no_clients_html \<Longrightarrow>
     text_of w ''clients-list'' = no_clients_html \<or> js_or (jget d ''clients'') (JArr []) = JArr []"
proof -
  define v where "v = w\<lparr>clientsDataCache := d\<rparr>"
  define u where "u = exec (renderClientsView env d) v"
  define bad where "bad = (\<not> result (renderClientsView env d) v)"
  have run: "exec (list_read env d) w = exec (only_if bad list_unreachable) u"
    by (simp add: list_read_def v_def u_def bad_def)
  have u: "clientsDataCache u = d" "text_of v ''clients-list'' = text_of w ''clients-list''"
    using keepsD[OF keeps_cache_render] by (simp_all add: u_def v_def)
  show "clientsDataCache (exec (list_read env d) w) = d"
    using u by (simp add: run failed_read_run)
  assume "text_of (exec (list_read env d) w) ''clients-list'' = no_clients_html"
  then have "text_of u ''clients-list'' = no_clients_html"
    using failed_read_run(1)[of u] by (auto simp: run split: if_splits)
  then show "text_of w ''clients-list'' = no_clients_html \<or>
      js_or (jget d ''clients'') (JArr []) = JArr []"
    using render_empty_only[of env d v] u unfolding u_def by auto
qed

lemma list_answered_run:
  "let d = (case oc of Resp r \<Rightarrow> if rs_ok r then rs_json r else None | _ \<Rightarrow> None);
       w' = exec (list_answered env oc) w in
    clientsDataCache w' = (case d of None \<Rightarrow> clientsDataCache w | Some x \<Rightarrow> x) \<and>
    (text_of w' ''clients-list'' = no_clients_html \<longrightarrow>
      text_of w ''clients-list'' = no_clients_html \<or>
      (\<exists>x. d = Some x \<and> js_or (jget x ''clients'') (JArr []) = JArr []))"
proof (cases oc)
  case NetErr
  then show ?thesis using failed_read_run(1)[of w] failed_read_run(3)
    by (auto simp: list_answered_def Let_def)
next
  case (Resp r)
  have "rs_status r = 401 \<Longrightarrow> \<not> rs_ok r" by (simp add: rs_ok_def)
  then show ?thesis
    using failed_read_run(1)[of w] failed_read_run(2)[of r w] failed_read_run(3,4) list_read_run
    by (cases "rs_json r")
      (auto simp: Resp list_answered_def Let_def showLoginModal_run)
qed

text \<open>
  C11. A failed read is never shown as an empty list and never replaces what was read before:
  the cached list is the last list the server answered with, and No Clients Yet appears only
  when the server has answered successfully with an empty list.
\<close>

theorem empty_list_only_when_answered:
  "let w' = exec (loadClients env) w in
    clientsDataCache w' = (case answered_list w of None \<Rightarrow> clientsDataCache w | Some d \<Rightarrow> d) \<and>
    (text_of w' ''clients-list'' = no_clients_html \<longrightarrow>
      text_of w ''clients-list'' = no_clients_html \<or>
      (\<exists>d. answered_list w = Some d \<and> js_or (jget d ''clients'') (JArr []) = JArr []))"
proof (cases "authToken w = ''''")
  case False
  define w1 where "w1 = exec (fetch_get ''/api/clients'') (exec list_loading w)"
  define oc where "oc = (case net w of [] \<Rightarrow> NetErr | x # _ \<Rightarrow> x)"
  have w1: "clientsDataCache w1 = clientsDataCache w"
    "text_of w1 ''clients-list'' = no_clients_html \<longrightarrow> text_of w ''clients-list'' = no_clients_html"
    by (simp_all add: w1_def fetch_auth_run list_loading_run)
  have run: "exec (loadClients env) w = exec (list_answered env oc) w1"
    using False by (simp add: loadClients_def w1_def oc_def fetch_auth_run(2) list_loading_run)
  have a: "answered_list w = (case oc of Resp r \<Rightarrow> if rs_ok r then rs_json r else None | _ \<Rightarrow> None)"
    using False by (simp add: answered_list_def oc_def split: list.split)
  show ?thesis
    using w1 list_answered_run[of oc env w1] unfolding Let_def run a by (auto split: option.splits)
qed (simp add: loadClients_def answered_list_def Let_def)

theorem empty_list_only_when_answered_witness:
  "clientsDataCache (exec (loadClients sample_env)
     ((sample_page JNull [resp_err 500 JNull])\<lparr>clientsDataCache := JObj [(''clients'', JArr [])]\<rparr>)) =
   JObj [(''clients'', JArr [])]"
  using empty_list_only_when_answered[of sample_env
      "(sample_page JNull [resp_err 500 JNull])\<lparr>clientsDataCache := JObj [(''clients'', JArr [])]\<rparr>"]
  by (simp add: Let_def answered_list_def resp_err_def rs_ok_def)

section \<open>Actions\<close>

text \<open>
  C22. An address reaches the whitelist request only through the dialog's validation: whatever
  the operator does with the dialog that asks for it, if a request is sent then its body names
  the account the button belongs to and an address the check accepts, without surrounding
  blanks.
\<close>

theorem whitelist_only_checked:
  assumes "desk_reachable s" "d \<in> set (on_page s)" "dg_opts d = set_ip_opts current"
    and "resolved (on_dialog p d s) = resolved s @ [(dg_seq d, v)]"
    and "sent (exec (setClientIP (\<lambda>_. v) cid current) w) \<noteq> sent w"
  shows "\<exists>ip. v = JStr ip \<and> isProbablyIP ip \<and> js_trim ip = ip \<and>
    sent (exec (setClientIP (\<lambda>_. v) cid current) w) =
      sent w @ [mk_req w ''POST'' ''/api/clients/add_ip'' (JObj [(''id'', JStr cid), (''ip'', JStr ip)])]"
proof -
  have n: "\<not> truthy v \<Longrightarrow> exec (setClientIP (\<lambda>_. v) cid current) w = w"
    by (simp add: setClientIP_def)
  have v: "v = JNull \<or> (\<exists>t. v = JStr (js_trim t) \<and> validate_ip (js_trim t) = '''')"
    using reachable_answers[OF assms(1,2), of p] assms(3,4)
    by (auto simp: set_ip_opts_def prompt_opts_def cancel_value_def problem_of_def)
  have "truthy v" using n assms(5) by metis
  then obtain t where t: "v = JStr (js_trim t)" "validate_ip (js_trim t) = ''''"
    using v by auto
  have "keeps sent (showToast m ty)" "keeps sent (spawn tk)" for m ty tk
    by (simp_all add: keeps_def page_simps)
  then have "sent (exec (setClientIP (\<lambda>_. v) cid current) w) =
      sent w @ [mk_req w ''POST'' ''/api/clients/add_ip'' (JObj [(''id'', JStr cid), (''ip'', v)])]"
    using \<open>truthy v\<close>
    by (auto simp: setClientIP_def clientAction_def fetch_auth_run(2) keeps_def page_simps
        split: list.split outcome.split)
  then show ?thesis using t by (auto simp: validate_ip_def js_trim_idem split: if_splits)
qed

theorem whitelist_only_checked_witness:
  "sent (exec (setClientIP (\<lambda>_. JStr ''10.0.0.1'') ''c1'' '' 10.0.0.1'') (sample_page JNull [])) =
   [mk_req (sample_page JNull []) ''POST'' ''/api/clients/add_ip''
     (JObj [(''id'', JStr ''c1''), (''ip'', JStr ''10.0.0.1'')])]"
proof -
  let ?o = "set_ip_opts '' 10.0.0.1''"
  let ?s = "showDialog ?o fresh_desk"
  let ?d = "hd (on_page ?s)"
  have r: "desk_reachable ?s" by (blast intro: dialog_step.opens)
  have d: "?d \<in> set (on_page ?s)" "dg_opts ?d = ?o"
    by (simp_all add: showDialog_def fresh_desk_def Let_def)
  have v: "resolved (on_dialog Submit ?d ?s) = resolved ?s @ [(dg_seq ?d, JStr ''10.0.0.1'')]"
    by code_simp
  have "sent (exec (setClientIP (\<lambda>_. JStr ''10.0.0.1'') ''c1'' '' 10.0.0.1'') (sample_page JNull [])) \<noteq>
      sent (sample_page JNull [])"
    by (simp add: setClientIP_def clientAction_def fetch_auth_run(2) page_simps)
  from whitelist_only_checked[OF r d v this] show ?thesis by auto
qed

text \<open>
  Turning the access mode over while the server refuses leaves the panel claiming the mode
  the server does not have: the switch keeps the new position and no message appears.
\<close>

theorem access_mode_refused:
  assumes "net w = Resp r # rest" "\<not> rs_ok r"
  shows "let w' = exec access_mode_change w in
    checked_of w' ''access-mode-switch'' = checked_of w ''access-mode-switch'' \<and>
    dom w' = dom w \<and> toasts w' = toasts w \<and> tasks w' = tasks w \<and>
    sent w' = sent w @ [mk_req w ''POST'' ''/api/access/mode''
      (JObj [(''allow_all'', JBool (\<not> checked_of w ''access-mode-switch''))])]"
  using assms by (simp add: access_mode_change_def fetch_auth_run checked_of_def Let_def)

theorem access_mode_refused_witness:
  "toasts (exec access_mode_change (sample_page JNull [resp_err 403 JNull])) = []"
  using access_mode_refused[of "sample_page JNull [resp_err 403 JNull]"]
  by (simp add: resp_err_def rs_ok_def Let_def)

section \<open>Searching\<close>

text \<open>What a search should show: the accounts whose name, id or address contains the text.\<close>

definition str_of :: "jsval \<Rightarrow> string" where
  "str_of v = (case v of JStr s \<Rightarrow> s | _ \<Rightarrow> '''')"

definition found_by :: "string \<Rightarrow> jsval \<Rightarrow> bool" where
  "found_by s c \<longleftrightarrow> js_includes (js_lower (str_of (jget c ''name''))) s \<or>
     js_includes (str_of (jget c ''id'')) s \<or>
     (\<exists>ip \<in> set (arr_elems (jget c ''allowed_ips'')). js_includes (str_of ip) s)"

definition record_ok :: "jsval \<Rightarrow> bool" where
  "record_ok c \<longleftrightarrow> (\<exists>n i. jget c ''name'' = JStr n \<and> jget c ''id'' = JStr i) \<and>
     list_all (\<lambda>ip. \<exists>a. ip = JStr a) (arr_elems (jget c ''allowed_ips''))"

lemma some_ip_ok:
  "list_all (\<lambda>ip. \<exists>a. ip = JStr a) ips \<Longrightarrow>
   some_ip s ips = Some (\<exists>ip \<in> set ips. js_includes (str_of ip) s)"
  by (induction ips) (auto simp: str_of_def)

lemma search_match_ok: "record_ok c \<Longrightarrow> search_match s c = Some (found_by s c)"
  by (auto simp: record_ok_def search_match_def found_by_def some_ip_ok str_of_def)

lemma filter_clients_ok:
  "list_all record_ok cs \<Longrightarrow> filter_clients s cs = Some (filter (found_by s) cs)"
  by (induction cs) (auto simp: search_match_ok)

text \<open>
  C39. The search shows exactly the accounts it should, in the order of the list, and tells no
  match from no accounts: with records of the daemon's shape the panel paints the cards of the
  matching ones, the no-match notice with the number of accounts when there is none, and the
  empty-list notice only for an empty list.
\<close>

theorem search_shows_matches:
  assumes "jget data ''clients'' = JArr all" "list_all record_ok all" "list_all card_ok all"
    and "has_el w ''clients-list''" "search_value w \<noteq> ''''"
  shows "let s = search_value w; found = filter (found_by s) all; w' = exec (renderClientsView env data) w in
    result (renderClientsView env data) w \<and>
    text_of w' ''clients-list'' =
      (if all = [] then no_clients_html
       else if found = [] then no_match_html (length all) s
       else concat (map (client_card env (sub_origin w) (dns_primary_ip w data)) found))"
proof -
  define w1 where "w1 = exec (access_mode_view (\<not> truthy (jget data ''allow_all''))) w"
  have views: "value_of w1 i = value_of w i" "has_el w1 i = has_el w i" "loc w1 = loc w"
    "currentConfig w1 = currentConfig w" for i
    unfolding w1_def access_mode_view_def
    by (simp_all add: view_simps) (simp_all add: page_simps)
  then have w1: "search_value w1 = search_value w" "sub_origin w1 = sub_origin w"
    "dns_primary_ip w1 data = dns_primary_ip w data"
    by (simp_all add: search_value_def sub_origin_def dns_primary_ip_def)
  let ?f = "filter (found_by (search_value w)) all"
  have ok: "list_all card_ok ?f" "takeWhile card_ok ?f = ?f"
    using assms(3) takeWhile_all[of card_ok ?f] by (auto simp: list_all_iff)
  have t: "truthy data" using assms(1) by (cases data) auto
  have "renderClientsView env data = do {
      access_mode_view (\<not> truthy (jget data ''allow_all''));
      w \<leftarrow> State_Monad.get;
      case (if search_value w = '''' then Some all else filter_clients (search_value w) all) of
        None \<Rightarrow> ret False | Some cs \<Rightarrow> paint_clients env data (search_value w) all cs }"
    using t assms(1) by (simp add: renderClientsView_def js_or_def Let_def)
  then have "exec (renderClientsView env data) w =
      exec (paint_clients env data (search_value w) all ?f) w1 \<and>
      result (renderClientsView env data) w =
      result (paint_clients env data (search_value w) all ?f) w1"
    using assms(2,5) by (simp add: w1_def[symmetric] w1 filter_clients_ok)
  then show ?thesis
    using assms(4)
    by (simp add: paint_clients_def paint_cards_def views w1 Let_def text_set_text ok)
qed

definition two_accounts :: jsval where
  "two_accounts = JObj [(''clients'', JArr
     [JObj [(''name'', JStr ''Ada''), (''id'', JStr ''c1'')], JObj [(''name'', JStr ''Bob''), (''id'', JStr ''c2'')]])]"

theorem search_shows_matches_witness:
  "text_of (exec (renderClientsView sample_env two_accounts)
     (exec (set_value ''client-search-input'' ''ZZ '') (sample_page JNull []))) ''clients-list'' =
   no_match_html 2 ''zz''"
proof -
  let ?w = "exec (set_value ''client-search-input'' ''ZZ '') (sample_page JNull [])"
  have e: "has_el ?w ''clients-list''" "value_of ?w ''client-search-input'' = ''ZZ ''"
    by (simp_all add: view_simps)
  have v: "js_trim (js_lower ''ZZ '') = ''zz''" by code_simp
  then have s: "search_value ?w = ''zz''" by (simp only: search_value_def e)
  obtain all where d: "jget two_accounts ''clients'' = JArr all" "length all = 2" "all \<noteq> []"
    "list_all record_ok all" "list_all card_ok all" "filter (found_by ''zz'') all = []"
    by (auto simp: two_accounts_def record_ok_def card_ok_def fake_list_def found_by_def str_of_def
        js_lower_def lower_char_def)
  show ?thesis
    using search_shows_matches[OF d(1) d(4,5) e(1), of sample_env] d s by (simp add: Let_def)
qed

end
