(* ===== verification/Policy_Picker.thy ===== *)
theory Policy_Picker
  imports Html_Escape Single_Flight
begin

text \<open>
  The policy multi-selects of the create and the edit form (app.js, loadPolicyCatalog and
  createPolicyMultiselect): the catalogue fetched once for both, the chips of the selected
  policies, the list with its search, and the events of one picker.

  The catalogue's promise is the guard of its request. What a caller does once the promise has
  settled is queued as an \<open>after\<close> and runs then, or at once when it has settled already. A
  label is a string, as the daemon sends it. \<open>proto\<close> holds the texts of the members
  policyLabels inherits, which the lookup by key also finds.
\<close>

section \<open>The catalogue\<close>

datatype promise = NoPromise | Pending | Settled

record catalog =
  pc_entries :: "jsval list"
  pc_labels :: "(string \<times> jsval) list"
  pc_error :: string
  pc_promise :: promise
  pc_outstanding :: nat

definition fresh_catalog :: catalog where
  "fresh_catalog = \<lparr>pc_entries = [], pc_labels = [], pc_error = '''', pc_promise = NoPromise,
     pc_outstanding = 0\<rparr>"

definition entry_ok :: "jsval \<Rightarrow> bool" where
  "entry_ok e \<longleftrightarrow> (\<exists>k. jget e ''key'' = JStr k \<and> k \<noteq> '''')"

lemma entry_ok_code [code]:
  "entry_ok e = (case jget e ''key'' of JStr k \<Rightarrow> k \<noteq> '''' | _ \<Rightarrow> False)"
  by (auto simp: entry_ok_def split: jsval.split)

definition key_of :: "jsval \<Rightarrow> string" where
  "key_of e = js_string (jget e ''key'')"

definition label_of_entry :: "jsval \<Rightarrow> jsval" where
  "label_of_entry e = js_or (jget e ''label'') (jget e ''key'')"

definition labels_of :: "jsval list \<Rightarrow> (string \<times> jsval) list" where
  "labels_of es = foldl (\<lambda>m e. upd_pair (key_of e) (label_of_entry e) m) [] es"

text \<open>The list of a usable answer; \<open>None\<close> is any failure.\<close>

definition catalog_answer :: "outcome \<Rightarrow> jsval list option" where
  "catalog_answer oc =
     (case oc of NetErr \<Rightarrow> None
      | Resp r \<Rightarrow>
          if \<not> rs_ok r then None
          else case rs_json r of None \<Rightarrow> None
               | Some data \<Rightarrow>
                   if nullish data \<or> arr_elems (jget data ''catalog'') = [] then None
                   else Some (arr_elems (jget data ''catalog'')))"

definition catalog_enter :: "catalog \<Rightarrow> catalog" where
  "catalog_enter c =
     (if pc_promise c = NoPromise
      then c\<lparr>pc_promise := Pending, pc_outstanding := Suc (pc_outstanding c)\<rparr> else c)"

definition catalog_settle :: "outcome \<Rightarrow> catalog \<Rightarrow> catalog" where
  "catalog_settle oc c =
     (let c1 = c\<lparr>pc_outstanding := pc_outstanding c - 1\<rparr> in
      case catalog_answer oc of
        Some l \<Rightarrow>
          let es = filter entry_ok l in
          c1\<lparr>pc_entries := es, pc_labels := labels_of es, pc_error := '''', pc_promise := Settled\<rparr>
      | None \<Rightarrow>
          c1\<lparr>pc_entries := [], pc_error := ''Could not load the policy list from the server.'',
             pc_promise := NoPromise\<rparr>)"

interpretation catalog_guard: single_flight "\<lambda>c. pc_promise c = Pending" pc_outstanding
  catalog_enter "catalog_settle oc"
  by unfold_locales
    (auto simp: catalog_enter_def catalog_settle_def Let_def split: option.split)

section \<open>A picker\<close>

datatype after = ThenList | ThenTags | ThenAll

record picker =
  pk_selected :: "jsval list"
  pk_search :: string
  pk_open :: bool
  pk_tags :: string
  pk_list :: string
  pk_after :: "after list"

definition chip_html :: "(string \<Rightarrow> string option) \<Rightarrow> catalog \<Rightarrow> jsval \<Rightarrow> string" where
  "chip_html proto c p =
     (let label = (case map_of (pc_labels c) (js_string p) of
                     Some l \<Rightarrow> js_or l p
                   | None \<Rightarrow> (case proto (js_string p) of Some t \<Rightarrow> JStr t | None \<Rightarrow> p)) in
     ''<span class=\"inline-flex items-center gap-1 px-2 py-0.5 rounded-md bg-cyan-950/80 border border-cyan-500/40 text-[10px] font-semibold text-cyan-200\"><span>'' @
     escapeHTML label @
     ''</span><button type=\"button\" class=\"remove-policy-tag-btn hover:text-red-400 ms-1 text-slate-400\" data-policy=\"'' @
     escapeHTML p @
     ''\" title=\"Remove policy\" aria-label=\"Remove policy\"><i data-feather=\"x\" class=\"w-3 h-3\"></i></button></span>'')"

definition tags_html :: "(string \<Rightarrow> string option) \<Rightarrow> catalog \<Rightarrow> jsval list \<Rightarrow> string" where
  "tags_html proto c sel =
     (if sel = [] then ''<span class=\"text-slate-500 text-[11px] italic py-0.5\">Inheriting all global policies</span>''
      else concat (map (chip_html proto c) sel))"

definition kind_dot :: "jsval \<Rightarrow> bool \<Rightarrow> string" where
  "kind_dot e isSelected =
     (if truthy (jget e ''blocking'')
      then ''<span class=\"w-1.5 h-1.5 rounded-full bg-red-400\" title=\"Blocks (sinkholes) these domains\"></span>''
      else ''<span class=\"w-1.5 h-1.5 rounded-full '' @
        (if isSelected then ''bg-cyan-400'' else ''bg-slate-600'') @ ''\"></span>'')"

definition option_html :: "jsval list \<Rightarrow> jsval \<Rightarrow> string" where
  "option_html sel e =
     (let k = jget e ''key''; isSelected = (k \<in> set sel) in
      if isSelected then
     ''<div class=\"policy-option-item flex items-center justify-between px-3 py-2 bg-blue-600/25 border-s-2 border-blue-400 text-blue-200 cursor-pointer hover:bg-blue-600/35 transition text-xs font-semibold\" data-key=\"'' @
     escapeHTML k @ ''\"><div class=\"flex items-center gap-2\">'' @ kind_dot e isSelected @ ''<span>'' @
     escapeHTML (label_of_entry e) @
     ''</span></div><i data-feather=\"check\" class=\"w-3.5 h-3.5 text-blue-400 shrink-0\"></i></div>''
      else
     ''<div class=\"policy-option-item flex items-center justify-between px-3 py-2 text-slate-300 hover:bg-slate-800/80 cursor-pointer transition text-xs\" data-key=\"'' @
     escapeHTML k @ ''\"><div class=\"flex items-center gap-2\">'' @ kind_dot e isSelected @ ''<span>'' @
     escapeHTML (label_of_entry e) @
     ''</span></div><i data-feather=\"plus\" class=\"w-3.5 h-3.5 text-slate-600 shrink-0\"></i></div>'')"

definition option_matches :: "string \<Rightarrow> jsval \<Rightarrow> bool" where
  "option_matches q e \<longleftrightarrow> js_includes (js_lower (js_string (label_of_entry e))) q \<or>
     js_includes (js_lower (key_of e)) q"

definition list_html :: "catalog \<Rightarrow> jsval list \<Rightarrow> string \<Rightarrow> string" where
  "list_html c sel filterText =
     (let q = js_trim (js_lower filterText); matched = filter (option_matches q) (pc_entries c) in
      if pc_entries c = [] then
        (if pc_error c \<noteq> ''''
         then ''<div class=\"p-3 text-center text-red-400 text-xs\">'' @ escapeHTML (JStr (pc_error c)) @ ''</div>''
         else ''<div class=\"p-3 text-center text-slate-500 text-xs\">Loading policies'' @ u_ellipsis @ ''</div>'')
      else if matched = [] then
        ''<div class=\"p-3 text-center text-slate-500 text-xs\">No matching policies found</div>''
      else concat (map (option_html sel) matched))"

definition renderDropdown :: "catalog \<Rightarrow> picker \<Rightarrow> picker" where
  "renderDropdown c p = p\<lparr>pk_list := list_html c (pk_selected p) (pk_search p)\<rparr>"

definition renderTags :: "(string \<Rightarrow> string option) \<Rightarrow> catalog \<Rightarrow> picker \<Rightarrow> picker" where
  "renderTags proto c p =
     renderDropdown c (p\<lparr>pk_tags := tags_html proto c (pk_selected p)\<rparr>)"

definition select :: "(string \<Rightarrow> string option) \<Rightarrow> catalog \<Rightarrow> jsval list \<Rightarrow> picker \<Rightarrow> picker" where
  "select proto c sel p = renderTags proto c (p\<lparr>pk_selected := sel\<rparr>)"

definition run_after :: "(string \<Rightarrow> string option) \<Rightarrow> catalog \<Rightarrow> after \<Rightarrow> picker \<Rightarrow> picker" where
  "run_after proto c a p =
     (case a of
        ThenList \<Rightarrow> renderDropdown c p
      | ThenTags \<Rightarrow> renderTags proto c p
      | ThenAll \<Rightarrow> select proto c (map (\<lambda>e. jget e ''key'') (pc_entries c)) p)"

text \<open>\<open>loadPolicyCatalog().then(a)\<close>.\<close>

definition load_then ::
    "(string \<Rightarrow> string option) \<Rightarrow> after \<Rightarrow> catalog \<times> picker \<Rightarrow> catalog \<times> picker" where
  "load_then proto a = (\<lambda>(c, p).
     let c1 = catalog_enter c in
     if pc_promise c1 = Settled then (c1, run_after proto c1 a p)
     else (c1, p\<lparr>pk_after := pk_after p @ [a]\<rparr>))"

datatype picker_event =
    BoxClick bool
  | SearchInput string
  | SearchFocus
  | OptionClick string
  | OutsideClick
  | SelectAll
  | ClearAll
  | RemoveTag string
  | SetTo jsval
  | ResetPicker

definition toggle_key :: "string \<Rightarrow> jsval list \<Rightarrow> jsval list" where
  "toggle_key k sel = (if JStr k \<in> set sel then filter (\<lambda>x. x \<noteq> JStr k) sel else sel @ [JStr k])"

text \<open>The select-all button fires its toast when its await has ended: see \<open>select_all_toast\<close>.\<close>

fun on_picker :: "(string \<Rightarrow> string option) \<Rightarrow> picker_event \<Rightarrow> catalog \<times> picker \<Rightarrow> catalog \<times> picker" where
  "on_picker proto (BoxClick onChip) (c, p) =
     (if onChip then (c, p)
      else let p1 = p\<lparr>pk_open := \<not> pk_open p\<rparr> in
        if pk_open p1 then load_then proto ThenList (c, renderDropdown c p1) else (c, p1))"
| "on_picker proto (SearchInput v) (c, p) =
     (c, renderDropdown c (p\<lparr>pk_open := True, pk_search := v\<rparr>))"
| "on_picker proto SearchFocus (c, p) =
     load_then proto ThenList (c, renderDropdown c (p\<lparr>pk_open := True\<rparr>))"
| "on_picker proto (OptionClick k) (c, p) =
     (if k = '''' then (c, p) else (c, select proto c (toggle_key k (pk_selected p)) p))"
| "on_picker proto OutsideClick (c, p) = (c, p\<lparr>pk_open := False\<rparr>)"
| "on_picker proto SelectAll (c, p) = load_then proto ThenAll (c, p)"
| "on_picker proto ClearAll (c, p) = (c, select proto c [] p)"
| "on_picker proto (RemoveTag k) (c, p) =
     (c, select proto c (filter (\<lambda>x. x \<noteq> JStr k) (pk_selected p)) p)"
| "on_picker proto (SetTo v) (c, p) =
     load_then proto ThenTags (c, select proto c (arr_elems v) p)"
| "on_picker proto ResetPicker (c, p) =
     (c, select proto c [] (p\<lparr>pk_search := '''', pk_open := False\<rparr>))"

definition settle_picker :: "(string \<Rightarrow> string option) \<Rightarrow> catalog \<Rightarrow> picker \<Rightarrow> picker" where
  "settle_picker proto c p =
     (foldl (\<lambda>q a. run_after proto c a q) p (pk_after p))\<lparr>pk_after := []\<rparr>"

definition select_all_toast :: "catalog \<Rightarrow> string option" where
  "select_all_toast c =
     (if pc_entries c = []
      then Some (if pc_error c \<noteq> '''' then pc_error c else ''No policies available to select'')
      else None)"

section \<open>The two pickers\<close>

datatype form = AddForm | EditForm

record pickers =
  ps_catalog :: catalog
  ps_picker :: "form \<Rightarrow> picker"

definition picker_act :: "(string \<Rightarrow> string option) \<Rightarrow> form \<Rightarrow> picker_event \<Rightarrow> pickers \<Rightarrow> pickers" where
  "picker_act proto f e s =
     (let (c, p) = on_picker proto e (ps_catalog s, ps_picker s f) in
      s\<lparr>ps_catalog := c, ps_picker := (ps_picker s)(f := p)\<rparr>)"

definition catalog_settles :: "(string \<Rightarrow> string option) \<Rightarrow> outcome \<Rightarrow> pickers \<Rightarrow> pickers" where
  "catalog_settles proto oc s =
     (let c = catalog_settle oc (ps_catalog s) in
      s\<lparr>ps_catalog := c, ps_picker := (\<lambda>f. settle_picker proto c (ps_picker s f))\<rparr>)"

datatype picker_action = On form picker_event | Answered outcome

text \<open>An answer can only arrive while the request is out.\<close>

fun picker_do :: "(string \<Rightarrow> string option) \<Rightarrow> picker_action \<Rightarrow> pickers \<Rightarrow> pickers" where
  "picker_do proto (On f e) s = picker_act proto f e s"
| "picker_do proto (Answered oc) s =
     (if pc_promise (ps_catalog s) = Pending then catalog_settles proto oc s else s)"

definition run_pickers :: "(string \<Rightarrow> string option) \<Rightarrow> picker_action list \<Rightarrow> pickers \<Rightarrow> pickers" where
  "run_pickers proto acts s = foldl (\<lambda>s a. picker_do proto a s) s acts"

definition fresh_picker :: picker where
  "fresh_picker = \<lparr>pk_selected = [], pk_search = '''', pk_open = False, pk_tags = '''',
     pk_list = '''', pk_after = []\<rparr>"

definition fresh_pickers :: pickers where
  "fresh_pickers = \<lparr>ps_catalog = fresh_catalog, ps_picker = (\<lambda>f. fresh_picker)\<rparr>"

section \<open>The chips follow the selection\<close>

lemma tags_html_labels: "pc_labels c = pc_labels d \<Longrightarrow> tags_html proto c = tags_html proto d"
proof -
  assume "pc_labels c = pc_labels d"
  then have "chip_html proto c = chip_html proto d" by (simp add: chip_html_def fun_eq_iff)
  then show ?thesis by (intro ext) (simp add: tags_html_def)
qed

definition drawn :: "(string \<Rightarrow> string option) \<Rightarrow> catalog \<Rightarrow> picker \<Rightarrow> bool" where
  "drawn proto c p \<longleftrightarrow> pk_selected p = [] \<and> pk_tags p = '''' \<or>
     pk_tags p = tags_html proto fresh_catalog (pk_selected p) \<or>
     pk_tags p = tags_html proto c (pk_selected p)"

lemma drawn_upd [simp]:
  "drawn proto c (p\<lparr>pk_open := b\<rparr>) = drawn proto c p"
  "drawn proto c (p\<lparr>pk_search := q\<rparr>) = drawn proto c p"
  "drawn proto c (p\<lparr>pk_list := l\<rparr>) = drawn proto c p"
  "drawn proto c (p\<lparr>pk_after := a\<rparr>) = drawn proto c p"
  by (simp_all add: drawn_def)

lemma drawn_renderDropdown [simp]: "drawn proto c (renderDropdown d p) = drawn proto c p"
  by (simp add: renderDropdown_def)

lemma drawn_renderTags [simp]: "drawn proto c (renderTags proto c p)"
  by (simp add: renderTags_def) (simp add: drawn_def)

lemma drawn_select [simp]: "drawn proto c (select proto c sel p)"
  by (simp add: select_def)

lemma drawn_labels: "pc_labels c = pc_labels d \<Longrightarrow> drawn proto c = drawn proto d"
  by (intro ext) (simp only: drawn_def tags_html_labels[of c d])

lemma drawn_first_labels: "pc_labels c = [] \<Longrightarrow> drawn proto c p \<Longrightarrow> drawn proto d p"
proof -
  assume l: "pc_labels c = []" and d: "drawn proto c p"
  have "tags_html proto c = tags_html proto fresh_catalog"
    using l by (intro tags_html_labels) (simp add: fresh_catalog_def)
  then show ?thesis using d by (auto simp only: drawn_def)
qed

lemma drawn_run_after: "drawn proto c p \<Longrightarrow> drawn proto c (run_after proto c a p)"
  by (cases a) (auto simp: run_after_def)

lemma drawn_settle: "drawn proto c p \<Longrightarrow> drawn proto c (settle_picker proto c p)"
proof -
  have "drawn proto c (foldl (\<lambda>q a. run_after proto c a q) p as)" if "drawn proto c p" for as
    using that by (induction as arbitrary: p) (auto intro: drawn_run_after)
  then show "drawn proto c p \<Longrightarrow> ?thesis" by (simp add: settle_picker_def)
qed

lemma renderDropdown_keeps [simp]:
  "pk_after (renderDropdown c p) = pk_after p" "pk_selected (renderDropdown c p) = pk_selected p"
  "pk_open (renderDropdown c p) = pk_open p"
  by (simp_all add: renderDropdown_def)

lemma select_keeps [simp]:
  "pk_after (select proto c sel p) = pk_after p" "pk_selected (select proto c sel p) = sel"
  by (simp_all add: select_def renderTags_def)

lemma run_after_after [simp]: "pk_after (run_after proto c a p) = pk_after p"
  by (cases a) (simp_all add: run_after_def renderTags_def)

lemma settle_after [simp]: "pk_after (settle_picker proto c p) = []"
  by (simp add: settle_picker_def)

text \<open>What one event keeps of the catalogue and its own picker.\<close>

definition waiting_ok :: "catalog \<Rightarrow> picker \<Rightarrow> bool" where
  "waiting_ok c p \<longleftrightarrow> (pk_after p \<noteq> [] \<longrightarrow> pc_promise c = Pending)"

definition catalog_ok :: "catalog \<Rightarrow> bool" where
  "catalog_ok c \<longleftrightarrow> catalog_guard.guarded c \<and> (pc_promise c \<noteq> Settled \<longrightarrow> pc_labels c = [])"

lemma catalog_enter_keeps:
  "pc_labels (catalog_enter c) = pc_labels c" "pc_promise (catalog_enter c) \<noteq> NoPromise"
  "pc_promise c \<noteq> NoPromise \<Longrightarrow> catalog_enter c = c"
  by (auto simp: catalog_enter_def)

lemma catalog_ok_enter: "catalog_ok c \<Longrightarrow> catalog_ok (catalog_enter c)"
  by (auto simp: catalog_ok_def catalog_guard.guarded_enter catalog_enter_keeps(1))
    (auto simp: catalog_enter_def split: if_splits)

lemma catalog_ok_settle:
  "catalog_ok c \<Longrightarrow> pc_promise c = Pending \<Longrightarrow> catalog_ok (catalog_settle oc c)"
  by (auto simp: catalog_ok_def catalog_guard.guarded_leave)
    (auto simp: catalog_settle_def Let_def split: option.splits)

definition reacts_ok :: "(string \<Rightarrow> string option) \<Rightarrow> catalog \<Rightarrow> catalog \<times> picker \<Rightarrow> bool" where
  "reacts_ok proto c r \<longleftrightarrow> (fst r = c \<or> fst r = catalog_enter c) \<and>
     drawn proto (fst r) (snd r) \<and> waiting_ok (fst r) (snd r)"

lemma load_then_ok:
  "drawn proto c p \<Longrightarrow> waiting_ok c p \<Longrightarrow> reacts_ok proto c (load_then proto a (c, p))"
proof -
  assume p: "drawn proto c p" "waiting_ok c p"
  have d: "drawn proto (catalog_enter c) p"
    using p(1) drawn_labels catalog_enter_keeps(1) by metis
  show ?thesis
    using p(2) d drawn_run_after[OF d] catalog_enter_keeps(2)[of c]
    by (cases "pc_promise (catalog_enter c)")
      (auto simp: reacts_ok_def load_then_def waiting_ok_def Let_def catalog_enter_def split: if_splits)
qed

lemma reacts_same: "drawn proto c p \<Longrightarrow> waiting_ok c p \<Longrightarrow> reacts_ok proto c (c, p)"
  by (simp add: reacts_ok_def)

lemma on_picker_ok:
  assumes "drawn proto c p" "waiting_ok c p"
  shows "reacts_ok proto c (on_picker proto e (c, p))"
  using assms
  by (cases e) (auto simp: Let_def waiting_ok_def intro!: load_then_ok reacts_same)

definition pickers_ok :: "(string \<Rightarrow> string option) \<Rightarrow> pickers \<Rightarrow> bool" where
  "pickers_ok proto s \<longleftrightarrow> catalog_ok (ps_catalog s) \<and>
     (\<forall>f. drawn proto (ps_catalog s) (ps_picker s f) \<and> waiting_ok (ps_catalog s) (ps_picker s f))"

lemma catalog_enter_waiting: "waiting_ok c q \<Longrightarrow> waiting_ok (catalog_enter c) q"
  by (auto simp: waiting_ok_def catalog_enter_def)

lemma picker_act_ok:
  assumes "pickers_ok proto s"
  shows "pickers_ok proto (picker_act proto f e s)"
proof -
  obtain c p where r: "on_picker proto e (ps_catalog s, ps_picker s f) = (c, p)" by fastforce
  have ok: "reacts_ok proto (ps_catalog s) (c, p)"
    using on_picker_ok[of proto "ps_catalog s" "ps_picker s f" e] assms r by (simp add: pickers_ok_def)
  then have "pc_labels c = pc_labels (ps_catalog s)" "catalog_ok c"
    "\<And>q. waiting_ok (ps_catalog s) q \<Longrightarrow> waiting_ok c q"
    using assms catalog_ok_enter[of "ps_catalog s"] catalog_enter_waiting[of "ps_catalog s"]
    by (auto simp: reacts_ok_def pickers_ok_def catalog_enter_keeps(1))
  then show ?thesis
    using assms ok r drawn_labels[of c "ps_catalog s" proto]
    by (auto simp: pickers_ok_def picker_act_def reacts_ok_def)
qed

lemma catalog_settles_ok:
  assumes "pickers_ok proto s" "pc_promise (ps_catalog s) = Pending"
  shows "pickers_ok proto (catalog_settles proto oc s)"
  using assms catalog_ok_settle[of "ps_catalog s" oc] drawn_first_labels[of "ps_catalog s" proto]
  by (auto simp: pickers_ok_def catalog_settles_def Let_def waiting_ok_def catalog_ok_def
      intro!: drawn_settle)

lemma pickers_ok_run: "pickers_ok proto s \<Longrightarrow> pickers_ok proto (run_pickers proto acts s)"
proof (induction acts arbitrary: s)
  case (Cons a acts)
  then have "pickers_ok proto (picker_do proto a s)"
    by (cases a) (auto intro: picker_act_ok catalog_settles_ok)
  then show ?case using Cons.IH by (simp add: run_pickers_def)
qed (simp add: run_pickers_def)

lemma fresh_pickers_ok: "pickers_ok proto fresh_pickers"
  by (simp add: pickers_ok_def fresh_pickers_def fresh_picker_def fresh_catalog_def catalog_ok_def
      catalog_guard.guarded_def drawn_def waiting_ok_def)

lemma untouched_picker:
  "\<lbrakk>\<forall>e. On f e \<notin> set acts; pk_selected (ps_picker s f) = []; pk_after (ps_picker s f) = []\<rbrakk> \<Longrightarrow>
     pk_selected (ps_picker (run_pickers proto acts s) f) = []"
proof (induction acts arbitrary: s)
  case (Cons a acts)
  have "pk_selected (ps_picker (picker_do proto a s) f) = [] \<and>
        pk_after (ps_picker (picker_do proto a s) f) = []"
    using Cons.prems
    by (cases a) (auto simp: picker_act_def catalog_settles_def settle_picker_def Let_def
        split: prod.splits)
  then show ?case using Cons by (simp add: run_pickers_def)
qed (simp add: run_pickers_def)

text \<open>
  C5. The two policy pickers never mix and never lie: whatever an operator does on the create
  and on the edit form, and whenever the catalogue's answers arrive, the chips of each form are
  the chips of exactly the policies it would submit (under their labels, or under their keys
  when drawn before the catalogue came), and the chosen policies of a form nobody touched are
  none, so that policies attached while editing one subscriber are not sold to the next.
\<close>

theorem picker_chips_faithful:
  "drawn proto (ps_catalog (run_pickers proto acts fresh_pickers))
     (ps_picker (run_pickers proto acts fresh_pickers) f) \<and>
   (pk_selected (ps_picker (run_pickers proto acts fresh_pickers) f) = [] \<or>
    (\<exists>e. On f e \<in> set acts))"
  using pickers_ok_run[OF fresh_pickers_ok, of proto acts]
    untouched_picker[of f acts fresh_pickers proto]
  by (auto simp: pickers_ok_def fresh_pickers_def fresh_picker_def)

text \<open>
  C24. One catalogue request serves every opening: at any moment at most one request for the
  policy list is out, and only while it is out can anything wait for it. So no opening is left
  waiting after an answer, whatever the answer is.
\<close>

theorem catalog_one_request:
  "pc_outstanding (ps_catalog (run_pickers proto acts fresh_pickers)) \<le> 1 \<and>
   (pc_outstanding (ps_catalog (run_pickers proto acts fresh_pickers)) = 1 \<or>
    pk_after (ps_picker (run_pickers proto acts fresh_pickers) f) = [])"
  using pickers_ok_run[OF fresh_pickers_ok, of proto acts]
  by (auto simp: pickers_ok_def catalog_ok_def catalog_guard.guarded_def waiting_ok_def)

end
