(* ===== verification/Date_Picker.thy ===== *)
theory Date_Picker
  imports Time_Stamps
begin

text \<open>
  The date and time picker of the create and the edit form (app.js, createExpiryDatePicker):
  the month grid, the reading of the expiry field, what the picker writes back into it and the
  events of the popup.

  \<open>denv\<close> is the clock: the instant, the offset of the operator's zone in minutes (taken as
  fixed, a change to daylight saving time between two instants is left out) and the engine's
  reading of texts that are no date-time text. The offset and the clock are those of the event.
\<close>

record denv =
  de_now :: int
  de_tz :: int
  de_legacy :: "string \<Rightarrow> int option"

section \<open>Days of a month\<close>

text \<open>
  \<open>new Date(y, m, d)\<close>: months count from 0 and may be out of range, as may the day, and the
  years 0 to 99 mean 1900 to 1999.
\<close>

definition js_year :: "int \<Rightarrow> int" where
  "js_year y = (if 0 \<le> y \<and> y \<le> 99 then 1900 + y else y)"

definition day_number :: "int \<Rightarrow> int \<Rightarrow> int \<Rightarrow> int" where
  "day_number y m d = days_civil (js_year y + m div 12) (m mod 12 + 1) 1 + d - 1"

definition get_day :: "int \<Rightarrow> int" where
  "get_day z = (z + 4) mod 7"

definition get_date :: "int \<Rightarrow> int" where
  "get_date z = snd (snd (civil_of_days z))"

datatype cell = Padding int | DayBtn int bool bool

definition grid_cells :: "moment \<Rightarrow> int \<Rightarrow> int \<Rightarrow> int \<Rightarrow> cell list" where
  "grid_cells today y m sel =
     (let firstDayIndex = get_day (day_number y m 1);
          daysInMonth = get_date (day_number y (m + 1) 0);
          daysInPrevMonth = get_date (day_number y m 0) in
      map (\<lambda>i. Padding (daysInPrevMonth - i)) (rev [0..firstDayIndex - 1]) @
      map (\<lambda>d. DayBtn d (d = sel) (f_year today = y \<and> f_month today - 1 = m \<and> f_day today = d))
        [1..daysInMonth])"

fun cell_html :: "cell \<Rightarrow> string" where
  "cell_html (Padding n) =
     ''<div class=\"p-1.5 text-slate-700 text-[11px] pointer-events-none\">'' @ int_str n @ ''</div>''"
| "cell_html (DayBtn d isSelected isToday) =
     (if isSelected then
        ''<button type=\"button\" class=\"dp-day-btn p-1.5 rounded-lg bg-blue-600 text-onfill font-bold shadow-md shadow-blue-500/30 text-xs\" data-day=\"''
      else if isToday then
        ''<button type=\"button\" class=\"dp-day-btn p-1.5 rounded-lg border border-cyan-400 text-cyan-300 hover:bg-slate-800 text-xs font-bold\" data-day=\"''
      else
        ''<button type=\"button\" class=\"dp-day-btn p-1.5 rounded-lg text-slate-300 hover:bg-slate-800 hover:text-white transition text-xs\" data-day=\"'') @
     int_str d @ ''\">'' @ int_str d @ ''</button>''"

definition MONTH_NAMES :: "string list" where
  "MONTH_NAMES = [''Jan'', ''Feb'', ''Mar'', ''Apr'', ''May'', ''Jun'', ''Jul'', ''Aug'',
     ''Sep'', ''Oct'', ''Nov'', ''Dec'']"

section \<open>The picker\<close>

record dpick =
  selYear :: int
  selMonth :: int
  selDay :: int
  selHour :: int
  selMinute :: int
  dp_input :: string
  dp_open :: bool
  dp_label :: string
  dp_grid :: "cell list"
  dp_hour :: string
  dp_minute :: string

definition renderCalendarGrid :: "denv \<Rightarrow> dpick \<Rightarrow> dpick" where
  "renderCalendarGrid env p =
     p\<lparr>dp_label := MONTH_NAMES ! nat (selMonth p) @ '' '' @ int_str (selYear p),
       dp_hour := int_str (selHour p), dp_minute := int_str (selMinute p),
       dp_grid := grid_cells (fields_of (de_tz env) (de_now env)) (selYear p) (selMonth p) (selDay p)\<rparr>"

definition take_moment :: "denv \<Rightarrow> int \<Rightarrow> dpick \<Rightarrow> dpick" where
  "take_moment env t p =
     (let f = fields_of (de_tz env) t in
      p\<lparr>selYear := f_year f, selMonth := f_month f - 1, selDay := f_day f, selHour := f_hour f,
        selMinute := f_min f\<rparr>)"

text \<open>\<open>replace(' ', 'T')\<close>: the first blank only.\<close>

fun replace_first :: "char \<Rightarrow> char \<Rightarrow> string \<Rightarrow> string" where
  "replace_first a b [] = []"
| "replace_first a b (c # s) = (if c = a then b # s else c # replace_first a b s)"

definition thirty_days :: int where "thirty_days = 30 * 24 * 3600 * 1000"

definition parseInputToState :: "denv \<Rightarrow> dpick \<Rightarrow> dpick" where
  "parseInputToState env p =
     (let val = js_trim (dp_input p);
          read = (if val = '''' then None
                  else date_input (de_legacy env) (de_tz env) (CHR ''T'')
                    (replace_first (CHR '' '') (CHR ''T'') val)) in
      case read of Some t \<Rightarrow> take_moment env t p
      | None \<Rightarrow> take_moment env (de_now env + thirty_days) p)"

definition applyToInput :: "dpick \<Rightarrow> dpick" where
  "applyToInput p =
     p\<lparr>dp_input := int_str (selYear p) @ ''-'' @ pad2 (selMonth p + 1) @ ''-'' @ pad2 (selDay p) @
        '' '' @ pad2 (selHour p) @ '':'' @ pad2 (selMinute p) @ '':00''\<rparr>"

definition toggleDatepicker :: "denv \<Rightarrow> dpick \<Rightarrow> dpick" where
  "toggleDatepicker env p =
     (let p1 = p\<lparr>dp_open := \<not> dp_open p\<rparr> in
      if dp_open p1 then renderCalendarGrid env (parseInputToState env p1) else p1)"

definition applyDefaultDays :: "denv \<Rightarrow> int \<Rightarrow> dpick \<Rightarrow> dpick" where
  "applyDefaultDays env days p =
     applyToInput (renderCalendarGrid env
       (take_moment env (de_now env + days * 24 * 3600 * 1000) p))"

definition prev_month :: "dpick \<Rightarrow> dpick" where
  "prev_month p =
     (let p1 = p\<lparr>selMonth := selMonth p - 1\<rparr> in
      if selMonth p1 < 0 then p1\<lparr>selMonth := 11, selYear := selYear p1 - 1\<rparr> else p1)"

definition next_month :: "dpick \<Rightarrow> dpick" where
  "next_month p =
     (let p1 = p\<lparr>selMonth := selMonth p + 1\<rparr> in
      if selMonth p1 > 11 then p1\<lparr>selMonth := 0, selYear := selYear p1 + 1\<rparr> else p1)"

text \<open>
  The events of the popup. A click on the grid is a position: it counts where the grid has a
  day there. A choice in a select is one of its options, 24 hours and 60 minutes. \<open>SetExpiry\<close>
  is the edit form writing the field when it opens.
\<close>

datatype dp_event =
    Toggle
  | PrevYear | NextYear | PrevMonth | NextMonth
  | GridClick nat
  | PickHour nat
  | PickMinute nat
  | SetNow
  | Confirm
  | ClearExpiry
  | ClickElsewhere
  | DefaultDays int
  | SetExpiry string

definition hour_options :: "string list" where "hour_options = map int_str [0..23]"
definition minute_options :: "string list" where "minute_options = map int_str [0..59]"

definition int_of_option :: "string \<Rightarrow> int" where
  "int_of_option s = (case parseInt10 s of Fin x \<Rightarrow> \<lfloor>x\<rfloor> | _ \<Rightarrow> 0)"

fun on_dpick :: "denv \<Rightarrow> dp_event \<Rightarrow> dpick \<Rightarrow> dpick" where
  "on_dpick env Toggle p = toggleDatepicker env p"
| "on_dpick env PrevYear p = renderCalendarGrid env (p\<lparr>selYear := selYear p - 1\<rparr>)"
| "on_dpick env NextYear p = renderCalendarGrid env (p\<lparr>selYear := selYear p + 1\<rparr>)"
| "on_dpick env PrevMonth p = renderCalendarGrid env (prev_month p)"
| "on_dpick env NextMonth p = renderCalendarGrid env (next_month p)"
| "on_dpick env (GridClick k) p =
     (if k < length (dp_grid p) then
        (case dp_grid p ! k of
           DayBtn d _ _ \<Rightarrow> renderCalendarGrid env (p\<lparr>selDay := d\<rparr>)
         | Padding _ \<Rightarrow> p)
      else p)"
| "on_dpick env (PickHour k) p =
     (if k < length hour_options
      then p\<lparr>dp_hour := hour_options ! k, selHour := int_of_option (hour_options ! k)\<rparr> else p)"
| "on_dpick env (PickMinute k) p =
     (if k < length minute_options
      then p\<lparr>dp_minute := minute_options ! k, selMinute := int_of_option (minute_options ! k)\<rparr> else p)"
| "on_dpick env SetNow p =
     applyToInput (renderCalendarGrid env (take_moment env (de_now env + thirty_days) p))"
| "on_dpick env Confirm p = (applyToInput p)\<lparr>dp_open := False\<rparr>"
| "on_dpick env ClearExpiry p = p\<lparr>dp_input := '''', dp_open := False\<rparr>"
| "on_dpick env ClickElsewhere p = p\<lparr>dp_open := False\<rparr>"
| "on_dpick env (DefaultDays n) p = applyDefaultDays env n p"
| "on_dpick env (SetExpiry s) p = p\<lparr>dp_input := s\<rparr>"

definition blank_dpick :: dpick where
  "blank_dpick = \<lparr>selYear = 0, selMonth = 0, selDay = 0, selHour = 0, selMinute = 0,
     dp_input = '''', dp_open = False, dp_label = '''', dp_grid = [], dp_hour = '''',
     dp_minute = ''''\<rparr>"

definition createExpiryDatePicker :: "denv \<Rightarrow> string \<Rightarrow> dpick" where
  "createExpiryDatePicker env s =
     renderCalendarGrid env (parseInputToState env (blank_dpick\<lparr>dp_input := s\<rparr>))"

section \<open>The months of the grid\<close>

lemma march_days:
  "(y div 400) * 146097 + (y mod 400) * 365 + (y mod 400) div 4 - (y mod 400) div 100 =
     y * 365 + y div 4 - y div 100 + y div (400 :: int)"
proof -
  have e: "y = y mod 400 + 4 * (100 * (y div 400))" "y = y mod 400 + 100 * (4 * (y div 400))"
    by simp_all
  have "y div 4 = 100 * (y div 400) + (y mod 400) div 4"
    by (subst e(1)) (simp only: div_mult_self2 zero_neq_numeral[symmetric] not_False_eq_True)
  moreover have "y div 100 = 4 * (y div 400) + (y mod 400) div 100"
    by (subst e(2)) (simp only: div_mult_self2 zero_neq_numeral[symmetric] not_False_eq_True)
  moreover have "y = y div 400 * 400 + y mod 400" by simp
  ultimately show ?thesis by linarith
qed

lemma div_prev:
  "0 < (n :: int) \<Longrightarrow> y div n = (y - 1) div n + (if y mod n = 0 then 1 else 0)"
  using div_next[of n "y - 1"] by (simp only: diff_add_cancel)

lemma leap_step:
  "y * 365 + y div 4 - y div 100 + y div 400 =
     (y - 1) * 365 + (y - 1) div 4 - (y - 1) div 100 + (y - 1) div (400 :: int) +
     (if y mod 4 = 0 \<and> (y mod 100 \<noteq> 0 \<or> y mod 400 = 0) then 366 else 365)"
proof -
  have d: "y mod 400 = 0 \<Longrightarrow> y mod 100 = 0" "y mod 100 = 0 \<Longrightarrow> y mod 4 = 0"
    using dvd_trans[of 100 400 y] dvd_trans[of 4 100 y] by (simp_all add: dvd_eq_mod_eq_0)
  have s: "y div 4 = (y - 1) div 4 + (if y mod 4 = 0 then 1 else 0)"
    "y div 100 = (y - 1) div 100 + (if y mod 100 = 0 then 1 else 0)"
    "y div 400 = (y - 1) div 400 + (if y mod 400 = 0 then 1 else 0)"
    by (rule div_prev, simp)+
  have gen: "\<lbrakk>r \<Longrightarrow> q; q \<Longrightarrow> p; A = a + (if p then 1 else 0); B = b + (if q then 1 else 0);
      C = c + (if r then 1 else 0)\<rbrakk> \<Longrightarrow>
      y * 365 + A - B + C = (y - 1) * 365 + a - b + c + (if p \<and> (\<not> q \<or> r) then 366 else 365)"
    for p q r and a b c A B C :: int by auto
  show ?thesis by (rule gen[OF d s])
qed

lemma days_civil_march:
  "days_civil y m d = (let k = (if m \<le> 2 then y - 1 else y) in
      k * 365 + k div 4 - k div 100 + k div 400 + (153 * (m + (if m > 2 then - 3 else 9)) + 2) div 5 + d
        - 719469)"
  using march_days[of "if m \<le> 2 then y - 1 else y"] unfolding days_civil_def Let_def by linarith

lemma next_month_start:
  assumes "0 \<le> m" "m < 12"
  shows "days_civil (y + (m + 1) div 12) ((m + 1) mod 12 + 1) 1 =
    days_civil y (m + 1) 1 + days_in_month y (m + 1)"
proof (cases "m = 1")
  case True
  have "days_civil y 3 1 = y * 365 + y div 4 - y div 100 + y div 400 + 1 - 719469"
    "days_civil y 2 1 = (y - 1) * 365 + (y - 1) div 4 - (y - 1) div 100 + (y - 1) div 400 + 338 - 719469"
    by (simp_all add: days_civil_march Let_def)
  moreover have "days_in_month y 2 + 337 =
      (if y mod 4 = 0 \<and> (y mod 100 \<noteq> 0 \<or> y mod 400 = 0) then 366 else 365)"
    by (simp add: days_in_month_def)
  ultimately have "days_civil y 3 1 = days_civil y 2 1 + days_in_month y 2"
    using leap_step[of y] by linarith
  then show ?thesis by (simp add: True)
next
  case False
  have "m = 0 \<or> m = 2 \<or> m = 3 \<or> m = 4 \<or> m = 5 \<or> m = 6 \<or> m = 7 \<or> m = 8 \<or> m = 9 \<or> m = 10 \<or> m = 11"
    using assms False by presburger
  then show ?thesis by (elim disjE) (simp_all add: days_civil_march days_in_month_def Let_def)
qed

lemma days_civil_day: "days_civil y m (d + k) = days_civil y m d + k"
  by (simp add: days_civil_def Let_def)

lemma get_date_valid: "1 \<le> get_date z \<and> get_date z \<le> 31"
proof (cases "civil_of_days z")
  case (fields y m d)
  have "days_in_month y m \<le> 31" by (simp add: days_in_month_def)
  then show ?thesis using civil_of_days_ok[OF fields] fields by (auto simp: get_date_def valid_date_def)
qed

lemma days_in_this_month:
  assumes "0 \<le> m" "m < 12"
  shows "get_date (day_number y (m + 1) 0) = days_in_month (js_year y) (m + 1)"
proof -
  let ?Y = "js_year y"
  have dim: "1 \<le> days_in_month ?Y (m + 1)" by (simp add: days_in_month_def)
  have "day_number y (m + 1) 0 = days_civil ?Y (m + 1) (days_in_month ?Y (m + 1))"
    using next_month_start[OF assms, of ?Y] days_civil_day[of ?Y "m + 1" 1 "days_in_month ?Y (m + 1) - 1"]
    by (simp add: day_number_def)
  moreover have "valid_date ?Y (m + 1) (days_in_month ?Y (m + 1))"
    using assms dim by (simp add: valid_date_def)
  ultimately show ?thesis by (simp add: get_date_def civil_of_days_civil)
qed

definition first_column :: "int \<Rightarrow> int \<Rightarrow> int" where
  "first_column y m = get_day (day_number y m 1)"

lemma first_column_bounds: "0 \<le> first_column y m" "first_column y m < 7"
  by (simp_all add: first_column_def get_day_def)

lemma column_of_day: "(first_column y m + d - 1) mod 7 = get_day (day_number y m d)"
proof -
  have e: "day_number y m d + 4 = (day_number y m 1 + 4) + (d - 1)" by (simp add: day_number_def)
  have "(first_column y m + d - 1) mod 7 = ((day_number y m 1 + 4) mod 7 + (d - 1)) mod 7"
    by (simp only: first_column_def get_day_def add_diff_eq)
  also have "\<dots> = get_day (day_number y m d)"
    by (simp only: get_day_def e mod_add_left_eq)
  finally show ?thesis .
qed

lemma grid_days:
  assumes "1 \<le> d" "d \<le> get_date (day_number y (m + 1) 0)"
  shows "grid_cells today y m sel ! nat (first_column y m + d - 1) =
    DayBtn d (d = sel) (f_year today = y \<and> f_month today - 1 = m \<and> f_day today = d)"
proof -
  have n: "nat (first_column y m + d - 1) = nat (first_column y m) + nat (d - 1)"
    using first_column_bounds(1)[of y m] assms(1) by simp
  show ?thesis
    unfolding n grid_cells_def Let_def first_column_def[symmetric]
    using assms first_column_bounds(1)[of y m] by (simp add: nth_append)
qed

lemma grid_length:
  "length (grid_cells today y m sel) =
     nat (first_column y m) + nat (get_date (day_number y (m + 1) 0))"
  by (simp add: grid_cells_def Let_def first_column_def)

lemma earlier_in_month:
  assumes "0 \<le> j" "j < get_date z"
  shows "get_date (z - j) = get_date z - j"
proof (cases "civil_of_days z")
  case (fields y m d)
  then have d: "get_date z = d" by (simp add: get_date_def)
  have ok: "valid_date y m d" "days_civil y m d = z" using civil_of_days_ok[OF fields] by simp_all
  have "valid_date y m (d - j)" using ok(1) assms d by (simp add: valid_date_def)
  moreover have "days_civil y m (d - j) = z - j" using days_civil_day[of y m d "- j"] ok(2) by simp
  ultimately show ?thesis using civil_of_days_civil[of y m "d - j"] d by (simp add: get_date_def)
qed

lemma last_of_previous:
  assumes "0 \<le> m" "m < 12"
  shows "28 \<le> get_date (days_civil y (m + 1) 1 - 1)"
proof -
  have "\<exists>y' m'. 0 \<le> m' \<and> m' < 12 \<and> days_civil y (m + 1) 1 = days_civil y' (m' + 1) 1 + days_in_month y' (m' + 1)"
  proof (cases "m = 0")
    case True
    then show ?thesis using next_month_start[of 11 "y - 1"] by (intro exI[of _ "y - 1"] exI[of _ 11]) simp
  next
    case False
    then show ?thesis
      using next_month_start[of "m - 1" y] assms by (intro exI[of _ y] exI[of _ "m - 1"]) simp
  qed
  then obtain y' m' where p: "0 \<le> m'" "m' < 12"
    "days_civil y (m + 1) 1 = days_civil y' (m' + 1) 1 + days_in_month y' (m' + 1)" by blast
  let ?n = "days_in_month y' (m' + 1)"
  have n: "28 \<le> ?n" by (simp add: days_in_month_def)
  have "days_civil y (m + 1) 1 - 1 = days_civil y' (m' + 1) ?n"
    using p(3) days_civil_day[of y' "m' + 1" 1 "?n - 1"] by simp
  moreover have "valid_date y' (m' + 1) ?n" using p(1,2) n by (simp add: valid_date_def)
  ultimately show ?thesis using n by (simp add: get_date_def civil_of_days_civil)
qed

fun day_shown :: "cell \<Rightarrow> int list" where
  "day_shown (Padding n) = []"
| "day_shown (DayBtn d _ _) = [d]"

lemma days_shown: "concat (map day_shown (grid_cells today y m sel)) = [1..get_date (day_number y (m + 1) 0)]"
proof -
  have "concat (map day_shown (map (\<lambda>d. DayBtn d (f d) (g d)) ds)) = ds" for f g ds
    by (induction ds) simp_all
  moreover have "concat (map day_shown (map (\<lambda>i. Padding (h i)) is)) = []" for h and "is" :: "int list"
    by (induction "is") simp_all
  ultimately show ?thesis by (simp only: grid_cells_def Let_def map_append concat_append append_Nil)
qed

lemma grid_padding:
  assumes "int k < first_column y m"
  shows "grid_cells today y m sel ! k = Padding (get_date (day_number y m 0) - (first_column y m - 1 - int k))"
proof -
  let ?f = "first_column y m" and ?c = "get_date (day_number y m 0)"
  have k: "k < length (rev [0..?f - 1])" using assms by simp
  have "map (\<lambda>i. Padding (?c - i)) (rev [0..?f - 1]) ! k = Padding (?c - (?f - 1 - int k))"
    using k assms by (simp add: rev_nth of_nat_diff)
  then show ?thesis
    using k unfolding grid_cells_def Let_def first_column_def[symmetric] by (simp add: nth_append)
qed

text \<open>
  C30. The calendar puts every day under its weekday: the cells of the grid of a month are, in
  order, its days from the first to the last once each, with the length the Gregorian calendar
  gives the month, after fewer than seven others; the place of a day in its row of seven is the
  weekday of its date, the selected day and today's date are marked and no other, and each
  of the cells before the first is the date of the day of the previous month it stands for.
\<close>

theorem grid_aligned:
  assumes "0 \<le> m" "m < 12"
  shows "let Y = js_year y; n = days_in_month Y (m + 1); first = get_day (days_civil Y (m + 1) 1);
      cells = grid_cells today y m sel in
    0 \<le> first \<and> first < 7 \<and> int (length cells) = first + n \<and> concat (map day_shown cells) = [1..n] \<and>
    (\<forall>k < length cells. case cells ! k of
       Padding p \<Rightarrow> int k < first \<and> p = get_date (days_civil Y (m + 1) 1 - (first - int k))
     | DayBtn d s t \<Rightarrow> int k = first + d - 1 \<and> int k mod 7 = get_day (days_civil Y (m + 1) d) \<and>
         (s \<longleftrightarrow> d = sel) \<and> (t \<longleftrightarrow> f_year today = y \<and> f_month today = m + 1 \<and> f_day today = d))"
proof -
  let ?Y = "js_year y" and ?n = "days_in_month (js_year y) (m + 1)" and ?f = "first_column y m"
  have dim: "get_date (day_number y (m + 1) 0) = ?n" using days_in_this_month assms by simp
  have day: "day_number y m d = days_civil ?Y (m + 1) d" for d
    using assms days_civil_day[of ?Y "m + 1" 1 "d - 1"] by (simp add: day_number_def)
  have f: "get_day (days_civil ?Y (m + 1) 1) = ?f" by (simp add: first_column_def day)
  have n: "28 \<le> ?n" by (simp add: days_in_month_def)
  have len: "int (length (grid_cells today y m sel)) = ?f + ?n"
    using first_column_bounds[of y m] n by (simp add: grid_length dim)
  have cell: "case grid_cells today y m sel ! k of
      Padding p \<Rightarrow> int k < ?f \<and> p = get_date (days_civil ?Y (m + 1) 1 - (?f - int k))
    | DayBtn d s t \<Rightarrow> int k = ?f + d - 1 \<and> int k mod 7 = get_day (days_civil ?Y (m + 1) d) \<and>
        (s \<longleftrightarrow> d = sel) \<and> (t \<longleftrightarrow> f_year today = y \<and> f_month today = m + 1 \<and> f_day today = d)"
    if k: "k < length (grid_cells today y m sel)" for k
  proof (cases "int k < ?f")
    case True
    have z: "day_number y m 0 = days_civil ?Y (m + 1) 1 - 1"
      using days_civil_day[of ?Y "m + 1" 1 "- 1"] by (simp add: day)
    have "?f - 1 - int k < get_date (day_number y m 0)"
      using last_of_previous[OF assms, of ?Y] first_column_bounds[of y m] unfolding z by linarith
    then have "get_date (days_civil ?Y (m + 1) 1 - (?f - int k)) =
        get_date (day_number y m 0) - (?f - 1 - int k)"
      using earlier_in_month[of "?f - 1 - int k" "day_number y m 0"] True
      by (simp only: z) (simp add: algebra_simps)
    then show ?thesis using True by (simp add: grid_padding)
  next
    case False
    define d where "d = int k - ?f + 1"
    have d: "1 \<le> d" "d \<le> get_date (day_number y (m + 1) 0)"
      using False k len dim by (auto simp: d_def)
    have kd: "k = nat (?f + d - 1)" "int k = ?f + d - 1" by (simp_all add: d_def)
    show ?thesis
      using grid_days[OF d, of today sel] column_of_day[of y m d] kd(2)
      by (simp only: kd(1)[symmetric] day) auto
  qed
  show ?thesis
    using first_column_bounds[of y m] len days_shown[of today y m sel] cell
    unfolding Let_def f dim by blast
qed

definition some_moment :: moment where
  "some_moment = \<lparr>f_year = 2026, f_month = 3, f_day = 5, f_hour = 8, f_min = 30, f_sec = 0, f_ms = 0\<rparr>"

theorem grid_aligned_witness:
  "concat (map day_shown (grid_cells some_moment 2028 1 7)) = [1..29]"
  using grid_aligned[of 1 2028 some_moment 7] by (simp add: Let_def days_in_month_def js_year_def)

section \<open>The state of a picker\<close>

fun cell_ok :: "cell \<Rightarrow> bool" where
  "cell_ok (Padding n) = True"
| "cell_ok (DayBtn d _ _) = (1 \<le> d \<and> d \<le> 31)"

definition dp_ok :: "dpick \<Rightarrow> bool" where
  "dp_ok p \<longleftrightarrow> 0 \<le> selMonth p \<and> selMonth p < 12 \<and> 1 \<le> selDay p \<and> selDay p \<le> 31 \<and>
     0 \<le> selHour p \<and> selHour p < 24 \<and> 0 \<le> selMinute p \<and> selMinute p < 60 \<and>
     list_all cell_ok (dp_grid p)"

lemma grid_cells_ok: "list_all cell_ok (grid_cells today y m sel)"
  using get_date_valid[of "day_number y (m + 1) 0"]
  by (auto simp: grid_cells_def Let_def list_all_iff)

lemma take_moment_ok: "list_all cell_ok (dp_grid p) \<Longrightarrow> dp_ok (take_moment env t p)"
proof -
  assume g: "list_all cell_ok (dp_grid p)"
  let ?f = "fields_of (de_tz env) t"
  have "fields_ok ?f" using ms_of_fields_of by simp
  moreover have "days_in_month y m \<le> 31" for y m by (simp add: days_in_month_def)
  ultimately have "f_day ?f \<le> 31" by (auto simp: fields_bounds intro: order_trans)
  then show ?thesis
    using g \<open>fields_ok ?f\<close> by (simp add: dp_ok_def take_moment_def Let_def fields_bounds)
qed

lemma dp_ok_upd [simp]:
  "dp_ok (p\<lparr>dp_open := b\<rparr>) = dp_ok p" "dp_ok (p\<lparr>dp_input := s\<rparr>) = dp_ok p"
  "dp_ok (p\<lparr>dp_hour := s\<rparr>) = dp_ok p" "dp_ok (p\<lparr>dp_minute := s\<rparr>) = dp_ok p"
  "dp_ok (applyToInput p) = dp_ok p"
  by (simp_all add: dp_ok_def applyToInput_def)

lemma dp_ok_take: "dp_ok p \<Longrightarrow> dp_ok (take_moment env t p)"
  by (rule take_moment_ok) (simp add: dp_ok_def)

lemma parse_ok: "list_all cell_ok (dp_grid p) \<Longrightarrow> dp_ok (parseInputToState env p)"
  by (auto simp: parseInputToState_def Let_def intro: take_moment_ok split: option.split)

lemma dp_ok_parse: "dp_ok p \<Longrightarrow> dp_ok (parseInputToState env p)"
  by (rule parse_ok) (simp add: dp_ok_def)

lemma dp_ok_render: "dp_ok p \<Longrightarrow> dp_ok (renderCalendarGrid env p)"
  by (simp add: dp_ok_def renderCalendarGrid_def grid_cells_ok)

lemma dp_ok_sel:
  "dp_ok p \<Longrightarrow> dp_ok (p\<lparr>selYear := y\<rparr>)"
  "dp_ok p \<Longrightarrow> 1 \<le> d \<and> d \<le> 31 \<Longrightarrow> dp_ok (p\<lparr>selDay := d\<rparr>)"
  "dp_ok p \<Longrightarrow> 0 \<le> h \<and> h < 24 \<Longrightarrow> dp_ok (p\<lparr>selHour := h\<rparr>)"
  "dp_ok p \<Longrightarrow> 0 \<le> i \<and> i < 60 \<Longrightarrow> dp_ok (p\<lparr>selMinute := i\<rparr>)"
  "dp_ok p \<Longrightarrow> dp_ok (prev_month p)" "dp_ok p \<Longrightarrow> dp_ok (next_month p)"
  by (auto simp: dp_ok_def prev_month_def next_month_def Let_def)

lemmas dp_ok_steps = dp_ok_sel dp_ok_render dp_ok_take dp_ok_parse

lemma hour_option: "k < length hour_options \<Longrightarrow> int_of_option (hour_options ! k) = int k"
proof -
  have "list_all (\<lambda>k. int_of_option (hour_options ! k) = int k) [0..<length hour_options]"
    by code_simp
  then show "k < length hour_options \<Longrightarrow> ?thesis" by (simp add: list_all_iff)
qed

lemma minute_option: "k < length minute_options \<Longrightarrow> int_of_option (minute_options ! k) = int k"
proof -
  have "list_all (\<lambda>k. int_of_option (minute_options ! k) = int k) [0..<length minute_options]"
    by code_simp
  then show "k < length minute_options \<Longrightarrow> ?thesis" by (simp add: list_all_iff)
qed

lemma options_length [simp]: "length hour_options = 24" "length minute_options = 60"
  by (simp_all add: hour_options_def minute_options_def)

lemma clicked_day_ok:
  "dp_ok p \<Longrightarrow> k < length (dp_grid p) \<Longrightarrow> dp_grid p ! k = DayBtn d a b \<Longrightarrow> 1 \<le> d \<and> d \<le> 31"
  by (metis dp_ok_def list_all_length cell_ok.simps(2))

lemma on_dpick_ok: "dp_ok p \<Longrightarrow> dp_ok (on_dpick env e p)"
  by (cases e)
    (auto simp: toggleDatepicker_def applyDefaultDays_def Let_def hour_option minute_option
      intro!: dp_ok_steps dest: clicked_day_ok split: cell.split)

definition run_dpick :: "(denv \<times> dp_event) list \<Rightarrow> dpick \<Rightarrow> dpick" where
  "run_dpick es p = foldl (\<lambda>p (env, e). on_dpick env e p) p es"

lemma run_dpick_ok: "dp_ok p \<Longrightarrow> dp_ok (run_dpick es p)"
  by (induction es arbitrary: p) (auto simp: run_dpick_def intro: on_dpick_ok)

lemma create_ok: "dp_ok (createExpiryDatePicker env s)"
  unfolding createExpiryDatePicker_def
  by (intro dp_ok_render parse_ok) (simp add: blank_dpick_def)

section \<open>What is written and read back\<close>

definition moment_of :: "dpick \<Rightarrow> moment" where
  "moment_of p = \<lparr>f_year = selYear p, f_month = selMonth p + 1, f_day = selDay p,
     f_hour = selHour p, f_min = selMinute p, f_sec = 0, f_ms = 0\<rparr>"

definition same_choice :: "dpick \<Rightarrow> dpick \<Rightarrow> bool" where
  "same_choice p q \<longleftrightarrow> selYear p = selYear q \<and> selMonth p = selMonth q \<and> selDay p = selDay q \<and>
     selHour p = selHour q \<and> selMinute p = selMinute q"

lemma applyToInput_text: "dp_input (applyToInput p) = date_time_str (moment_of p)"
  by (simp add: applyToInput_def date_time_str_def date_time_sep_def moment_of_def)

lemma replace_first_skip: "a \<notin> set s \<Longrightarrow> replace_first a b (s @ t) = s @ replace_first a b t"
  by (induction s) auto

lemma digits_no_blank: "list_all is_digit s \<Longrightarrow> CHR '' '' \<notin> set s"
  by (auto simp: list_all_iff is_digit_def)

lemma date_time_sep_shape:
  assumes "fields_ok f" "1000 \<le> f_year f" "f_year f \<le> 9999"
  shows "\<exists>a c. date_time_sep sep f = a @ [sep] @ c @ '':00'' \<and> CHR '' '' \<notin> set a \<and>
    a \<noteq> [] \<and> is_digit (hd a) \<and> (\<forall>sep. date_time_sep sep f = a @ [sep] @ c @ '':00'')"
proof -
  let ?y = "pad_num 4 (f_year f)" and ?m = "pad_num 2 (f_month f)" and ?d = "pad_num 2 (f_day f)"
  have y: "length ?y = 4" "list_all is_digit ?y" using pad_num_props[of "f_year f" 4] assms by auto
  have md: "list_all is_digit ?m" "list_all is_digit ?d"
    using pad_num_props[of _ 2] fields_small[OF assms(1)] by auto
  let ?a = "?y @ ''-'' @ ?m @ ''-'' @ ?d"
  have "?y \<noteq> []" using y(1) by force
  then have "?a \<noteq> []" "is_digit (hd ?a)" using y(2) by (auto simp: list_all_iff)
  moreover have "CHR '' '' \<notin> set ?a" using y md digits_no_blank by auto
  ultimately show ?thesis
    using assms by (intro exI[of _ ?a] exI[of _ "pad_num 2 (f_hour f) @ '':'' @ pad_num 2 (f_min f)"])
      (simp add: date_time_sep_def year_str pad2_pad_num)
qed

lemma trimmed_date_time:
  assumes "fields_ok f" "1000 \<le> f_year f" "f_year f \<le> 9999"
  shows "js_trim (date_time_str f) = date_time_str f" "date_time_str f \<noteq> ''''"
    "replace_first (CHR '' '') (CHR ''T'') (date_time_str f) = date_time_sep (CHR ''T'') f"
proof -
  obtain a c where a: "CHR '' '' \<notin> set a" "a \<noteq> []" "is_digit (hd a)"
    and sh: "\<And>sep. date_time_sep sep f = a @ [sep] @ c @ '':00''"
    using date_time_sep_shape[OF assms] by blast
  have hd: "\<not> is_space (hd (date_time_str f))"
    using a by (auto simp: date_time_str_def sh is_digit_def is_space_def)
  have "last (date_time_str f) = CHR ''0''" by (simp add: date_time_str_def sh)
  then have "\<not> is_space (last (date_time_str f))" by (simp add: is_space_def)
  then show "js_trim (date_time_str f) = date_time_str f" using hd dropWhile_trim_id by blast
  show "date_time_str f \<noteq> ''''" using a(2) by (simp add: date_time_str_def sh)
  show "replace_first (CHR '' '') (CHR ''T'') (date_time_str f) = date_time_sep (CHR ''T'') f"
    using a by (simp add: date_time_str_def sh replace_first_skip)
qed

lemma parse_written:
  assumes "dp_ok p" "1000 \<le> selYear p" "selYear p \<le> 9999"
    "selDay p \<le> days_in_month (selYear p) (selMonth p + 1)" "dp_input q = date_time_str (moment_of p)"
  shows "same_choice (parseInputToState env q) p" "dp_open (parseInputToState env q) = dp_open q"
proof -
  let ?f = "moment_of p"
  have f: "fields_ok ?f" "1000 \<le> f_year ?f" "f_year ?f \<le> 9999"
    using assms by (simp_all add: moment_of_def dp_ok_def fields_ok_def valid_date_def)
  have "date_input (de_legacy env) (de_tz env) (CHR ''T'') (date_time_sep (CHR ''T'') ?f) =
      Some (ms_of_fields (de_tz env) ?f)"
    using local_fields_date_time_sep[OF f] by (simp add: date_input_def moment_of_def)
  then have "parseInputToState env q = take_moment env (ms_of_fields (de_tz env) ?f) q"
    using trimmed_date_time[OF f] by (simp add: parseInputToState_def Let_def assms(5))
  then show "same_choice (parseInputToState env q) p" "dp_open (parseInputToState env q) = dp_open q"
    using fields_of_ms[OF f(1), of "de_tz env"]
    by (simp_all add: take_moment_def Let_def same_choice_def moment_of_def)
qed

text \<open>
  What the operator confirmed is what the calendar shows when it is opened again: whatever
  was done with a picker before, if the chosen day exists in the chosen month (of the years
  1000 to 9999), Confirm closes the popup and writes the choice into the expiry field as
  "YYYY-MM-DD HH:MM:00", and the next opening reads back exactly that choice, in any zone.
\<close>

lemma confirm_reopen_valid:
  assumes "p = run_dpick es (createExpiryDatePicker env0 s)"
    and "1000 \<le> selYear p" "selYear p \<le> 9999"
    and "selDay p \<le> days_in_month (selYear p) (selMonth p + 1)"
  shows "dp_input (on_dpick env1 Confirm p) = date_time_str (moment_of p) \<and>
    \<not> dp_open (on_dpick env1 Confirm p) \<and>
    dp_open (on_dpick env Toggle (on_dpick env1 Confirm p)) \<and>
    same_choice (on_dpick env Toggle (on_dpick env1 Confirm p)) p"
proof -
  have ok: "dp_ok p" using assms(1) run_dpick_ok create_ok by simp
  have i: "dp_input ((applyToInput p)\<lparr>dp_open := True\<rparr>) = date_time_str (moment_of p)"
    by (simp add: applyToInput_text)
  show ?thesis
    using parse_written[OF ok assms(2-4) i, of env]
    by (simp add: applyToInput_text toggleDatepicker_def Let_def renderCalendarGrid_def same_choice_def)
qed

definition noon_env :: denv where
  "noon_env = \<lparr>de_now = 1785585600000, de_tz = 210, de_legacy = (\<lambda>_. None)\<rparr>"

definition leap_day :: dpick where
  "leap_day = blank_dpick\<lparr>selYear := 2028, selMonth := 1, selDay := 29, selHour := 10, selMinute := 15\<rparr>"

lemma leap_day_written: "date_time_str (moment_of leap_day) = ''2028-02-29 10:15:00''"
  by code_simp

section \<open>A day of the calendar\<close>

text \<open>
  What every event keeps: the grid is that of the month shown. What every event but the arrows
  keeps: the chosen day is one of that month's (a year below 1000 is not written as a date).
\<close>

definition grid_shown :: "dpick \<Rightarrow> bool" where
  "grid_shown p \<longleftrightarrow> (\<exists>today sel. dp_grid p = grid_cells today (selYear p) (selMonth p) sel)"

definition day_fits :: "dpick \<Rightarrow> bool" where
  "day_fits p \<longleftrightarrow> (1000 \<le> selYear p \<longrightarrow> selDay p \<le> days_in_month (selYear p) (selMonth p + 1))"

fun is_arrow :: "dp_event \<Rightarrow> bool" where
  "is_arrow PrevYear = True" | "is_arrow NextYear = True"
| "is_arrow PrevMonth = True" | "is_arrow NextMonth = True"
| "is_arrow _ = False"

fun sets_time :: "dp_event \<Rightarrow> bool" where
  "sets_time (PickHour k) = True" | "sets_time (PickMinute k) = True" | "sets_time _ = False"

lemma render_grid: "grid_shown (renderCalendarGrid env p)"
  by (auto simp: grid_shown_def renderCalendarGrid_def)

lemma views_kept [simp]:
  "grid_shown (p\<lparr>dp_open := b\<rparr>) = grid_shown p" "grid_shown (p\<lparr>dp_input := s\<rparr>) = grid_shown p"
  "grid_shown (p\<lparr>dp_hour := s, selHour := h\<rparr>) = grid_shown p"
  "grid_shown (p\<lparr>dp_minute := s, selMinute := h\<rparr>) = grid_shown p"
  "grid_shown (applyToInput p) = grid_shown p"
  "day_fits (p\<lparr>dp_open := b\<rparr>) = day_fits p" "day_fits (p\<lparr>dp_input := s\<rparr>) = day_fits p"
  "day_fits (p\<lparr>dp_hour := s, selHour := h\<rparr>) = day_fits p"
  "day_fits (p\<lparr>dp_minute := s, selMinute := h\<rparr>) = day_fits p"
  "day_fits (applyToInput p) = day_fits p" "day_fits (renderCalendarGrid env p) = day_fits p"
  by (simp_all add: grid_shown_def day_fits_def applyToInput_def renderCalendarGrid_def)

lemma take_fits [simp]: "day_fits (take_moment env t p)"
proof -
  have "fields_ok (fields_of (de_tz env) t)" using ms_of_fields_of by simp
  then show ?thesis by (simp add: day_fits_def take_moment_def Let_def fields_ok_def valid_date_def)
qed

lemma parse_fits [simp]: "day_fits (parseInputToState env p)"
  by (simp add: parseInputToState_def Let_def split: option.split)

lemma shown_day_fits:
  assumes "grid_shown p" "dp_ok p" "k < length (dp_grid p)" "dp_grid p ! k = DayBtn d a b"
  shows "day_fits (p\<lparr>selDay := d\<rparr>)"
proof -
  obtain today sel where g: "dp_grid p = grid_cells today (selYear p) (selMonth p) sel"
    using assms(1) by (auto simp: grid_shown_def)
  have m: "0 \<le> selMonth p" "selMonth p < 12" using assms(2) by (simp_all add: dp_ok_def)
  have "[d] = day_shown (dp_grid p ! k)" using assms(4) by simp
  then have "d \<in> set (concat (map day_shown (dp_grid p)))"
    using nth_mem[OF assms(3)] by (metis UN_iff list.set_intros(1) set_concat set_map imageI)
  then have "d \<le> days_in_month (js_year (selYear p)) (selMonth p + 1)"
    by (simp add: g days_shown days_in_this_month[OF m])
  moreover have "1000 \<le> selYear p \<Longrightarrow> js_year (selYear p) = selYear p" by (simp add: js_year_def)
  ultimately have "1000 \<le> selYear p \<Longrightarrow> d \<le> days_in_month (selYear p) (selMonth p + 1)" by metis
  then show ?thesis by (simp add: day_fits_def)
qed

lemma grid_kept: "grid_shown p \<Longrightarrow> grid_shown (on_dpick env e p)"
  by (cases e) (auto simp: toggleDatepicker_def applyDefaultDays_def Let_def render_grid split: cell.split)

lemma fits_kept: "grid_shown p \<Longrightarrow> dp_ok p \<Longrightarrow> day_fits p \<Longrightarrow> \<not> is_arrow e \<Longrightarrow> day_fits (on_dpick env e p)"
  by (cases e) (auto simp: toggleDatepicker_def applyDefaultDays_def Let_def intro: shown_day_fits split: cell.split)

lemma run_grid: "grid_shown p \<Longrightarrow> grid_shown (run_dpick es p)"
  by (induction es arbitrary: p) (auto simp: run_dpick_def intro: grid_kept)

lemma run_fits:
  "grid_shown p \<Longrightarrow> dp_ok p \<Longrightarrow> day_fits p \<Longrightarrow> \<forall>(env, e) \<in> set es. \<not> is_arrow e \<Longrightarrow>
     day_fits (run_dpick es p)"
  by (induction es arbitrary: p)
    (auto simp: run_dpick_def intro: grid_kept on_dpick_ok fits_kept)

lemma run_times:
  "\<forall>(env, e) \<in> set es. sets_time e \<Longrightarrow>
     (selYear (run_dpick es p), selMonth (run_dpick es p), selDay (run_dpick es p)) =
     (selYear p, selMonth p, selDay p)"
proof (induction es arbitrary: p)
  case (Cons x es)
  obtain env e where x: "x = (env, e)" by (cases x)
  have "(selYear (on_dpick env e p), selMonth (on_dpick env e p), selDay (on_dpick env e p)) =
      (selYear p, selMonth p, selDay p)" if "sets_time e"
    using that by (cases e) simp_all
  then show ?case using Cons.IH[of "on_dpick env e p"] Cons.prems by (simp add: run_dpick_def x)
qed (simp add: run_dpick_def)

lemma run_append: "run_dpick (es @ fs) p = run_dpick fs (run_dpick es p)"
  and run_Cons: "run_dpick ((env, e) # es) p = run_dpick es (on_dpick env e p)"
  by (simp_all add: run_dpick_def)

text \<open>
  C18. What the operator confirmed is what the calendar shows when it is opened again: whatever
  was done with a picker before, once a day of the calendar has been clicked and until a month or
  year arrow is, Confirm closes the popup, writes the choice into the expiry field as
  "YYYY-MM-DD HH:MM:00", and the next opening reads back exactly that choice, in any zone, for
  the years 1000 to 9999; and when only the hour and the minute were set since the click, that
  choice is the clicked day of the month and year that were shown.
\<close>

theorem confirm_reopen:
  assumes "p0 = run_dpick es (createExpiryDatePicker env0 s)"
    and "k < length (dp_grid p0)" "dp_grid p0 ! k = DayBtn d a b"
    and "\<forall>(env', e) \<in> set fs. \<not> is_arrow e"
    and "p = run_dpick fs (on_dpick env1 (GridClick k) p0)"
    and "1000 \<le> selYear p" "selYear p \<le> 9999"
  shows "dp_input (on_dpick env2 Confirm p) = date_time_str (moment_of p) \<and>
    \<not> dp_open (on_dpick env2 Confirm p) \<and>
    dp_open (on_dpick env Toggle (on_dpick env2 Confirm p)) \<and>
    same_choice (on_dpick env Toggle (on_dpick env2 Confirm p)) p \<and>
    ((\<forall>(env', e) \<in> set fs. sets_time e) \<longrightarrow>
      (selYear p, selMonth p, selDay p) = (selYear p0, selMonth p0, d))"
proof -
  let ?c = "createExpiryDatePicker env0 s"
  have g0: "grid_shown p0" unfolding assms(1)
    by (rule run_grid) (simp add: createExpiryDatePicker_def render_grid)
  have ok0: "dp_ok p0" unfolding assms(1) by (rule run_dpick_ok[OF create_ok])
  define p1 where "p1 = on_dpick env1 (GridClick k) p0"
  have c: "p1 = renderCalendarGrid env1 (p0\<lparr>selDay := d\<rparr>)" using assms(2,3) by (simp add: p1_def)
  have "day_fits p1" unfolding c using shown_day_fits[OF g0 ok0 assms(2,3)] by simp
  then have "day_fits p"
    using run_fits[OF _ _ _ assms(4), of p1] grid_kept[OF g0] on_dpick_ok[OF ok0]
    unfolding assms(5) p1_def[symmetric] by (metis p1_def)
  then have fit: "selDay p \<le> days_in_month (selYear p) (selMonth p + 1)"
    using assms(6) by (simp add: day_fits_def)
  have "p = run_dpick (es @ (env1, GridClick k) # fs) ?c"
    by (simp add: run_append run_Cons assms(1,5))
  note v = confirm_reopen_valid[OF this assms(6,7) fit]
  moreover have "(selYear p, selMonth p, selDay p) = (selYear p0, selMonth p0, d)"
    if "\<forall>(env', e) \<in> set fs. sets_time e"
  proof -
    have "(selYear p1, selMonth p1, selDay p1) = (selYear p0, selMonth p0, d)"
      by (simp add: c renderCalendarGrid_def)
    then show ?thesis using run_times[OF that, of p1] unfolding assms(5) p1_def[symmetric] by (rule trans[rotated])
  qed
  ultimately show ?thesis by blast
qed

definition march_picker :: dpick where
  "march_picker = createExpiryDatePicker noon_env ''2028-02-29 10:15:00''"

theorem confirm_reopen_witness:
  "selDay (on_dpick noon_env Toggle (on_dpick noon_env Confirm
     (run_dpick [(noon_env, PickHour 7)] (on_dpick noon_env (GridClick 5) march_picker)))) = 4"
proof -
  let ?p = "march_picker" and ?f = "[(noon_env, PickHour 7)]"
  have "same_choice ?p leap_day"
    using parse_written(1)[of leap_day "blank_dpick\<lparr>dp_input := ''2028-02-29 10:15:00''\<rparr>" noon_env]
    by (simp add: march_picker_def leap_day_written createExpiryDatePicker_def renderCalendarGrid_def same_choice_def)
      (simp add: leap_day_def blank_dpick_def dp_ok_def days_in_month_def)
  then have y: "selYear ?p = 2028" "selMonth ?p = 1"
    by (simp_all add: same_choice_def leap_day_def)
  have "grid_shown ?p" by (simp add: march_picker_def createExpiryDatePicker_def render_grid)
  then obtain today sel where g: "dp_grid ?p = grid_cells today 2028 1 sel"
    by (auto simp: grid_shown_def y)
  have fc: "first_column 2028 1 = 2" by code_simp
  have dm: "get_date (day_number 2028 2 0) = 29"
    using days_in_this_month[of 1 2028] by (simp add: days_in_month_def js_year_def)
  have k: "5 < length (dp_grid ?p)" by (simp add: g grid_length fc dm)
  obtain a b where d: "dp_grid ?p ! 5 = DayBtn 4 a b"
    using grid_days[of 4 2028 1 today sel] by (simp add: g fc dm)
  have r: "?p = run_dpick [] (createExpiryDatePicker noon_env ''2028-02-29 10:15:00'')"
    by (simp add: run_dpick_def march_picker_def)
  let ?q = "run_dpick ?f (on_dpick noon_env (GridClick 5) ?p)"
  have "selYear ?q = 2028"
    using run_times[of ?f "on_dpick noon_env (GridClick 5) ?p"] k d by (simp add: renderCalendarGrid_def y)
  then show ?thesis
    using confirm_reopen[OF r k d _ refl, of ?f noon_env noon_env noon_env]
    by (simp add: same_choice_def)
qed

text \<open>
  The arrows of the months keep the day. From 31 January the next month is confirmed as
  31 February, a text that is no date: whether Date rejects it or reads a day of March is the
  engine's choice, and where it rejects it the forms submit a lifetime plan.
\<close>

lemma february_31:
  assumes "selYear p = 2027" "selMonth p = 0" "selDay p = 31" "selHour p = 8" "selMinute p = 0"
  shows "dp_input (on_dpick env Confirm (on_dpick env NextMonth p)) = ''2027-02-31 08:00:00''"
proof -
  have t: "int_str 2027 @ ''-'' @ pad2 2 @ ''-'' @ pad2 31 @ '' '' @ pad2 8 @ '':'' @ pad2 0 @ '':00'' =
      ''2027-02-31 08:00:00''" by code_simp
  show ?thesis
    using assms t by (simp add: next_month_def Let_def renderCalendarGrid_def applyToInput_def)
qed

lemma february_31_unread:
  "date_input legacy tz (CHR '' '') ''2027-02-31 08:00:00'' = legacy ''2027-02-31 08:00:00''"
proof -
  have "local_fields (CHR '' '') ''2027-02-31 08:00:00'' = None" by code_simp
  then show ?thesis by (simp add: date_input_def)
qed

end
