(* ===== verification/Client_Forms.thy ===== *)
theory Client_Forms
  imports Clients Policy_Picker Date_Picker
begin

text \<open>
  The create and the edit form of a subscriber (app.js, initClientEventListeners,
  resetAddClientForm, showClientCreatedModal, the edit modal's listeners). The forms page is the
  dashboard's page with the two policy pickers and the two expiry pickers; the expiry field of
  a form is the input of its date picker.

  The fixed fields of the forms are taken to exist; the number inputs hold what they were given
  or a decimal number. A record of the cache whose \<open>expires_at\<close> is neither absent nor a string
  raises a TypeError, which ends the opening of the form half way.
\<close>

record forms =
  fm_dash :: dash
  fm_pickers :: pickers
  fm_dates :: "form \<Rightarrow> dpick"

type_synonym 'a forms_page = "(forms, 'a) state"

definition on_dash :: "'a page \<Rightarrow> 'a forms_page" where
  "on_dash m = State (\<lambda>s. (result m (fm_dash s), s\<lparr>fm_dash := exec m (fm_dash s)\<rparr>))"

definition pick :: "(string \<Rightarrow> string option) \<Rightarrow> form \<Rightarrow> picker_event \<Rightarrow> unit forms_page" where
  "pick proto f e = modify (\<lambda>s. s\<lparr>fm_pickers := picker_act proto f e (fm_pickers s)\<rparr>)"

definition date_event :: "denv \<Rightarrow> form \<Rightarrow> dp_event \<Rightarrow> unit forms_page" where
  "date_event env f e =
     modify (\<lambda>s. s\<lparr>fm_dates := (fm_dates s)(f := on_dpick env e (fm_dates s f))\<rparr>)"

definition chosen_policies :: "form \<Rightarrow> forms \<Rightarrow> jsval" where
  "chosen_policies f s = JArr (pk_selected (ps_picker (fm_pickers s) f))"

text \<open>JSON.stringify leaves out the members that are undefined.\<close>

definition json_obj :: "(string \<times> jsval) list \<Rightarrow> jsval" where
  "json_obj ps = JObj (filter (\<lambda>(k, v). v \<noteq> JUndef) ps)"

section \<open>The edit form\<close>

definition date_of :: "denv \<Rightarrow> string \<Rightarrow> int option" where
  "date_of env s = (case iso_ms s of Some t \<Rightarrow> Some t | None \<Rightarrow> de_legacy env s)"

definition formatToDateTimeString :: "denv \<Rightarrow> jsval \<Rightarrow> string option" where
  "formatToDateTimeString env v =
     (if \<not> truthy v then Some ''''
      else case v of
        JStr s \<Rightarrow>
          if s = zero_time \<or> js_startsWith s ''0001'' then Some ''''
          else (case date_of env s of None \<Rightarrow> Some ''''
                | Some t \<Rightarrow> Some (date_time_str (fields_of (de_tz env) t)))
      | _ \<Rightarrow> None)"

definition or_blank :: "jsval \<Rightarrow> string \<Rightarrow> string" where
  "or_blank c k = js_string (js_or (jget c k) (JStr ''''))"

definition first_ip :: "jsval \<Rightarrow> string" where
  "first_ip c = (case arr_elems (jget c ''allowed_ips'') of [] \<Rightarrow> ''''
                 | x # _ \<Rightarrow> if x = JNull then '''' else js_string x)"

definition options_of :: "dash \<Rightarrow> string \<Rightarrow> string list" where
  "options_of w i = (case dom w i of None \<Rightarrow> [] | Some e \<Rightarrow> el_options e)"

definition known_cycle :: "string list \<Rightarrow> jsval \<Rightarrow> string" where
  "known_cycle opts c =
     (let stored = js_or (jget c ''traffic_reset_cycle'') (JStr '''') in
      if stored \<in> JStr ` set opts then js_string stored else '''')"

definition status_change :: "unit page" where
  "status_change = do {
     w \<leftarrow> State_Monad.get;
     only_if (has_el w ''edit-client-enabled'' \<and> has_el w ''edit-client-status-label'')
       (if checked_of w ''edit-client-enabled'' then do {
          set_text ''edit-client-status-label'' ''ACTIVE'';
          set_class ''edit-client-status-label'' ''text-[10px] px-2 py-0.5 rounded-full bg-emerald-500/20 text-emerald-400 font-bold'' }
        else do {
          set_text ''edit-client-status-label'' ''DISABLED'';
          set_class ''edit-client-status-label'' ''text-[10px] px-2 py-0.5 rounded-full bg-red-500/20 text-red-400 font-bold'' }) }"

definition fill_edit :: "jsval \<Rightarrow> unit page" where
  "fill_edit c = do {
     set_value ''edit-client-id'' (js_string (jget c ''id''));
     set_value ''edit-client-name'' (or_blank c ''name'');
     set_value ''edit-client-uuid'' (or_blank c ''uuid'');
     set_value ''edit-client-secret'' (or_blank c ''register_secret'');
     set_value ''edit-client-max-devices'' (js_string (js_or (jget c ''max_devices'') (JNum (Fin 1))));
     set_value ''edit-client-ip'' (first_ip c);
     set_value ''edit-client-traffic'' (or_blank c ''traffic_limit_gb'');
     w \<leftarrow> State_Monad.get;
     set_value ''edit-client-traffic-cycle'' (known_cycle (options_of w ''edit-client-traffic-cycle'') c) }"

definition fill_edit_rest :: "jsval \<Rightarrow> unit page" where
  "fill_edit_rest c = do {
     set_value ''edit-client-note'' (or_blank c ''note'');
     set_checked ''edit-client-enabled'' (jget c ''enabled'' \<noteq> JBool False);
     status_change }"

definition find_client :: "dash \<Rightarrow> string \<Rightarrow> jsval option" where
  "find_client w cid =
     List.find (\<lambda>c. jget c ''id'' = JStr cid) (arr_elems (jget (clientsDataCache w) ''clients''))"

definition edit_open :: "(string \<Rightarrow> string option) \<Rightarrow> denv \<Rightarrow> string \<Rightarrow> unit forms_page" where
  "edit_open proto env cid = do {
     s \<leftarrow> State_Monad.get;
     case find_client (fm_dash s) cid of None \<Rightarrow> ret ()
     | Some c \<Rightarrow> do {
         on_dash (fill_edit c);
         case formatToDateTimeString env (jget c ''expires_at'') of None \<Rightarrow> ret ()
         | Some t \<Rightarrow> do {
             date_event env EditForm (SetExpiry t);
             on_dash (fill_edit_rest c);
             pick proto EditForm (SetTo (JArr (arr_elems (jget c ''custom_policies''))));
             on_dash (set_hidden ''edit-client-modal'' False) } } }"

definition edit_close :: "unit page" where
  "edit_close = set_hidden ''edit-client-modal'' True"

definition regen_uuid :: "unit page" where
  "regen_uuid = do {
     w \<leftarrow> State_Monad.get;
     let cid = value_of w ''edit-client-id'';
     if cid = '''' then ret ()
     else do {
       oc \<leftarrow> fetch_post (''/api/clients/'' @ cid @ ''/regenerate-uuid'') JUndef;
       case oc of NetErr \<Rightarrow> toast_msg ''Failed to regenerate UUID'' ''error''
       | Resp r \<Rightarrow>
           if \<not> rs_ok r then ret ()
           else case rs_json r of None \<Rightarrow> toast_msg ''Failed to regenerate UUID'' ''error''
                | Some data \<Rightarrow>
                    if nullish data then toast_msg ''Failed to regenerate UUID'' ''error''
                    else do {
                      set_value ''edit-client-uuid'' (js_string (jget data ''uuid''));
                      toast_msg ''New UUID generated!'' ''success'' } } }"

definition regen_secret :: "unit page" where
  "regen_secret = do {
     w \<leftarrow> State_Monad.get;
     let cid = value_of w ''edit-client-id'';
     if cid = '''' then ret ()
     else do {
       oc \<leftarrow> fetch_post (''/api/clients/'' @ cid @ ''/regenerate-register-secret'') JUndef;
       case oc of NetErr \<Rightarrow> toast_msg ''Failed to regenerate the secret'' ''error''
       | Resp r \<Rightarrow>
           if \<not> rs_ok r
           then toast_msg (errorMessage r ''Failed to regenerate the secret'') ''error''
           else case rs_json r of None \<Rightarrow> toast_msg ''Failed to regenerate the secret'' ''error''
                | Some data \<Rightarrow>
                    if nullish data then toast_msg ''Failed to regenerate the secret'' ''error''
                    else do {
                      set_value ''edit-client-secret'' (js_string (jget data ''register_secret''));
                      toast_msg ''New registration secret generated!'' ''success'' } } }"

definition reset_traffic :: "unit page" where
  "reset_traffic = do {
     w \<leftarrow> State_Monad.get;
     let cid = value_of w ''edit-client-id'';
     if cid = '''' then ret ()
     else do {
       oc \<leftarrow> fetch_post (''/api/clients/'' @ cid @ ''/reset-traffic'') JUndef;
       case oc of NetErr \<Rightarrow> toast_msg ''Network error resetting traffic'' ''error''
       | Resp r \<Rightarrow>
           if rs_ok r then do {
             toast_msg ''Client traffic counter reset to 0!'' ''success'';
             spawn TLoadClients }
           else toast_msg ''Failed to reset traffic counter'' ''error'' } }"

definition trimmed_value :: "dash \<Rightarrow> string \<Rightarrow> jsval" where
  "trimmed_value w i = JStr (js_trim (value_of w i))"

definition edit_expiry :: "denv \<Rightarrow> string \<Rightarrow> string" where
  "edit_expiry env s =
     (if s = '''' then zero_time
      else case date_input (de_legacy env) (de_tz env) (CHR '' '') s of
             Some t \<Rightarrow> to_iso t | None \<Rightarrow> zero_time)"

definition edit_payload :: "denv \<Rightarrow> forms \<Rightarrow> jsval" where
  "edit_payload env s =
     (let w = fm_dash s in
      JObj [(''name'', trimmed_value w ''edit-client-name''),
        (''uuid'', trimmed_value w ''edit-client-uuid''),
        (''allowed_ip'', trimmed_value w ''edit-client-ip''),
        (''max_devices'', JNum (Fin (num_or (parseInt10 (value_of w ''edit-client-max-devices'')) 1))),
        (''traffic_limit_gb'', JNum (Fin (num_or (parseFloat (value_of w ''edit-client-traffic'')) 0))),
        (''traffic_reset_cycle'', JStr (value_of w ''edit-client-traffic-cycle'')),
        (''expires_at'', JStr (edit_expiry env (dp_input (fm_dates s EditForm)))),
        (''enabled'', JBool (\<not> has_el w ''edit-client-enabled'' \<or> checked_of w ''edit-client-enabled'')),
        (''note'', trimmed_value w ''edit-client-note''),
        (''custom_policies'', chosen_policies EditForm s)])"

definition edit_answered :: "outcome \<Rightarrow> unit page" where
  "edit_answered oc =
     (case oc of NetErr \<Rightarrow> toast_msg ''Network error updating client'' ''error''
      | Resp r \<Rightarrow>
          if rs_ok r then do {
            toast_msg ''Client configuration updated successfully!'' ''success'';
            edit_close;
            spawn TLoadClients }
          else toast_msg (errorMessage r ''Failed to update client details'') ''error'')"

definition edit_submit :: "denv \<Rightarrow> unit forms_page" where
  "edit_submit env = do {
     s \<leftarrow> State_Monad.get;
     let cid = value_of (fm_dash s) ''edit-client-id'';
     if cid = '''' then ret ()
     else do {
       oc \<leftarrow> on_dash (fetch_auth ''PUT'' (''/api/clients/'' @ cid) (edit_payload env s));
       on_dash (edit_answered oc) } }"

section \<open>The create form\<close>

text \<open>\<open>form.reset()\<close>: the fields return to the values of the page as it was loaded.\<close>

definition add_defaults :: "(string \<times> string) list" where
  "add_defaults = [(''client-name-input'', ''''), (''client-traffic-input'', ''''),
     (''client-traffic-cycle'', ''''), (''client-max-devices'', ''2''),
     (''client-initial-ip'', '''')]"

definition resetAddClientForm :: "(string \<Rightarrow> string option) \<Rightarrow> denv \<Rightarrow> unit forms_page" where
  "resetAddClientForm proto env = do {
     on_dash (for_each (\<lambda>(i, v). set_value i v) add_defaults);
     on_dash (set_value ''client-max-devices'' ''2'');
     date_event env AddForm (DefaultDays 30);
     pick proto AddForm ResetPicker }"

definition add_open :: "(string \<Rightarrow> string option) \<Rightarrow> denv \<Rightarrow> unit forms_page" where
  "add_open proto env = do {
     resetAddClientForm proto env;
     on_dash (set_hidden ''add-client-modal'' False) }"

definition created_link :: "jsval \<Rightarrow> jsval \<Rightarrow> string" where
  "created_link config client =
     (let origin = js_or (jget config ''subscription_origin'') (JStr '''') in
      if truthy (jget client ''token'') \<and> truthy origin
      then js_string origin @ ''/sub/'' @ js_string (jget client ''token'')
      else ''(no origin configured '' @ u_dash @ '' set the public address in Settings)'')"

definition showClientCreatedModal :: "jsval \<Rightarrow> unit page" where
  "showClientCreatedModal client = do {
     w \<leftarrow> State_Monad.get;
     if \<not> has_el w ''client-created-modal'' \<or> \<not> truthy client then ret ()
     else do {
       set_text ''created-client-name''
         (js_string (js_or (jget client ''name'') (js_or (jget client ''id'') (JStr ''client''))));
       set_value ''created-register-link'' (created_link (currentConfig w) client);
       set_value ''created-register-secret''
         (js_string (js_or (jget client ''register_secret'') (JStr ''(no secret in response)'')));
       upd ''created-register-secret'' (\<lambda>e. e\<lparr>el_type := ''password''\<rparr>);
       set_text ''toggle-created-secret-btn'' ''Show'';
       set_hidden ''client-created-modal'' False } }"

definition type_of :: "dash \<Rightarrow> string \<Rightarrow> string" where
  "type_of w i = (case dom w i of None \<Rightarrow> '''' | Some e \<Rightarrow> el_type e)"

definition toggle_created_secret :: "unit page" where
  "toggle_created_secret = do {
     w \<leftarrow> State_Monad.get;
     if \<not> has_el w ''created-register-secret'' then ret ()
     else do {
       let masked = (type_of w ''created-register-secret'' = ''password'');
       upd ''created-register-secret'' (\<lambda>e. e\<lparr>el_type := (if masked then ''text'' else ''password'')\<rparr>);
       set_text ''toggle-created-secret-btn'' (if masked then ''Hide'' else ''Show'') } }"

definition created_close :: "unit page" where
  "created_close = set_hidden ''client-created-modal'' True"

definition opt_trimmed :: "dash \<Rightarrow> string \<Rightarrow> jsval" where
  "opt_trimmed w i = (if has_el w i then trimmed_value w i else JUndef)"

definition add_expiry :: "denv \<Rightarrow> string \<Rightarrow> jsval" where
  "add_expiry env s =
     (if s = '''' then JUndef
      else case date_input (de_legacy env) (de_tz env) (CHR '' '') s of
             Some t \<Rightarrow> JStr (to_iso t) | None \<Rightarrow> JUndef)"

definition add_payload :: "denv \<Rightarrow> forms \<Rightarrow> jsval" where
  "add_payload env s =
     (let w = fm_dash s in
      json_obj [(''name'', opt_trimmed w ''client-name-input''),
        (''expires_at'', add_expiry env (dp_input (fm_dates s AddForm))),
        (''initial_ip'', opt_trimmed w ''client-initial-ip''),
        (''traffic_limit_gb'', JNum (Fin (num_or (parseFloat (value_of w ''client-traffic-input'')) 0))),
        (''traffic_reset_cycle'', JStr (value_of w ''client-traffic-cycle'')),
        (''max_devices'', JNum (Fin (num_or (parseInt10 (value_of w ''client-max-devices'')) 1))),
        (''custom_policies'', chosen_policies AddForm s)])"

abbreviation add_submit_btn :: string where
  "add_submit_btn \<equiv> ''add-client-form button[type=submit]''"

definition add_created :: "cenv \<Rightarrow> (string \<Rightarrow> string option) \<Rightarrow> denv \<Rightarrow> response \<Rightarrow> unit forms_page" where
  "add_created cenv proto env r = do {
     let client = (case rs_json r of None \<Rightarrow> JObj [] | Some j \<Rightarrow> j);
     on_dash (set_hidden ''add-client-modal'' True);
     resetAddClientForm proto env;
     on_dash (toast_msg ''Client account created!'' ''success'');
     on_dash (showClientCreatedModal client);
     on_dash (loadClients cenv) }"

definition add_answered ::
    "cenv \<Rightarrow> (string \<Rightarrow> string option) \<Rightarrow> denv \<Rightarrow> outcome \<Rightarrow> unit forms_page" where
  "add_answered cenv proto env oc =
     (case oc of NetErr \<Rightarrow> on_dash (toast_msg ''Network error creating client'' ''error'')
      | Resp r \<Rightarrow>
          if rs_ok r then add_created cenv proto env r
          else on_dash (toast_msg (errorMessage r ''Failed to create client'') ''error''))"

definition add_submit :: "cenv \<Rightarrow> (string \<Rightarrow> string option) \<Rightarrow> denv \<Rightarrow> unit forms_page" where
  "add_submit cenv proto env = do {
     s \<leftarrow> State_Monad.get;
     if disabled_of (fm_dash s) add_submit_btn then ret ()
     else do {
       on_dash (set_disabled add_submit_btn True);
       oc \<leftarrow> on_dash (fetch_post ''/api/clients/add'' (add_payload env s));
       add_answered cenv proto env oc;
       on_dash (set_disabled add_submit_btn False) } }"

lemma on_dash_run [simp]:
  "exec (on_dash m) s = s\<lparr>fm_dash := exec m (fm_dash s)\<rparr>"
  "result (on_dash m) s = result m (fm_dash s)"
  by (simp_all add: on_dash_def exec_def result_def)

lemma picker_events_run [simp]:
  "exec (pick proto f e) s = s\<lparr>fm_pickers := picker_act proto f e (fm_pickers s)\<rparr>"
  "exec (date_event env f d) s = s\<lparr>fm_dates := (fm_dates s)(f := on_dpick env d (fm_dates s f))\<rparr>"
  by (simp_all add: pick_def date_event_def)

section \<open>Editing without a change\<close>

definition edit_ids :: "string list" where
  "edit_ids = [''edit-client-id'', ''edit-client-name'', ''edit-client-uuid'', ''edit-client-secret'',
     ''edit-client-max-devices'', ''edit-client-ip'', ''edit-client-traffic'',
     ''edit-client-traffic-cycle'', ''edit-client-note'', ''edit-client-enabled'',
     ''edit-client-modal'']"

text \<open>A field of a record that is absent or a string without blanks at its ends.\<close>

definition clean :: "jsval \<Rightarrow> bool" where
  "clean v \<longleftrightarrow> v = JUndef \<or> (\<exists>s. v = JStr s \<and> js_trim s = s)"

definition whole :: "nat \<Rightarrow> jsval \<Rightarrow> bool" where
  "whole n v \<longleftrightarrow> v = JNum (Fin (of_nat n)) \<and> n < 2 ^ 53"

definition kept_expiry :: "jsval \<Rightarrow> string" where
  "kept_expiry v =
     (case v of JStr s \<Rightarrow>
        if js_startsWith s ''0001'' then zero_time
        else (case iso_ms s of Some t \<Rightarrow> to_iso (t - t mod 60000) | None \<Rightarrow> zero_time)
      | _ \<Rightarrow> zero_time)"

definition expiry_ok :: "int \<Rightarrow> jsval \<Rightarrow> bool" where
  "expiry_ok tz v \<longleftrightarrow> (\<exists>s. v = JStr s \<and> (js_startsWith s ''0001'' \<or>
     (\<exists>t. s \<noteq> '''' \<and> iso_ms s = Some t \<and> 1000 \<le> f_year (fields_of tz t) \<and>
        f_year (fields_of tz t) \<le> 9999)))"

definition record_kept :: "int \<Rightarrow> jsval \<Rightarrow> bool" where
  "record_kept tz c \<longleftrightarrow> clean (jget c ''name'') \<and> clean (jget c ''uuid'') \<and> clean (jget c ''note'') \<and>
     (case arr_elems (jget c ''allowed_ips'') of [] \<Rightarrow> True | x # _ \<Rightarrow> \<exists>s. x = JStr s \<and> js_trim s = s) \<and>
     (\<exists>n>0. whole n (jget c ''max_devices'')) \<and>
     (jget c ''traffic_limit_gb'' = JUndef \<or> (\<exists>n. whole n (jget c ''traffic_limit_gb''))) \<and>
     expiry_ok tz (jget c ''expires_at'')"

definition kept_payload :: "string list \<Rightarrow> jsval \<Rightarrow> jsval" where
  "kept_payload cycles c =
     JObj [(''name'', JStr (or_blank c ''name'')), (''uuid'', JStr (or_blank c ''uuid'')),
       (''allowed_ip'', JStr (first_ip c)), (''max_devices'', jget c ''max_devices''),
       (''traffic_limit_gb'', js_or (jget c ''traffic_limit_gb'') (JNum (Fin 0))),
       (''traffic_reset_cycle'', JStr (known_cycle cycles c)),
       (''expires_at'', JStr (kept_expiry (jget c ''expires_at''))),
       (''enabled'', JBool (jget c ''enabled'' \<noteq> JBool False)),
       (''note'', JStr (or_blank c ''note'')),
       (''custom_policies'', JArr (arr_elems (jget c ''custom_policies'')))]"

lemma num_str_of_nat: "num_str_fin (of_nat n) = nat_str n"
  by (simp add: num_str_fin_def int_str_def)

lemma nat_str_no_lead:
  "hd (nat_str n) \<noteq> CHR ''-''" "hd (nat_str n) \<noteq> CHR ''+''" "hd (nat_str n) \<noteq> CHR ''I''"
  "\<not> is_space (hd (nat_str n))" "\<not> is_space (last (nat_str n))"
  using nat_str_digits[of "hd (nat_str n)" n] nat_str_digits[of "last (nat_str n)" n]
  by (auto simp: is_digit_def is_space_def)

lemma nat_str_parts:
  "dropWhile is_space (nat_str n) = nat_str n" "strip_sign (nat_str n) = (False, nat_str n)"
  "takeWhile is_digit (nat_str n) = nat_str n" "dropWhile is_digit (nat_str n) = []"
  using nat_str_no_lead[of n] nat_str_digits[of _ n]
  by (cases "nat_str n"; force simp: takeWhile_eq_all_conv)+

lemma parse_nat_str:
  assumes "n < 2 ^ 53"
  shows "parseInt10 (nat_str n) = Fin (of_nat n)" "parseFloat (nat_str n) = Fin (of_nat n)"
proof -
  show "parseInt10 (nat_str n) = Fin (of_nat n)"
    using fl_nat[OF assms] by (simp add: parseInt10_def nat_str_parts digits_val_nat_str)
  have "\<not> js_startsWith (nat_str n) ''Infinity''"
    using nat_str_no_lead(3)[of n] by (cases "nat_str n") auto
  then show "parseFloat (nat_str n) = Fin (of_nat n)"
    using fl_nat[OF assms]
    by (simp add: parseFloat_def nat_str_parts dec_prefix_def exp_part_def digits_val_nat_str)
qed

lemma trimmed_or_blank: "clean (jget c k) \<Longrightarrow> js_trim (or_blank c k) = or_blank c k"
  by (auto simp: clean_def or_blank_def js_or_def)

lemma devices_kept:
  "whole n v \<Longrightarrow> 0 < n \<Longrightarrow>
     JNum (Fin (num_or (parseInt10 (js_string (js_or v (JNum (Fin 1))))) 1)) = v"
  by (auto simp: whole_def js_or_def num_str_of_nat parse_nat_str num_or_def)

lemma traffic_kept:
  "v = JUndef \<or> (\<exists>n. whole n v) \<Longrightarrow>
     JNum (Fin (num_or (parseFloat (js_string (js_or v (JStr '''')))) 0)) = js_or v (JNum (Fin 0))"
proof -
  have "parseFloat '''' = NaN" by code_simp
  then show "v = JUndef \<or> (\<exists>n. whole n v) \<Longrightarrow> ?thesis"
    by (auto simp: whole_def js_or_def num_str_of_nat parse_nat_str num_or_def)
qed

lemma whole_minutes:
  "ms_of_fields tz ((fields_of tz t)\<lparr>f_sec := 0, f_ms := 0\<rparr>) = t - t mod 60000"
proof -
  let ?f = "fields_of tz t"
  let ?m = "(days_civil (f_year ?f) (f_month ?f) (f_day ?f) * 24 + f_hour ?f) * 60 + f_min ?f - tz"
  have f: "ms_of_fields tz ?f = t" "fields_ok ?f" using ms_of_fields_of by simp_all
  have t: "t = ?m * 60000 + (f_sec ?f * 1000 + f_ms ?f)" using f(1) by (simp add: ms_of_fields_def)
  have b: "0 \<le> f_sec ?f * 1000 + f_ms ?f" "f_sec ?f * 1000 + f_ms ?f < 60000"
    using f(2) by (auto simp: fields_ok_def)
  have "t mod 60000 = f_sec ?f * 1000 + f_ms ?f"
    using div_mod_small(2)[OF b, of ?m] t by simp
  then show ?thesis using t by (simp add: ms_of_fields_def)
qed

lemma expiry_kept:
  assumes "expiry_ok (de_tz env) v"
  shows "\<exists>s. formatToDateTimeString env v = Some s \<and> edit_expiry env s = kept_expiry v"
proof -
  obtain s where v: "v = JStr s" using assms by (auto simp: expiry_ok_def)
  show ?thesis
  proof (cases "js_startsWith s ''0001''")
    case True
    then show ?thesis
      by (simp add: v formatToDateTimeString_def edit_expiry_def kept_expiry_def)
  next
    case False
    then obtain t where t: "s \<noteq> ''''" "iso_ms s = Some t"
      "1000 \<le> f_year (fields_of (de_tz env) t)" "f_year (fields_of (de_tz env) t) \<le> 9999"
      using assms v by (auto simp: expiry_ok_def)
    let ?f = "fields_of (de_tz env) t"
    have ok: "fields_ok ?f" using ms_of_fields_of by simp
    have z: "s \<noteq> zero_time" using False by (auto simp: zero_time_def)
    have "formatToDateTimeString env v = Some (date_time_str ?f)"
      using t(1,2) False z by (simp add: v formatToDateTimeString_def date_of_def)
    moreover have "edit_expiry env (date_time_str ?f) = to_iso (t - t mod 60000)"
      using trimmed_date_time(2)[OF ok t(3,4)] local_fields_date_time[OF ok t(3,4)]
      by (simp add: edit_expiry_def date_input_def whole_minutes)
    ultimately show ?thesis using False t(2) by (simp add: v kept_expiry_def)
  qed
qed

lemma picker_set_selected:
  "pk_selected (snd (on_picker proto (SetTo v) (c, p))) = arr_elems v"
  by (simp add: load_then_def Let_def run_after_def renderTags_def)

lemma picker_act_selected:
  "pk_selected (ps_picker (picker_act proto f e s) f) =
     pk_selected (snd (on_picker proto e (ps_catalog s, ps_picker s f)))"
  by (simp add: picker_act_def split: prod.split)

lemma options_upd [view_simps]:
  "(\<And>e. el_options (g e) = el_options e) \<Longrightarrow> options_of (exec (upd i g) w) j = options_of w j"
  by (auto simp: options_of_def page_simps split: option.splits)

lemmas edit_views = fill_edit_def fill_edit_rest_def status_change_def edit_ids_def

lemma fill_edit_values:
  assumes "list_all (has_el w) edit_ids"
  shows "value_of (exec (fill_edit c) w) ''edit-client-id'' = js_string (jget c ''id'')"
    "value_of (exec (fill_edit c) w) ''edit-client-name'' = or_blank c ''name''"
    "value_of (exec (fill_edit c) w) ''edit-client-uuid'' = or_blank c ''uuid''"
    "value_of (exec (fill_edit c) w) ''edit-client-max-devices'' =
       js_string (js_or (jget c ''max_devices'') (JNum (Fin 1)))"
    "value_of (exec (fill_edit c) w) ''edit-client-ip'' = first_ip c"
    "value_of (exec (fill_edit c) w) ''edit-client-traffic'' = or_blank c ''traffic_limit_gb''"
    "value_of (exec (fill_edit c) w) ''edit-client-traffic-cycle'' =
       known_cycle (options_of w ''edit-client-traffic-cycle'') c"
  using assms by (simp_all add: edit_views view_simps)

lemma fill_rest_values:
  assumes "list_all (has_el w) edit_ids"
  shows "value_of (exec (fill_edit_rest c) w) i =
      (if i = ''edit-client-note'' then or_blank c ''note'' else value_of w i)"
    "checked_of (exec (fill_edit_rest c) w) ''edit-client-enabled'' = (jget c ''enabled'' \<noteq> JBool False)"
  using assms by (simp_all add: edit_views view_simps)

lemma has_el_fill [view_simps]:
  "has_el (exec (fill_edit c) w) i = has_el w i" "has_el (exec (fill_edit_rest c) w) i = has_el w i"
  by (simp_all add: edit_views view_simps)

lemma fill_keeps:
  "sent (exec (fill_edit c) w) = sent w" "sent (exec (fill_edit_rest c) w) = sent w"
  "authToken (exec (fill_edit c) w) = authToken w" "authToken (exec (fill_edit_rest c) w) = authToken w"
  "adminBase (exec (fill_edit c) w) = adminBase w" "adminBase (exec (fill_edit_rest c) w) = adminBase w"
  by (simp_all add: fill_edit_def fill_edit_rest_def status_change_def page_simps)

lemma edit_submit_sends:
  assumes "value_of (fm_dash s) ''edit-client-id'' = cid" "cid \<noteq> ''''"
  shows "sent (fm_dash (exec (edit_submit env) s)) = sent (fm_dash s) @
    [mk_req (fm_dash s) ''PUT'' (''/api/clients/'' @ cid) (edit_payload env s)]"
proof -
  have "sent (exec (edit_answered oc) w) = sent w" for oc w
    by (cases oc) (auto simp: edit_answered_def edit_close_def page_simps)
  then show ?thesis using assms by (simp add: edit_submit_def Let_def page_simps)
qed

definition edit_and_save :: "(string \<Rightarrow> string option) \<Rightarrow> denv \<Rightarrow> string \<Rightarrow> unit forms_page" where
  "edit_and_save proto env cid = do { edit_open proto env cid; edit_submit env }"

text \<open>
  C2. Opening a subscriber for editing and saving it without a change keeps the record: with the
  form's fields in place and a record as the daemon sends it (trimmed texts, whole numbers of
  devices and gigabytes, a time stamp of the years 1000 to 9999 or none), one PUT is sent whose
  body has the record's own name, UUID, first address, device and traffic limits, state, note
  and policies. Two things are not kept: the expiry loses its seconds, and a traffic cycle that
  the select does not offer becomes the empty cycle, which the daemon reads as "never".
\<close>

theorem edit_save_keeps_record:
  assumes "list_all (has_el (fm_dash s)) edit_ids" "cid \<noteq> ''''"
    and "find_client (fm_dash s) cid = Some c" "record_kept (de_tz env) c"
  shows "sent (fm_dash (exec (edit_and_save proto env cid) s)) = sent (fm_dash s) @
    [mk_req (fm_dash s) ''PUT'' (''/api/clients/'' @ cid)
      (kept_payload (options_of (fm_dash s) ''edit-client-traffic-cycle'') c)]"
proof -
  let ?w = "fm_dash s"
  obtain t where t: "formatToDateTimeString env (jget c ''expires_at'') = Some t"
    "edit_expiry env t = kept_expiry (jget c ''expires_at'')"
    using expiry_kept assms(4) by (auto simp: record_kept_def)
  have id: "jget c ''id'' = JStr cid"
    using assms(3) by (auto simp: find_client_def find_Some_iff)
  define s1 where "s1 = exec (edit_open proto env cid) s"
  let ?w1 = "exec (set_hidden ''edit-client-modal'' False) (exec (fill_edit_rest c) (exec (fill_edit c) ?w))"
  have d1: "fm_dash s1 = ?w1" "dp_input (fm_dates s1 EditForm) = t"
    "chosen_policies EditForm s1 = JArr (arr_elems (jget c ''custom_policies''))"
    using assms(3) t(1) picker_act_selected picker_set_selected
    by (simp_all add: s1_def edit_open_def chosen_policies_def)
  have el: "list_all (has_el (exec (fill_edit c) ?w)) edit_ids"
    using assms(1) by (simp add: edit_ids_def view_simps)
  note vals = fill_edit_values[OF assms(1), of c] fill_rest_values[OF el, of c]
  have kept: "js_trim (or_blank c ''name'') = or_blank c ''name''"
    "js_trim (or_blank c ''uuid'') = or_blank c ''uuid''" "js_trim (or_blank c ''note'') = or_blank c ''note''"
    "js_trim (first_ip c) = first_ip c"
    "JNum (Fin (num_or (parseInt10 (js_string (js_or (jget c ''max_devices'') (JNum (Fin 1))))) 1)) =
       jget c ''max_devices''"
    "JNum (Fin (num_or (parseFloat (or_blank c ''traffic_limit_gb'')) 0)) =
       js_or (jget c ''traffic_limit_gb'') (JNum (Fin 0))"
    using assms(4) trimmed_or_blank devices_kept traffic_kept
    by (auto simp: record_kept_def first_ip_def or_blank_def[of c "''traffic_limit_gb''"] split: list.splits)
  have "has_el ?w ''edit-client-enabled''" using assms(1) by (simp add: edit_ids_def)
  then have pay: "edit_payload env s1 = kept_payload (options_of ?w ''edit-client-traffic-cycle'') c"
    by (simp add: edit_payload_def Let_def kept_payload_def d1 vals view_simps trimmed_value_def t(2) kept)
  have cid: "value_of ?w1 ''edit-client-id'' = cid" by (simp add: vals view_simps id)
  have "mk_req ?w1 m p b = mk_req ?w m p b" "sent ?w1 = sent ?w" for m p b
    by (simp_all add: mk_req_def api_def page_simps fill_keeps)
  then have "sent (fm_dash (exec (edit_submit env) s1)) = sent ?w @
      [mk_req ?w ''PUT'' (''/api/clients/'' @ cid) (edit_payload env s1)]"
    using edit_submit_sends[of s1 cid env] assms(2) by (simp add: d1(1) cid)
  then show ?thesis by (simp add: edit_and_save_def s1_def[symmetric] pay)
qed

definition kept_record :: jsval where
  "kept_record = JObj [(''id'', JStr ''ab12''), (''name'', JStr ''Reza''), (''max_devices'', JNum (Fin (of_nat 3))),
     (''allowed_ips'', JArr [JStr ''192.0.2.7'']), (''expires_at'', JStr ''2027-05-06T07:08:09Z'')]"

definition sample_forms :: "outcome list \<Rightarrow> forms" where
  "sample_forms n =
     \<lparr>fm_dash = (sample_page JNull n)\<lparr>clientsDataCache := JObj [(''clients'', JArr [kept_record])]\<rparr>,
      fm_pickers = fresh_pickers, fm_dates = (\<lambda>f. blank_dpick)\<rparr>"

theorem edit_save_keeps_record_witness:
  "sent (fm_dash (exec (edit_and_save Map.empty noon_env ''ab12'') (sample_forms []))) =
    [mk_req (fm_dash (sample_forms [])) ''PUT'' ''/api/clients/ab12'' (kept_payload [] kept_record)]"
proof -
  let ?f = "\<lparr>f_year = 2027, f_month = 5, f_day = 6, f_hour = 10, f_min = 38, f_sec = 9, f_ms = 0\<rparr>"
  have "ms_of_fields 210 ?f = 1809587289000" "fields_ok ?f" by code_simp+
  then have y: "f_year (fields_of 210 1809587289000) = 2027"
    using fields_of_ms[of ?f 210] by simp
  have iso: "iso_ms ''2027-05-06T07:08:09Z'' = Some 1809587289000" by code_simp
  have tz: "de_tz noon_env = 210" by (simp add: noon_env_def)
  have tr: "js_trim ''Reza'' = ''Reza''" "js_trim ''192.0.2.7'' = ''192.0.2.7''" by code_simp+
  have "whole 3 (JNum (Fin (of_nat 3)))" by (simp add: whole_def)
  then have "record_kept (de_tz noon_env) kept_record"
    using y iso by (auto simp: tz tr record_kept_def kept_record_def clean_def expiry_ok_def intro!: exI[of _ 3])
  moreover have "find_client (fm_dash (sample_forms [])) ''ab12'' = Some kept_record"
    by (simp add: find_client_def sample_forms_def kept_record_def)
  moreover have "list_all (has_el (fm_dash (sample_forms []))) edit_ids"
    by (simp add: edit_ids_def sample_forms_def has_el_def sample_page_def)
  moreover have "options_of (fm_dash (sample_forms [])) i = []" for i
    by (simp add: options_of_def sample_forms_def blank_elem_def)
  ultimately show ?thesis
    using edit_save_keeps_record[of "sample_forms []" "''ab12''" kept_record noon_env Map.empty]
    by (simp add: sample_forms_def)
qed

section \<open>Creating a subscriber\<close>

lemma fetch_keeps_views [view_simps]:
  "value_of (exec (fetch_auth m p b) w) i = value_of w i"
  "has_el (exec (fetch_auth m p b) w) i = has_el w i"
  by (simp_all add: page_simps value_of_def has_el_def)

lemma loadClients_frame: "fm_pickers (exec (on_dash m) s) = fm_pickers s" "fm_dates (exec (on_dash m) s) = fm_dates s"
  by simp_all

lemma reset_form_parts:
  "fm_pickers (exec (resetAddClientForm proto env) s) = picker_act proto AddForm ResetPicker (fm_pickers s)"
  "fm_dates (exec (resetAddClientForm proto env) s) =
     (fm_dates s)(AddForm := applyDefaultDays env 30 (fm_dates s AddForm))"
  by (simp_all add: resetAddClientForm_def)

lemma add_created_parts:
  "fm_pickers (exec (add_created cenv proto env r) s) = picker_act proto AddForm ResetPicker (fm_pickers s)"
  "fm_dates (exec (add_created cenv proto env r) s) =
     (fm_dates s)(AddForm := applyDefaultDays env 30 (fm_dates s AddForm))"
  by (simp_all add: add_created_def Let_def reset_form_parts)

lemma select_search: "pk_search (select proto c xs p) = pk_search p"
  by (simp add: select_def renderTags_def renderDropdown_def)

lemma reset_picker:
  "ps_picker (picker_act proto AddForm ResetPicker ps) AddForm =
     select proto (ps_catalog ps) [] ((ps_picker ps AddForm)\<lparr>pk_search := '''', pk_open := False\<rparr>)"
  "ps_picker (picker_act proto AddForm ResetPicker ps) EditForm = ps_picker ps EditForm"
  by (simp_all add: picker_act_def)

definition created :: "outcome \<Rightarrow> bool" where
  "created oc \<longleftrightarrow> (\<exists>r. oc = Resp r \<and> rs_ok r)"

definition month_ahead :: "denv \<Rightarrow> string" where
  "month_ahead env = date_time_str (fields_of (de_tz env) (de_now env + thirty_days))"

lemma default_expiry: "dp_input (applyDefaultDays env 30 p) = month_ahead env"
  by (simp add: applyDefaultDays_def month_ahead_def applyToInput_def renderCalendarGrid_def
      take_moment_def Let_def date_time_str_def date_time_sep_def thirty_days_def)

text \<open>What the rest of a creation does not touch: the fields of the form, its dialog, the session.\<close>

definition add_form_ids :: "string set" where
  "add_form_ids = insert ''add-client-modal'' (fst ` set add_defaults)"

definition traffic_of :: "dash \<Rightarrow> request list \<times> string \<times> string" where
  "traffic_of w = (sent w, authToken w, adminBase w)"

lemma keeps_at [keeps_intros]: "i \<noteq> j \<Longrightarrow> keeps (\<lambda>w. dom w j) (upd i g)"
  by (simp add: keeps_def page_simps)

lemma keeps_at_prims [keeps_intros]:
  "keeps (\<lambda>w. dom w j) (showToast m ty)" "keeps (\<lambda>w. dom w j) (fetch_auth mt p b)"
  "keeps (\<lambda>w. dom w j) (modify (\<lambda>w. w\<lparr>clientsCards := c\<rparr>))"
  "keeps (\<lambda>w. dom w j) (modify (\<lambda>w. w\<lparr>clientsDataCache := d\<rparr>))"
  by (simp_all add: keeps_def page_simps)

lemma keeps_traffic [keeps_intros]:
  "keeps traffic_of (upd i g)" "keeps traffic_of (showToast m ty)"
  "keeps traffic_of (modify (\<lambda>w. w\<lparr>clientsCards := c\<rparr>))"
  "keeps traffic_of (modify (\<lambda>w. w\<lparr>clientsDataCache := d\<rparr>))"
  by (simp_all add: keeps_def page_simps traffic_of_def)

lemmas list_parts = list_loading_def list_answered_def list_read_def list_refused_def list_unreachable_def
  clientsPanelMessage_def showLoginModal_def renderClientsView_def access_mode_view_def
  paint_clients_def paint_cards_def

lemma keeps_list:
  "keeps traffic_of list_loading" "keeps traffic_of (list_answered cenv oc)"
  "j \<in> add_form_ids \<Longrightarrow> keeps (\<lambda>w. dom w j) (loadClients cenv)"
  unfolding loadClients_def list_parts Let_def
  by (auto simp: add_form_ids_def add_defaults_def intro!: keeps_intros split: outcome.split option.split jsval.split)

lemma keeps_created_modal:
  "keeps traffic_of (showClientCreatedModal c)"
  "j \<in> add_form_ids \<Longrightarrow> keeps (\<lambda>w. dom w j) (showClientCreatedModal c)"
  unfolding showClientCreatedModal_def
  by (auto simp: add_form_ids_def add_defaults_def intro!: keeps_intros)

lemma load_sends:
  "sent (exec (loadClients cenv) w) = sent w @
     (if authToken w = '''' then [] else [mk_req w ''GET'' ''/api/clients'' JUndef])"
proof -
  have "traffic_of (exec (list_answered cenv oc) v) = traffic_of v" for oc v
    by (rule keepsD[OF keeps_list(2)])
  moreover have "traffic_of (exec list_loading w) = traffic_of w" by (rule keepsD[OF keeps_list(1)])
  ultimately show ?thesis
    by (simp add: loadClients_def traffic_of_def page_simps mk_req_def api_def)
qed

lemma add_created_page:
  fixes cenv proto env r s
  defines "w \<equiv> fm_dash s" and "w' \<equiv> fm_dash (exec (add_created cenv proto env r) s)"
  shows "(i, v) \<in> set add_defaults \<Longrightarrow> has_el w i \<Longrightarrow> value_of w' i = v"
    "\<not> shown w' ''add-client-modal''"
    "sent w' = sent w @ (if authToken w = '''' then [] else [mk_req w ''GET'' ''/api/clients'' JUndef])"
proof -
  let ?c = "case rs_json r of None \<Rightarrow> JObj [] | Some j \<Rightarrow> j"
  define u where "u = exec (set_value ''client-max-devices'' ''2'') (exec (for_each (\<lambda>(i, v). set_value i v) add_defaults)
      (exec (set_hidden ''add-client-modal'' True) w))"
  define u' where "u' = exec (toast_msg ''Client account created!'' ''success'') u"
  have w': "w' = exec (loadClients cenv) (exec (showClientCreatedModal ?c) u')"
    by (simp add: w'_def w_def u_def u'_def add_created_def Let_def resetAddClientForm_def)
  have d: "dom w' j = dom u j" if "j \<in> add_form_ids" for j
  proof -
    have "dom w' j = dom u' j" using that keepsD[OF keeps_list(3)] keepsD[OF keeps_created_modal(2)] by (simp add: w')
    then show ?thesis by (simp add: u'_def page_simps)
  qed
  have t: "traffic_of u = traffic_of w"
    unfolding u_def add_defaults_def traffic_of_def by (simp add: page_simps)
  have "traffic_of u' = traffic_of u" unfolding u'_def by (rule keepsD, rule keeps_intros)
  then have t': "traffic_of (exec (showClientCreatedModal ?c) u') = traffic_of w"
    using keepsD[OF keeps_created_modal(1)] t by metis
  show "sent w' = sent w @ (if authToken w = '''' then [] else [mk_req w ''GET'' ''/api/clients'' JUndef])"
    unfolding w' load_sends using t' by (simp add: traffic_of_def mk_req_def api_def)
  have "\<not> shown u ''add-client-modal''"
    unfolding u_def add_defaults_def by (simp add: view_simps)
  then show "\<not> shown w' ''add-client-modal''"
    using d[of "''add-client-modal''"] by (simp add: shown_def add_form_ids_def)
  show "value_of w' i = v" if "(i, v) \<in> set add_defaults" "has_el w i"
  proof -
    have "value_of u i = v"
      unfolding u_def using that by (auto simp: add_defaults_def view_simps)
    moreover have "i \<in> add_form_ids" using that by (force simp: add_form_ids_def)
    ultimately show ?thesis using d[of i] by (simp add: value_of_def)
  qed
qed

text \<open>
  C17. A refused or unreachable creation loses nothing and an accepted one leaves nothing behind:
  a submit that finds its button enabled sends the plan of the form in one POST first. When the
  daemon does not accept it, that is all that was sent, every field, the chosen policies and the
  expiry stay as typed, one error is shown and the button works again. When it does, the dialog is
  closed and every field of the form is back at its default: no name, no volume, no cycle, no
  address, two devices, no policies and no search for them, an expiry a month ahead; the only
  other request is the list's, and the edit form's pickers are as they were.
\<close>

theorem create_outcomes:
  assumes "\<not> disabled_of (fm_dash s) add_submit_btn"
  shows "let oc = (case net (fm_dash s) of [] \<Rightarrow> NetErr | x # _ \<Rightarrow> x);
      s' = exec (add_submit cenv proto env) s; w = fm_dash s; w' = fm_dash s';
      post = mk_req w ''POST'' ''/api/clients/add'' (add_payload env s) in
    \<not> disabled_of w' add_submit_btn \<and>
    (if created oc then
       sent w' = sent w @ post #
         (if authToken w = '''' then [] else [mk_req w ''GET'' ''/api/clients'' JUndef]) \<and>
       \<not> shown w' ''add-client-modal'' \<and>
       (\<forall>(i, v) \<in> set add_defaults. has_el w i \<longrightarrow> value_of w' i = v) \<and>
       chosen_policies AddForm s' = JArr [] \<and> pk_search (ps_picker (fm_pickers s') AddForm) = '''' \<and>
       dp_input (fm_dates s' AddForm) = month_ahead env \<and>
       ps_picker (fm_pickers s') EditForm = ps_picker (fm_pickers s) EditForm \<and>
       fm_dates s' EditForm = fm_dates s EditForm
     else
       sent w' = sent w @ [post] \<and>
       fm_pickers s' = fm_pickers s \<and> fm_dates s' = fm_dates s \<and> value_of w' = value_of w \<and>
       (has_el w ''toast-container'' \<longrightarrow>
          length (toasts w') = Suc (length (toasts w)) \<and> t_tone (last (toasts w')) = ''error''))"
proof -
  let ?w = "fm_dash s"
  let ?oc = "case net ?w of [] \<Rightarrow> NetErr | x # _ \<Rightarrow> x"
  define s1 where "s1 = s\<lparr>fm_dash := exec (fetch_post ''/api/clients/add'' (add_payload env s))
      (exec (set_disabled add_submit_btn True) ?w)\<rparr>"
  have run: "exec (add_submit cenv proto env) s =
      exec (on_dash (set_disabled add_submit_btn False)) (exec (add_answered cenv proto env ?oc) s1)"
    using assms by (simp add: add_submit_def s1_def page_simps)
  have s1: "fm_pickers s1 = fm_pickers s" "fm_dates s1 = fm_dates s"
    "value_of (fm_dash s1) = value_of ?w" "has_el (fm_dash s1) = has_el ?w"
    "toasts (fm_dash s1) = toasts ?w" "authToken (fm_dash s1) = authToken ?w"
    "sent (fm_dash s1) = sent ?w @ [mk_req ?w ''POST'' ''/api/clients/add'' (add_payload env s)]"
    "mk_req (fm_dash s1) m p b = mk_req ?w m p b" for m p b
    by (simp_all add: s1_def fun_eq_iff view_simps) (simp_all add: page_simps mk_req_def api_def)
  show ?thesis
  proof (cases "created ?oc")
    case True
    then obtain r where r: "?oc = Resp r" "rs_ok r" by (auto simp: created_def)
    then have "add_answered cenv proto env ?oc = add_created cenv proto env r"
      by (simp add: add_answered_def)
    moreover have "sent (exec (set_disabled add_submit_btn False) w) = sent w" for w
      by (simp add: page_simps)
    ultimately show ?thesis
      using True add_created_page[where s = s1 and cenv = cenv and proto = proto and env = env and r = r]
      by (simp add: Let_def run add_created_parts s1 reset_picker select_search chosen_policies_def
          default_expiry view_simps case_prod_unfold)
  next
    case False
    then obtain msg where m: "add_answered cenv proto env ?oc = on_dash (toast_msg msg ''error'')"
      by (cases ?oc) (auto simp: add_answered_def created_def)
    have t: "toast_dot ''error'' = ''error''" by (simp add: toast_dot_def)
    show ?thesis
      using False s1 unfolding Let_def run m
      by (simp add: fun_eq_iff view_simps t) (simp add: page_simps t)
  qed
qed

theorem create_outcomes_witness:
  "sent (fm_dash (exec (add_submit sample_env Map.empty noon_env) (sample_forms [resp_ok JNull, NetErr]))) =
     [mk_req (fm_dash (sample_forms [])) ''POST'' ''/api/clients/add'' (add_payload noon_env (sample_forms [])),
      mk_req (fm_dash (sample_forms [])) ''GET'' ''/api/clients'' JUndef]"
proof -
  let ?s = "sample_forms [resp_ok JNull, NetErr]"
  have "\<not> disabled_of (fm_dash ?s) add_submit_btn"
    by (simp add: disabled_of_def sample_forms_def sample_page_def blank_elem_def)
  moreover have "mk_req (fm_dash ?s) m p b = mk_req (fm_dash (sample_forms [])) m p b" for m p b
    by (simp add: mk_req_def api_def sample_forms_def)
  moreover have "add_payload noon_env ?s = add_payload noon_env (sample_forms [])"
    by (simp add: add_payload_def sample_forms_def opt_trimmed_def chosen_policies_def trimmed_value_def
        has_el_def value_of_def)
  ultimately show ?thesis
    using create_outcomes[of ?s sample_env Map.empty noon_env]
    by (simp add: Let_def sample_forms_def created_def resp_ok_def rs_ok_def)
qed

end
