(* ===== verification/Panel_Settings.thy ===== *)
theory Panel_Settings
  imports Session Dialogs Time_Stamps
begin

text \<open>
  The settings that are not rules (app.js, initAPIEvents, initTelegramSettings,
  initBackupRestoreControls, initAdminPathControls; twofa.js, the save of the subscription
  settings): the master API key, the public bind of the API, the idle window of a session, the
  Telegram bot, backup and restore, the hidden admin path, the subscription portal.

  \<open>ask\<close> answers a dialog of the panel, \<open>conf\<close> the browser's own confirm. An answer whose JSON
  is null where a member of it is read raises a TypeError, which the handler's catch reports. A
  reload the code delays is written at once, texts cleared by a timer are left in place.
\<close>

section \<open>The master API key\<close>

definition toggle_key_mask :: "unit page" where
  "toggle_key_mask = do {
     modify (\<lambda>w. w\<lparr>isAPIKeyMasked := \<not> isAPIKeyMasked w\<rparr>);
     renderAPIKeyDisplay;
     w \<leftarrow> State_Monad.get;
     set_text ''toggle-api-key-visibility''
       (if isAPIKeyMasked w then ''<i data-feather=\"eye\" class=\"w-4 h-4\"></i>''
        else ''<i data-feather=\"eye-off\" class=\"w-4 h-4 text-cyan-400\"></i>'') }"

definition rotate_opts :: dialog_opts where
  "rotate_opts = confirm_opts\<lparr>o_destructive := True,
     o_title := ''Regenerate Master API Key?'',
     o_hint := ''EVERY INTEGRATION BREAKS IMMEDIATELY'',
     o_message := ''The current key stops working the moment the new one is issued. Every external bot, billing hook and script still holding the old key will start getting 401s until you update it by hand.'',
     o_confirmText := ''REGENERATE KEY''\<rparr>"

definition current_password_opts :: dialog_opts where
  "current_password_opts = prompt_opts\<lparr>
     o_title := ''Current Password'',
     o_message := ''Confirm your current admin password to authorise the rotation.'',
     o_label := ''CURRENT PASSWORD'', o_placeholder := ''current password'', o_mask := True\<rparr>"

definition totp_opts :: dialog_opts where
  "totp_opts = prompt_opts\<lparr>
     o_title := ''Two-Factor Code'',
     o_message := ''Enter the 6-digit code from your authenticator app to authorise the rotation.'',
     o_placeholder := ''6-digit code''\<rparr>"

definition with_server :: "jsval \<Rightarrow> jsval" where
  "with_server c =
     (let c1 = (if truthy c then c else JObj [(''server'', JObj [])]) in
      if truthy (cfg_server c1) then c1 else jset c1 ''server'' (JObj []))"

definition key_rotated :: "jsval \<Rightarrow> unit page" where
  "key_rotated data =
     (let newKey = js_or (jget data ''api_key'') (jget (jget data ''data'') ''api_key'') in
      if \<not> truthy newKey then toast_error ''Failed to regenerate API key''
      else do {
        w \<leftarrow> State_Monad.get;
        setConfig (with_server (currentConfig w));
        set_server ''api_key'' newKey;
        modify (\<lambda>w. w\<lparr>isAPIKeyMasked := False\<rparr>);
        renderAPIKeyDisplay;
        w \<leftarrow> State_Monad.get;
        updateCodeSnippets (js_or (jget (cfg_server (currentConfig w)) ''public_ip'') (JStr ''127.0.0.1'')) newKey;
        toast_msg ''Master API Key regenerated successfully!'' ''success'' })"

definition totp_on :: "dash \<Rightarrow> bool" where
  "totp_on w = truthy (jget (jget (currentConfig w) ''auth'') ''totp_enabled'')"

definition rotate_body :: "jsval \<Rightarrow> jsval \<Rightarrow> jsval" where
  "rotate_body password code =
     JObj [(''regenerate'', JBool True), (''current_password'', password),
       (''code'', JStr (js_trim (js_string (js_or code (JStr '''')))))]"

definition rotate_answered :: "outcome \<Rightarrow> unit page" where
  "rotate_answered oc =
     (case oc of NetErr \<Rightarrow> toast_error ''Error regenerating API key''
      | Resp r \<Rightarrow>
          if \<not> rs_ok r then toast_error (errorMessage r ''Failed to regenerate API key'')
          else case rs_json r of None \<Rightarrow> toast_error ''Error regenerating API key''
               | Some data \<Rightarrow>
                   if nullish data then toast_error ''Error regenerating API key'' else key_rotated data)"

definition regenerate_key :: "(dialog_opts \<Rightarrow> jsval) \<Rightarrow> unit page" where
  "regenerate_key ask = do {
     w \<leftarrow> State_Monad.get;
     let password = ask current_password_opts;
     let code = (if totp_on w then ask totp_opts else JStr '''');
     if \<not> truthy (ask rotate_opts) \<or> \<not> truthy password \<or> totp_on w \<and> \<not> truthy code then ret ()
     else do {
       oc \<leftarrow> fetch_post ''/api/settings/regenerate-api-key'' (rotate_body password code);
       rotate_answered oc } }"

section \<open>The public bind and the idle window\<close>

definition no_https_domain :: "dash \<Rightarrow> bool" where
  "no_https_domain w =
     (let d = jget (jget (currentConfig w) ''tls'') ''domain'' in
      \<not> truthy d \<or> js_trim (js_string d) = '''')"

definition bind_of :: "bool \<Rightarrow> string" where
  "bind_of public = (if public then ''0.0.0.0'' else ''127.0.0.1'')"

definition bind_stored :: "bool \<Rightarrow> jsval \<Rightarrow> unit page" where
  "bind_stored public data = do {
     w \<leftarrow> State_Monad.get;
     only_if (truthy (cfg_server (currentConfig w)))
       (set_server ''api_bind'' (js_or (jget data ''api_bind'') (JStr (bind_of public))));
     w \<leftarrow> State_Monad.get;
     painted \<leftarrow> renderConfig (currentConfig w);
     if painted then
       toast_msg (if public then ''Public REST API enabled '' @ u_dash @ '' external callers with a valid key are now accepted (0.0.0.0)''
                  else ''REST API restricted to localhost (127.0.0.1)'') ''success''
     else do {
       set_checked ''toggle-public-api'' (\<not> public);
       toast_error ''Error communicating with server'' } }"

definition public_api_change :: "unit page" where
  "public_api_change = do {
     w \<leftarrow> State_Monad.get;
     let public = checked_of w ''toggle-public-api'';
     if public \<and> no_https_domain w then do {
       set_checked ''toggle-public-api'' False;
       toast_error ''Cannot expose API to 0.0.0.0: Public API requires an active custom domain and HTTPS configured in Settings to protect credentials.'' }
     else do {
       oc \<leftarrow> fetch_post ''/api/settings'' (JObj [(''api_bind'', JStr (bind_of public))]);
       case oc of NetErr \<Rightarrow> do {
         set_checked ''toggle-public-api'' (\<not> public);
         toast_error ''Error communicating with server'' }
       | Resp r \<Rightarrow>
           if \<not> rs_ok r then do {
             set_checked ''toggle-public-api'' (\<not> public);
             toast_error (errorMessage r ''Failed to update API bind configuration'') }
           else bind_stored public (case rs_json r of None \<Rightarrow> JNull | Some d \<Rightarrow> d) } }"

definition idle_request :: "string \<Rightarrow> jsval option" where
  "idle_request value =
     (case str_to_num value of
        Fin x \<Rightarrow>
          if x < 5 \<or> 1440 < x then None
          else Some (JObj [(''session_idle_minutes'', JNum (Fin (of_int (js_round x))))])
      | _ \<Rightarrow> None)"

definition idle_answered :: "outcome \<Rightarrow> unit page" where
  "idle_answered oc =
     (case oc of NetErr \<Rightarrow> toast_error ''Error communicating with server''
      | Resp r \<Rightarrow>
          if \<not> rs_ok r then toast_error (errorMessage r ''Failed to save the session timeout'')
          else do {
            let server = jget (case rs_json r of None \<Rightarrow> JNull | Some d \<Rightarrow> d) ''server'';
            w \<leftarrow> State_Monad.get;
            only_if (truthy (cfg_server (currentConfig w)) \<and> truthy server)
              (set_server ''session_idle_minutes'' (jget server ''session_idle_minutes''));
            only_if (truthy server \<and> truthy (jget server ''session_idle_minutes''))
              (set_value ''session-idle-minutes'' (js_string (jget server ''session_idle_minutes'')));
            toast_msg ''Dashboard session timeout applied'' ''success'' })"

definition idle_save :: "unit page" where
  "idle_save = do {
     w \<leftarrow> State_Monad.get;
     case idle_request (value_of w ''session-idle-minutes'') of
       None \<Rightarrow> toast_error ''Enter a value between 5 and 1440 minutes''
     | Some body \<Rightarrow> do {
         set_disabled ''session-idle-save'' True;
         oc \<leftarrow> fetch_post ''/api/settings'' body;
         idle_answered oc;
         set_disabled ''session-idle-save'' False } }"

section \<open>The Telegram bot\<close>

definition put_if :: "string \<Rightarrow> jsval \<Rightarrow> unit page" where
  "put_if i v = only_if (truthy v) (set_value i (js_string v))"

definition telegram_fields :: "(string \<times> string) list" where
  "telegram_fields = [(''telegram-token-input'', ''bot_token''),
     (''telegram-admin-id-input'', ''admin_chat_ids''), (''telegram-channel-id-input'', ''channel_id''),
     (''telegram-support-user-input'', ''support_username''),
     (''telegram-card-number-input'', ''card_number''), (''telegram-card-holder-input'', ''card_holder'')]"

definition telegram_loaded :: "jsval \<Rightarrow> unit page" where
  "telegram_loaded data = do {
     let cfg = js_or (jget data ''config'') (JObj []);
     set_checked ''telegram-enabled-input'' (truthy (jget cfg ''enabled''));
     for_each (\<lambda>(i, k). put_if i (jget cfg k)) telegram_fields;
     set_checked ''telegram-trial-enabled-input'' (jget cfg ''trial_enabled'' \<noteq> JBool False);
     put_if ''telegram-trial-days-input'' (jget cfg ''trial_days'');
     put_if ''telegram-trial-gb-input'' (jget cfg ''trial_traffic_gb'');
     put_if ''telegram-price-input'' (jget cfg ''monthly_price_toman'') }"

definition loadTelegramConfig :: "unit page" where
  "loadTelegramConfig = do {
     oc \<leftarrow> fetch_get ''/api/config/telegram'';
     case oc of NetErr \<Rightarrow> ret ()
     | Resp r \<Rightarrow>
         if \<not> rs_ok r then ret ()
         else case rs_json r of None \<Rightarrow> ret ()
              | Some data \<Rightarrow> only_if (\<not> nullish data) (telegram_loaded data) }"

definition text_input :: "dash \<Rightarrow> string \<Rightarrow> string \<Rightarrow> jsval" where
  "text_input w i missing = JStr (if has_el w i then js_trim (value_of w i) else missing)"

definition telegram_payload :: "dash \<Rightarrow> jsval" where
  "telegram_payload w =
     JObj ([(''enabled'', JBool (checked_of w ''telegram-enabled-input''))] @
       map (\<lambda>(i, k). (k, text_input w i '''')) telegram_fields @
       [(''trial_enabled'', JBool (\<not> has_el w ''telegram-trial-enabled-input'' \<or>
            checked_of w ''telegram-trial-enabled-input'')),
        (''trial_days'', JNum (Fin (num_or (parseInt10 (value_of w ''telegram-trial-days-input'')) 1))),
        (''trial_traffic_gb'', JNum (Fin (num_or (parseFloat (value_of w ''telegram-trial-gb-input'')) 2))),
        (''monthly_price_toman'', text_input w ''telegram-price-input''
            (''120,000'' @ hx ''20D8AAD988D985D8A7D986''))])"

text \<open>A refusal's reason as two of the handlers read it: the error member or a fixed text.\<close>

definition plain_error :: "response \<Rightarrow> string \<Rightarrow> jsval option" where
  "plain_error r fallback =
     (let err = (case rs_json r of None \<Rightarrow> JObj [] | Some j \<Rightarrow> j) in
      if nullish err then None else Some (js_or (jget err ''error'') (JStr fallback)))"

definition telegram_answered :: "outcome \<Rightarrow> unit page" where
  "telegram_answered oc =
     (case oc of NetErr \<Rightarrow> do {
          toast_error ''Error connecting to server''; set_text ''telegram-save-status'' ''Error'' }
      | Resp r \<Rightarrow>
          if rs_ok r then do {
            toast_msg ''Telegram bot settings saved successfully!'' ''success'';
            set_text ''telegram-save-status'' ''Saved!'' }
          else do {
            (case plain_error r ''Failed to save telegram settings'' of
               None \<Rightarrow> toast_error ''Error connecting to server'' | Some m \<Rightarrow> showToast m ''error'');
            set_text ''telegram-save-status'' ''Error'' })"

definition telegram_save :: "unit page" where
  "telegram_save = do {
     set_disabled ''telegram-save-btn'' True;
     set_text ''telegram-save-status'' (''Saving'' @ u_ellipsis);
     w \<leftarrow> State_Monad.get;
     oc \<leftarrow> fetch_post ''/api/config/telegram'' (telegram_payload w);
     telegram_answered oc;
     set_disabled ''telegram-save-btn'' False }"

section \<open>Backup and restore\<close>

definition backup_name :: "moment \<Rightarrow> string" where
  "backup_name f =
     ''jozmozdns-backup-'' @ int_str (f_year f) @ ''-'' @ pad2 (f_month f) @ ''-'' @ pad2 (f_day f) @
     ''_'' @ pad2 (f_hour f) @ pad2 (f_min f) @ ''.db''"

text \<open>The name of the file handed to the browser, if any.\<close>

definition download_backup :: "moment \<Rightarrow> string option page" where
  "download_backup now = do {
     set_disabled ''btn-download-backup'' True;
     oc \<leftarrow> fetch_get ''/api/system/backup'';
     file \<leftarrow> (case oc of NetErr \<Rightarrow> do { toast_error ''Backup download failed''; ret None }
       | Resp r \<Rightarrow>
           if \<not> rs_ok r then do { toast_error ''Failed to download database backup''; ret None }
           else if rs_text r = None then do { toast_error ''Backup download failed''; ret None }
           else do {
             toast_msg ''Database backup downloaded successfully'' ''success'';
             ret (Some (backup_name now)) });
     set_disabled ''btn-download-backup'' False;
     ret file }"

definition restore_question :: "string \<Rightarrow> string" where
  "restore_question name = ''Are you sure you want to restore the database from \"'' @ name @
     ''\"? This will overwrite all active subscribers, rules, and settings.''"

definition restore_answered :: "outcome \<Rightarrow> unit page" where
  "restore_answered oc =
     (case oc of NetErr \<Rightarrow> do {
          toast_error ''Error communicating with server during restore'';
          set_text ''restore-status'' ''Error'' }
      | Resp r \<Rightarrow>
          if rs_ok r then do {
            toast_msg (''Database restored successfully! Reloading data'' @ u_ellipsis) ''success'';
            set_text ''restore-status'' ''Restored!'';
            navigate NavReload }
          else case plain_error r ''Failed to restore database'' of
            None \<Rightarrow> do {
              toast_error ''Error communicating with server during restore'';
              set_text ''restore-status'' ''Error'' }
          | Some m \<Rightarrow> do { showToast m ''error''; set_text ''restore-status'' ''Failed'' })"

definition restore_backup :: "(string \<Rightarrow> bool) \<Rightarrow> string option \<Rightarrow> unit page" where
  "restore_backup conf file =
     (case file of None \<Rightarrow> ret ()
      | Some name \<Rightarrow>
          if \<not> conf (restore_question name) then set_value ''restore-file-input'' ''''
          else do {
            set_disabled ''btn-restore-backup'' True;
            set_text ''restore-status'' (''Restoring'' @ u_ellipsis);
            oc \<leftarrow> fetch_post ''/api/system/restore'' (JObj [(''backup_file'', JStr name)]);
            restore_answered oc;
            set_disabled ''btn-restore-backup'' False;
            set_value ''restore-file-input'' '''' })"

section \<open>The hidden admin path\<close>

definition path_question :: string where
  "path_question = ''Regenerate the hidden admin path? Every bookmark, integration and session under the old path stops working immediately, and you will be signed out.''"

definition new_address :: "dash \<Rightarrow> string \<Rightarrow> string" where
  "new_address w p =
     (if adminBase w = ''/'' @ p then dash_base w @ ''/''
      else l_origin (loc w) @ ''/'' @ p @ ''/dash/login'')"

definition path_changed :: "jsval \<Rightarrow> unit page" where
  "path_changed data = do {
     let newPath = js_or (jget data ''admin_path'') (JStr '''');
     removeItem ''jozmozdns_token'';
     removeItem ''JozmozDNS_token'';
     setToken '''';
     w \<leftarrow> State_Monad.get;
     if truthy newPath then do {
       toast_msg ''Admin path regenerated. Sign in at the new address.'' ''success'';
       navigate (NavTo (new_address w (js_string newPath))) }
     else navigate NavReload }"

definition regenerate_admin_path :: "(string \<Rightarrow> bool) \<Rightarrow> unit page" where
  "regenerate_admin_path conf = do {
     set_hidden ''admin-path-warn'' False;
     if \<not> conf path_question then ret ()
     else do {
       set_disabled ''regen-admin-path-btn'' True;
       oc \<leftarrow> fetch_post ''/api/settings/regenerate-admin-path'' (JObj [(''confirm'', JBool True)]);
       (case oc of NetErr \<Rightarrow> toast_error ''Could not reach the server.''
        | Resp r \<Rightarrow>
            if \<not> rs_ok r then toast_error (errorMessage r ''Failed to regenerate the admin path'')
            else path_changed (case rs_json r of None \<Rightarrow> JObj [] | Some d \<Rightarrow> d));
       set_disabled ''regen-admin-path-btn'' False } }"

section \<open>The subscription portal\<close>

definition subscription_payload :: "dash \<Rightarrow> jsval" where
  "subscription_payload w =
     JObj [(''enabled'', JBool (\<not> has_el w ''sub-enabled-input'' \<or> checked_of w ''sub-enabled-input'')),
       (''domain'', JStr (js_trim (value_of w ''sub-domain-input''))),
       (''port'', JNum (Fin (num_or (parseInt10 (value_of w ''sub-port-input'')) 0))),
       (''uri_path'', JStr ''/sub''),
       (''title'', JStr (js_trim (value_of w ''sub-title-input''))),
       (''theme_css'', JStr '''')]"

definition put_config :: "string \<Rightarrow> jsval \<Rightarrow> unit page" where
  "put_config k v = modify (\<lambda>w. w\<lparr>currentConfig := jset (currentConfig w) k v\<rparr>)"

definition subscription_stored :: "jsval \<Rightarrow> unit page" where
  "subscription_stored data = do {
     w \<leftarrow> State_Monad.get;
     let known = truthy (currentConfig w);
     only_if (truthy (jget data ''subscription'') \<and> known)
       (do { put_config ''subscription'' (jget data ''subscription''); renderSubscriptionSettings });
     only_if ((case jget data ''subscription_origin'' of JStr s \<Rightarrow> True | _ \<Rightarrow> False) \<and> known)
       (put_config ''subscription_origin'' (jget data ''subscription_origin''));
     spawn TLoadClients;
     if truthy (jget data ''listener_error'') then do {
       set_text ''sub-save-status'' ''Saved, but the portal listener could not start.'';
       toast_error (''Subscription saved, but the portal port could not be opened: '' @
         js_string (jget data ''listener_error'')) }
     else do {
       set_text ''sub-save-status''
         (if truthy (jget data ''restart_required'') then ''Saved '' @ u_dash @ '' restart required.'' else ''Saved.'');
       toast_msg ''Subscription settings saved.'' ''success'' } }"

definition subscription_save :: "unit page" where
  "subscription_save = do {
     w \<leftarrow> State_Monad.get;
     set_disabled ''save-subscription-btn'' True;
     set_text ''sub-save-status'' (''Saving'' @ u_ellipsis);
     oc \<leftarrow> fetch_post ''/api/settings/subscription'' (subscription_payload w);
     (case oc of NetErr \<Rightarrow> do {
          set_text ''sub-save-status'' ''''; toast_error ''Could not reach the server.'' }
      | Resp r \<Rightarrow>
          if \<not> rs_ok r then do {
            set_text ''sub-save-status'' '''';
            toast_error (errorMessage r ''The server refused the subscription settings'') }
          else subscription_stored (case rs_json r of None \<Rightarrow> JObj [] | Some d \<Rightarrow> d));
     set_disabled ''save-subscription-btn'' False }"

section \<open>Consent before the key is rotated\<close>

definition consents :: "(dialog_opts \<Rightarrow> jsval) \<Rightarrow> dash \<Rightarrow> bool" where
  "consents ask w \<longleftrightarrow> truthy (ask rotate_opts) \<and> truthy (ask current_password_opts) \<and>
     (totp_on w \<longrightarrow> truthy (ask totp_opts))"

definition rotation_code :: "(dialog_opts \<Rightarrow> jsval) \<Rightarrow> dash \<Rightarrow> jsval" where
  "rotation_code ask w = (if totp_on w then ask totp_opts else JStr '''')"

lemma keeps_sent_paint [keeps_intros]:
  "keeps sent (upd i f)" "keeps sent (showToast m ty)" "keeps sent (setConfig c)"
  "keeps sent (set_server k v)" "keeps sent (modify (isAPIKeyMasked_update g))"
  by (simp_all add: keeps_def page_simps set_server_def)

lemma keeps_sent_rotated: "keeps sent (rotate_answered oc)"
  unfolding rotate_answered_def key_rotated_def Let_def renderAPIKeyDisplay_def updateCodeSnippets_def
  by (auto intro!: keeps_intros)

lemma keeps_config_toast [keeps_intros]: "keeps currentConfig (toast_error m)"
  by (auto intro: keeps_intros)

text \<open>
  C10. The master key is never rotated without consent: exactly one request leaves the panel if
  the operator confirmed the warning, typed the current password and, with two-factor sign-in
  on, a code, and none otherwise; the request carries that password and code. The key the panel
  holds changes only after a 2xx answer that brings a new key.
\<close>

theorem key_rotation_consent:
  "let w' = exec (regenerate_key ask) w; oc = (case net w of [] \<Rightarrow> NetErr | x # _ \<Rightarrow> x) in
   sent w' = sent w @ (if consents ask w then
     [mk_req w ''POST'' ''/api/settings/regenerate-api-key''
       (rotate_body (ask current_password_opts) (rotation_code ask w))] else []) \<and>
   (currentConfig w' = currentConfig w \<or>
    (\<exists>r data. consents ask w \<and> oc = Resp r \<and> rs_ok r \<and> rs_json r = Some data \<and>
       truthy (js_or (jget data ''api_key'') (jget (jget data ''data'') ''api_key''))))"
proof (cases "consents ask w")
  case False
  then show ?thesis by (auto simp: regenerate_key_def consents_def Let_def)
next
  case True
  let ?b = "rotate_body (ask current_password_opts) (rotation_code ask w)"
  let ?w1 = "exec (fetch_post ''/api/settings/regenerate-api-key'' ?b) w"
  let ?oc = "case net w of [] \<Rightarrow> NetErr | x # _ \<Rightarrow> x"
  have e: "exec (regenerate_key ask) w = exec (rotate_answered ?oc) ?w1"
    using True by (auto simp: regenerate_key_def consents_def Let_def rotation_code_def page_simps)
  have s: "sent (exec (regenerate_key ask) w) = sent w @ [mk_req w ''POST'' ''/api/settings/regenerate-api-key'' ?b]"
    unfolding e keepsD[OF keeps_sent_rotated] by (simp add: page_simps)
  have c: "currentConfig ?w1 = currentConfig w" by (simp add: page_simps)
  show ?thesis
  proof (cases "\<exists>r data. ?oc = Resp r \<and> rs_ok r \<and> rs_json r = Some data \<and>
       truthy (js_or (jget data ''api_key'') (jget (jget data ''data'') ''api_key''))")
    case False
    then have "keeps currentConfig (rotate_answered ?oc)"
      unfolding rotate_answered_def key_rotated_def Let_def
      by (auto intro!: keeps_intros split: outcome.split option.split)
    then show ?thesis using s c True unfolding Let_def e by (simp add: keepsD)
  qed (use True s in \<open>auto simp: Let_def\<close>)
qed

section \<open>The idle window\<close>

lemma js_round_bounds: "5 \<le> x \<Longrightarrow> x \<le> 1440 \<Longrightarrow> 5 \<le> js_round x \<and> js_round x \<le> 1440"
  by (auto simp: js_round_def le_floor_iff floor_le_iff)

lemma keeps_sent_idle: "keeps sent (idle_answered oc)"
  unfolding idle_answered_def Let_def by (auto intro!: keeps_intros split: outcome.split)

text \<open>
  C31. The idle window the panel asks for is a whole number of minutes from 5 to 1440, whatever
  is typed: the nearest one to the number in the field; anything else sends nothing and changes
  nothing, and says why.
\<close>

theorem idle_window_bounds:
  "if \<exists>x. str_to_num (value_of w ''session-idle-minutes'') = Fin x \<and> 5 \<le> x \<and> x \<le> 1440
   then \<exists>x m. str_to_num (value_of w ''session-idle-minutes'') = Fin x \<and> 5 \<le> m \<and> m \<le> 1440 \<and>
      \<bar>of_int m - x\<bar> \<le> 1 / 2 \<and>
      sent (exec idle_save w) = sent w @ [mk_req w ''POST'' ''/api/settings''
        (JObj [(''session_idle_minutes'', JNum (Fin (of_int m)))])]
   else exec idle_save w = exec (toast_error ''Enter a value between 5 and 1440 minutes'') w"
proof (cases "\<exists>x. str_to_num (value_of w ''session-idle-minutes'') = Fin x \<and> 5 \<le> x \<and> x \<le> 1440")
  case True
  then obtain x where x: "str_to_num (value_of w ''session-idle-minutes'') = Fin x" "5 \<le> x" "x \<le> 1440"
    by blast
  let ?b = "JObj [(''session_idle_minutes'', JNum (Fin (of_int (js_round x))))]"
  have "idle_request (value_of w ''session-idle-minutes'') = Some ?b"
    using x by (simp add: idle_request_def)
  then have "sent (exec idle_save w) = sent w @ [mk_req w ''POST'' ''/api/settings'' ?b]"
    using keepsD[OF keeps_sent_idle] keepsD[OF keeps_sent_paint(1)]
    by (simp add: idle_save_def) (simp add: page_simps mk_req_def api_def)
  moreover have "\<bar>of_int (js_round x) - x\<bar> \<le> 1 / 2"
    unfolding js_round_def using floor_correct[of "x + 1 / 2"] by linarith
  ultimately show ?thesis using True x js_round_bounds[OF x(2,3)] by auto
next
  case False
  then have "idle_request (value_of w ''session-idle-minutes'') = None"
    by (auto simp: idle_request_def not_less split: jsnum.split)
  then show ?thesis unfolding if_not_P[OF False] by (simp add: idle_save_def)
qed

section \<open>The public bind\<close>

text \<open>The switch shows the bind the panel holds.\<close>

definition bind_shown :: "dash \<Rightarrow> bool" where
  "bind_shown w \<longleftrightarrow> checked_of w ''toggle-public-api'' =
     (jget (cfg_server (currentConfig w)) ''api_bind'' = JStr ''0.0.0.0'')"

lemma bind_after_rest:
  assumes "has_el w ''toggle-public-api''"
  shows "checked_of (exec (render_rest c) w) ''toggle-public-api'' =
    (jget (cfg_server c) ''api_bind'' = JStr ''0.0.0.0'')"
proof -
  have pre: "keeps (\<lambda>w. has_el w ''toggle-public-api'') (do { render_guide c; render_tls c; renderAPIKeyDisplay })"
    by (auto simp: render_defs Let_def intro!: keeps_intros)
  let ?w1 = "exec (do { render_guide c; render_tls c; renderAPIKeyDisplay }) w"
  have el: "has_el ?w1 ''toggle-public-api''" using keepsD[OF pre] assms by simp
  have "checked_of (exec (render_bind c) ?w1) ''toggle-public-api'' =
      (jget (cfg_server c) ''api_bind'' = JStr ''0.0.0.0'')"
    using el by (auto simp: render_bind_def Let_def view_simps js_or_def split: if_splits)
  moreover have "keeps (\<lambda>w. checked_of w ''toggle-public-api'')
      (do { updateCodeSnippets a b; render_switches c; render_lists c })" for a b
  proof -
    have "keeps (\<lambda>w. checked_of w ''toggle-public-api'') (render_switches c)"
    proof -
      have "map_of render_table ''toggle-public-api'' = None" by code_simp
      then show ?thesis
        by (simp add: keeps_def render_switches_def checked_setSwitch checked_for_each_switch
            render_table_distinct)
    qed
    then show ?thesis
      by (auto simp: updateCodeSnippets_def Let_def intro!: keeps_intros keeps_checked_lists)
  qed
  ultimately show ?thesis by (simp add: render_rest_def keeps_def)
qed

lemma bind_after_render:
  assumes "is_obj c" "\<not> nullish (cfg_server c)" "has_el w ''toggle-public-api''"
  shows "bind_shown (exec (renderConfig c) w)"
proof -
  obtain w1 where w1: "exec (renderConfig c) w = exec (render_rest (normalise c)) w1"
    "has_el w1 ''toggle-public-api''"
    using renderConfig_run(1)[OF assms(1,2), of w] assms(3) by metis
  have "currentConfig (exec (renderConfig c) w) = normalise c"
    using renderConfig_run(3)[OF assms(1,2)] by simp
  then show ?thesis using bind_after_rest[OF w1(2)] w1(1) by (simp add: bind_shown_def)
qed

text \<open>The operator flips the switch, then its handler runs.\<close>

definition flip_public_api :: "unit page" where
  "flip_public_api = do {
     upd ''toggle-public-api'' (\<lambda>e. e\<lparr>el_checked := \<not> el_checked e\<rparr>);
     public_api_change }"

lemma bind_shown_toast [simp]: "bind_shown (exec (showToast m ty) w) = bind_shown w"
  by (simp add: bind_shown_def view_simps) (simp add: page_simps)

lemma bind_shown_set:
  "has_el w ''toggle-public-api'' \<Longrightarrow>
     bind_shown (exec (set_checked ''toggle-public-api'' b) w) =
       (b = (jget (cfg_server (currentConfig w)) ''api_bind'' = JStr ''0.0.0.0''))"
  by (simp add: bind_shown_def view_simps) (simp add: page_simps)

lemma bind_stored_shown:
  assumes "is_obj (currentConfig w)" "is_obj (cfg_server (currentConfig w))"
    "has_el w ''toggle-public-api''"
  shows "bind_shown (exec (bind_stored public data) w)"
proof -
  have t: "truthy (cfg_server (currentConfig w))" using assms(2) by (cases "cfg_server (currentConfig w)") auto
  let ?w1 = "exec (set_server ''api_bind'' (js_or (jget data ''api_bind'') (JStr (bind_of public)))) w"
  have w1: "is_obj (currentConfig ?w1)" "is_obj (cfg_server (currentConfig ?w1))" "has_el ?w1 ''toggle-public-api''"
    using assms by (simp_all add: set_server_def has_el_def)
  have n: "\<not> nullish (cfg_server (currentConfig ?w1))"
    using w1(2) by (cases "cfg_server (currentConfig ?w1)") auto
  have "bind_shown (exec (renderConfig (currentConfig ?w1)) ?w1)"
    by (rule bind_after_render[OF w1(1) n w1(3)])
  then show ?thesis
    using renderConfig_run(2)[OF w1(1) n] t by (simp add: bind_stored_def)
qed

text \<open>
  The switch of the public API never lies: if it shows the bind the panel holds, then after
  the operator flips it it still does, whatever the daemon answers, and without an HTTPS domain
  flipping it on sends nothing.
\<close>

theorem public_switch_truthful:
  assumes "bind_shown w" "has_el w ''toggle-public-api''"
    and "is_obj (currentConfig w)" "is_obj (cfg_server (currentConfig w))"
  shows "bind_shown (exec flip_public_api w) \<and>
    (\<not> checked_of w ''toggle-public-api'' \<and> no_https_domain w \<longrightarrow> sent (exec flip_public_api w) = sent w)"
proof -
  let ?i = "''toggle-public-api''"
  define w1 where "w1 = exec (upd ?i (\<lambda>e. e\<lparr>el_checked := \<not> el_checked e\<rparr>)) w"
  have w1: "checked_of w1 ?i = (\<not> checked_of w ?i)" "has_el w1 ?i" "currentConfig w1 = currentConfig w"
    "sent w1 = sent w" "no_https_domain w1 = no_https_domain w"
    using assms(2) by (auto simp: w1_def checked_of_upd has_el_upd) (auto simp: w1_def page_simps
        checked_of_def has_el_def no_https_domain_def split: option.splits)
  have e: "exec flip_public_api w = exec public_api_change w1"
    by (simp add: flip_public_api_def w1_def)
  have old: "checked_of w ?i = (jget (cfg_server (currentConfig w)) ''api_bind'' = JStr ''0.0.0.0'')"
    using assms(1) by (simp add: bind_shown_def)
  show ?thesis
  proof (cases "\<not> checked_of w ?i \<and> no_https_domain w")
    case True
    then show ?thesis
      using w1 old by (simp add: e public_api_change_def Let_def bind_shown_set) (simp add: page_simps)
  next
    case False
    let ?public = "\<not> checked_of w ?i"
    let ?w2 = "exec (fetch_post ''/api/settings'' (JObj [(''api_bind'', JStr (bind_of ?public))])) w1"
    have w2: "currentConfig ?w2 = currentConfig w" "has_el ?w2 ?i"
      using w1 by (simp_all add: view_simps) (simp add: page_simps w1)
    have "bind_shown (exec (do { set_checked ?i (\<not> ?public); toast_error m }) ?w2)" for m
      using old w2 by (simp add: bind_shown_set)
    moreover have "bind_shown (exec (bind_stored ?public d) ?w2)" for d
      using bind_stored_shown[of ?w2] assms(3,4) w2 by simp
    ultimately show ?thesis
      using False w1 by (auto simp: e public_api_change_def Let_def split: outcome.split)
  qed
qed

theorem public_switch_truthful_witness:
  "bind_shown (exec flip_public_api (sample_page (JObj [(''server'', JObj [])]) [NetErr])) \<and>
   sent (exec flip_public_api (sample_page (JObj [(''server'', JObj [])]) [NetErr])) = []"
proof -
  let ?w = "sample_page (JObj [(''server'', JObj [])]) [NetErr]"
  have "checked_of ?w ''toggle-public-api'' = False" by (simp add: checked_of_def blank_elem_def)
  then show ?thesis
    using public_switch_truthful[of ?w] by (simp add: bind_shown_def no_https_domain_def Let_def)
qed

section \<open>The hidden path\<close>

definition session_of :: "dash \<Rightarrow> string \<times> string option \<times> string option" where
  "session_of w = (authToken w, storage w ''jozmozdns_token'', storage w ''JozmozDNS_token'')"

text \<open>
  Changing the hidden path ends the session with it and nothing else does: the panel asks
  the daemon only after the operator confirmed, in exactly one request; after a 2xx answer no
  copy of the token is left, in memory or in storage, and the browser leaves the page; on every
  other outcome the session is untouched and the page stays.
\<close>

theorem path_change_session:
  "let w' = exec (regenerate_admin_path conf) w; oc = (case net w of [] \<Rightarrow> NetErr | x # _ \<Rightarrow> x);
       done = (conf path_question \<and> (\<exists>r. oc = Resp r \<and> rs_ok r)) in
   sent w' = sent w @ (if conf path_question then
     [mk_req w ''POST'' ''/api/settings/regenerate-admin-path'' (JObj [(''confirm'', JBool True)])] else []) \<and>
   session_of w' = (if done then ('''', None, None) else session_of w) \<and>
   length (navs w') = length (navs w) + (if done then 1 else 0)"
proof -
  have p: "sent (exec (path_changed d) w) = sent w" "session_of (exec (path_changed d) w) = ('''', None, None)"
    "length (navs (exec (path_changed d) w)) = Suc (length (navs w))" for d w
    by (auto simp: path_changed_def Let_def page_simps session_of_def)
  have t: "sent (exec (toast_error m) w) = sent w" "session_of (exec (toast_error m) w) = session_of w"
    "navs (exec (toast_error m) w) = navs w" for m w
    by (simp_all add: page_simps session_of_def)
  have u: "sent (exec (upd i f) w) = sent w" "session_of (exec (upd i f) w) = session_of w"
    "navs (exec (upd i f) w) = navs w" "net (exec (upd i f) w) = net w"
    "mk_req (exec (upd i f) w) m q b = mk_req w m q b" for i f w m q b
    by (simp_all add: page_simps session_of_def mk_req_def api_def)
  have f: "sent (exec (fetch_auth m q b) w) = sent w @ [mk_req w m q b]"
    "session_of (exec (fetch_auth m q b) w) = session_of w" "navs (exec (fetch_auth m q b) w) = navs w"
    "result (fetch_auth m q b) w = (case net w of [] \<Rightarrow> NetErr | x # _ \<Rightarrow> x)" for m q b w
    by (simp_all add: page_simps session_of_def)
  show ?thesis
    by (cases "conf path_question")
      (auto simp: regenerate_admin_path_def Let_def u f p t split: outcome.split)
qed

end
