(* ===== verification/Panel_Actions.thy ===== *)
theory Panel_Actions
  imports Telemetry Session Dialogs Single_Flight
begin

text \<open>
  The buttons that ask the daemon to do something (app.js, initEventListeners and
  runFullDiagnostics): restart, upstreams, cache flush, benchmark, the diagnostics run, the
  certificate buttons with their progress poll, and copying to the clipboard.

  \<open>ask\<close> answers a dialog. The poll of the certificate status reads the outcomes of the page's
  network; when there are no more, fetching fails, so the poll of a page ends. Classes that only
  dim a busy button are left out.
\<close>

section \<open>Restart, upstreams, cache and benchmark\<close>

definition restart_opts :: dialog_opts where
  "restart_opts = confirm_opts\<lparr>o_destructive := True,
     o_title := ''Restart the Core Engine?'',
     o_hint := ''IN-FLIGHT QUERIES AND RELAYS ARE DROPPED'',
     o_message := ''All policies are reloaded from the database. Listeners go down and come back up, so queries and relays in flight at that moment are lost and clients retry.'',
     o_confirmText := ''RESTART ENGINE''\<rparr>"

definition triggerRestart :: "(dialog_opts \<Rightarrow> jsval) \<Rightarrow> unit page" where
  "triggerRestart ask =
     (if \<not> truthy (ask restart_opts) then ret ()
      else do {
        oc \<leftarrow> fetch_post ''/api/server/restart'' JUndef;
        case oc of NetErr \<Rightarrow> toast_error ''Failed to restart engine''
        | Resp r \<Rightarrow>
            if rs_ok r then do {
              toast_msg ''Core Engine restarted & rules reloaded!'' ''success'';
              spawn TUpdateStats }
            else toast_error (errorMessage r ''Failed to restart engine'') })"

definition add_upstream :: "unit page" where
  "add_upstream = do {
     w \<leftarrow> State_Monad.get;
     let addr = js_trim (value_of w ''new-upstream-input'');
     if addr = '''' then ret ()
     else do {
       oc \<leftarrow> fetch_post ''/api/upstreams/add'' (JObj [(''address'', JStr addr)]);
       case oc of NetErr \<Rightarrow> toast_error ''Failed to add upstream''
       | Resp r \<Rightarrow> only_if (rs_ok r) (do {
           set_value ''new-upstream-input'' '''';
           toast_msg ''Upstream resolver added & tested!'' ''success'';
           spawn TUpdateStats }) } }"

definition remove_upstream_opts :: "string \<Rightarrow> dialog_opts" where
  "remove_upstream_opts addr = confirm_opts\<lparr>o_destructive := True,
     o_title := ''Remove this upstream?'',
     o_hint := ''THE RACER SET SHRINKS IMMEDIATELY'',
     o_message := addr @ hx ''0A0A'' @ ''Queries stop being raced against this resolver at once. If it is the last one configured, nothing remains to answer from and resolution fails until another is added.'',
     o_confirmText := ''REMOVE UPSTREAM''\<rparr>"

definition remove_upstream :: "(dialog_opts \<Rightarrow> jsval) \<Rightarrow> string \<Rightarrow> unit page" where
  "remove_upstream ask addr =
     (if \<not> truthy (ask (remove_upstream_opts addr)) then ret ()
      else do {
        oc \<leftarrow> fetch_post ''/api/upstreams/delete'' (JObj [(''address'', JStr addr)]);
        case oc of NetErr \<Rightarrow> ret ()
        | Resp r \<Rightarrow> do { toast_msg ''Upstream removed'' ''info''; spawn TUpdateStats } })"

definition flush_cache :: "unit page" where
  "flush_cache = do {
     oc \<leftarrow> fetch_post ''/api/cache/flush'' JUndef;
     case oc of NetErr \<Rightarrow> toast_error ''Failed to flush cache''
     | Resp r \<Rightarrow> do { toast_msg ''DNS cache flushed successfully!'' ''success''; spawn TUpdateStats } }"

definition run_benchmark :: "unit page" where
  "run_benchmark = do {
     set_disabled ''run-benchmark-btn'' True;
     oc \<leftarrow> fetch_post ''/api/benchmark'' JUndef;
     (case oc of NetErr \<Rightarrow> toast_error ''Failed to start benchmark''
      | Resp r \<Rightarrow>
          if rs_status r = 409 then toast_msg ''A benchmark is already running'' ''info''
          else if \<not> rs_ok r then toast_error ''Failed to start benchmark''
          else do {
            toast_msg (''Benchmark started '' @ u_dash @ '' upstream latencies refresh as probes land'') ''info'';
            spawn TUpdateStats; spawn TUpdateStats });
     set_disabled ''run-benchmark-btn'' False }"

section \<open>Diagnostics\<close>

fun finite_num :: "jsval \<Rightarrow> bool" where
  "finite_num (JNum (Fin x)) = True"
| "finite_num _ = False"

definition diag_score :: "jsval \<Rightarrow> string" where
  "diag_score report =
     (let s = jget report ''overall_score'' in
      if finite_num s then js_string s @ ''%'' else ''--%'')"

definition diag_quality :: "jsval \<Rightarrow> string" where
  "diag_quality report =
     (let q = jget report ''overall_quality''; n = jget report ''reachable'';
          total = jget report ''total''; avg = jget report ''avg_latency_ms'';
          bits = (if truthy q then [js_string q] else []) @
            (if finite_num n \<and> finite_num total
             then [js_string n @ ''/'' @ js_string total @ '' reachable''] else []) @
            (if finite_num avg \<and> num_gt n 0 then [js_string avg @ '' ms avg''] else []) in
      if bits = [] then ''No result'' else js_join ('' '' @ u_middot @ '' '') bits)"

definition diag_ms :: "jsval \<Rightarrow> string" where
  "diag_ms r = (case jget r ''latency_ms'' of JNum (Fin x) \<Rightarrow> to_fixed 1 x | _ \<Rightarrow> ''?'')"

definition diag_row :: "jsval \<Rightarrow> string" where
  "diag_row r =
     ''<div class=\"flex items-center justify-between py-2 px-3 rounded-lg bg-slate-950/70 border border-slate-800 text-xs\"><div class=\"flex items-center gap-2\"><span class=\"w-2 h-2 rounded-full '' @
     (if truthy (jget r ''success'') then ''bg-emerald-400'' else ''bg-red-400'') @
     ''\"></span><div><span class=\"font-bold text-white\">'' @ escapeHTML (jget r ''name'') @
     ''</span><span class=\"text-[10px] text-slate-500 font-mono ms-1.5\">('' @ escapeHTML (jget r ''target'') @
     '')</span></div></div><div>'' @
     (if truthy (jget r ''success'')
      then ''<span class=\"text-emerald-400 font-bold font-mono\">'' @ diag_ms r @ '' ms</span>''
      else ''<span class=\"text-red-400 font-bold font-mono\">BLOCKED</span>'') @ ''</div></div>''"

text \<open>Whether the drawing came back: a null entry of the results raises a TypeError.\<close>

definition renderDiagnosticsReport :: "jsval \<Rightarrow> bool page" where
  "renderDiagnosticsReport rep = do {
     let report = js_or rep (JObj []);
     let results = arr_elems (jget report ''results'');
     set_text ''diag-score'' (diag_score report);
     set_text ''diag-quality'' (diag_quality report);
     w \<leftarrow> State_Monad.get;
     if \<not> has_el w ''diag-items-list'' then ret True
     else if results = [] then do {
       set_text ''diag-items-list'' ''<div class=\"text-center py-6 text-slate-500 text-xs\">The server reported no diagnostic targets.</div>'';
       ret True }
     else if list_ex nullish results then ret False
     else do { set_text ''diag-items-list'' (concat (map diag_row results)); ret True } }"

definition diag_fail :: "string \<Rightarrow> unit page" where
  "diag_fail msg = do {
     toast_error msg;
     set_text ''diag-quality'' ''Test failed'';
     set_text ''diag-items-list''
       (''<div class=\"text-center py-6 text-red-400 text-xs\">'' @ escapeHTML (JStr msg) @ ''</div>'') }"

definition diag_start :: "unit page" where
  "diag_start = do {
     modify (\<lambda>w. w\<lparr>diagRunning := True\<rparr>);
     set_text ''diag-score'' ''--%'';
     set_text ''diag-quality'' ''Testing routes...'';
     set_disabled ''rerun-diagnostics-btn'' True;
     set_text ''diag-items-list'' ''<div class=\"text-center py-8 text-cyan-400 font-mono text-xs\"><span class=\"pulse-dot inline-block me-2\"></span> Testing VPS connectivity to Riot, Epic, Steam, Discord, EA, Battle.net, PUBG, Spotify...</div>'';
     w \<leftarrow> State_Monad.get;
     send (mk_req w ''POST'' ''/api/diagnostics/run'' JUndef) }"

definition diag_answered :: "outcome \<Rightarrow> unit page" where
  "diag_answered oc =
     (case oc of NetErr \<Rightarrow> diag_fail ''Could not reach the server to run diagnostics.''
      | Resp r \<Rightarrow>
          if \<not> rs_ok r then diag_fail (errorMessage r ''The diagnostic run was refused'')
          else case rs_json r of
            None \<Rightarrow> diag_fail ''The server answered the diagnostic run with a response that is not JSON.''
          | Some report \<Rightarrow> do {
              drawn \<leftarrow> renderDiagnosticsReport report;
              only_if (\<not> drawn) (diag_fail ''Could not reach the server to run diagnostics.'') })"

definition diag_settle :: "outcome \<Rightarrow> unit page" where
  "diag_settle oc = do {
     diag_answered oc;
     modify (\<lambda>w. w\<lparr>diagRunning := False\<rparr>);
     set_disabled ''rerun-diagnostics-btn'' False }"

text \<open>The page and the number of runs the daemon is working on.\<close>

definition diag_enter :: "dash \<times> nat \<Rightarrow> dash \<times> nat" where
  "diag_enter = (\<lambda>(w, n). if diagRunning w then (w, n) else (exec diag_start w, Suc n))"

definition diag_leave :: "outcome \<Rightarrow> dash \<times> nat \<Rightarrow> dash \<times> nat" where
  "diag_leave oc = (\<lambda>(w, n). (exec (diag_settle oc) w, n - 1))"

definition open_diagnostics :: "dash \<times> nat \<Rightarrow> dash \<times> nat" where
  "open_diagnostics s =
     (if has_el (fst s) ''diagnostics-modal''
      then diag_enter (exec (set_hidden ''diagnostics-modal'' False) (fst s), snd s) else s)"

section \<open>Certificates\<close>

fun clamp_num :: "jsnum \<Rightarrow> jsnum" where
  "clamp_num NaN = NaN"
| "clamp_num PosInf = Fin 100"
| "clamp_num NegInf = Fin 0"
| "clamp_num (Fin x) = Fin (max 0 (min 100 x))"

definition progress_of :: "jsval \<Rightarrow> jsval" where
  "progress_of state = js_or (jget state ''progress'') (JNum (Fin 0))"

definition showProgress :: "string \<Rightarrow> jsval \<Rightarrow> unit page" where
  "showProgress pid state = do {
     set_hidden pid False;
     upd (pid @ ''-bar'') (\<lambda>e. e\<lparr>el_width := num_str (clamp_num (js_number (progress_of state))) @ ''%''\<rparr>);
     set_text (pid @ ''-text'') (js_string (progress_of state) @ ''% '' @ u_dash @ '' '' @
       js_string (js_or (jget state ''detail'') (js_or (jget state ''stage'') (JStr (''working'' @ u_ellipsis))))) }"

definition poll_state :: "outcome \<Rightarrow> jsval" where
  "poll_state oc =
     (case oc of NetErr \<Rightarrow> JNull
      | Resp r \<Rightarrow> if rs_ok r then (case rs_json r of None \<Rightarrow> JNull | Some j \<Rightarrow> j) else JNull)"

definition still_running :: "outcome \<Rightarrow> bool" where
  "still_running oc \<longleftrightarrow> truthy (poll_state oc) \<and> truthy (jget (poll_state oc) ''running'')"

definition poll_once :: "dash \<Rightarrow> outcome \<times> dash" where
  "poll_once w = run_state (fetch_get ''/api/tls/acme/status'') w"

lemma poll_once_run:
  "poll_once w = (case net w of [] \<Rightarrow> NetErr | x # _ \<Rightarrow> x,
     w\<lparr>sent := sent w @ [mk_req w ''GET'' ''/api/tls/acme/status'' JUndef], net := tl (net w)\<rparr>)"
proof -
  have "run_state m w = (result m w, exec m w)" for m :: "outcome page" by (simp add: result_def exec_def)
  then show ?thesis by (simp add: poll_once_def page_simps)
qed

lemma net_upd [simp]: "net (exec (showProgress pid st) w) = net w"
  by (simp add: showProgress_def page_simps)

function pollUntilDone :: "string \<Rightarrow> dash \<Rightarrow> jsval \<times> dash" where
  "pollUntilDone pid w =
     (let (oc, w1) = poll_once w in
      if \<not> still_running oc then (poll_state oc, w1)
      else pollUntilDone pid (exec (showProgress pid (poll_state oc)) w1))"
  by pat_completeness auto
termination
  by (relation "measure (\<lambda>(pid, w). length (net w))")
    (auto simp: poll_once_run still_running_def poll_state_def split: list.splits)

declare pollUntilDone.simps [simp del]

definition acme_report :: "jsval \<Rightarrow> jsval \<Rightarrow> unit page" where
  "acme_report body final =
     (let detail = jget body ''detail'' in
      if truthy final \<and> truthy (jget final ''error'')
      then toast_error (''Issuance failed: '' @ js_string (jget final ''error''))
      else if truthy final \<and> jget final ''progress'' = JNum (Fin 100)
      then showToast (if truthy detail \<and> js_includes (js_string detail) ''already on this server'' then detail
                      else JStr ''Certificate issued and applied.'') ''success''
      else showToast (if truthy final \<and> truthy (jget final ''last_detail'') then jget final ''last_detail''
                      else JStr (''Issuance finished '' @ u_dash @ '' check the daemon log.'')) ''warning'')"

definition acme_refresh :: "unit page" where
  "acme_refresh = do {
     loadConfig;
     renderSubscriptionSettings;
     spawn TLoadClients;
     w \<leftarrow> State_Monad.get;
     only_if (truthy (currentConfig w) \<and> truthy (jget (currentConfig w) ''tls''))
       (set_value ''dot-domain-input''
         (js_string (js_or (jget (jget (currentConfig w) ''tls'') ''dot_domain'') (JStr '''')))) }"

definition acme_lost :: "unit page" where
  "acme_lost = toast_error ''Could not reach the server, so it is not known whether the request was accepted.''"

definition acme_answered :: "string \<Rightarrow> outcome \<Rightarrow> unit page" where
  "acme_answered pid oc =
     (case oc of NetErr \<Rightarrow> acme_lost
      | Resp r \<Rightarrow>
          let body = (case rs_json r of None \<Rightarrow> JObj [] | Some j \<Rightarrow> j) in
          if \<not> rs_ok r then showToast (js_or (jget body ''error'') (JStr ''The request was refused.'')) ''error''
          else if nullish body then acme_lost
          else if truthy (jget body ''issuing'') then do {
            showToast (js_or (jget body ''detail'') (JStr (''Requesting the certificate'' @ u_ellipsis))) ''info'';
            final \<leftarrow> State (pollUntilDone pid);
            acme_report body final;
            acme_refresh }
          else do {
            showToast (js_or (jget body ''detail'') (JStr ''Applied.'')) ''success'';
            acme_refresh })"

definition le_click :: "string \<Rightarrow> string \<Rightarrow> string \<Rightarrow> string \<Rightarrow> unit page" where
  "le_click btn domainInput purpose pid = do {
     w \<leftarrow> State_Monad.get;
     let domain = js_trim (value_of w domainInput);
     let email = js_trim (value_of w ''ssl-email-input'');
     if domain = '''' \<and> purpose = ''panel'' then toast_error ''Please enter a domain name''
     else do {
       set_disabled btn True;
       oc \<leftarrow> fetch_post ''/api/tls/issue''
         (JObj [(''domain'', JStr domain), (''email'', JStr email), (''purpose'', JStr purpose)]);
       acme_answered pid oc;
       set_hidden pid True;
       set_disabled btn False } }"

section \<open>The clipboard\<close>

text \<open>
  What the browser allows: a secure context with the asynchronous clipboard, whether a write
  through it succeeds, whether the copy command does. A copier returns the text that reached the
  clipboard, if any.
\<close>

record clip =
  cl_secure :: bool
  cl_write :: bool
  cl_exec :: bool

definition fallbackCopy :: "clip \<Rightarrow> string \<Rightarrow> string option" where
  "fallbackCopy cl text = (if cl_exec cl then Some text else None)"

definition copyText :: "clip \<Rightarrow> string \<Rightarrow> string option page" where
  "copyText cl text = do {
     toast_msg ''Copied!'' ''success'';
     ret (if cl_secure cl \<and> cl_write cl then Some text else fallbackCopy cl text) }"

definition copyFromTarget :: "clip \<Rightarrow> string \<Rightarrow> string \<Rightarrow> string option page" where
  "copyFromTarget cl target host = do {
     w \<leftarrow> State_Monad.get;
     let source = (if target \<noteq> '''' \<and> has_el w target then target else host);
     let text = js_trim (text_of w source);
     if text = '''' then ret None else copyText cl text }"

definition copy_key :: "clip \<Rightarrow> string \<Rightarrow> string \<Rightarrow> string \<Rightarrow> string option page" where
  "copy_key cl key target host =
     (if key \<notin> {''Enter'', '' '', ''Spacebar''} then ret None else copyFromTarget cl target host)"

text \<open>The copy button of a UUID: without a secure context there is no clipboard object to call.\<close>

definition copy_uuid :: "clip \<Rightarrow> string \<Rightarrow> string option page" where
  "copy_uuid cl uuid =
     (if uuid = '''' \<or> \<not> cl_secure cl then ret None
      else do {
        toast_msg ''UUID copied to clipboard!'' ''success'';
        ret (if cl_write cl then Some uuid else None) })"

section \<open>The poll ends\<close>

definition paint_states :: "string \<Rightarrow> outcome list \<Rightarrow> dash \<Rightarrow> dash" where
  "paint_states pid rs w = foldl (\<lambda>w r. exec (showProgress pid (poll_state r)) w) w rs"

lemma upd_dom: "dom w = dom w' \<Longrightarrow> dom (exec (upd i g) w) = dom (exec (upd i g) w')"
  by (simp add: page_simps)

lemma show_dom: "dom w = dom w' \<Longrightarrow> dom (exec (showProgress pid st) w) = dom (exec (showProgress pid st) w')"
  unfolding showProgress_def by (auto intro!: upd_dom)

lemma show_keeps:
  "sent (exec (showProgress pid st) w) = sent w" "authToken (exec (showProgress pid st) w) = authToken w"
  "adminBase (exec (showProgress pid st) w) = adminBase w"
  by (simp_all add: showProgress_def page_simps)

lemma paint_dom: "dom w = dom w' \<Longrightarrow> dom (paint_states pid rs w) = dom (paint_states pid rs w')"
proof (induction rs arbitrary: w w')
  case (Cons r rs)
  show ?case using Cons.IH[OF show_dom[OF Cons.prems]] by (simp add: paint_states_def)
qed (simp add: paint_states_def)

lemma poll_run:
  "\<lbrakk>net w = rs @ x # rest; list_all still_running rs; \<not> still_running x\<rbrakk> \<Longrightarrow>
   fst (pollUntilDone pid w) = poll_state x \<and> net (snd (pollUntilDone pid w)) = rest \<and>
   sent (snd (pollUntilDone pid w)) =
     sent w @ replicate (Suc (length rs)) (mk_req w ''GET'' ''/api/tls/acme/status'' JUndef) \<and>
   dom (snd (pollUntilDone pid w)) = dom (paint_states pid rs w)"
proof (induction rs arbitrary: w)
  case Nil
  then show ?case
    by (subst (1 2 3 4) pollUntilDone.simps) (simp add: poll_once_run paint_states_def)
next
  case (Cons r rs)
  let ?req = "mk_req w ''GET'' ''/api/tls/acme/status'' JUndef"
  define w0 where "w0 = w\<lparr>sent := sent w @ [?req], net := tl (net w)\<rparr>"
  define w1 where "w1 = exec (showProgress pid (poll_state r)) w0"
  have e: "pollUntilDone pid w = pollUntilDone pid w1"
    using Cons.prems by (subst pollUntilDone.simps) (simp add: poll_once_run w1_def w0_def)
  have n: "net w1 = rs @ x # rest" using Cons.prems(1) by (simp add: w1_def w0_def)
  have w1: "sent w1 = sent w @ [?req]" "mk_req w1 ''GET'' ''/api/tls/acme/status'' JUndef = ?req"
    by (simp_all add: w1_def w0_def show_keeps mk_req_def api_def)
  have "dom w1 = dom (exec (showProgress pid (poll_state r)) w)"
    unfolding w1_def by (rule show_dom) (simp add: w0_def)
  from paint_dom[OF this] have d: "dom (paint_states pid rs w1) = dom (paint_states pid (r # rs) w)"
    by (simp add: paint_states_def)
  have "list_all still_running rs" using Cons.prems(2) by simp
  from Cons.IH[OF n this Cons.prems(3)] show ?case unfolding e w1 d by simp
qed

text \<open>
  C20. The certificate poll ends with the run: with n answers that say the run goes on ahead of a
  readable status that says it does not, it sends n + 1 status requests, takes exactly those
  answers off the network, has painted the n reported states in their order and nothing else,
  and returns the final status. (What a lost answer does is not part of this.)
\<close>

theorem poll_stops_at:
  assumes "net w = rs @ Resp r # rest" "list_all still_running rs"
    and "rs_ok r" "rs_json r = Some st" "\<not> truthy (jget st ''running'')"
  shows "fst (pollUntilDone pid w) = st \<and> net (snd (pollUntilDone pid w)) = rest \<and>
    sent (snd (pollUntilDone pid w)) =
      sent w @ replicate (Suc (length rs)) (mk_req w ''GET'' ''/api/tls/acme/status'' JUndef) \<and>
    dom (snd (pollUntilDone pid w)) = dom (paint_states pid rs w)"
proof -
  have "poll_state (Resp r) = st" "\<not> still_running (Resp r)"
    using assms(3-5) by (simp_all add: poll_state_def still_running_def)
  then show ?thesis using poll_run[OF assms(1,2)] by simp
qed

definition still_going :: outcome where
  "still_going = resp_ok (JObj [(''running'', JBool True), (''progress'', JNum (Fin 40))])"

theorem poll_stops_at_witness:
  "fst (pollUntilDone ''p'' (sample_page JNull
     [still_going, still_going, resp_ok (JObj [(''progress'', JNum (Fin 100))]), still_going])) =
     JObj [(''progress'', JNum (Fin 100))]"
proof -
  let ?st = "JObj [(''progress'', JNum (Fin 100))]"
  have "list_all still_running [still_going, still_going]"
    by (simp add: still_going_def still_running_def poll_state_def resp_ok_def rs_ok_def)
  then show ?thesis
    using poll_stops_at[of "sample_page JNull [still_going, still_going, resp_ok ?st, still_going]"
        "[still_going, still_going]" _ "[still_going]" ?st "''p''"]
    by (simp add: resp_ok_def rs_ok_def)
qed

text \<open>A lost answer ends the poll as well, of a run that may go on: what is returned is no status.\<close>

lemma poll_lost_answer:
  "\<lbrakk>net w = rs @ NetErr # rest; list_all still_running rs\<rbrakk> \<Longrightarrow> fst (pollUntilDone pid w) = JNull"
  using poll_run[of w rs NetErr rest pid] by (simp add: still_running_def poll_state_def)

text \<open>The bar is at least empty and at most full.\<close>

lemma clamp_bounds: "clamp_num n = Fin x \<Longrightarrow> 0 \<le> x \<and> x \<le> 100"
  by (cases n) auto

section \<open>One diagnostics run at a time\<close>

interpretation diag_guard: single_flight "\<lambda>s. diagRunning (fst s)" snd diag_enter "diag_leave oc"
proof
  have s: "diagRunning (exec diag_start w)" for w
    by (simp add: diag_start_def page_simps)
  have l: "\<not> diagRunning (exec (diag_settle oc) w)" for oc w
    by (simp add: diag_settle_def page_simps)
  show "diagRunning (fst (diag_enter s)) \<and> snd (diag_enter s) = snd s" if "diagRunning (fst s)" for s
    using that by (cases s) (simp add: diag_enter_def)
  show "snd (diag_enter s) = (if diagRunning (fst (diag_enter s)) then Suc (snd s) else snd s)"
    if "\<not> diagRunning (fst s)" for s
    using that s by (cases s) (simp add: diag_enter_def)
  show "\<not> diagRunning (fst (diag_leave oc s))" for s
    using l by (cases s) (simp add: diag_leave_def)
  show "snd (diag_leave oc s) = snd s - 1" for s
    by (cases s) (simp add: diag_leave_def)
qed

datatype diag_event = RunTest | DiagAnswer outcome

definition diag_do :: "diag_event \<Rightarrow> dash \<times> nat \<Rightarrow> dash \<times> nat" where
  "diag_do e s = (case e of RunTest \<Rightarrow> diag_enter s
     | DiagAnswer oc \<Rightarrow> if diagRunning (fst s) then diag_leave oc s else s)"

text \<open>What the banner stands for: a run in progress, or the grade of the last finished one.\<close>

datatype banner = Testing | Graded string

definition grade_of :: "outcome \<Rightarrow> string" where
  "grade_of oc =
     (case oc of NetErr \<Rightarrow> ''--%''
      | Resp r \<Rightarrow> if \<not> rs_ok r then ''--%''
          else (case rs_json r of None \<Rightarrow> ''--%'' | Some rep \<Rightarrow> diag_score (js_or rep (JObj []))))"

fun banner_do :: "diag_event \<Rightarrow> banner \<Rightarrow> banner" where
  "banner_do RunTest b = Testing"
| "banner_do (DiagAnswer oc) Testing = Graded (grade_of oc)"
| "banner_do (DiagAnswer oc) (Graded g) = Graded g"

definition banner_of :: "dash \<times> nat \<Rightarrow> banner" where
  "banner_of s = (if diagRunning (fst s) then Testing else Graded (text_of (fst s) ''diag-score''))"

definition diag_ok :: "dash \<times> nat \<Rightarrow> bool" where
  "diag_ok s \<longleftrightarrow> has_el (fst s) ''diag-score'' \<and> diag_guard.guarded s \<and>
     (diagRunning (fst s) \<longrightarrow> text_of (fst s) ''diag-score'' = ''--%'' \<and>
        disabled_of (fst s) ''rerun-diagnostics-btn'' = has_el (fst s) ''rerun-diagnostics-btn'')"

lemma diag_views [view_simps]:
  "has_el (w\<lparr>diagRunning := b\<rparr>) i = has_el w i" "text_of (w\<lparr>diagRunning := b\<rparr>) i = text_of w i"
  "disabled_of (w\<lparr>diagRunning := b\<rparr>) i = disabled_of w i"
  by (simp_all add: has_el_def text_of_def disabled_of_def)

lemma diag_start_views:
  "has_el (exec diag_start w) i = has_el w i"
  "has_el w ''diag-score'' \<Longrightarrow> text_of (exec diag_start w) ''diag-score'' = ''--%''"
  "disabled_of (exec diag_start w) ''rerun-diagnostics-btn'' = has_el w ''rerun-diagnostics-btn''"
  by (simp_all add: diag_start_def view_simps) (auto simp: has_el_def)

lemma diag_settle_views:
  "has_el (exec (diag_settle oc) w) i = has_el w i"
  "has_el w ''diag-score'' \<Longrightarrow> text_of w ''diag-score'' = ''--%'' \<Longrightarrow>
     text_of (exec (diag_settle oc) w) ''diag-score'' = grade_of oc"
  by (auto simp: diag_settle_def diag_answered_def diag_fail_def renderDiagnosticsReport_def Let_def
      view_simps grade_of_def has_el_def[of w "''diag-score''"] split: outcome.split option.split)

lemma diag_do_step:
  assumes "diag_ok s"
  shows "diag_ok (diag_do e s) \<and> banner_of (diag_do e s) = banner_do e (banner_of s)"
proof (cases e)
  case RunTest
  have run: "diagRunning (exec diag_start w)" for w by (simp add: diag_start_def page_simps)
  have "diag_guard.guarded (diag_do e s)"
    using assms diag_guard.guarded_enter by (simp add: RunTest diag_do_def diag_ok_def)
  then show ?thesis
    using assms run by (cases s) (auto simp: RunTest diag_do_def diag_ok_def diag_enter_def
        diag_start_views banner_of_def)
next
  case (DiagAnswer oc)
  have stop: "\<not> diagRunning (exec (diag_settle oc) w)" for w by (simp add: diag_settle_def page_simps)
  have "diag_guard.guarded (diag_do e s)"
    using assms diag_guard.guarded_leave by (simp add: DiagAnswer diag_do_def diag_ok_def)
  then show ?thesis
    using assms stop by (cases s) (auto simp: DiagAnswer diag_do_def diag_ok_def diag_leave_def
        diag_settle_views banner_of_def)
qed

definition run_diag :: "diag_event list \<Rightarrow> dash \<times> nat \<Rightarrow> dash \<times> nat" where
  "run_diag es s = foldl (\<lambda>s e. diag_do e s) s es"

lemma run_diag_ok:
  "diag_ok s \<Longrightarrow> diag_ok (run_diag es s) \<and>
     banner_of (run_diag es s) = foldl (\<lambda>b e. banner_do e b) (banner_of s) es"
  using diag_do_step by (induction es arbitrary: s) (auto simp: run_diag_def)

text \<open>
  C13. The diagnostics banner is never a stale grade: however often Run Test is pressed and
  however the answers arrive, the daemon works on at most one run, on one exactly while the
  panel says so; meanwhile the banner shows no grade and the button is disabled; and when no run
  is on, it shows the grade of the last finished run, or none if that run failed.
\<close>

theorem diagnostics_banner:
  assumes "has_el w ''diag-score''" "\<not> diagRunning w"
  shows "let s = run_diag es (w, 0) in
    banner_of s = foldl (\<lambda>b e. banner_do e b) (Graded (text_of w ''diag-score'')) es \<and>
    snd s = (if banner_of s = Testing then 1 else 0) \<and>
    (banner_of s = Testing \<longrightarrow> text_of (fst s) ''diag-score'' = ''--%'' \<and>
       disabled_of (fst s) ''rerun-diagnostics-btn'' = has_el (fst s) ''rerun-diagnostics-btn'')"
proof -
  have "diag_ok (w, 0)" using assms by (simp add: diag_ok_def diag_guard.guarded_def)
  then show ?thesis
    using run_diag_ok[of "(w, 0)" es] assms(2)
    by (auto simp: Let_def banner_of_def diag_ok_def diag_guard.guarded_def split: if_splits)
qed

theorem diagnostics_banner_witness:
  "banner_of (run_diag [RunTest, RunTest, DiagAnswer NetErr] (sample_page JNull [], 0)) = Graded ''--%''"
proof -
  have "\<not> diagRunning (sample_page JNull [])" by (simp add: sample_page_def)
  then show ?thesis
    using diagnostics_banner[of "sample_page JNull []" "[RunTest, RunTest, DiagAnswer NetErr]"]
    by (simp add: Let_def grade_of_def)
qed

end
