(* ===== verification/Panel_Wiring.thy ===== *)
theory Panel_Wiring
  imports Panel_Actions Clients
begin

text \<open>
  The small buttons that join the components: the copy buttons of the API page, the sidebar and
  the subscriber cards, the tabs of the code samples, the link to the API's documentation and
  the button of the credentials dialog (app.js).
\<close>

section \<open>Copy buttons\<close>

definition copy_api_key :: "clip \<Rightarrow> string option page" where
  "copy_api_key cl = do {
     w \<leftarrow> State_Monad.get;
     let key = jget (jget (currentConfig w) ''server'') ''api_key'';
     if truthy key then copyText cl (js_string key) else ret None }"

definition copy_server_ip :: "clip \<Rightarrow> string option page" where
  "copy_server_ip cl = do {
     w \<leftarrow> State_Monad.get;
     let ip = text_of w ''header-public-ip'';
     copyText cl (if ip = '''' then ''127.0.0.1'' else ip) }"

text \<open>The data attributes of a subscriber card's buttons, and the two copies made from them.\<close>

record card_data =
  cd_id :: string
  cd_exp :: string
  cd_url :: string
  cd_regUrl :: string
  cd_secret :: string
  cd_ip :: string

definition copy_reg_link :: "clip \<Rightarrow> string \<Rightarrow> string option page" where
  "copy_reg_link cl url = copyText cl url"

definition copy_card :: "clip \<Rightarrow> card_data \<Rightarrow> string option page" where
  "copy_card cl d = do {
     r \<leftarrow> copyText cl (generateClientTelegramMessage (cd_id d) (cd_exp d) (cd_url d) (cd_regUrl d)
       (cd_secret d) (cd_ip d));
     toast_msg ''Persian client card copied for Telegram!'' ''success'';
     ret r }"

section \<open>Code samples\<close>

record snippets =
  sn_tabs :: "(string \<times> string) list"
  sn_contents :: "string list"
  sn_hidden :: "string \<Rightarrow> bool"

definition tab_idle :: string where
  "tab_idle = ''api-snippet-tab px-3 py-1.5 rounded-lg text-xs font-bold font-heading bg-slate-900 text-slate-400 hover:text-white''"

definition tab_lit :: string where
  "tab_lit = ''api-snippet-tab px-3 py-1.5 rounded-lg text-xs font-bold font-heading bg-cyan-500/20 text-cyan-300 border border-cyan-500/30''"

text \<open>A click on tab number i of those that carry a snippet name and a class.\<close>

definition snippet_click :: "nat \<Rightarrow> snippets \<Rightarrow> snippets" where
  "snippet_click i s =
     (if length (sn_tabs s) \<le> i then s
      else let snip = fst (sn_tabs s ! i);
               idle = map (\<lambda>(n, c). (n, tab_idle)) (sn_tabs s) in
        s\<lparr>sn_tabs := idle[i := (snip, tab_lit)],
          sn_hidden := (\<lambda>x. (x \<in> set (sn_contents s) \<or> sn_hidden s x) \<and> x \<noteq> ''snippet-'' @ snip)\<rparr>)"

section \<open>Links and dialogs\<close>

definition docs_links :: "dash \<Rightarrow> string list \<Rightarrow> string list" where
  "docs_links w hrefs = map (\<lambda>h. if h = ''/api/v1/docs'' then api w ''/api/v1/docs'' else h) hrefs"

definition open_change_pwd :: "unit page" where
  "open_change_pwd = showChangePwdModal False"

definition cancel_change_pwd :: "unit page" where
  "cancel_change_pwd = hideChangePwdModal"

section \<open>Facts\<close>

text \<open>After any clicks one sample is showing: that of the last tab clicked, the only one lit.\<close>

lemma one_snippet:
  assumes "i < length (sn_tabs s)" "sn_contents s = map (\<lambda>(n, c). ''snippet-'' @ n) (sn_tabs s)"
    "distinct (map fst (sn_tabs s))"
  shows "\<forall>j < length (sn_tabs s).
    (\<not> sn_hidden (snippet_click i s) (sn_contents s ! j)) = (j = i) \<and>
    (snd (sn_tabs (snippet_click i s) ! j) = tab_lit) = (j = i)"
proof (intro allI impI)
  fix j assume j: "j < length (sn_tabs s)"
  have "fst (sn_tabs s ! j) = fst (sn_tabs s ! i) \<longleftrightarrow> j = i"
    using nth_eq_iff_index_eq[OF assms(3), of j i] j assms(1) by simp
  moreover have "tab_idle \<noteq> tab_lit" by (simp add: tab_idle_def tab_lit_def)
  moreover have "sn_contents s ! j = ''snippet-'' @ fst (sn_tabs s ! j)"
    using assms(2) j by (simp add: case_prod_beta)
  moreover have "sn_contents s ! j \<in> set (sn_contents s)" using assms(2) j by simp
  ultimately show "(\<not> sn_hidden (snippet_click i s) (sn_contents s ! j)) = (j = i) \<and>
      (snd (sn_tabs (snippet_click i s) ! j) = tab_lit) = (j = i)"
    using assms(1) j by (auto simp: snippet_click_def Let_def nth_list_update case_prod_beta)
qed

text \<open>The two messages of a copied card appear whether or not anything was copied.\<close>

lemma card_toast_always:
  "toasts (exec (copy_card \<lparr>cl_secure = False, cl_write = False, cl_exec = False\<rparr> d) w) =
     toasts (exec (copy_card \<lparr>cl_secure = True, cl_write = True, cl_exec = True\<rparr> d) w)"
  "result (copy_card \<lparr>cl_secure = False, cl_write = False, cl_exec = False\<rparr> d) w = None"
  by (simp_all add: copy_card_def copyText_def fallbackCopy_def)

end
