(* ===== verification/Card_Buttons.thy ===== *)
theory Card_Buttons
  imports Clients Panel_Wiring
begin

text \<open>
  From a painted subscriber card to the requests of its buttons (app.js, renderClientsView and
  the delegated click handler): what the browser reads out of the markup as the buttons' data
  attributes, and that it is what the record holds.

  Reading markup is the browser's: tags and double-quoted attributes one character at a time,
  with the five character references escapeHTML writes.
\<close>

section \<open>Reading markup\<close>

fun html_decode :: "string \<Rightarrow> string" where
  "html_decode [] = []"
| "html_decode (c # s) =
     (if c = CHR ''&'' then
        (if js_startsWith s ''amp;'' then CHR ''&'' # html_decode (drop 4 s)
         else if js_startsWith s ''lt;'' then CHR ''<'' # html_decode (drop 3 s)
         else if js_startsWith s ''gt;'' then CHR ''>'' # html_decode (drop 3 s)
         else if js_startsWith s ''quot;'' then CHR 0x22 # html_decode (drop 5 s)
         else if js_startsWith s ''#039;'' then CHR 0x27 # html_decode (drop 5 s)
         else c # html_decode s)
      else c # html_decode s)"

type_synonym attrs = "(string \<times> string) list"

text \<open>What is being read, its text so far backwards.\<close>

datatype mode =
    InText
  | TagName string
  | InTag string attrs
  | AttrName string attrs string
  | Equals string attrs string
  | Value string attrs string string
definition emit :: "string \<Rightarrow> attrs \<Rightarrow> (string \<times> attrs) list \<Rightarrow> (string \<times> attrs) list" where
  "emit t as bs = (if t = ''button'' then (t, as) # bs else bs)"

fun scan :: "mode \<Rightarrow> string \<Rightarrow> (string \<times> attrs) list" where
  "scan m [] = []"
| "scan InText (c # s) = (if c = CHR ''<'' then scan (TagName []) s else scan InText s)"
| "scan (TagName n) (c # s) =
     (if c = CHR ''>'' then emit (rev n) [] (scan InText s)
      else if c = CHR '' '' then scan (InTag (rev n) []) s else scan (TagName (c # n)) s)"
| "scan (InTag t as) (c # s) =
     (if c = CHR ''>'' then emit t as (scan InText s)
      else if c = CHR '' '' then scan (InTag t as) s else scan (AttrName t as [c]) s)"
| "scan (AttrName t as n) (c # s) =
     (if c = CHR ''='' then scan (Equals t as (rev n)) s
      else if c = CHR ''>'' then emit t (as @ [(rev n, [])]) (scan InText s)
      else if c = CHR '' '' then scan (InTag t (as @ [(rev n, [])])) s
      else scan (AttrName t as (c # n)) s)"
| "scan (Equals t as n) (c # s) = (if c = CHR 0x22 then scan (Value t as n []) s else [])"
| "scan (Value t as n v) (c # s) =
     (if c = CHR 0x22 then scan (InTag t (as @ [(n, html_decode (rev v))])) s
      else scan (Value t as n (c # v)) s)"

definition buttons_of :: "string \<Rightarrow> (string \<times> attrs) list" where
  "buttons_of html = scan InText html"

section \<open>A click on a card\<close>

definition data_attr :: "attrs \<Rightarrow> string \<Rightarrow> string" where
  "data_attr as k = (case map_of as (''data-'' @ k) of None \<Rightarrow> '''' | Some v \<Rightarrow> v)"

definition has_class :: "attrs \<Rightarrow> string \<Rightarrow> bool" where
  "has_class as c \<longleftrightarrow>
     c \<in> set (split_on (\<lambda>x. x = CHR '' '') (case map_of as ''class'' of None \<Rightarrow> '''' | Some v \<Rightarrow> v))"

text \<open>
  The delegated listener, for a click on a button with these attributes; what reached the
  clipboard is the result. The UUID button is served by the second listener on the document,
  which also opens the edit form for an edit button (\<open>Client_Forms.edit_open\<close> on its data-id).
\<close>

definition on_card_click :: "(dialog_opts \<Rightarrow> jsval) \<Rightarrow> clip \<Rightarrow> attrs \<Rightarrow> string option page" where
  "on_card_click ask cl as =
     (if has_class as ''copy-reg-link-btn'' then copy_reg_link cl (data_attr as ''url'')
      else if has_class as ''copy-telegram-card-btn'' then
        copy_card cl \<lparr>cd_id = data_attr as ''id'', cd_exp = data_attr as ''exp'',
          cd_url = data_attr as ''url'', cd_regUrl = data_attr as ''reg-url'',
          cd_secret = data_attr as ''secret'', cd_ip = data_attr as ''ip''\<rparr>
      else if has_class as ''renew-client-btn'' then do { renewClient (data_attr as ''id''); ret None }
      else if has_class as ''toggle-client-btn'' then
        do { toggleClient (data_attr as ''id'') (data_attr as ''enabled''); ret None }
      else if has_class as ''delete-client-btn'' then
        do { deleteClient ask (data_attr as ''id'') (data_attr as ''name''); ret None }
      else if has_class as ''add-ip-prompt-btn'' then
        do { setClientIP ask (data_attr as ''id'') (data_attr as ''ip''); ret None }
      else if has_class as ''remove-client-ip-btn'' then
        do { removeClientIP ask (data_attr as ''id'') (data_attr as ''ip''); ret None }
      else if has_class as ''copy-uuid-btn'' then copy_uuid cl (data_attr as ''uuid'')
      else ret None)"

section \<open>Escaped text is read back\<close>

lemma decode_rep: "html_decode (app_rep c @ t) = c # html_decode t"
  by (simp add: app_rep_def)

lemma decode_escape: "html_decode (escapeHTML_str s) = s"
  unfolding escapeHTML_str_concat
  by (induction s) (simp_all add: decode_rep)

text \<open>What a value is in the markup: its text, nothing when it is falsy.\<close>

definition shown_text :: "jsval \<Rightarrow> string" where
  "shown_text v = (if truthy v then js_string v else '''')"

lemma decode_escaped [simp]: "html_decode (escapeHTML v) = shown_text v"
  by (simp add: escapeHTML_def shown_text_def decode_escape)

lemma escaped_chars: "CHR ''<'' \<notin> set (escapeHTML v)" "CHR 0x22 \<notin> set (escapeHTML v)"
  using escapeHTML_safe[of v "[]" "[]"] by (auto simp: markup_chars_def)

lemma scan_append [simp]:
  "scan m ([] @ t) = scan m t" "scan m ((s @ s') @ t) = scan m (s @ s' @ t)"
  "scan m ((c # s) @ t) = scan m (c # (s @ t))"
  by simp_all

text \<open>Nothing inside a scan is rewritten before it is read.\<close>

lemma scan_cong: "scan m s = scan m s"
  by (rule refl)

lemma scan_text: "CHR ''<'' \<notin> set s \<Longrightarrow> scan InText (s @ t) = scan InText t"
  by (induction s) auto

lemma scan_value:
  "CHR 0x22 \<notin> set s \<Longrightarrow> scan (Value t as n v) (s @ r) = scan (Value t as n (rev s @ v)) r"
  by (induction s arbitrary: v) auto

lemma scan_escaped:
  "scan InText (escapeHTML v @ r) = scan InText r"
  "scan (Value t as n x) (escapeHTML v @ r) = scan (Value t as n (rev (escapeHTML v) @ x)) r"
  by (simp_all add: scan_text scan_value escaped_chars)

text \<open>The pieces of a card that hold no button.\<close>

lemma tags_0: "tags s = 0 \<Longrightarrow> CHR ''<'' \<notin> set s"
  by (auto simp: tags_def filter_empty_conv)

lemma glyphs_scan:
  "scan InText (hx ''C397'' @ r) = scan InText r" "scan InText (hx ''C2B7'' @ r) = scan InText r"
  "scan InText (u_middot @ r) = scan InText r"
  "scan (Value t as n v) (hx ''C2B7'' @ r) = scan (Value t as n (rev (hx ''C2B7'') @ v)) r"
  by (rule scan_text, code_simp, rule scan_text, code_simp, rule scan_text, code_simp, rule scan_value, code_simp)

lemma badges_scan:
  "scan InText (status_badge env c @ r) = scan InText r"
  "scan InText (policy_badge c @ r) = scan InText r"
  "scan InText (cycle_html env c @ r) = scan InText r"
  by (auto simp: status_badge_def policy_badge_def cycle_html_def emit_def Let_def
      scan_text[OF no_lt_nat_str] scan_escaped glyphs_scan split: option.splits)

lemma texts_scan:
  "scan InText (limit_text c @ r) = scan InText r" "scan InText (used_text c @ r) = scan InText r"
  "scan InText (last_seen_text env c @ r) = scan InText r"
  "scan (Value t as n v) (used_class c @ r) = scan (Value t as n (rev (used_class c) @ v)) r"
proof -
  show "scan InText (limit_text c @ r) = scan InText r" "scan InText (used_text c @ r) = scan InText r"
    "scan InText (last_seen_text env c @ r) = scan InText r"
    by (rule scan_text, rule tags_0, rule tags_texts)+
  show "scan (Value t as n v) (used_class c @ r) = scan (Value t as n (rev (used_class c) @ v)) r"
    by (rule scan_value) (auto simp: used_class_def)
qed

definition chip_button :: "jsval \<Rightarrow> jsval \<Rightarrow> string \<times> attrs" where
  "chip_button c ip = (''button'',
     [(''class'', ''remove-client-ip-btn inline-flex items-center justify-center w-6 h-6 rounded hover:text-red-400 hover:bg-red-500/10 transition leading-none''),
      (''data-id'', shown_text (jget c ''id'')), (''data-ip'', shown_text ip),
      (''title'', ''Remove IP''), (''aria-label'', ''Remove IP '' @ shown_text ip)])"

lemma chip_scan: "scan InText (ip_chip c ip @ r) = chip_button c ip # scan InText r"
  by (simp add: ip_chip_def chip_button_def emit_def scan_escaped glyphs_scan)

lemma chips_scan:
  "scan InText (concat (map (ip_chip c) ips) @ r) = map (chip_button c) ips @ scan InText r"
  by (induction ips) (simp_all add: chip_scan del: append_assoc)

lemma ips_scan:
  "scan InText (ips_html c @ r) = map (chip_button c) (arr_elems (jget c ''allowed_ips'')) @ scan InText r"
  by (simp add: ips_html_def Let_def chips_scan emit_def)

lemma shown_str [simp]: "shown_text (JStr s) = s"
  by (simp add: shown_text_def)

lemma chip_click: "on_card_click ask cl (snd (chip_button c ip)) =
    do { removeClientIP ask (shown_text (jget c ''id'')) (shown_text ip); ret None }"
  by (simp add: on_card_click_def has_class_def chip_button_def data_attr_def)

text \<open>The buttons of a card: above the addresses, one for each address, and below.\<close>

definition button_tag :: "string \<Rightarrow> attrs \<Rightarrow> string \<times> attrs" where
  "button_tag cls as = (''button'', (''class'', cls) # as)"

definition upper_buttons :: "jsval \<Rightarrow> (string \<times> attrs) list" where
  "upper_buttons c =
    [button_tag ''edit-client-btn p-1.5 rounded-lg bg-slate-900 hover:bg-cyan-500/20 text-slate-400 hover:text-cyan-300 border border-slate-800 transition''
       [(''data-id'', shown_text (jget c ''id'')),
        (''title'', ''Edit Client'')],
     button_tag ''toggle-client-btn p-1.5 rounded-lg bg-slate-900 hover:bg-slate-800 text-slate-400 hover:text-cyan-400 border border-slate-800 transition''
       [(''data-id'', shown_text (jget c ''id'')),
        (''data-enabled'', if truthy (jget c ''enabled'') then ''false'' else ''true''),
        (''title'', if truthy (jget c ''enabled'') then ''Disable Client'' else ''Enable Client'')],
     button_tag ''delete-client-btn p-1.5 rounded-lg bg-slate-900 hover:bg-red-500/20 text-slate-400 hover:text-red-400 border border-slate-800 transition''
       [(''data-id'', shown_text (jget c ''id'')),
        (''data-name'', shown_text (jget c ''name'')),
        (''title'', ''Delete Client'')],
     button_tag ''copy-uuid-btn inline-flex items-center justify-center w-6 h-6 shrink-0 rounded text-slate-400 hover:text-cyan-300 hover:bg-cyan-500/10 transition ms-1''
       [(''data-uuid'', shown_text (jget c ''uuid'')),
        (''title'', ''Copy UUID''),
        (''aria-label'', ''Copy UUID'')],
     button_tag ''add-ip-prompt-btn text-cyan-400 hover:text-cyan-300 text-[10px] font-mono flex items-center justify-center gap-0.5 min-h-[24px] px-1.5 -me-1.5 rounded hover:bg-cyan-500/10 transition''
       [(''data-id'', shown_text (jget c ''id'')),
        (''data-ip'', shown_text (current_ip c))]]"

definition lower_buttons :: "cenv \<Rightarrow> string \<Rightarrow> jsval \<Rightarrow> jsval \<Rightarrow> (string \<times> attrs) list" where
  "lower_buttons env origin dnsIP c =
    [button_tag ''copy-reg-link-btn py-1.5 px-2 rounded-lg bg-cyan-500/10 hover:bg-cyan-500/20 text-cyan-300 border border-cyan-500/30 text-[11px] font-bold font-heading flex items-center justify-center gap-1 transition truncate''
       [(''data-url'', sub_url origin c)],
     button_tag ''copy-telegram-card-btn py-1.5 px-2 rounded-lg bg-purple-500/10 hover:bg-purple-500/20 text-purple-300 border border-purple-500/30 text-[11px] font-bold font-heading flex items-center justify-center gap-1 transition truncate''
       [(''data-id'', shown_text (jget c ''id'')),
        (''data-name'', shown_text (jget c ''name'')),
        (''data-exp'', exp_text env c),
        (''data-url'', sub_url origin c),
        (''data-reg-url'', reg_url origin c),
        (''data-secret'', shown_text (js_or (jget c ''register_secret'') (JStr []))),
        (''data-ip'', shown_text dnsIP),
        (''data-uuid'', shown_text (jget c ''uuid''))],
     button_tag ''renew-client-btn py-1.5 px-2 rounded-lg bg-slate-900 hover:bg-emerald-500/20 text-slate-300 hover:text-emerald-400 border border-slate-800 text-[11px] font-bold font-heading flex items-center justify-center gap-1 transition truncate''
       [(''data-id'', shown_text (jget c ''id''))]]"

text \<open>Reversing in one pass, for the long class attributes.\<close>

fun onto :: "string \<Rightarrow> string \<Rightarrow> string" where
  "onto [] acc = acc"
| "onto (c # s) acc = onto s (c # acc)"

lemma onto_rev: "onto s acc = rev s @ acc"
  by (induction s acc rule: onto.induct) auto

lemma rev_onto: "rev s = onto s []"
  by (simp add: onto_rev)

lemma onto_parts [simp]:
  "onto (s @ t) acc = onto t (onto s acc)" "onto (onto s t) acc = onto t (s @ acc)"
  by (simp_all add: onto_rev)

lemma decode_plain: "CHR ''&'' \<notin> set s \<Longrightarrow> html_decode s = s"
  by (induction s) auto

lemma choice_scan:
  "scan InText (js_string (JBool b) @ r) = scan InText r"
  "scan (Value t as n v) (js_string (JBool b) @ r) = scan (Value t as n (rev (js_string (JBool b)) @ v)) r"
  "CHR 0x22 \<notin> set s \<Longrightarrow> CHR 0x22 \<notin> set s' \<Longrightarrow> scan (Value t as n v) ((if b then s else s') @ r) =
     scan (Value t as n (rev (if b then s else s') @ v)) r"
  "CHR ''<'' \<notin> set s \<Longrightarrow> CHR ''<'' \<notin> set s' \<Longrightarrow> scan InText ((if b then s else s') @ r) = scan InText r"
  "html_decode (if b then s else s') = (if b then html_decode s else html_decode s')"
  by (simp_all add: scan_value scan_text)

lemma rev_rev_append: "rev (rev s @ []) = s"
  by simp

lemma card_reads:
  assumes "CHR ''<'' \<notin> set (max_devices c)" "CHR ''<'' \<notin> set (queries_text env c)"
    "CHR ''<'' \<notin> set (ips_count c)"
  shows "buttons_of (client_card env origin dnsIP c) =
    upper_buttons c @ map (chip_button c) (arr_elems (jget c ''allowed_ips'')) @ lower_buttons env origin dnsIP c"
  unfolding buttons_of_def client_card_def client_card_html_def
  apply (simp add: emit_def choice_scan escaped_chars scan_escaped glyphs_scan badges_scan texts_scan ips_scan
      scan_text[OF assms(1)] scan_text[OF assms(2)] scan_text[OF assms(3)] cong: scan_cong if_weak_cong
      del: html_decode.simps split del: if_split)
  apply (simp add: upper_buttons_def lower_buttons_def button_tag_def)
  done


section \<open>What the buttons of a card do\<close>

text \<open>Of the classes the listeners ask for, a button has one; the others are its styling.\<close>

definition asked :: "string list" where
  "asked = [''copy-reg-link-btn'', ''copy-telegram-card-btn'', ''renew-client-btn'', ''toggle-client-btn'',
     ''delete-client-btn'', ''add-ip-prompt-btn'', ''remove-client-ip-btn'', ''copy-uuid-btn'',
     ''edit-client-btn'']"

definition asked_in :: "string \<Rightarrow> string list" where
  "asked_in cls = filter (\<lambda>x. x \<in> set asked) (split_on (\<lambda>x. x = CHR '' '') cls)"

lemma has_class_tag:
  "has_class (snd (button_tag cls as)) x \<longleftrightarrow> x \<in> set (asked_in cls)" if "x \<in> set asked"
  using that by (simp add: has_class_def button_tag_def asked_in_def)

lemma tag_data: "data_attr (snd (button_tag cls as)) k = data_attr as k"
  by (simp add: data_attr_def button_tag_def)

lemma click_tag:
  "asked_in cls = [''edit-client-btn''] \<Longrightarrow> on_card_click ask cl (snd (button_tag cls as)) = ret None"
  "asked_in cls = [''toggle-client-btn''] \<Longrightarrow> on_card_click ask cl (snd (button_tag cls as)) =
     do { toggleClient (data_attr as ''id'') (data_attr as ''enabled''); ret None }"
  "asked_in cls = [''delete-client-btn''] \<Longrightarrow> on_card_click ask cl (snd (button_tag cls as)) =
     do { deleteClient ask (data_attr as ''id'') (data_attr as ''name''); ret None }"
  "asked_in cls = [''copy-uuid-btn''] \<Longrightarrow> on_card_click ask cl (snd (button_tag cls as)) =
     copy_uuid cl (data_attr as ''uuid'')"
  "asked_in cls = [''add-ip-prompt-btn''] \<Longrightarrow> on_card_click ask cl (snd (button_tag cls as)) =
     do { setClientIP ask (data_attr as ''id'') (data_attr as ''ip''); ret None }"
  by (simp_all add: on_card_click_def tag_data has_class_tag asked_def)

lemma upper_asked:
  "map (asked_in \<circ> the \<circ> (\<lambda>b. map_of (snd b) ''class'')) (upper_buttons c) =
     [[''edit-client-btn''], [''toggle-client-btn''], [''delete-client-btn''], [''copy-uuid-btn''],
      [''add-ip-prompt-btn'']]"
  by (simp add: upper_buttons_def button_tag_def asked_in_def asked_def split del: if_split)

lemma class_of_tag: "map_of (snd (button_tag cls as)) ''class'' = Some cls"
  by (simp add: button_tag_def)

lemma upper_clicks:
  "map (\<lambda>b. on_card_click ask cl (snd b)) (upper_buttons c) =
    (let cid = shown_text (jget c ''id'') in
     [ret None,
      do { toggleClient cid (if truthy (jget c ''enabled'') then ''false'' else ''true''); ret None },
      do { deleteClient ask cid (shown_text (jget c ''name'')); ret None },
      copy_uuid cl (shown_text (jget c ''uuid'')),
      do { setClientIP ask cid (shown_text (current_ip c)); ret None }])"
  using upper_asked[of c] unfolding upper_buttons_def Let_def
  by (simp add: class_of_tag click_tag data_attr_def split del: if_split)

lemma lower_clicks:
  "map (\<lambda>b. on_card_click ask cl (snd b)) (lower_buttons env origin dnsIP c) =
    (let cid = shown_text (jget c ''id'') in
     [copy_reg_link cl (sub_url origin c),
      copy_card cl \<lparr>cd_id = cid, cd_exp = exp_text env c, cd_url = sub_url origin c,
        cd_regUrl = reg_url origin c, cd_secret = shown_text (js_or (jget c ''register_secret'') (JStr '''')),
        cd_ip = shown_text dnsIP\<rparr>,
      do { renewClient cid; ret None }])"
  by (simp add: Let_def lower_buttons_def button_tag_def on_card_click_def has_class_def data_attr_def)

lemma edit_button:
  "has_class (snd (hd (upper_buttons c))) ''edit-client-btn''"
  "data_attr (snd (hd (upper_buttons c))) ''id'' = shown_text (jget c ''id'')" "upper_buttons c \<noteq> []"
  by (simp_all add: upper_buttons_def button_tag_def has_class_def data_attr_def)

text \<open>
  C26. The buttons of a painted card act on the record it was painted from. With the device limit,
  the addresses and the query counter of the types the daemon sends, reading the card's markup
  gives its nine kinds of button in order, and whatever the name, the ids, the secret and the
  addresses hold, quotes and angle brackets included, the click on each of them toggles, deletes,
  re-addresses, renews or copies with exactly that record's text: no value ends its attribute
  early, adds a button, or is read back changed. The first one carries the record's id to the
  edit form.
\<close>

theorem card_buttons_act:
  assumes "jget c ''max_devices'' = JUndef \<or> (\<exists>n. jget c ''max_devices'' = JNum n)"
    and "is_arr (jget c ''allowed_ips'') \<or> \<not> truthy (jget c ''allowed_ips'')"
    and "\<And>x. CHR ''<'' \<notin> set (ce_num env x)"
  shows "let cid = shown_text (jget c ''id'');
             buttons = map snd (buttons_of (client_card env origin dnsIP c)) in
    map (on_card_click ask cl) buttons =
     [ret None,
      do { toggleClient cid (if truthy (jget c ''enabled'') then ''false'' else ''true''); ret None },
      do { deleteClient ask cid (shown_text (jget c ''name'')); ret None },
      copy_uuid cl (shown_text (jget c ''uuid'')),
      do { setClientIP ask cid (shown_text (current_ip c)); ret None }] @
     map (\<lambda>ip. do { removeClientIP ask cid (shown_text ip); ret None }) (arr_elems (jget c ''allowed_ips'')) @
     [copy_reg_link cl (sub_url origin c),
      copy_card cl \<lparr>cd_id = cid, cd_exp = exp_text env c, cd_url = sub_url origin c,
        cd_regUrl = reg_url origin c, cd_secret = shown_text (js_or (jget c ''register_secret'') (JStr '''')),
        cd_ip = shown_text dnsIP\<rparr>,
      do { renewClient cid; ret None }] \<and>
    has_class (hd buttons) ''edit-client-btn'' \<and> data_attr (hd buttons) ''id'' = cid"
proof -
  have d: "CHR ''<'' \<notin> set (max_devices c)"
    using assms(1) no_lt_num_str by (auto simp: max_devices_def js_or_def)
  have q: "CHR ''<'' \<notin> set (queries_text env c)"
    using assms(3) by (auto simp: queries_text_def count_tile_def u_dash_def split: jsval.splits jsnum.splits)
  have n: "CHR ''<'' \<notin> set (ips_count c)"
    using assms(2) no_lt_nat_str by (auto simp: ips_count_def js_or_def split: jsval.splits elim: is_arr.elims)
  have chips: "map (\<lambda>b. on_card_click ask cl (snd b)) (map (chip_button c) xs) =
      map (\<lambda>ip. do { removeClientIP ask (shown_text (jget c ''id'')) (shown_text ip); ret None }) xs" for xs
    by (simp add: chip_click)
  have m: "map (on_card_click ask cl) (map snd bs) = map (\<lambda>b. on_card_click ask cl (snd b)) bs" for bs
    by simp
  have h: "hd (map snd (upper_buttons c) @ bs) = snd (hd (upper_buttons c))" for bs
    using edit_button(3)[of c] by (simp add: hd_map)
  show ?thesis
    unfolding Let_def card_reads[OF d q n] m map_append upper_clicks lower_clicks chips
    using edit_button(1,2)[of c] h by simp
qed

definition quoted_client :: jsval where
  "quoted_client = JObj [(''id'', JStr ''HD-1''), (''name'', JStr ''\" onclick=\"x\"><b>''), (''enabled'', JBool True),
     (''allowed_ips'', JArr [JStr ''10.0.0.1''])]"

theorem card_buttons_act_witness:
  "map (on_card_click (\<lambda>_. JBool True) \<lparr>cl_secure = True, cl_write = True, cl_exec = True\<rparr>) (map snd (buttons_of (client_card sample_env ''https://x'' JNull quoted_client))) ! 2 =
     do { deleteClient (\<lambda>_. JBool True) ''HD-1'' ''\" onclick=\"x\"><b>''; ret None }"
  using card_buttons_act[of quoted_client sample_env "''https://x''" JNull
      "\<lambda>_. JBool True" "\<lparr>cl_secure = True, cl_write = True, cl_exec = True\<rparr>"]
  by (simp add: quoted_client_def sample_env_def Let_def shown_text_def)

end
