(* ===== verification/I18n.thy ===== *)
theory I18n
  imports Js_Prelude
begin

text \<open>
  The translation engine of the panel (i18n.js): the lookup of a phrase, the walk that
  translates text nodes and attributes in place and keeps their English beside them, the
  language and the theme with their switches.

  A page is a tree of text nodes and elements. A node's cache is what the engine stored on it:
  the English it replaced and what it wrote. The dictionary is data: \<open>dict\<close> and \<open>pats\<close> are any
  table and any list of patterns, a pattern giving the translation of the texts it matches.
\<close>

record dictionary =
  dict :: "string \<Rightarrow> string option"
  pats :: "(string \<Rightarrow> string option) list"

fun first_match :: "(string \<Rightarrow> string option) list \<Rightarrow> string \<Rightarrow> string option" where
  "first_match [] s = None"
| "first_match (p # ps) s = (case p s of Some t \<Rightarrow> Some t | None \<Rightarrow> first_match ps s)"

definition lookup_fa :: "dictionary \<Rightarrow> string \<Rightarrow> string option" where
  "lookup_fa fa raw =
     (let s = js_trim raw in
      if s = '''' then None
      else case dict fa s of Some hit \<Rightarrow> Some hit | None \<Rightarrow> first_match (pats fa) s)"

section \<open>Nodes\<close>

type_synonym cache = "(string \<times> string) option"

record attribute =
  at_name :: string
  at_value :: string
  at_cache :: cache

datatype inode =
    TextNode string cache
  | Elem (tag: string) (no_i18n: bool) (elem_attrs: "attribute list") (kids: "inode list")

definition ATTRS :: "string list" where
  "ATTRS = [''placeholder'', ''title'', ''aria-label'']"

definition SKIP :: "string list" where
  "SKIP = [''SCRIPT'', ''STYLE'', ''CODE'', ''PRE'', ''TEXTAREA'', ''svg'', ''CANVAS'']"

definition skips :: "string \<Rightarrow> bool \<Rightarrow> bool" where
  "skips tg no \<longleftrightarrow> tg \<in> set SKIP \<or> js_lower tg \<in> set SKIP \<or> no"

datatype lang = En | Fa

fun replace_str :: "string \<Rightarrow> string \<Rightarrow> string \<Rightarrow> string" where
  "replace_str p r [] = (if p = [] then r else [])"
| "replace_str p r (c # s) =
     (if js_startsWith (c # s) p then r @ drop (length p) (c # s) else c # replace_str p r s)"

definition mine :: "string \<Rightarrow> cache \<Rightarrow> bool" where
  "mine cur ch \<longleftrightarrow> (case ch of None \<Rightarrow> False | Some (orig, out) \<Rightarrow> cur = out)"

definition textNode :: "dictionary \<Rightarrow> lang \<Rightarrow> string \<times> cache \<Rightarrow> string \<times> cache" where
  "textNode fa l = (\<lambda>(cur, ch).
     if js_trim cur = '''' then (cur, ch)
     else case l of
       En \<Rightarrow> if mine cur ch then (fst (the ch), ch) else (cur, ch)
     | Fa \<Rightarrow>
         if mine cur ch then (cur, ch)
         else case lookup_fa fa cur of
                None \<Rightarrow> (cur, None)
              | Some t \<Rightarrow> (let out = replace_str (js_trim cur) t cur in (out, Some (cur, out))))"

definition attr_step :: "dictionary \<Rightarrow> lang \<Rightarrow> attribute \<Rightarrow> attribute" where
  "attr_step fa l a =
     (if at_name a \<notin> set ATTRS then a
      else case l of
        En \<Rightarrow> if mine (at_value a) (at_cache a) then a\<lparr>at_value := fst (the (at_cache a))\<rparr> else a
      | Fa \<Rightarrow>
          if mine (at_value a) (at_cache a) then a
          else case lookup_fa fa (at_value a) of
                 None \<Rightarrow> a
               | Some t \<Rightarrow> a\<lparr>at_value := t, at_cache := Some (at_value a, t)\<rparr>)"

fun walk :: "dictionary \<Rightarrow> lang \<Rightarrow> inode \<Rightarrow> inode" where
  "walk fa l (TextNode v ch) = (case textNode fa l (v, ch) of (v', ch') \<Rightarrow> TextNode v' ch')"
| "walk fa l (Elem tg no as ks) =
     (if skips tg no then Elem tg no as ks
      else Elem tg no (map (attr_step fa l) as) (map (walk fa l) ks))"

section \<open>Language and theme\<close>

record switch =
  sw_title :: string
  sw_pressed :: bool
  sw_icon :: string

record i18n =
  i_lang :: lang
  i_light :: bool
  i_page :: inode
  i_dir :: string
  i_htmlLang :: string
  i_theme :: string
  i_dark :: bool
  i_store :: "string \<rightharpoonup> string"
  i_toggle :: switch
  i_langButtons :: "(string \<times> bool) list"
  i_events :: "string list"

abbreviation LANG_KEY :: string where "LANG_KEY \<equiv> ''JozmozDNS_lang''"
abbreviation THEME_KEY :: string where "THEME_KEY \<equiv> ''JozmozDNS_theme''"

fun lang_code :: "lang \<Rightarrow> string" where
  "lang_code En = ''en''"
| "lang_code Fa = ''fa''"

definition applyDir :: "i18n \<Rightarrow> i18n" where
  "applyDir s = s\<lparr>i_htmlLang := lang_code (i_lang s), i_dir := (if i_lang s = Fa then ''rtl'' else ''ltr'')\<rparr>"

definition toggle_label :: "bool \<Rightarrow> lang \<Rightarrow> string" where
  "toggle_label toLight l =
     (if toLight
      then (if l = Fa then hx ''D8AAD8BADB8CDB8CD8B120D8A8D98720D9BED988D8B3D8AAD987D99420D8B1D988D8B4D986''
            else ''Switch to light theme'')
      else (if l = Fa then hx ''D8AAD8BADB8CDB8CD8B120D8A8D98720D9BED988D8B3D8AAD987D99420D8AADB8CD8B1D987''
            else ''Switch to dark theme''))"

definition syncSwitchLabels :: "i18n \<Rightarrow> i18n" where
  "syncSwitchLabels s =
     s\<lparr>i_toggle := \<lparr>sw_title = toggle_label (\<not> i_light s) (i_lang s), sw_pressed = i_light s,
        sw_icon = (if i_light s then ''moon'' else ''sun'')\<rparr>,
      i_langButtons := map (\<lambda>(l, on). (l, l = lang_code (i_lang s))) (i_langButtons s)\<rparr>"

text \<open>\<open>ok\<close>: whether localStorage takes the write.\<close>

definition applyLang :: "dictionary \<Rightarrow> bool \<Rightarrow> string \<Rightarrow> bool \<Rightarrow> i18n \<Rightarrow> i18n" where
  "applyLang fa ok next persist s =
     (let l = (if next = ''fa'' then Fa else En);
          s1 = s\<lparr>i_lang := l\<rparr>;
          s2 = (if persist \<and> ok then s1\<lparr>i_store := (i_store s1)(LANG_KEY \<mapsto> lang_code l)\<rparr> else s1);
          s3 = applyDir s2;
          s4 = syncSwitchLabels (s3\<lparr>i_page := walk fa l (i_page s3)\<rparr>) in
      s4\<lparr>i_events := i_events s4 @ [''JozmozDNS:lang'']\<rparr>)"

definition applyTheme :: "bool \<Rightarrow> string \<Rightarrow> bool \<Rightarrow> i18n \<Rightarrow> i18n" where
  "applyTheme ok next persist s =
     (let light = (next = ''light'');
          s1 = s\<lparr>i_light := light, i_theme := (if light then ''light'' else ''dark''), i_dark := \<not> light\<rparr>;
          s2 = (if persist \<and> ok then s1\<lparr>i_store := (i_store s1)(THEME_KEY \<mapsto> i_theme s1)\<rparr> else s1);
          s3 = syncSwitchLabels s2 in
      s3\<lparr>i_events := i_events s3 @ [''JozmozDNS:theme'']\<rparr>)"

definition toggle_theme :: "bool \<Rightarrow> i18n \<Rightarrow> i18n" where
  "toggle_theme ok s = applyTheme ok (if i_light s then ''dark'' else ''light'') True s"

text \<open>What localStorage remembers, or the fallback; \<open>ok\<close>: whether it can be read.\<close>

definition stored_or :: "bool \<Rightarrow> (string \<rightharpoonup> string) \<Rightarrow> string \<Rightarrow> string \<Rightarrow> string" where
  "stored_or ok st k fallback =
     (if \<not> ok then fallback
      else case st k of None \<Rightarrow> fallback | Some v \<Rightarrow> if v = '''' then fallback else v)"

definition init_i18n :: "dictionary \<Rightarrow> bool \<Rightarrow> i18n \<Rightarrow> i18n" where
  "init_i18n fa ok s =
     (let theme = (if i_theme s = ''light'' \<or> stored_or ok (i_store s) THEME_KEY ''dark'' = ''light''
                   then ''light'' else ''dark'');
          s1 = applyTheme ok theme False s in
      applyLang fa ok (stored_or ok (i_store s1) LANG_KEY ''en'') False s1)"

text \<open>
  The observer: the app wrote a text or an attribute of a node, or added nodes; what it touched
  is translated, unless the panel is in English.
\<close>

definition observed :: "dictionary \<Rightarrow> lang \<Rightarrow> inode \<Rightarrow> inode" where
  "observed fa l n = (if l = En then n else walk fa l n)"

definition hyper_t :: "dictionary \<Rightarrow> lang \<Rightarrow> string \<Rightarrow> string" where
  "hyper_t fa l s =
     (if l = En then s else case lookup_fa fa s of None \<Rightarrow> s | Some t \<Rightarrow> t)"

section \<open>The English behind a page\<close>

definition source_text :: "string \<Rightarrow> cache \<Rightarrow> string" where
  "source_text v ch = (if mine v ch then fst (the ch) else v)"

fun source :: "inode \<Rightarrow> inode" where
  "source (TextNode v ch) = TextNode (if js_trim v = '''' then v else source_text v ch) None"
| "source (Elem tg no as ks) =
     (if skips tg no then Elem tg no as ks
      else Elem tg no (map (\<lambda>a. if at_name a \<in> set ATTRS
          then a\<lparr>at_value := source_text (at_value a) (at_cache a), at_cache := None\<rparr> else a) as)
        (map source ks))"

text \<open>The page as the reader sees it: caches left out of the translated part.\<close>

fun visible :: "inode \<Rightarrow> inode" where
  "visible (TextNode v ch) = TextNode v None"
| "visible (Elem tg no as ks) =
     (if skips tg no then Elem tg no as ks
      else Elem tg no (map (\<lambda>a. if at_name a \<in> set ATTRS then a\<lparr>at_cache := None\<rparr> else a) as)
        (map visible ks))"

text \<open>A translation is never blank, and every cache is one the engine wrote.\<close>

definition proper_dictionary :: "dictionary \<Rightarrow> bool" where
  "proper_dictionary fa \<longleftrightarrow> (\<forall>s t. lookup_fa fa s = Some t \<longrightarrow> js_trim t \<noteq> '''')"

definition text_out :: "dictionary \<Rightarrow> string \<Rightarrow> string" where
  "text_out fa v =
     (if js_trim v = '''' then v
      else case lookup_fa fa v of None \<Rightarrow> v | Some t \<Rightarrow> replace_str (js_trim v) t v)"

definition attr_out :: "dictionary \<Rightarrow> string \<Rightarrow> string" where
  "attr_out fa v = (case lookup_fa fa v of None \<Rightarrow> v | Some t \<Rightarrow> t)"

fun translate :: "dictionary \<Rightarrow> inode \<Rightarrow> inode" where
  "translate fa (TextNode v ch) = TextNode (text_out fa v) None"
| "translate fa (Elem tg no as ks) =
     (if skips tg no then Elem tg no as ks
      else Elem tg no (map (\<lambda>a. if at_name a \<in> set ATTRS
          then a\<lparr>at_value := attr_out fa (at_value a), at_cache := None\<rparr> else a) as)
        (map (translate fa) ks))"

definition cache_ok :: "dictionary \<Rightarrow> (string \<Rightarrow> string) \<Rightarrow> cache \<Rightarrow> bool" where
  "cache_ok fa out ch \<longleftrightarrow> (case ch of None \<Rightarrow> True | Some (orig, o') \<Rightarrow>
     o' = out orig \<and> lookup_fa fa orig \<noteq> None)"

fun caches_ok :: "dictionary \<Rightarrow> inode \<Rightarrow> bool" where
  "caches_ok fa (TextNode v ch) = cache_ok fa (text_out fa) ch"
| "caches_ok fa (Elem tg no as ks) =
     (skips tg no \<or> list_all (\<lambda>a. at_name a \<in> set ATTRS \<longrightarrow> cache_ok fa (attr_out fa) (at_cache a)) as \<and>
        list_all (caches_ok fa) ks)"

lemma trim_blank: "js_trim s = '''' \<longleftrightarrow> list_all is_space s"
proof
  assume "js_trim s = ''''"
  then have "dropWhile is_space (rev (dropWhile is_space s)) = []" by (simp add: js_trim_def)
  then have "\<forall>c \<in> set (dropWhile is_space s). is_space c" by (simp add: dropWhile_eq_Nil_conv)
  then have "dropWhile is_space s = []" by (metis hd_dropWhile list.set_sel(1))
  then show "list_all is_space s" by (simp add: dropWhile_eq_Nil_conv list_all_iff)
qed (auto simp: js_trim_def list_all_iff dest: set_dropWhileD)

lemma lookup_not_blank: "lookup_fa fa s = Some t \<Longrightarrow> js_trim s \<noteq> ''''"
  by (auto simp: lookup_fa_def Let_def split: if_splits)

lemma startsWith_prefix: "js_startsWith s p \<longleftrightarrow> (\<exists>t. s = p @ t)"
  by (induction s p rule: js_startsWith.induct) auto

lemma set_replace_str: "(\<exists>a b. s = a @ p @ b) \<Longrightarrow> set r \<subseteq> set (replace_str p r s)"
proof (induction p r s rule: replace_str.induct)
  case (2 p r c s)
  show ?case
  proof (cases "js_startsWith (c # s) p")
    case False
    obtain a b where ab: "c # s = a @ p @ b" using 2 by blast
    then have "a \<noteq> []" using False by (auto simp: startsWith_prefix)
    then have "\<exists>a b. s = a @ p @ b" using ab by (cases a) auto
    then show ?thesis using 2 False by auto
  qed auto
qed auto

lemma text_out_blank:
  assumes "proper_dictionary fa" shows "js_trim (text_out fa v) = '''' \<longleftrightarrow> js_trim v = ''''"
proof (cases "lookup_fa fa v")
  case (Some t)
  have "\<exists>a b. v = a @ js_trim v @ b" using js_trim_split[of v] by blast
  then have "set t \<subseteq> set (replace_str (js_trim v) t v)" by (rule set_replace_str)
  moreover have "js_trim t \<noteq> ''''" using assms Some by (auto simp: proper_dictionary_def)
  ultimately have "js_trim (replace_str (js_trim v) t v) \<noteq> ''''"
    by (auto simp: trim_blank list_all_iff)
  then show ?thesis using Some lookup_not_blank[OF Some] by (simp add: text_out_def)
qed (simp add: text_out_def)

lemma text_step:
  assumes "proper_dictionary fa" "cache_ok fa (text_out fa) ch" "textNode fa l (v, ch) = (v', ch')"
  shows "cache_ok fa (text_out fa) ch'"
    "(if js_trim v' = '''' then v' else source_text v' ch') = (if js_trim v = '''' then v else source_text v ch)"
    "v' = (let s = (if js_trim v = '''' then v else source_text v ch) in
      case l of En \<Rightarrow> s | Fa \<Rightarrow> text_out fa s)"
proof -
  have b: "js_trim (text_out fa o') = '''' \<longleftrightarrow> js_trim o' = ''''" for o' using assms(1) by (rule text_out_blank)
  have m: "mine v ch \<Longrightarrow> \<exists>o' t. ch = Some (o', v) \<and> v = text_out fa o' \<and> lookup_fa fa o' = Some t"
    using assms(2) by (auto simp: mine_def cache_ok_def split: option.splits)
  note d = textNode_def cache_ok_def source_text_def mine_def text_out_def
  have t: "text_out fa v = replace_str (js_trim v) t v" if "lookup_fa fa v = Some t" for t
    using that lookup_not_blank[OF that] by (simp add: text_out_def)
  consider "js_trim v = ''''" | "js_trim v \<noteq> ''''" "mine v ch" | "js_trim v \<noteq> ''''" "\<not> mine v ch" by blast
  then have "cache_ok fa (text_out fa) ch' \<and>
      (if js_trim v' = '''' then v' else source_text v' ch') = (if js_trim v = '''' then v else source_text v ch) \<and>
      v' = (let s = (if js_trim v = '''' then v else source_text v ch) in case l of En \<Rightarrow> s | Fa \<Rightarrow> text_out fa s)"
  proof cases
    case 1
    then show ?thesis using assms(2,3) by (cases l) (auto simp: textNode_def text_out_def)
  next
    case 2
    then obtain o' t where o': "ch = Some (o', v)" "v = text_out fa o'" "lookup_fa fa o' = Some t" using m by blast
    then have "js_trim o' \<noteq> ''''" using 2(1) b by simp
    then show ?thesis using 2 o' assms(2,3)
      by (cases l) (auto simp: textNode_def source_text_def mine_def)
  next
    case 3
    show ?thesis
    proof (cases l)
      case En
      then show ?thesis using 3 assms(2,3) by (auto simp: textNode_def source_text_def)
    next
      case Fa
      show ?thesis
      proof (cases "lookup_fa fa v")
        case None
        then show ?thesis using 3 Fa assms(2,3)
          by (auto simp: textNode_def source_text_def mine_def cache_ok_def text_out_def)
      next
        case (Some x)
        then have "v' = text_out fa v" "ch' = Some (v, text_out fa v)"
          using 3 Fa assms(3) t[OF Some] by (auto simp: textNode_def Let_def)
        then show ?thesis using 3 Fa Some b[of v]
          by (auto simp: source_text_def mine_def cache_ok_def)
      qed
    qed
  qed
  then show "cache_ok fa (text_out fa) ch'"
    "(if js_trim v' = '''' then v' else source_text v' ch') = (if js_trim v = '''' then v else source_text v ch)"
    "v' = (let s = (if js_trim v = '''' then v else source_text v ch) in
      case l of En \<Rightarrow> s | Fa \<Rightarrow> text_out fa s)" by blast+
qed

lemma attr_kept:
  assumes "at_name a \<in> set ATTRS \<longrightarrow> cache_ok fa (attr_out fa) (at_cache a)"
  shows "at_name (attr_step fa l a) = at_name a"
    "at_name a \<in> set ATTRS \<longrightarrow> cache_ok fa (attr_out fa) (at_cache (attr_step fa l a))"
    "at_name a \<in> set ATTRS \<longrightarrow>
       source_text (at_value (attr_step fa l a)) (at_cache (attr_step fa l a)) =
       source_text (at_value a) (at_cache a)"
    "at_name a \<in> set ATTRS \<longrightarrow> at_value (attr_step fa l a) =
       (case l of En \<Rightarrow> source_text (at_value a) (at_cache a)
        | Fa \<Rightarrow> attr_out fa (source_text (at_value a) (at_cache a)))"
    "at_name a \<notin> set ATTRS \<longrightarrow> attr_step fa l a = a"
  using assms
  by (auto simp: attr_step_def cache_ok_def source_text_def mine_def attr_out_def
      split: lang.splits option.splits)

lemma attr_eq:
  assumes "at_name a \<in> set ATTRS \<longrightarrow> cache_ok fa (attr_out fa) (at_cache a)"
  shows "at_name a \<in> set ATTRS \<Longrightarrow>
      (attr_step fa l a)\<lparr>at_value := v, at_cache := None\<rparr> = a\<lparr>at_value := v, at_cache := None\<rparr>"
    "at_name a \<in> set ATTRS \<Longrightarrow>
      (attr_step fa l a)\<lparr>at_cache := None\<rparr> = a\<lparr>at_value := at_value (attr_step fa l a), at_cache := None\<rparr>"
  using attr_kept(1)[OF assms, of l] by (cases a; cases "attr_step fa l a"; simp)+

lemma walk_kept:
  assumes "proper_dictionary fa" "caches_ok fa p"
  shows "caches_ok fa (walk fa l p) \<and> source (walk fa l p) = source p \<and>
    visible (walk fa l p) = (case l of En \<Rightarrow> source p | Fa \<Rightarrow> translate fa (source p))"
  using assms(2)
proof (induction p)
  case (TextNode v ch)
  obtain v' ch' where s: "textNode fa l (v, ch) = (v', ch')" by (cases "textNode fa l (v, ch)")
  then show ?case
    using text_step[OF assms(1) _ s] TextNode by (cases l) (auto simp: Let_def)
next
  case (Elem tg no as ks)
  show ?case
  proof (cases "skips tg no")
    case False
    have a: "\<forall>a\<in>set as. at_name a \<in> set ATTRS \<longrightarrow> cache_ok fa (attr_out fa) (at_cache a)"
      and k: "\<forall>k\<in>set ks. caches_ok fa k"
      using Elem.prems False by (auto simp: list_all_iff)
    have as: "map (\<lambda>a. if at_name a \<in> set ATTRS then a\<lparr>at_value := source_text (at_value a) (at_cache a),
          at_cache := None\<rparr> else a) (map (attr_step fa l) as) =
        map (\<lambda>a. if at_name a \<in> set ATTRS then a\<lparr>at_value := source_text (at_value a) (at_cache a),
          at_cache := None\<rparr> else a) as"
      using a attr_kept attr_eq(1) by (auto simp: list.map_comp o_def intro!: map_cong)
    have av: "map (\<lambda>a. if at_name a \<in> set ATTRS then a\<lparr>at_cache := None\<rparr> else a) (map (attr_step fa l) as) =
        map (\<lambda>a. if at_name a \<in> set ATTRS then a\<lparr>at_value := (case l of En \<Rightarrow> source_text (at_value a) (at_cache a)
          | Fa \<Rightarrow> attr_out fa (source_text (at_value a) (at_cache a))), at_cache := None\<rparr> else a) as"
      using a attr_kept attr_eq(2) by (auto simp: list.map_comp o_def intro!: map_cong)
    have ok: "list_all (\<lambda>a. at_name a \<in> set ATTRS \<longrightarrow> cache_ok fa (attr_out fa) (at_cache a)) (map (attr_step fa l) as)"
      using a attr_kept by (auto simp: list_all_iff)
    show ?thesis
      using Elem.IH k False as av ok
      by (cases l) (auto simp: list_all_iff list.map_comp o_def intro!: map_cong)
  qed (cases l; simp)
qed

section \<open>A page over time\<close>

text \<open>The operator picks a language or flips the theme, or the app renders a new page.\<close>

datatype page_event = Speak string bool | FlipTheme | Render inode

fun page_step :: "dictionary \<Rightarrow> bool \<Rightarrow> page_event \<Rightarrow> i18n \<Rightarrow> i18n" where
  "page_step fa ok (Speak next persist) s = applyLang fa ok next persist s"
| "page_step fa ok FlipTheme s = toggle_theme ok s"
| "page_step fa ok (Render p) s = s\<lparr>i_page := observed fa (i_lang s) p\<rparr>"

definition run_page :: "dictionary \<Rightarrow> bool \<Rightarrow> page_event list \<Rightarrow> i18n \<Rightarrow> i18n" where
  "run_page fa ok es s = foldl (\<lambda>s e. page_step fa ok e s) s es"

text \<open>A page as the app writes it: no caches yet.\<close>

fun untouched :: "inode \<Rightarrow> bool" where
  "untouched (TextNode v ch) = (ch = None)"
| "untouched (Elem tg no as ks) =
     (skips tg no \<or> list_all (\<lambda>a. at_name a \<in> set ATTRS \<longrightarrow> at_cache a = None) as \<and> list_all untouched ks)"

lemma source_text_None [simp]: "source_text v None = v"
  by (simp add: source_text_def mine_def)

lemma untouched_source: "untouched p \<Longrightarrow> source p = p \<and> visible p = p \<and> caches_ok fa p"
proof (induction p)
  case (Elem tg no as ks)
  have "a\<lparr>at_value := at_value a, at_cache := None\<rparr> = a" "a\<lparr>at_cache := None\<rparr> = a"
    if "at_cache a = None" for a
    using that by (cases a; simp)+
  then show ?case using Elem
    by (auto simp: list_all_iff cache_ok_def intro!: map_idI)
qed (simp_all add: source_text_def mine_def cache_ok_def)

fun last_rendered :: "inode \<Rightarrow> page_event list \<Rightarrow> inode" where
  "last_rendered p [] = p"
| "last_rendered p (Render q # es) = last_rendered q es"
| "last_rendered p (e # es) = last_rendered p es"

definition in_language :: "dictionary \<Rightarrow> lang \<Rightarrow> inode \<Rightarrow> inode" where
  "in_language fa l p = (case l of En \<Rightarrow> p | Fa \<Rightarrow> translate fa p)"

definition page_ok :: "dictionary \<Rightarrow> inode \<Rightarrow> i18n \<Rightarrow> bool" where
  "page_ok fa p s \<longleftrightarrow> caches_ok fa (i_page s) \<and> source (i_page s) = p \<and>
     visible (i_page s) = in_language fa (i_lang s) p \<and>
     i_dir s = (if i_lang s = Fa then ''rtl'' else ''ltr'') \<and> i_htmlLang s = lang_code (i_lang s)"

lemma applyLang_parts:
  "i_page (applyLang fa ok next persist s) = walk fa (if next = ''fa'' then Fa else En) (i_page s)"
  "i_lang (applyLang fa ok next persist s) = (if next = ''fa'' then Fa else En)"
  "i_dir (applyLang fa ok next persist s) = (if next = ''fa'' then ''rtl'' else ''ltr'')"
  "i_htmlLang (applyLang fa ok next persist s) = lang_code (if next = ''fa'' then Fa else En)"
  by (simp_all add: applyLang_def Let_def applyDir_def syncSwitchLabels_def)

lemma toggle_theme_parts:
  "i_page (toggle_theme ok s) = i_page s" "i_lang (toggle_theme ok s) = i_lang s"
  "i_dir (toggle_theme ok s) = i_dir s" "i_htmlLang (toggle_theme ok s) = i_htmlLang s"
  by (simp_all add: toggle_theme_def applyTheme_def Let_def syncSwitchLabels_def)

lemma page_step_ok:
  assumes "proper_dictionary fa" "page_ok fa p s" "\<forall>q. e = Render q \<longrightarrow> untouched q"
  shows "page_ok fa (last_rendered p [e]) (page_step fa ok e s)"
proof (cases e)
  case (Speak code persist)
  then show ?thesis
    using assms(2) walk_kept[OF assms(1), of "i_page s"]
    by (auto simp: page_ok_def applyLang_parts in_language_def)
next
  case FlipTheme
  then show ?thesis using assms(2) by (simp add: page_ok_def toggle_theme_parts)
next
  case (Render q)
  then have q: "source q = q" "visible q = q" "caches_ok fa q" using assms(3) untouched_source by auto
  then show ?thesis
    using assms(2) walk_kept[OF assms(1) q(3), of Fa]
    by (cases "i_lang s") (auto simp: Render page_ok_def observed_def in_language_def)
qed

lemma run_page_ok:
  assumes "proper_dictionary fa" "page_ok fa p s" "\<forall>q. Render q \<in> set es \<longrightarrow> untouched q"
  shows "page_ok fa (last_rendered p es) (run_page fa ok es s)"
  using assms(2,3)
proof (induction es arbitrary: p s)
  case (Cons e es)
  have "page_ok fa (last_rendered p [e]) (page_step fa ok e s)"
    using page_step_ok[OF assms(1) Cons.prems(1)] Cons.prems(2) by auto
  moreover have "last_rendered p (e # es) = last_rendered (last_rendered p [e]) es" by (cases e) auto
  ultimately show ?case using Cons by (simp add: run_page_def)
qed (simp add: run_page_def)

text \<open>
  C7. Translation is reversible and never stale: with a dictionary that has no blank
  translations, after any sequence of language choices, theme flips and pages rendered by the
  app, the reader sees exactly the last page the app rendered, in English as it was written and
  in Persian with every known phrase translated and nothing inside code, styles, text areas or
  marked elements touched; and the document is right-to-left exactly in Persian.
\<close>

theorem language_switch_faithful:
  assumes "proper_dictionary fa" "untouched (i_page s)" "i_lang s = En" "i_dir s = ''ltr''" "i_htmlLang s = ''en''"
    and "\<forall>q. Render q \<in> set es \<longrightarrow> untouched q"
  shows "let s' = run_page fa ok es s in
    visible (i_page s') = in_language fa (i_lang s') (last_rendered (i_page s) es) \<and>
    i_dir s' = (if i_lang s' = Fa then ''rtl'' else ''ltr'')"
proof -
  have "page_ok fa (i_page s) s"
    using assms untouched_source[OF assms(2), of fa] by (simp add: page_ok_def in_language_def)
  then show ?thesis
    using run_page_ok[OF assms(1) _ assms(6)] by (simp add: page_ok_def Let_def)
qed

definition small_dictionary :: dictionary where
  "small_dictionary = \<lparr>dict = (\<lambda>s. if s = ''Save'' then Some ''Zakhire'' else None), pats = []\<rparr>"

definition small_page :: i18n where
  "small_page = \<lparr>i_lang = En, i_light = False,
     i_page = Elem ''DIV'' False [] [TextNode '' Save '' None, Elem ''CODE'' False [] [TextNode ''Save'' None]],
     i_dir = ''ltr'', i_htmlLang = ''en'', i_theme = ''dark'', i_dark = True, i_store = Map.empty,
     i_toggle = \<lparr>sw_title = '''', sw_pressed = False, sw_icon = ''sun''\<rparr>,
     i_langButtons = [(''en'', True), (''fa'', False)], i_events = []\<rparr>"

theorem language_switch_faithful_witness:
  "visible (i_page (run_page small_dictionary True [Speak ''fa'' True] small_page)) =
     Elem ''DIV'' False [] [TextNode '' Zakhire '' None, Elem ''CODE'' False [] [TextNode ''Save'' None]] \<and>
   visible (i_page (run_page small_dictionary True [Speak ''fa'' True, Speak ''en'' True] small_page)) =
     i_page small_page"
proof -
  have z: "js_trim ''Zakhire'' = ''Zakhire''" "js_trim '' Save '' = ''Save''" by code_simp+
  have p: "proper_dictionary small_dictionary"
    by (auto simp: proper_dictionary_def lookup_fa_def small_dictionary_def Let_def z split: if_splits)
  have k: "\<not> skips ''DIV'' False" "skips ''CODE'' False" by code_simp+
  have t: "translate small_dictionary (i_page small_page) =
      Elem ''DIV'' False [] [TextNode '' Zakhire '' None, Elem ''CODE'' False [] [TextNode ''Save'' None]]"
    by (simp add: small_page_def k text_out_def lookup_fa_def z small_dictionary_def Let_def)
  have u: "untouched (i_page small_page)" by (simp add: small_page_def k)
  have l: "i_lang (run_page small_dictionary True [Speak ''fa'' True] small_page) = Fa"
    "i_lang (run_page small_dictionary True [Speak ''fa'' True, Speak ''en'' True] small_page) = En"
    by (simp_all add: run_page_def applyLang_parts)
  have "i_lang small_page = En" "i_dir small_page = ''ltr''" "i_htmlLang small_page = ''en''"
    by (simp_all add: small_page_def)
  then show ?thesis
    using language_switch_faithful[OF p u, of "[Speak ''fa'' True]" True]
      language_switch_faithful[OF p u, of "[Speak ''fa'' True, Speak ''en'' True]" True]
    by (simp add: Let_def l in_language_def t)
qed

end
