(* ===== verification/Chart_Theme.thy ===== *)
theory Chart_Theme
  imports I18n Telemetry
begin

text \<open>
  The colours of the home tab's chart (app.js, cssVar to initChart) and the theme switch of
  i18n.js, joined by the event the switch dispatches. A canvas keeps the colours it was drawn
  with, so the chart shows the theme only if every path that changes either of the two repaints
  it.

  \<open>css\<close> is the style sheet: for a value of data-theme and a custom property, the text
  getPropertyValue returns, and None where getComputedStyle raises.
\<close>

type_synonym css = "string \<Rightarrow> string \<Rightarrow> string option"

definition cssVar :: "css \<Rightarrow> string \<Rightarrow> string \<Rightarrow> string \<Rightarrow> string" where
  "cssVar css theme name fallback =
     (case css theme name of
        None \<Rightarrow> fallback
      | Some t \<Rightarrow> let v = js_trim t in if v = '''' then fallback else v)"

text \<open>\<open>replace(/\s+/g, ',')\<close>.\<close>

function commas :: "string \<Rightarrow> string" where
  "commas [] = []"
| "commas (c # s) =
     (if is_space c then CHR '','' # commas (dropWhile is_space s) else c # commas s)"
  by pat_completeness auto
termination by (relation "measure length") (auto simp: le_imp_less_Suc length_dropWhile_le)

record gradient =
  gr_line :: "nat list"
  gr_stops :: "(nat \<times> string) list"

record palette =
  pal_line :: string
  pal_fill :: gradient
  pal_grid :: string
  pal_tick :: string

definition chartPalette :: "css \<Rightarrow> string \<Rightarrow> palette" where
  "chartPalette css theme =
     (let cyan = cssVar css theme ''--c-cyan-400'' ''0 240 255'' in
      \<lparr>pal_line = ''rgb('' @ cyan @ '')'',
       pal_fill = \<lparr>gr_line = [0, 0, 0, 220],
         gr_stops = [(0, ''rgba('' @ commas cyan @ '', 0.45)''), (1, ''rgba('' @ commas cyan @ '', 0)'')]\<rparr>,
       pal_grid = cssVar css theme ''--border-color'' ''rgba(255,255,255,0.05)'',
       pal_tick = ''rgb('' @ cssVar css theme ''--c-slate-400'' ''100 116 139'' @ '')''\<rparr>)"

record line_chart =
  lc_label :: string
  lc_borderColor :: string
  lc_borderWidth :: nat
  lc_backgroundColor :: gradient
  lc_fill :: bool
  lc_tension :: rat
  lc_pointRadius :: nat
  lc_animation :: bool
  lc_legend :: bool
  lc_showX :: bool
  lc_beginAtZero :: bool
  lc_gridColor :: string
  lc_tickColor :: string
  lc_tickFont :: "nat \<times> string"

definition new_chart :: "palette \<Rightarrow> line_chart" where
  "new_chart pal =
     \<lparr>lc_label = ''QPS'', lc_borderColor = pal_line pal, lc_borderWidth = 2,
      lc_backgroundColor = pal_fill pal, lc_fill = True, lc_tension = 2 / 5, lc_pointRadius = 0,
      lc_animation = False, lc_legend = False, lc_showX = False, lc_beginAtZero = True,
      lc_gridColor = pal_grid pal, lc_tickColor = pal_tick pal,
      lc_tickFont = (10, ''JetBrains Mono'')\<rparr>"

text \<open>
  The page as the two scripts share it: i18n.js's state, the dashboard (whose \<open>qpsChart\<close> holds
  the samples) and the drawing of the chart.
\<close>

record chart_page =
  cp_site :: i18n
  cp_dash :: dash
  cp_chart :: "line_chart option"

definition init_chart :: "css \<Rightarrow> chart_page \<Rightarrow> chart_page" where
  "init_chart css s =
     (let w = cp_dash s in
      if has_el w ''qpsChart'' \<and> chartAvailable w
      then s\<lparr>cp_dash := exec initChart w,
             cp_chart := Some (new_chart (chartPalette css (i_theme (cp_site s))))\<rparr>
      else s)"

definition push_sample :: "css \<Rightarrow> jsval \<Rightarrow> chart_page \<Rightarrow> chart_page" where
  "push_sample css v s =
     (let w = cp_dash s;
          s1 = (if activeDashTab w = ''dashboard'' \<and> qpsChart w = None then init_chart css s else s) in
      s1\<lparr>cp_dash := exec (pushChartData v) (cp_dash s1)\<rparr>)"

definition applyChartTheme :: "css \<Rightarrow> chart_page \<Rightarrow> chart_page" where
  "applyChartTheme css s =
     (case cp_chart s of
        None \<Rightarrow> s
      | Some c \<Rightarrow>
          if \<not> has_el (cp_dash s) ''qpsChart'' then s
          else let pal = chartPalette css (i_theme (cp_site s)) in
            s\<lparr>cp_chart := Some (c\<lparr>lc_borderColor := pal_line pal, lc_backgroundColor := pal_fill pal,
                lc_gridColor := pal_grid pal, lc_tickColor := pal_tick pal\<rparr>)\<rparr>)"

text \<open>What i18n.js does, followed by the listener when it dispatched the theme event.\<close>

definition site_step :: "css \<Rightarrow> (i18n \<Rightarrow> i18n) \<Rightarrow> chart_page \<Rightarrow> chart_page" where
  "site_step css f s =
     (let s1 = s\<lparr>cp_site := f (cp_site s)\<rparr>;
          dispatched = drop (length (i_events (cp_site s))) (i_events (cp_site s1)) in
      if ''JozmozDNS:theme'' \<in> set dispatched then applyChartTheme css s1 else s1)"

text \<open>
  What can happen: either script's start, a click on the theme switch, a call of setTheme, the
  choice of a language, the arrival of Chart.js, a tab, a poll's sample. The flags say whether
  localStorage takes a write and whether the choice is kept.
\<close>

datatype chart_event =
    SiteStart bool
  | PanelStart
  | FlipClick bool
  | SetTheme string bool bool
  | SetLang string bool bool
  | ChartLoaded
  | ShowTab string
  | Sample jsval

fun chart_step :: "dictionary \<Rightarrow> css \<Rightarrow> chart_event \<Rightarrow> chart_page \<Rightarrow> chart_page" where
  "chart_step fa css (SiteStart ok) s = site_step css (init_i18n fa ok) s"
| "chart_step fa css PanelStart s = init_chart css s"
| "chart_step fa css (FlipClick ok) s = site_step css (toggle_theme ok) s"
| "chart_step fa css (SetTheme next ok persist) s = site_step css (applyTheme ok next persist) s"
| "chart_step fa css (SetLang next ok persist) s = site_step css (applyLang fa ok next persist) s"
| "chart_step fa css ChartLoaded s = s\<lparr>cp_dash := (cp_dash s)\<lparr>chartAvailable := True\<rparr>\<rparr>"
| "chart_step fa css (ShowTab t) s = s\<lparr>cp_dash := (cp_dash s)\<lparr>activeDashTab := t\<rparr>\<rparr>"
| "chart_step fa css (Sample v) s = push_sample css v s"

definition chart_run :: "dictionary \<Rightarrow> css \<Rightarrow> chart_event list \<Rightarrow> chart_page \<Rightarrow> chart_page" where
  "chart_run fa css es s = foldl (\<lambda>s e. chart_step fa css e s) s es"

section \<open>The chart is drawn in the theme in force\<close>

definition chart_colors :: "line_chart \<Rightarrow> palette" where
  "chart_colors c = \<lparr>pal_line = lc_borderColor c, pal_fill = lc_backgroundColor c,
     pal_grid = lc_gridColor c, pal_tick = lc_tickColor c\<rparr>"

definition chart_ok :: "css \<Rightarrow> chart_page \<Rightarrow> bool" where
  "chart_ok css s \<longleftrightarrow>
     (case cp_chart s of
        None \<Rightarrow> qpsChart (cp_dash s) = None
      | Some c \<Rightarrow> qpsChart (cp_dash s) \<noteq> None \<and> has_el (cp_dash s) ''qpsChart'' \<and>
          chart_colors c = chartPalette css (i_theme (cp_site s)))"

lemma chart_colors_new [simp]: "chart_colors (new_chart pal) = pal"
  by (simp add: chart_colors_def new_chart_def)

lemma push_kept:
  "has_el (exec (pushChartData v) w) i = has_el w i"
  "qpsChart w \<noteq> None \<Longrightarrow> qpsChart (exec (pushChartData v) w) \<noteq> None"
  by (auto simp: pushChartData_def initChart_def has_el_def)

lemma push_no_canvas:
  assumes "qpsChart w = None"
    "activeDashTab w \<noteq> ''dashboard'' \<or> \<not> has_el w ''qpsChart'' \<or> \<not> chartAvailable w"
  shows "qpsChart (exec (pushChartData v) w) = None"
  using assms by (auto simp: pushChartData_def initChart_def has_el_def)

lemma init_chart_ok: "chart_ok css s \<Longrightarrow> chart_ok css (init_chart css s)"
  by (auto simp: chart_ok_def init_chart_def initChart_def has_el_def Let_def split: option.splits)

lemma push_sample_ok:
  assumes "chart_ok css s"
  shows "chart_ok css (push_sample css v s)"
proof -
  define s1 where "s1 = (if activeDashTab (cp_dash s) = ''dashboard'' \<and> qpsChart (cp_dash s) = None
    then init_chart css s else s)"
  have ok: "chart_ok css s1" using assms init_chart_ok by (simp add: s1_def)
  have p: "push_sample css v s = s1\<lparr>cp_dash := exec (pushChartData v) (cp_dash s1)\<rparr>"
    by (simp add: push_sample_def s1_def Let_def)
  show ?thesis
  proof (cases "cp_chart s1")
    case None
    then have "qpsChart (cp_dash s1) = None" using ok by (simp add: chart_ok_def)
    moreover have "activeDashTab (cp_dash s1) \<noteq> ''dashboard'' \<or> \<not> has_el (cp_dash s1) ''qpsChart'' \<or>
        \<not> chartAvailable (cp_dash s1)"
      using calculation None by (auto simp: s1_def init_chart_def initChart_def Let_def split: if_splits)
    ultimately show ?thesis
      using None push_no_canvas by (simp add: p chart_ok_def)
  next
    case (Some c)
    then show ?thesis using ok push_kept by (simp add: p chart_ok_def)
  qed
qed

text \<open>A step of i18n.js is safe when it says so: the theme changes only with the event.\<close>

definition announces :: "(i18n \<Rightarrow> i18n) \<Rightarrow> bool" where
  "announces f \<longleftrightarrow> (\<forall>s. i_theme (f s) = i_theme s \<or>
     ''JozmozDNS:theme'' \<in> set (drop (length (i_events s)) (i_events (f s))))"

lemma announces_ops:
  "announces (applyTheme ok next persist)" "announces (toggle_theme ok)"
  "announces (applyLang fa ok next persist)" "announces (init_i18n fa ok)"
  by (auto simp: announces_def applyTheme_def toggle_theme_def applyLang_def init_i18n_def
      applyDir_def syncSwitchLabels_def Let_def)

lemma site_step_ok:
  assumes "announces f" "chart_ok css s"
  shows "chart_ok css (site_step css f s)"
  using assms(2) assms(1)[unfolded announces_def, rule_format, of "cp_site s"]
  by (auto simp: site_step_def chart_ok_def applyChartTheme_def chart_colors_def Let_def
      split: option.splits)

lemma chart_step_ok: "chart_ok css s \<Longrightarrow> chart_ok css (chart_step fa css e s)"
  by (cases e) (simp_all add: site_step_ok announces_ops init_chart_ok push_sample_ok,
    auto simp: chart_ok_def has_el_def split: option.splits)

lemma chart_run_ok: "chart_ok css s \<Longrightarrow> chart_ok css (chart_run fa css es s)"
  unfolding chart_run_def by (induction es arbitrary: s) (simp_all add: chart_step_ok)

text \<open>
  C16. The chart follows the theme. Whatever the order of the two scripts' starts, clicks on the
  theme switch, language choices, tab changes and polls, and however late Chart.js arrives, a
  chart that is on the page is drawn in the colours of the theme in force, read from the style
  sheet or from the fallbacks; and a sample polled on the home tab, with the canvas and Chart.js
  there, is never lost for want of a chart.
\<close>

theorem chart_follows_theme:
  assumes "cp_chart s = None" "qpsChart (cp_dash s) = None"
  shows "let s' = chart_run fa css es s in
    (case cp_chart s' of
       None \<Rightarrow> qpsChart (cp_dash s') = None
     | Some c \<Rightarrow> chart_colors c = chartPalette css (i_theme (cp_site s'))) \<and>
    (activeDashTab (cp_dash s') = ''dashboard'' \<and> has_el (cp_dash s') ''qpsChart'' \<and>
       chartAvailable (cp_dash s') \<longrightarrow>
     cp_chart (push_sample css v s') \<noteq> None \<and>
     (\<exists>d. qpsChart (cp_dash (push_sample css v s')) = Some (d @ [chart_point v])))"
proof -
  define s' where "s' = chart_run fa css es s"
  have "chart_ok css s'" unfolding s'_def
    by (rule chart_run_ok) (simp add: chart_ok_def assms)
  then show ?thesis
    unfolding s'_def[symmetric] Let_def
    by (auto simp: chart_ok_def push_sample_def init_chart_def initChart_def pushChartData_def
        chart_shift_def has_el_def Let_def split: option.splits)
qed

definition two_themes :: css where
  "two_themes th n =
     (if n = ''--c-cyan-400'' then Some (if th = ''light'' then '' 8 145  178'' else ''0 240 255'')
      else if n = ''--border-color'' then None else Some '' '')"

definition chart_start :: chart_page where
  "chart_start = \<lparr>cp_site = small_page, cp_dash = (sample_page JNull [])\<lparr>chartAvailable := False\<rparr>,
     cp_chart = None\<rparr>"

theorem chart_follows_theme_witness:
  "let s = chart_run small_dictionary two_themes
       [PanelStart, SetLang ''fa'' True True, ChartLoaded, Sample (JNum (Fin 5)), FlipClick True] chart_start in
   \<exists>c. cp_chart s = Some c \<and> chart_colors c =
     \<lparr>pal_line = ''rgb(8 145  178)'',
      pal_fill = \<lparr>gr_line = [0, 0, 0, 220],
        gr_stops = [(0, ''rgba(8,145,178, 0.45)''), (1, ''rgba(8,145,178, 0)'')]\<rparr>,
      pal_grid = ''rgba(255,255,255,0.05)'', pal_tick = ''rgb(100 116 139)''\<rparr>"
proof -
  let ?es = "[PanelStart, SetLang ''fa'' True True, ChartLoaded, Sample (JNum (Fin 5)), FlipClick True]"
  let ?s = "chart_run small_dictionary two_themes ?es chart_start"
  have a: "i_theme (applyLang fa ok n p s) = i_theme s" "i_light (applyLang fa ok n p s) = i_light s"
    for fa ok n p s
    by (simp_all add: applyLang_def applyDir_def syncSwitchLabels_def Let_def)
  have d: "\<not> i_light small_page" "qpsChart (sample_page JNull []) = None"
    "activeDashTab (sample_page JNull []) = ''dashboard''"
    by (simp_all add: small_page_def sample_page_def)
  have start: "cp_chart chart_start = None" "qpsChart (cp_dash chart_start) = None"
    by (simp_all add: chart_start_def d)
  have k: "cp_chart ?s \<noteq> None" "i_theme (cp_site ?s) = ''light''"
    by (simp_all add: chart_run_def site_step_def init_chart_def push_sample_def applyChartTheme_def
        chart_start_def d a toggle_theme_def applyTheme_def syncSwitchLabels_def Let_def has_el_def
        split: option.splits)
  moreover have "case cp_chart ?s of None \<Rightarrow> qpsChart (cp_dash ?s) = None
      | Some c \<Rightarrow> chart_colors c = chartPalette two_themes (i_theme (cp_site ?s))"
    using chart_follows_theme[of chart_start small_dictionary two_themes ?es "JNum (Fin 5)", unfolded Let_def]
      start by blast
  moreover have "chartPalette two_themes ''light'' =
     \<lparr>pal_line = ''rgb(8 145  178)'',
      pal_fill = \<lparr>gr_line = [0, 0, 0, 220],
        gr_stops = [(0, ''rgba(8,145,178, 0.45)''), (1, ''rgba(8,145,178, 0)'')]\<rparr>,
      pal_grid = ''rgba(255,255,255,0.05)'', pal_tick = ''rgb(100 116 139)''\<rparr>"
    by code_simp
  ultimately show ?thesis by (auto simp: Let_def)
qed

end
