(* ===== verification/Fa_Patterns.thy ===== *)
theory Fa_Patterns
  imports I18n
begin

text \<open>
  The patterns of the Persian table (i18n.js, FA_PATTERNS): the regular expressions as lists of
  items with a backtracking matcher, the replacements, and what a translation made by a pattern
  looks like.
\<close>

section \<open>Bytes\<close>

definition tidy :: "string \<Rightarrow> bool" where
  "tidy s \<longleftrightarrow> s \<noteq> [] \<and> \<not> is_space (hd s) \<and> \<not> is_space (last s)"

text \<open>The bytes that begin a letter of the Arabic block in UTF-8; no English text has one.\<close>

definition arabic_char :: "char \<Rightarrow> bool" where
  "arabic_char c \<longleftrightarrow> of_char c \<in> {0xD8..0xDB :: nat}"

abbreviation arabic :: "string \<Rightarrow> bool" where "arabic \<equiv> list_ex arabic_char"

lemma is_space_byte [simp]:
  "n < 256 \<Longrightarrow> is_space (char_of (n :: nat)) \<longleftrightarrow> n \<in> {9, 10, 11, 12, 13, 32}"
  by (auto simp: is_space_def char_of_eq_iff take_bit_eq_mod)

lemma is_space_Char [simp]:
  "is_space (Char a b c d e f g h) \<longleftrightarrow> \<not> g \<and> \<not> h \<and> \<not> e \<and>
     (if f then \<not> a \<and> \<not> b \<and> \<not> c \<and> \<not> d else d \<and> (if c then \<not> b else a \<or> b))"
  by (auto simp: is_space_def)

lemma arabic_byte [simp]: "n < 256 \<Longrightarrow> arabic_char (char_of (n :: nat)) \<longleftrightarrow> 216 \<le> n \<and> n \<le> 219"
  by (simp add: arabic_char_def of_char_of)

lemma arabic_Char [simp]: "arabic_char (Char a b c d e f g h) \<longleftrightarrow> \<not> c \<and> d \<and> e \<and> \<not> f \<and> g \<and> h"
  by (cases a; cases b; cases c; cases d; cases e; cases f; cases g; cases h) (simp_all add: arabic_char_def)

lemma hex_digits [simp]:
  "hex_val CHR ''0'' = 0" "hex_val CHR ''1'' = 1" "hex_val CHR ''2'' = 2" "hex_val CHR ''3'' = 3"
  "hex_val CHR ''4'' = 4" "hex_val CHR ''5'' = 5" "hex_val CHR ''6'' = 6" "hex_val CHR ''7'' = 7"
  "hex_val CHR ''8'' = 8" "hex_val CHR ''9'' = 9" "hex_val CHR ''A'' = 10" "hex_val CHR ''B'' = 11"
  "hex_val CHR ''C'' = 12" "hex_val CHR ''D'' = 13" "hex_val CHR ''E'' = 14" "hex_val CHR ''F'' = 15"
  by (simp_all add: hex_val_def)

lemma hx_ends [simp]:
  "hx (a # b # s) \<noteq> []" "hd (hx (a # b # s)) = char_of (16 * hex_val a + hex_val b)"
  "last (hx [a, b]) = char_of (16 * hex_val a + hex_val b)"
  "last (hx (a # b # c # d # s)) = last (hx (c # d # s))"
  "arabic (hx (a # b # s)) \<longleftrightarrow>
     (if arabic_char (char_of (16 * hex_val a + hex_val b)) then True else arabic (hx s))"
  "hx [] = []"
  by (simp_all add: hx.simps)

text \<open>The last byte of a text in one pass, for the check of the table.\<close>

fun last_from :: "char \<Rightarrow> string \<Rightarrow> char" where
  "last_from c [] = c"
| "last_from c (d # s) = last_from d s"

lemma last_from: "last (c # s) = last_from c s"
  by (induction c s rule: last_from.induct) auto

lemma last_from_hx [simp]:
  "last_from c (hx (a # b # s)) = last_from (char_of (16 * hex_val a + hex_val b)) (hx s)"
  by (simp add: hx.simps)

lemma last_from_append [simp]: "last_from c (s @ t) = last_from (last_from c s) t"
  by (induction c s rule: last_from.induct) auto

lemma tidy_pass:
  "tidy (c # s) \<longleftrightarrow> \<not> is_space c \<and> \<not> is_space (last_from c s)"
  "tidy (hx (a # b # s)) \<longleftrightarrow> (let c = char_of (16 * hex_val a + hex_val b) in
     \<not> is_space c \<and> \<not> is_space (last_from c (hx s)))"
  "tidy (hx (a # b # s) @ t) \<longleftrightarrow> (let c = char_of (16 * hex_val a + hex_val b) in
     \<not> is_space c \<and> \<not> is_space (last_from c (hx s @ t)))"
  by (simp_all add: tidy_def last_from hx.simps Let_def del: last.simps)

section \<open>The patterns\<close>

text \<open>
  An anchored pattern is a list of items: a literal, a character that may be missing, a run of
  at least m characters of a class, and a run that is captured. Matching is the backtracking
  of a regular expression: a run takes as much as it can and gives back one character at a time.
\<close>

datatype item = Lit string | Maybe char | Run nat "char \<Rightarrow> bool" | Capture nat "char \<Rightarrow> bool"

fun longest :: "(nat \<Rightarrow> 'a option) \<Rightarrow> nat \<Rightarrow> nat \<Rightarrow> 'a option" where
  "longest f m k =
     (if k < m then None
      else case f k of Some r \<Rightarrow> Some r | None \<Rightarrow> (case k of 0 \<Rightarrow> None | Suc j \<Rightarrow> longest f m j))"

declare longest.simps [simp del]

definition run_length :: "(char \<Rightarrow> bool) \<Rightarrow> string \<Rightarrow> nat" where
  "run_length P s = length (takeWhile P s)"

fun match_items :: "item list \<Rightarrow> string \<Rightarrow> string list option" where
  "match_items [] s = (if s = [] then Some [] else None)"
| "match_items (Lit p # is) s =
     (if js_startsWith s p then match_items is (drop (length p) s) else None)"
| "match_items (Maybe c # is) s =
     (case (if s \<noteq> [] \<and> hd s = c then match_items is (tl s) else None) of
        Some r \<Rightarrow> Some r | None \<Rightarrow> match_items is s)"
| "match_items (Run m P # is) s = longest (\<lambda>k. match_items is (drop k s)) m (run_length P s)"
| "match_items (Capture m P # is) s =
     longest (\<lambda>k. map_option (Cons (take k s)) (match_items is (drop k s))) m (run_length P s)"

text \<open>A replacement: its text and the groups it names, the first group being 0 here.\<close>

datatype part = Text string | Group nat

definition expand :: "string list \<Rightarrow> part list \<Rightarrow> string" where
  "expand gs ps = concat (map (\<lambda>p. case p of Text t \<Rightarrow> t | Group n \<Rightarrow> gs ! n) ps)"

definition digit :: "char \<Rightarrow> bool" where "digit c \<longleftrightarrow> c \<in> set ''0123456789''"
definition decimal :: "char \<Rightarrow> bool" where "decimal c \<longleftrightarrow> digit c \<or> c = CHR ''.''"
definition decimals :: "char \<Rightarrow> bool" where "decimals c \<longleftrightarrow> decimal c \<or> c = CHR '',''"
definition anything :: "char \<Rightarrow> bool" where "anything c \<longleftrightarrow> c \<noteq> CHR 0x0A \<and> c \<noteq> CHR 0x0D"

definition FA_PATTERNS :: "(item list \<times> part list) list" where
  "FA_PATTERNS =
    [([Lit ''Limit:'', Run 0 is_space, Capture 1 digit, Lit ''/s''],
      [Text (hx ''D985D8ADD8AFD988D8AFDB8CD8AA3A20''), Group 0, Text (hx ''2FD8AB'')]),
     ([Lit ''Limit:'', Run 0 is_space, Capture 1 digit, Lit ''/s'', Run 0 is_space, Lit u_middot,
       Run 0 is_space, Capture 1 digit, Run 0 is_space, Lit ''dropped''],
      [Text (hx ''D985D8ADD8AFD988D8AFDB8CD8AA3A20''), Group 0, Text (hx ''2FD8AB20C2B720''), Group 1, Text (hx ''20D8A7D981D8AAD8A7D8AFD987'')]),
     ([Capture 1 digit, Run 0 is_space, Lit ''dropped''], [Group 0, Text (hx ''20D8A7D981D8AAD8A7D8AFD987'')]),
     ([Capture 1 digit, Run 0 is_space, Lit ''failed''], [Group 0, Text (hx ''20D986D8A7D985D988D981D982'')]),
     ([Lit ''Total:'', Run 0 is_space, Capture 1 decimals], [Text (hx ''D985D8ACD985D988D8B93A20''), Group 0]),
     ([Lit ''Items:'', Run 0 is_space, Capture 1 decimals], [Text (hx ''D8A2DB8CD8AAD9853A20''), Group 0]),
     ([Lit ''Cores:'', Run 0 is_space, Capture 1 digit], [Text (hx ''D987D8B3D8AAD9873A20''), Group 0]),
     ([Lit ''Sys:'', Run 0 is_space, Capture 1 anything], [Text (hx ''D8B3DB8CD8B3D8AAD9853A20''), Group 0]),
     ([Lit ''All queries:'', Run 0 is_space, Capture 1 anything], [Text (hx ''D987D985D987D99420DAA9D988D8A6D8B1DB8CE2808CD987D8A73A20''), Group 0]),
     ([Lit ''last seen'', Run 1 is_space, Capture 1 anything], [Text (hx ''D8A2D8AED8B1DB8CD98620D8A8D8A7D8B2D8AFDB8CD8AF20''), Group 0]),
     ([Capture 1 digit, Run 0 is_space, Lit ''day'', Maybe CHR ''s'', Run 0 is_space, Lit ''left''],
      [Group 0, Text (hx ''20D8B1D988D8B220D985D8A7D986D8AFD987'')]),
     ([Lit ''Cache refresh:'', Run 0 is_space, Capture 1 digit, Run 0 is_space, Lit ''served stale''],
      [Text (hx ''D986D988D8B3D8A7D8B2DB8C20DAA9D8B43A20''), Group 0, Text (hx ''20D9BED8A7D8B3D8AE20DAA9D987D986D987'')]),
     ([Lit ''unreadable destination''], [Text (hx ''D985D982D8B5D8AF20D986D8A7D8AED988D8A7D986D8A7'')]),
     ([Capture 1 decimal, Run 0 is_space, Lit ''ms avg''], [Text (hx ''D985DB8CD8A7D986DAAFDB8CD98620''), Group 0, Text (hx ''20D985DB8CD984DB8CE2808CD8ABD8A7D986DB8CD987'')]),
     ([Lit ''timed at'', Run 0 is_space, Capture 1 decimal, Run 0 is_space, Lit ''ms''],
      [Text (hx ''D8B2D985D8A7D986E2808CD8B3D986D8ACDB8CE2808CD8B4D8AFD98720D8AFD8B120''), Group 0, Text (hx ''20D985DB8CD984DB8CE2808CD8ABD8A7D986DB8CD987'')])]"

definition pattern_fun :: "item list \<times> part list \<Rightarrow> string \<Rightarrow> string option" where
  "pattern_fun p s = map_option (\<lambda>gs. expand gs (snd p)) (match_items (fst p) s)"

section \<open>Matching\<close>

lemma longest_Some: "longest f m k = Some r \<Longrightarrow> \<exists>j. m \<le> j \<and> j \<le> k \<and> f j = Some r"
proof (induction f m k rule: longest.induct)
  case (1 f m k)
  show ?case
  proof (cases "f k")
    case None
    then obtain j where "k = Suc j" "longest f m j = Some r"
      using 1(2) by (subst (asm) longest.simps) (auto split: if_splits nat.splits)
    then show ?thesis using 1 None by (subst (asm) longest.simps) (auto split: if_splits intro: le_SucI)
  next
    case (Some x)
    then show ?thesis using 1(2) by (subst (asm) longest.simps) (auto split: if_splits intro: exI[of _ k])
  qed
qed

fun allows :: "item \<Rightarrow> char \<Rightarrow> bool" where
  "allows (Lit p) c = (c \<in> set p)"
| "allows (Maybe d) c = (c = d)"
| "allows (Run m P) c = P c"
| "allows (Capture m P) c = P c"

fun captures :: "item list \<Rightarrow> (nat \<times> (char \<Rightarrow> bool)) list" where
  "captures [] = []"
| "captures (Capture m P # is) = (m, P) # captures is"
| "captures (i # is) = captures is"

lemma run_take:
  assumes "k \<le> run_length P s"
  shows "list_all P (take k s)" "length (take k s) = k"
proof -
  have "take k s = take k (takeWhile P s)"
    using assms by (metis run_length_def takeWhile_eq_take take_take min.absorb1)
  then show "list_all P (take k s)" by (auto simp: list_all_iff dest: in_set_takeD set_takeWhileD)
  show "length (take k s) = k"
    using assms length_takeWhile_le[of P s] by (simp add: run_length_def)
qed

lemma match_Cons:
  assumes "match_items (i # is) s = Some gs"
  obtains a u r where "s = a @ u" "match_items is u = Some r" "list_all (allows i) a"
    "case i of Capture m P \<Rightarrow> gs = a # r \<and> m \<le> length a | _ \<Rightarrow> gs = r"
proof (cases i)
  case (Lit p)
  then show ?thesis using assms that[of p "drop (length p) s" gs]
    by (auto simp: startsWith_prefix list_all_iff split: if_splits)
next
  case (Maybe c)
  then consider u where "s = [c] @ u" "match_items is u = Some gs" | "match_items is s = Some gs"
    using assms by (cases s) (auto split: option.splits if_splits)
  then show ?thesis using that[of "[c]" _ gs] that[of "[]" s gs] Maybe by cases auto
next
  case (Run m P)
  then obtain j where j: "j \<le> run_length P s" "match_items is (drop j s) = Some gs"
    using assms by (auto dest!: longest_Some)
  then show ?thesis using that[of "take j s" "drop j s" gs] run_take[OF j(1)] Run by (simp add: list_all_iff)
next
  case (Capture m P)
  then obtain j r where j: "m \<le> j" "j \<le> run_length P s" "match_items is (drop j s) = Some r"
    "gs = take j s # r"
    using assms by (auto dest!: longest_Some)
  then show ?thesis using that[of "take j s" "drop j s" r] run_take[OF j(2)] Capture by (simp add: list_all_iff)
qed

lemma match_sound:
  "match_items is s = Some gs \<Longrightarrow> list_all (\<lambda>c. \<exists>i\<in>set is. allows i c) s \<and>
     list_all2 (\<lambda>(m, P) g. m \<le> length g \<and> list_all P g) (captures is) gs"
proof (induction "is" arbitrary: s gs)
  case (Cons i "is")
  from match_Cons[OF Cons.prems] obtain a u r where *: "s = a @ u" "match_items is u = Some r"
    "list_all (allows i) a" "case i of Capture m P \<Rightarrow> gs = a # r \<and> m \<le> length a | _ \<Rightarrow> gs = r" .
  show ?case using Cons.IH[OF *(2)] *(1,3,4) by (cases i) (auto simp: list_all_iff)
qed (auto split: if_splits)

text \<open>What a final capture holds ends where the text ends.\<close>

lemma match_ends:
  "match_items (is @ [Capture m P]) s = Some gs \<Longrightarrow> gs \<noteq> [] \<and> (\<exists>u. s = u @ last gs)"
proof (induction "is" arbitrary: s gs)
  case Nil
  then show ?case by (auto dest!: longest_Some split: if_splits)
next
  case (Cons i "is")
  from match_Cons[OF Cons.prems[simplified]] obtain a u r where *: "s = a @ u"
    "match_items (is @ [Capture m P]) u = Some r"
    "case i of Capture m P \<Rightarrow> gs = a # r \<and> m \<le> length a | _ \<Rightarrow> gs = r" .
  show ?case using Cons.IH[OF *(2)] *(1,3) by (cases i) auto
qed

section \<open>What a pattern makes\<close>

lemma one_group:
  assumes "match_items is s = Some gs" "captures is = [(m, P)]"
  obtains g where "gs = [g]" "m \<le> length g" "list_all P g"
  using match_sound[OF assms(1)] assms(2) by (auto simp: list_all2_Cons1)

text \<open>How the patterns that take anything begin: All queries, Sys, last seen.\<close>

definition opens :: "char \<Rightarrow> bool" where
  "opens c \<longleftrightarrow> c \<in> set ''ASl''"

definition english :: "string \<Rightarrow> bool" where
  "english s \<longleftrightarrow> js_startsWith s ''Sys'' \<or> js_startsWith s ''All'' \<or> js_startsWith s ''las''"

lemma english_opens: "english s \<Longrightarrow> s \<noteq> [] \<and> opens (hd s)"
  by (auto simp: english_def opens_def startsWith_prefix)

lemma starts_hx [simp]:
  "js_startsWith (hx (a # b # s)) (p # ps) \<longleftrightarrow>
     (if (16 * hex_val a + hex_val b) mod 256 = of_char p then js_startsWith (hx s) ps else False)"
  by (auto simp: hx.simps char_of_eq_iff take_bit_eq_mod)

lemma opens_byte [simp]: "n < 256 \<Longrightarrow> opens (char_of (n :: nat)) \<longleftrightarrow> n \<in> {65, 83, 108}"
  by (auto simp: opens_def char_of_eq_iff take_bit_eq_mod)

lemma class_facts:
  "digit c \<Longrightarrow> \<not> arabic_char c \<and> \<not> is_space c \<and> \<not> opens c"
  "decimal c \<Longrightarrow> \<not> arabic_char c \<and> \<not> is_space c \<and> \<not> opens c"
  "decimals c \<Longrightarrow> \<not> arabic_char c \<and> \<not> is_space c \<and> \<not> opens c"
  "is_space c \<Longrightarrow> \<not> arabic_char c"
  by (auto simp: digit_def decimal_def decimals_def opens_def) (auto simp: is_space_def)

text \<open>
  A text with an Arabic letter matches a pattern only if the pattern takes anything, and those
  begin with an English word.
\<close>

definition begins :: "item list \<Rightarrow> bool" where
  "begins is \<longleftrightarrow> (case is of Lit w # _ \<Rightarrow> english w | _ \<Rightarrow> False)"

lemma patterns_english:
  "list_all (\<lambda>p. begins (fst p) \<or> (\<forall>i\<in>set (fst p). \<forall>c. allows i c \<longrightarrow> \<not> arabic_char c)) FA_PATTERNS"
  by (simp add: FA_PATTERNS_def begins_def english_def u_middot_def class_facts)

lemma arabic_no_match:
  assumes "p \<in> set FA_PATTERNS" "arabic t" "\<not> english t"
  shows "pattern_fun p t = None"
proof (rule ccontr)
  assume "pattern_fun p t \<noteq> None"
  then obtain gs where m: "match_items (fst p) t = Some gs" by (auto simp: pattern_fun_def)
  then have "\<not> (\<forall>i\<in>set (fst p). \<forall>c. allows i c \<longrightarrow> \<not> arabic_char c)"
    using match_sound[OF m] assms(2) unfolding list_all_iff list_ex_iff by blast
  then have "begins (fst p)" using patterns_english assms(1) by (auto simp: list_all_iff)
  then obtain w r where "fst p = Lit w # r" "english w"
    by (auto simp: begins_def split: list.splits item.splits)
  then show False using m assms(3) by (auto simp: english_def startsWith_prefix split: if_splits)
qed

text \<open>What a pattern makes of a tidy text is tidy, has an Arabic letter and no English beginning.\<close>

definition settled :: "string \<Rightarrow> bool" where
  "settled t \<longleftrightarrow> tidy t \<and> arabic t \<and> \<not> english t"

definition group_ok :: "(nat \<times> (char \<Rightarrow> bool)) list \<Rightarrow> nat \<Rightarrow> bool" where
  "group_ok cs n \<longleftrightarrow> n < length cs \<and> 1 \<le> fst (cs ! n) \<and>
     (\<forall>c. snd (cs ! n) c \<longrightarrow> \<not> is_space c \<and> \<not> opens c)"

definition takes_rest :: "item list \<Rightarrow> bool" where
  "takes_rest is \<longleftrightarrow> is \<noteq> [] \<and> (\<exists>m P. last is = Capture m P) \<and> length (captures is) = 1 \<and>
     1 \<le> fst (captures is ! 0)"

definition makes_settled :: "item list \<times> part list \<Rightarrow> bool" where
  "makes_settled p \<longleftrightarrow> snd p \<noteq> [] \<and> list_ex (\<lambda>p. case p of Text x \<Rightarrow> arabic x | Group n \<Rightarrow> False) (snd p) \<and>
     (case hd (snd p) of Text x \<Rightarrow> x \<noteq> [] \<and> \<not> is_space (hd x) \<and> \<not> opens (hd x)
      | Group n \<Rightarrow> group_ok (captures (fst p)) n) \<and>
     (case last (snd p) of Text x \<Rightarrow> x \<noteq> [] \<and> \<not> is_space (last x)
      | Group n \<Rightarrow> group_ok (captures (fst p)) n \<or> n = 0 \<and> takes_rest (fst p))"

lemma patterns_make: "list_all makes_settled FA_PATTERNS"
  by (simp add: FA_PATTERNS_def makes_settled_def group_ok_def takes_rest_def class_facts)

lemma group_value:
  assumes "match_items is s = Some gs" "group_ok (captures is) n"
  shows "gs ! n \<noteq> [] \<and> list_all (\<lambda>c. \<not> is_space c \<and> \<not> opens c) (gs ! n)"
proof -
  have l: "list_all2 (\<lambda>(m, P) g. m \<le> length g \<and> list_all P g) (captures is) gs"
    using match_sound[OF assms(1)] by blast
  have "n < length (captures is)" using assms(2) by (simp add: group_ok_def)
  from list_all2_nthD[OF l this] show ?thesis
    using assms(2) by (auto simp: group_ok_def list_all_iff split: prod.splits)
qed

lemma rest_value:
  assumes "match_items is s = Some gs" "takes_rest is" "tidy s"
  shows "gs ! 0 \<noteq> [] \<and> \<not> is_space (last (gs ! 0))"
proof -
  have l: "list_all2 (\<lambda>(m, P) g. m \<le> length g \<and> list_all P g) (captures is) gs"
    using match_sound[OF assms(1)] by blast
  then obtain g where g: "gs = [g]" using assms(2)
    by (auto simp: takes_rest_def length_Suc_conv list_all2_Cons1)
  then have "g \<noteq> []" using assms(2) l by (auto simp: takes_rest_def length_Suc_conv)
  moreover obtain ys m P where "is = ys @ [Capture m P]"
    using assms(2) unfolding takes_rest_def by (metis append_butlast_last_id)
  then have "\<exists>u. s = u @ g" using match_ends assms(1) g by fastforce
  ultimately show ?thesis using assms(3) g by (auto simp: tidy_def)
qed

lemma concat_ends:
  "xs \<noteq> [] \<Longrightarrow> hd xs \<noteq> [] \<Longrightarrow> concat xs \<noteq> [] \<and> hd (concat xs) = hd (hd xs)"
  "xs \<noteq> [] \<Longrightarrow> last xs \<noteq> [] \<Longrightarrow> last (concat xs) = last (last xs)"
proof -
  show "xs \<noteq> [] \<Longrightarrow> hd xs \<noteq> [] \<Longrightarrow> concat xs \<noteq> [] \<and> hd (concat xs) = hd (hd xs)"
    by (cases xs) auto
  show "xs \<noteq> [] \<Longrightarrow> last xs \<noteq> [] \<Longrightarrow> last (concat xs) = last (last xs)"
    by (cases xs rule: rev_cases) auto
qed

lemma pattern_settled:
  assumes "p \<in> set FA_PATTERNS" "tidy s" "pattern_fun p s = Some t"
  shows "settled t"
proof -
  obtain gs where m: "match_items (fst p) s = Some gs" and t: "t = expand gs (snd p)"
    using assms(3) by (auto simp: pattern_fun_def)
  have ok: "makes_settled p" using patterns_make assms(1) by (simp add: list_all_iff)
  define vs where "vs = map (\<lambda>p. case p of Text t \<Rightarrow> t | Group n \<Rightarrow> gs ! n) (snd p)"
  have tv: "t = concat vs" by (simp add: t expand_def vs_def)
  have ne: "vs \<noteq> []" using ok by (simp add: vs_def makes_settled_def)
  have "hd vs \<noteq> [] \<and> \<not> is_space (hd (hd vs)) \<and> \<not> opens (hd (hd vs))"
    using ok ne group_value[OF m]
    by (auto simp: vs_def makes_settled_def hd_map list_all_iff split: part.splits)
  moreover have "last vs \<noteq> [] \<and> \<not> is_space (last (last vs))"
    using ok ne group_value[OF m] rest_value[OF m _ assms(2)]
    by (auto simp: vs_def makes_settled_def last_map list_all_iff split: part.splits)
  moreover obtain q where q: "q \<in> set (snd p)" "case q of Text x \<Rightarrow> arabic x | Group n \<Rightarrow> False"
    using ok unfolding makes_settled_def list_ex_iff by blast
  obtain x where "Text x \<in> set (snd p)" "arabic x" using q by (simp split: part.splits)
  then have "x \<in> set vs" "arabic x" by (force simp: vs_def)+
  then have "arabic t" unfolding tv by (auto simp: list_ex_iff)
  ultimately show ?thesis
    using concat_ends[OF ne] english_opens[of t] by (auto simp: settled_def tidy_def tv)
qed


section \<open>A translated text node\<close>

lemma tidy_trim:
  assumes "tidy t" "list_all is_space a" "list_all is_space b"
  shows "js_trim (a @ t @ b) = t"
proof -
  have "dropWhile is_space (a @ t @ b) = t @ b"
    using assms(1,2) by (cases t) (auto simp: tidy_def dropWhile_append list_all_iff)
  moreover have "dropWhile is_space (rev (t @ b)) = rev t"
    using assms(1,3) by (cases t rule: rev_cases) (auto simp: tidy_def dropWhile_append list_all_iff)
  ultimately show ?thesis by (simp add: js_trim_def)
qed

lemma trim_tidy:
  assumes "js_trim s \<noteq> []"
  shows "tidy (js_trim s)"
proof -
  let ?d = "dropWhile is_space s"
  have "?d = js_trim s @ rev (takeWhile is_space (rev ?d))"
    by (metis js_trim_def rev_append rev_rev_ident takeWhile_dropWhile_id)
  then have "hd (js_trim s) = hd ?d" "?d \<noteq> []" using assms by (metis hd_append2 append_is_Nil_conv)+
  then show ?thesis using assms js_trim_last hd_dropWhile[of is_space s] by (simp add: tidy_def)
qed

lemma replace_core:
  assumes "tidy p" "list_all is_space a"
  shows "replace_str p r (a @ p @ b) = a @ r @ b"
  using assms(2)
proof (induction a)
  case Nil
  obtain c s where p: "p = c # s" using assms(1) by (cases p) (auto simp: tidy_def)
  have "js_startsWith (p @ b) p" by (auto simp: startsWith_prefix)
  then show ?case by (simp add: p)
next
  case (Cons c a)
  then have "\<not> js_startsWith (c # a @ p @ b) p"
    using assms(1) by (auto simp: startsWith_prefix tidy_def) (metis append_eq_Cons_conv hd_append2 list.sel(1))
  then show ?case using Cons by simp
qed

text \<open>
  The rate limit line of the statistics prints its count with thousands separators, and the
  pattern made for it takes digits only: from 1,000 drops on the line is left in English. No
  pattern takes the cache line of the statistics either, whatever its counts.
\<close>

definition refuses :: "char \<Rightarrow> string \<Rightarrow> item list \<Rightarrow> bool" where
  "refuses c s is \<longleftrightarrow> (\<forall>i\<in>set is. \<not> allows i c) \<or>
     (case is of Lit w # _ \<Rightarrow> \<not> js_startsWith s w | _ \<Rightarrow> False)"

lemma refused:
  assumes "c \<in> set s" "list_all (\<lambda>p. refuses c s (fst p)) ps"
  shows "first_match (map pattern_fun ps) s = None"
  using assms(2)
proof (induction ps)
  case (Cons p ps)
  have "match_items (fst p) s = None"
  proof (rule ccontr)
    assume "match_items (fst p) s \<noteq> None"
    then obtain gs where m: "match_items (fst p) s = Some gs" by blast
    then have "\<exists>i\<in>set (fst p). allows i c" using match_sound[OF m] assms(1) by (auto simp: list_all_iff)
    then obtain w r where "fst p = Lit w # r" "\<not> js_startsWith s w"
      using Cons.prems by (auto simp: refuses_def split: list.splits item.splits)
    then show False using m by simp
  qed
  then show ?case using Cons by (simp add: pattern_fun_def)
qed simp

lemma limit_line_not_translated:
  assumes "CHR '','' \<in> set n"
  shows "first_match (map pattern_fun FA_PATTERNS)
    (''Limit: '' @ qps @ ''/s '' @ hx ''C2B7'' @ '' '' @ n @ '' dropped'') = None"
  using assms by (intro refused[of "CHR '',''"])
    (simp_all add: FA_PATTERNS_def refuses_def u_middot_def digit_def decimal_def)

lemma cache_line_not_translated:
  "first_match (map pattern_fun FA_PATTERNS)
    (''Cache refresh: '' @ a @ '' stale '' @ hx ''C2B7'' @ '' '' @ b @ '' failed '' @ hx ''C2B7'' @ '' '' @
     d @ '' skipped'') = None"
  by (intro refused[of "CHR 0xC2"])
    (simp_all add: FA_PATTERNS_def refuses_def u_middot_def digit_def decimal_def)

end
