(* ===== verification/I18n_Fa.thy ===== *)
theory I18n_Fa
  imports Fa_Patterns
begin

text \<open>
  The Persian table of the panel (i18n.js, FA) section by section, an entry written twice
  included: the later one is the one an object literal keeps. A text with letters outside ASCII
  is given by the bytes of its UTF-8. The theorems say what the engine of I18n may rely on: a
  translation is never blank, and translating what is already translated changes nothing.
\<close>

definition fa_shell :: "(string \<times> string) list" where
  "fa_shell =
    [(''JozmozDNS '' @ hx ''E28094'' @ '' Next-Gen Gaming & Anti-Sanction SmartDNS Controller'',
      hx ''4A6F7A6D6F7A444E5320E2809420DAA9D986D8AAD8B1D984D8B120D987D988D8B4D985D986D8AF20444E5320D8A8D8B1D8A7DB8C20DAAFDB8CD98520D98820D8AFD988D8B120D8B2D8AFD98620D8AAD8ADD8B1DB8CD985''),
     (''JozmozDNS '' @ hx ''E28094'' @ '' Next-Gen Gaming & Anti-Sanction SmartDNS Controller'',
      hx ''4A6F7A6D6F7A444E5320E2809420DAA9D986D8AAD8B1D984D8B120D987D988D8B4D985D986D8AF20444E5320D8A8D8B1D8A7DB8C20DAAFDB8CD98520D98820D8AFD988D8B120D8B2D8AFD98620D8AAD8ADD8B1DB8CD985''),
     (''STANDALONE CONTROLLER'', hx ''DAA9D986D8AAD8B1D984D8B120D985D8B3D8AAD982D984''),
     (''ADMIN USERNAME'', hx ''D986D8A7D98520DAA9D8A7D8B1D8A8D8B1DB8C20D985D8AFDB8CD8B1''),
     (''PASSWORD'', hx ''D8B1D985D8B220D8B9D8A8D988D8B1''),
     (''Invalid username or password.'',
      hx ''D986D8A7D98520DAA9D8A7D8B1D8A8D8B1DB8C20DB8CD8A720D8B1D985D8B220D8B9D8A8D988D8B120D986D8A7D8AFD8B1D8B3D8AA20D8A7D8B3D8AA2E''),
     (''AUTHENTICATE & ACCESS'', hx ''D988D8B1D988D8AF20D8A8D98720D9BED986D984''),
     (''Enter your admin password'',
      hx ''D8B1D985D8B220D8B9D8A8D988D8B120D985D8AFDB8CD8B120D8B1D8A720D988D8A7D8B1D8AF20DAA9D986DB8CD8AF''),
     (''Sign Out'', hx ''D8AED8B1D988D8AC''),
     (''ONLINE '' @ hx ''C2B7'' @ '' SMARTDNS'',
      hx ''D8A2D986D984D8A7DB8CD98620C2B720534D415254444E53''),
     (''JozmozDNS Smart Controller '' @ hx ''E28094'' @ '' Low-Latency SmartDNS Engine '' @ hx ''C2B7'',
      hx ''DAA9D986D8AAD8B1D984D8B120D987D988D8B4D985D986D8AF204A6F7A6D6F7A444E5320E2809420D985D988D8AAD988D8B120536D617274444E5320D8A8D8A720D8AAD8A3D8AEDB8CD8B120D9BED8A7DB8CDB8CD98620C2B7''),
     (''JozmozDNS Smart Controller '' @ hx ''E28094'' @ '' Low-Latency SmartDNS Engine '' @ hx ''C2B7'',
      hx ''DAA9D986D8AAD8B1D984D8B120D987D988D8B4D985D986D8AF204A6F7A6D6F7A444E5320E2809420D985D988D8AAD988D8B120536D617274444E5320D8A8D8A720D8AAD8A3D8AEDB8CD8B120D9BED8A7DB8CDB8CD98620C2B7'')]"

definition fa_security :: "(string \<times> string) list" where
  "fa_security =
    [(''Security Setup'', hx ''D8AAD986D8B8DB8CD98520D8A7D985D986DB8CD8AADB8C''),
     (''WEAK ADMIN PASSWORD DETECTED'',
      hx ''D8B1D985D8B220D8B9D8A8D988D8B120D985D8AFDB8CD8B120D8B6D8B9DB8CD98120D8A7D8B3D8AA''),
     (''This account is still on a password that fails the current policy. Anyone who can reach this dashboard may be able to log in with it. Set a new administrator password now:'',
      hx ''D8B1D985D8B220D8A7DB8CD98620D8ADD8B3D8A7D8A820D8B3DB8CD8A7D8B3D8AA20D981D8B9D984DB8C20D8B1D8A720D8B1D8AF20D985DB8CE2808CDAA9D986D8AF2E20D987D8B120DAA9D8B3DB8C20DAA9D98720D8A8D98720D8A7DB8CD98620D9BED986D98420D8AFD8B3D8AAD8B1D8B3DB8C20D8AFD8A7D8B4D8AAD98720D8A8D8A7D8B4D8AF20D985D985DAA9D98620D8A7D8B3D8AA20D8A8D8AAD988D8A7D986D8AF20D8A8D8A720D8A2D98620D988D8A7D8B1D8AF20D8B4D988D8AF2E20D987D985DB8CD98620D8ADD8A7D984D8A720DB8CDAA920D8B1D985D8B220D8B9D8A8D988D8B120D8AAD8A7D8B2D98720D8A8D8B1D8A7DB8C20D985D8AFDB8CD8B120D8A8DAAFD8B0D8A7D8B1DB8CD8AF3A''),
     (''CURRENT PASSWORD'', hx ''D8B1D985D8B220D8B9D8A8D988D8B120D981D8B9D984DB8C''),
     (''NEW ADMIN USERNAME'',
      hx ''D986D8A7D98520DAA9D8A7D8B1D8A8D8B1DB8C20D8ACD8AFDB8CD8AF20D985D8AFDB8CD8B1''),
     (''NEW PASSWORD'', hx ''D8B1D985D8B220D8B9D8A8D988D8B120D8ACD8AFDB8CD8AF''),
     (''At least 10 characters, not a common password, and not the same as the username. A short passphrase of unrelated words is both stronger and easier to type.'',
      hx ''D8ADD8AFD8A7D982D98420DBB1DBB020DAA9D8A7D8B1D8A7DAA9D8AAD8B1D88C20D986D98720DB8CDAA920D8B1D985D8B220D8B1D8A7DB8CD8AC20D98820D986D98720D8A8D8B1D8A7D8A8D8B120D8A8D8A720D986D8A7D98520DAA9D8A7D8B1D8A8D8B1DB8C2E20DB8CDAA920D8B9D8A8D8A7D8B1D8AA20DAA9D988D8AAD8A7D98720D8A7D8B220DA86D986D8AF20DAA9D984D985D987D99420D8A8DB8CE2808CD8B1D8A8D8B720D987D98520D982D988DB8CE2808CD8AAD8B120D8A7D8B3D8AA20D98820D987D98520D8B1D8A7D8ADD8AAE2808CD8AAD8B120D8AAD8A7DB8CD9BE20D985DB8CE2808CD8B4D988D8AF2E''),
     (''At least 10 characters'',
      hx ''D8ADD8AFD8A7D982D98420DBB1DBB020DAA9D8A7D8B1D8A7DAA9D8AAD8B1''),
     (''Confirm with your current password'',
      hx ''D8A8D8A720D8B1D985D8B220D8B9D8A8D988D8B120D981D8B9D984DB8C20D8AAD8A3DB8CDB8CD8AF20DAA9D986DB8CD8AF''),
     (''SAVE NEW CREDENTIALS'',
      hx ''D8B0D8AEDB8CD8B1D987D99420D8A7D8B7D984D8A7D8B9D8A7D8AA20D8ACD8AFDB8CD8AF''),
     (''CANCEL'', hx ''D8A7D986D8B5D8B1D8A7D981''),
     (''Cancel'', hx ''D8A7D986D8B5D8B1D8A7D981''),
     (''Save'', hx ''D8B0D8AEDB8CD8B1D987''),
     (''SAVE'', hx ''D8B0D8AEDB8CD8B1D987''),
     (''CONFIRM'', hx ''D8AAD8A3DB8CDB8CD8AF''),
     (''Confirm'', hx ''D8AAD8A3DB8CDB8CD8AF''),
     (''OK'', hx ''D8AAD8A3DB8CDB8CD8AF''),
     (''Add'', hx ''D8A7D981D8B2D988D8AFD986''),
     (''Clear'', hx ''D9BED8A7DAA920DAA9D8B1D8AFD986''),
     (''Set'', hx ''D8ABD8A8D8AA''),
     (''Regenerate'', hx ''D8AAD988D984DB8CD8AF20D985D8ACD8AFD8AF''),
     (''Restart'', hx ''D8B1DB8CE2808CD8A7D8B3D8AAD8A7D8B1D8AA''),
     (''Block'', hx ''D985D8B3D8AFD988D8AF20DAA9D986''),
     (''Pause'', hx ''D8AAD988D982D981''),
     (''Resume'', hx ''D8A7D8AFD8A7D985D987''),
     (''Failed'', hx ''D986D8A7D985D988D981D982''),
     (''Saved'', hx ''D8B0D8AEDB8CD8B1D98720D8B4D8AF''),
     (''Copied!'', hx ''DAA9D9BEDB8C20D8B4D8AF21''),
     (''VALUE'', hx ''D985D982D8AFD8A7D8B1''),
     (''No result'', hx ''D986D8AADB8CD8ACD987E2808CD8A7DB8C20D986DB8CD8B3D8AA''),
     (''Requesting'' @ hx ''E280A6'',
      hx ''D8AFD8B120D8ADD8A7D98420D8AFD8B1D8AED988D8A7D8B3D8AAE280A6'')]"

definition fa_tabs :: "(string \<times> string) list" where
  "fa_tabs =
    [(''Dashboard'', hx ''D8AFD8A7D8B4D8A8D988D8B1D8AF''),
     (''Policy'', hx ''D8B3DB8CD8A7D8B3D8AAE2808CD987D8A7''),
     (''Rules'', hx ''D982D988D8A7D986DB8CD986''),
     (''Clients'', hx ''DAA9D984D8A7DB8CD986D8AAE2808CD987D8A7''),
     (''Stream'', hx ''D8ACD8B1DB8CD8A7D98620D8B2D986D8AFD987''),
     (''Connect'', hx ''D8A7D8AAD8B5D8A7D984''),
     (''API'', ''API''),
     (''Clients & Whitelist'',
      hx ''DAA9D984D8A7DB8CD986D8AAE2808CD987D8A720D98820D984DB8CD8B3D8AA20D8B3D981DB8CD8AF''),
     (''Gaming Policies'', hx ''D8B3DB8CD8A7D8B3D8AAE2808CD987D8A7DB8C20DAAFDB8CD985''),
     (''Live Query Log'', hx ''D984D8A7DAAF20D8B2D986D8AFD987D99420DAA9D988D8A6D8B1DB8C''),
     (''REST API Gateway'', hx ''D8AFD8B1DAAFD8A7D987205245535420415049''),
     (''Settings & SSL'', hx ''D8AAD986D8B8DB8CD985D8A7D8AA20D9882053534C''),
     (''Connect Guide'', hx ''D8B1D8A7D987D986D985D8A7DB8C20D8A7D8AAD8B5D8A7D984''),
     (''Dash'', hx ''D8AFD8A7D8B4D8A8D988D8B1D8AF''),
     (''Logs'', hx ''D984D8A7DAAFE2808CD987D8A7''),
     (''SSL'', ''SSL''),
     (''Guide'', hx ''D8B1D8A7D987D986D985D8A7''),
     (''Game Intelligence'', hx ''D987D988D8B4D985D986D8AFDB8C20D8A8D8A7D8B2DB8CE2808CD987D8A7''),
     (''HGI'', hx ''D987D988D8B4D985D986D8AFDB8C20D8A8D8A7D8B2DB8C''),
     (''JozmozDNS Game Intelligence Engine'',
      hx ''D985D988D8AAD988D8B120D987D988D8B4D985D986D8AFDB8C20D8A8D8A7D8B2DB8CE2808CD987D8A7DB8C204A6F7A6D6F7A444E53''),
     (''JozmozDNS Game Intelligence Engine'',
      hx ''D985D988D8AAD988D8B120D987D988D8B4D985D986D8AFDB8C20D8A8D8A7D8B2DB8CE2808CD987D8A7DB8C204A6F7A6D6F7A444E53''),
     (''Gaming Intelligence & Route Controller'',
      hx ''D987D988D8B4D985D986D8AFDB8C20D8A8D8A7D8B2DB8CE2808CD987D8A720D98820DAA9D986D8AAD8B1D984D8B120D985D8B3DB8CD8B1''),
     (''Detect Active Game'', hx ''D8AAD8B4D8AEDB8CD8B520D8A8D8A7D8B2DB8C20D981D8B9D8A7D984''),
     (''Probe All Routes'',
      hx ''D8A2D8B2D985D8A7DB8CD8B420D8AAD985D8A7D98520D985D8B3DB8CD8B1D987D8A7''),
     (''Scan Candidates'',
      hx ''D8A7D8B3DAA9D98620D8AFD8A7D985D986D987E2808CD987D8A7DB8C20DAA9D8A7D986D8AFDB8CD8AF''),
     (''Export HGI Report'', hx ''D8AED8B1D988D8ACDB8C20DAAFD8B2D8A7D8B1D8B420484749''),
     (''Game Profiles'', hx ''D9BED8B1D988D981D8A7DB8CD984E2808CD987D8A7DB8C20D8A8D8A7D8B2DB8C''),
     (''Detected Game'',
      hx ''D8A8D8A7D8B2DB8C20D8AAD8B4D8AEDB8CD8B5E2808CD8AFD8A7D8AFD987E2808CD8B4D8AFD987''),
     (''Discovery Queue'', hx ''D8B5D98120DAA9D8B4D98120D8AFD8A7D985D986D987E2808CD987D8A7''),
     (''Best Route Node'', hx ''D8A8D987D8AAD8B1DB8CD98620D986D988D8AF20D985D8B3DB8CD8B1''),
     (''Learning Mode'', hx ''D8ADD8A7D984D8AA20DB8CD8A7D8AFDAAFDB8CD8B1DB8C''),
     (''Profiles & Domains'',
      hx ''D9BED8B1D988D981D8A7DB8CD984E2808CD987D8A720D98820D8AFD8A7D985D986D987E2808CD987D8A7''),
     (''Discovery & Learning'', hx ''DAA9D8B4D98120D98820DB8CD8A7D8AFDAAFDB8CD8B1DB8C''),
     (''Route Quality Monitor'',
      hx ''D985D8A7D986DB8CD8AAD988D8B120DAA9DB8CD981DB8CD8AA20D985D8B3DB8CD8B1''),
     (''Rule Simulator'', hx ''D8B4D8A8DB8CD987E2808CD8B3D8A7D8B220D982D988D8A7D986DB8CD986''),
     (''Traffic Timeline & Audits'',
      hx ''D8AAD8A7DB8CD985E2808CD984D8A7DB8CD98620D8AAD8B1D8A7D981DB8CDAA920D98820D984D8A7DAAFE2808CD987D8A7''),
     (''AI Assistant'', hx ''D8AFD8B3D8AADB8CD8A7D8B120D987D988D8B420D985D8B5D986D988D8B9DB8C''),
     (''Add Custom Game Profile'',
      hx ''D8A7D981D8B2D988D8AFD98620D9BED8B1D988D981D8A7DB8CD98420D8A8D8A7D8B2DB8C20D8ACD8AFDB8CD8AF''),
     (''Save Mode'', hx ''D8B0D8AEDB8CD8B1D98720D8ADD8A7D984D8AA''),
     (''Clear Candidates'',
      hx ''D9BED8A7DAA9E2808CD8B3D8A7D8B2DB8C20DAA9D8A7D986D8AFDB8CD8AFD987D8A7''),
     (''Simulate Resolution'',
      hx ''D8B4D8A8DB8CD987E2808CD8B3D8A7D8B2DB8C20D8AAD981DAA9DB8CDAA920D8AFD8A7D985D986D987''),
     (''Policy Verdict'',
      hx ''D986D8AADB8CD8ACD98720D8A7D8B1D8B2DB8CD8A7D8A8DB8C20D8B3DB8CD8A7D8B3D8AA''),
     (''ASSOCIATED GAME'', hx ''D8A8D8A7D8B2DB8C20D985D8B1D8AAD8A8D8B7''),
     (''ASSIGNED ROUTE NODE'',
      hx ''D986D988D8AF20D985D8B3DB8CD8B120D8AAD8B9DB8CDB8CD986E2808CD8B4D8AFD987''),
     (''EVALUATION TRACE'',
      hx ''D985D8B3DB8CD8B120D8A7D8B1D8B2DB8CD8A7D8A8DB8C20D982D988D8A7D986DB8CD986''),
     (''Conflict Warning'',
      hx ''D987D8B4D8AFD8A7D8B120D8AAD8AFD8A7D8AED98420D982D988D8A7D986DB8CD986''),
     (''Safe Execution Assessment'',
      hx ''D8A7D8B1D8B2DB8CD8A7D8A8DB8C20D8A7DB8CD985D986DB8C20D8A7D8ACD8B1D8A7''),
     (''Game Traffic Timeline'',
      hx ''D8AAD8A7DB8CD985E2808CD984D8A7DB8CD98620D8AAD8B1D8A7D981DB8CDAA920D8A8D8A7D8B2DB8CE2808CD987D8A7''),
     (''HGI Audit Trail'',
      hx ''D8AAD8A7D8B1DB8CD8AEDA86D98720D8AAD8BADB8CDB8CD8B1D8A7D8AA20484749''),
     (''AI Gaming Assistant (HGI Intelligence)'',
      hx ''D8AFD8B3D8AADB8CD8A7D8B120D987D988D8B4D985D986D8AF20D8A8D8A7D8B2DB8CE2808CD987D8A72028D987D988D8B42048474929''),
     (''Why is FC 26 ping high?'',
      hx ''DA86D8B1D8A720D9BEDB8CD986DAAF20464320323620D8A8D8A7D984D8A7D8B3D8AAD89F''),
     (''Check rule conflicts'',
      hx ''D8A8D8B1D8B1D8B3DB8C20D8AAD8AFD8A7D8AED98420D982D988D8A7D986DB8CD986''),
     (''Best node for CS2'',
      hx ''D8A8D987D8AAD8B1DB8CD98620D986D988D8AF20D8A8D8B1D8A7DB8C20435332''),
     (''Review candidates'',
      hx ''D8A8D8B1D8B1D8B3DB8C20DAA9D8A7D986D8AFDB8CD8AFD987D8A7DB8C20DAA9D8B4D981E2808CD8B4D8AFD987''),
     (''Send'', hx ''D8A7D8B1D8B3D8A7D984'')]"

definition fa_stats :: "(string \<times> string) list" where
  "fa_stats =
    [(''Server Public IP'', hx ''495020D8B9D985D988D985DB8C20D8B3D8B1D988D8B1''),
     (''Diagnostics'', hx ''D8B9DB8CD8A8E2808CDB8CD8A7D8A8DB8C''),
     (''Run Diagnostics'', hx ''D8A7D8ACD8B1D8A7DB8C20D8B9DB8CD8A8E2808CDB8CD8A7D8A8DB8C''),
     (''Restart Server'',
      hx ''D8B1D8A7D987E2808CD8A7D986D8AFD8A7D8B2DB8C20D985D8ACD8AFD8AF20D8B3D8B1D988D8B1''),
     (''Logout'', hx ''D8AED8B1D988D8AC20D8A7D8B220D8ADD8B3D8A7D8A8''),
     (''Click to copy server IP'',
      hx ''D8A8D8B1D8A7DB8C20DAA9D9BEDB8C20495020D8B3D8B1D988D8B120DAA9D984DB8CDAA920DAA9D986DB8CD8AF''),
     (''Copy server IP address'', hx ''DAA9D9BEDB8C20D8A2D8AFD8B1D8B320495020D8B3D8B1D988D8B1''),
     (''Copy DNS-over-TLS hostname'',
      hx ''DAA9D9BEDB8C20D987D8A7D8B3D8AA20444E532D6F7665722D544C53''),
     (''Copy DNS-over-HTTPS URL'',
      hx ''DAA9D9BEDB8C20D8A2D8AFD8B1D8B320444E532D6F7665722D4854545053''),
     (''Restart Core Engine & Reload Rules'',
      hx ''D8B1DB8CE2808CD8A7D8B3D8AAD8A7D8B1D8AA20D985D988D8AAD988D8B120D98820D8A8D8A7D8B1DAAFD8B0D8A7D8B1DB8C20D985D8ACD8AFD8AF20D982D988D8A7D986DB8CD986''),
     (''Restart Engine'', hx ''D8B1DB8CE2808CD8A7D8B3D8AAD8A7D8B1D8AA20D985D988D8AAD988D8B1''),
     (''Flush DNS Cache'', hx ''D8AED8A7D984DB8C20DAA9D8B1D8AFD98620DAA9D8B420444E53''),
     (''Total Queries'', hx ''DAA9D98420D9BED8B1D8B3E2808CD988D8ACD988D987D8A7''),
     (''Query Rate'', hx ''D986D8B1D8AE20D9BED8B1D8B3E2808CD988D8ACD988D987D8A7202851505329''),
     (''Total:'', hx ''D985D8ACD985D988D8B93A''),
     (''Total'', hx ''D985D8ACD985D988D8B9''),
     (''Limit: '' @ hx ''E28094'', hx ''D8B3D982D98120D985D8ACD8A7D8B23A20E28094''),
     (''Limit: off'', hx ''D985D8ADD8AFD988D8AFDB8CD8AA3A20D8AED8A7D985D988D8B4''),
     (''Limit'', hx ''D8B3D982D98120D985D8ACD8A7D8B2''),
     (''Cache Hits'', hx ''D9BED8A7D8B3D8AEE2808CD987D8A7DB8C20D985D988D981D98220DAA9D8B4''),
     (''No misses'',
      hx ''D9BED8A7D8B3D8AEE2808CD8AFD987DB8C20DAA9D8A7D985D98420D8A7D8B220DAA9D8B42028D8A8D8AFD988D986204D69737329''),
     (''Limit: off'', hx ''D985D8ADD8AFD988D8AFDB8CD8AA3A20D8AED8A7D985D988D8B4''),
     (''Per-source query rate limit'',
      hx ''D985D8ADD8AFD988D8AFDB8CD8AA20D986D8B1D8AE20DAA9D988D8A6D8B1DB8C20D8A8D8B1D8A7DB8C20D987D8B120D985D8A8D8AFD8A3''),
     (''Per-source rate limiting is disabled (access.rate_limit_qps = 0)'',
      hx ''D985D8ADD8AFD988D8AFDB8CD8AA20D986D8B1D8AE20D8A8D8B1D8A7DB8C20D987D8B120D985D8A8D8AFD8A320D8AED8A7D985D988D8B420D8A7D8B3D8AA20286163636573732E726174655F6C696D69745F717073203D203029''),
     (''RAM Cache'', hx ''DAA9D8B420D8B1D985202852414D20436163686529''),
     (''hit'', hx ''D987DB8CD8AA''),
     (''Items:'', hx ''D8AAD8B9D8AFD8A7D8AF20D985D988D8A7D8B1D8AF3A''),
     (''Items'', hx ''D8AAD8B9D8AFD8A7D8AF20D985D988D8A7D8B1D8AF''),
     (''SNI Proxy'', hx ''D9BED8B1D988DAA9D8B3DB8C20534E49''),
     (''Active'', hx ''D981D8B9D8A7D984''),
     (''Inactive'', hx ''D8BADB8CD8B1D981D8B9D8A7D984''),
     (''relays'', hx ''D8B1D984D987''),
     (''no drops'', hx ''D8A8D8AFD988D98620D8A7D981D8AA''),
     (''Connections that reached the proxy and never became relays'',
      hx ''D8A7D8AAD8B5D8A7D984E2808CD987D8A7DB8CDB8C20DAA9D98720D8A8D98720D9BED8B1D988DAA9D8B3DB8C20D8B1D8B3DB8CD8AFD986D8AF20D98820D987D8B1DAAFD8B220D8A8D98720D8B1D984D98720D8AAD8A8D8AFDB8CD98420D986D8B4D8AFD986D8AF''),
     (''Every connection that reached the proxy named a destination and was relayed'',
      hx ''D987D8B120D8A7D8AAD8B5D8A7D984DB8C20DAA9D98720D8A8D98720D9BED8B1D988DAA9D8B3DB8C20D8B1D8B3DB8CD8AF20D985D982D8B5D8AFD8B420D8B1D8A720D8A7D8B9D984D8A7D98520DAA9D8B1D8AF20D98820D8B1D984D98720D8B4D8AF''),
     (''CPU Usage'', hx ''D985D8B5D8B1D98120D9BED8B1D8AFD8A7D8B2D986D8AFD987202843505529''),
     (''Cores:'', hx ''D987D8B3D8AAD987E2808CD987D8A73A''),
     (''Cores'', hx ''D987D8B3D8AAD987E2808CD987D8A7''),
     (''thr'', hx ''D8AAD8B1D8AF''),
     (''Threads'', hx ''D8B1D8B4D8AAD987E2808CD987D8A72028D8AAD8B1D8AFD987D8A729''),
     (''RAM Usage'', hx ''D985D8B5D8B1D98120D8ADD8A7D981D8B8D9872052414D''),
     (''Sys:'', hx ''D8B3DB8CD8B3D8AAD9853A''),
     (''System'', hx ''D8B3DB8CD8B3D8AAD985''),
     (''Live Traffic'', hx ''D8AAD8B1D8A7D981DB8CDAA920D8B2D986D8AFD987''),
     (''Resolver Latency'', hx ''D8AAD8A3D8AEDB8CD8B120D8B1DB8CD8B2D8A7D984D988D8B1''),
     (''Service time for queries the cache did not answer'',
      hx ''D8B2D985D8A7D98620D9BED8A7D8B3D8AEE2808CD8AFD987DB8C20D8A8D8B1D8A7DB8C20D9BED8B1D8B3E2808CD988D8ACD988D987D8A7DB8CDB8C20DAA9D98720D8AFD8B120DAA9D8B420D986D8A8D988D8AFD986D8AF''),
     (''no data yet'', hx ''D987D986D988D8B220D8AFD8A7D8AFD987E2808CD8A7DB8C20D986DB8CD8B3D8AA''),
     (''The resolver has not answered a query yet'',
      hx ''D8B1DB8CD8B2D8A7D984D988D8B120D987D986D988D8B220D8A8D98720D987DB8CDA8620DAA9D988D8A6D8B1DB8C20D9BED8A7D8B3D8AE20D986D8AFD8A7D8AFD987''),
     (''p50 median'', hx ''D985DB8CD8A7D986D987D99420703530''),
     (''p99 worst 1%'', hx ''70393920D8A8D8AFD8AAD8B1DB8CD98620DBB1D9AA''),
     (''Peak'', hx ''D8A7D988D8AC''),
     (''All queries:'', hx ''D987D985D987D99420DAA9D988D8A6D8B1DB8CE2808CD987D8A73A''),
     (''Cache refresh: '' @ hx ''E28094'', hx ''D986D988D8B3D8A7D8B2DB8C20DAA9D8B43A20E28094''),
     (''Cache refresh: healthy'', hx ''D986D988D8B3D8A7D8B2DB8C20DAA9D8B43A20D8B3D8A7D984D985''),
     (''No background refresh has run yet, no stale answer has been served'',
      hx ''D987D986D988D8B220D987DB8CDA8620D986D988D8B3D8A7D8B2DB8C20D9BED8B3E2808CD8B2D985DB8CD986D987E2808CD8A7DB8C20D8A7D8ACD8B1D8A720D986D8B4D8AFD98720D98820D987DB8CDA8620D9BED8A7D8B3D8AE20DAA9D987D986D987E2808CD8A7DB8C20D8B3D8B1D98820D986D8B4D8AFD987''),
     (''every answer from cache'',
      hx ''D987D985D987D99420D9BED8A7D8B3D8AEE2808CD987D8A720D8A7D8B220DAA9D8B4''),
     (''No query has needed an upstream resolver yet'',
      hx ''D987D986D988D8B220D987DB8CDA8620DAA9D988D8A6D8B1DB8CE2808CD8A7DB8C20D8A8D98720D8B1DB8CD8B2D8A7D984D988D8B120D8A8D8A7D984D8A7D8AFD8B3D8AA20D986DB8CD8A7D8B220D9BEDB8CD8AFD8A720D986DAA9D8B1D8AFD987''),
     (''Queries answered by an upstream rather than from cache, since the daemon started'',
      hx ''DAA9D988D8A6D8B1DB8CE2808CD987D8A7DB8CDB8C20DAA9D98720D8A7D8B220D8B2D985D8A7D98620D8B4D8B1D988D8B920D8B3D8B1D988DB8CD8B3D88C20D8A8D987E2808CD8ACD8A7DB8C20DAA9D8B420D8A7D8B220DB8CDAA920D8A8D8A7D984D8A7D8AFD8B3D8AA20D9BED8A7D8B3D8AE20DAAFD8B1D981D8AAD986D8AF'')]"

definition fa_chart :: "(string \<times> string) list" where
  "fa_chart =
    [(''Live QPS & Telemetry'', hx ''51505320D8B2D986D8AFD98720D98820D8AAD984D985D8AAD8B1DB8C''),
     (''Queries Per Second (Live)'',
      hx ''D9BED8B1D8B3E2808CD988D8ACD98820D8AFD8B120D8ABD8A7D986DB8CD9872028D984D8ADD8B8D987E2808CD8A7DB8C29''),
     (''Rolling DNS query load '' @ hx ''C2B7'' @ '' last 60 seconds '' @ hx ''C2B7'' @ '' 1 Hz'',
      hx ''D8A8D8A7D8B120DAA9D988D8A6D8B1DB8C20444E5320C2B720DBB6DBB020D8ABD8A7D986DB8CD987D99420DAAFD8B0D8B4D8AAD98720C2B720DBB120D987D8B1D8AAD8B2''),
     (''LIVE ENGINE'', hx ''D985D988D8AAD988D8B120D8B2D986D8AFD987''),
     (''The dashboard is receiving live telemetry'',
      hx ''D9BED986D98420D8AFD8B120D8ADD8A7D98420D8AFD8B1DB8CD8A7D981D8AA20D8AAD984D985D8AAD8B1DB8C20D8B2D986D8AFD98720D8A7D8B3D8AA''),
     (''Telemetry stopped'', hx ''D8AAD984D985D8AAD8B1DB8C20D982D8B7D8B920D8B4D8AFD987''),
     (''STALE '' @ hx ''E28094'' @ '' NO TELEMETRY'',
      hx ''DAA9D987D986D98720E2809420D8A8D8AFD988D98620D8AAD984D985D8AAD8B1DB8C''),
     (''The dashboard cannot reach the daemon'',
      hx ''D9BED986D98420D986D985DB8CE2808CD8AAD988D8A7D986D8AF20D8A8D98720D8B3D8B1D988DB8CD8B320D8AFD8B3D8AAD8B1D8B3DB8C20D9BEDB8CD8AFD8A720DAA9D986D8AF''),
     (''Upstream Racers'',
      hx ''D8B3D8B1D988D8B1D987D8A7DB8C20D8A8D8A7D984D8A7D8AFD8B3D8AA20D8B1D982D8A7D8A8D8AADB8C''),
     (''Benchmark'', hx ''D8A8D986DA86D985D8A7D8B1DAA9''),
     (''Parallel DNS queries across fastest global upstreams'',
      hx ''DAA9D988D8A6D8B1DB8C20D985D988D8A7D8B2DB8C20D8B1D988DB8C20D8B3D8B1DB8CD8B9E2808CD8AAD8B1DB8CD98620D8A8D8A7D984D8A7D8AFD8B3D8AAE2808CD987D8A7DB8C20D8ACD987D8A7D986DB8C''),
     (''Reading upstream health'' @ hx ''E280A6'',
      hx ''D8AFD8B120D8ADD8A7D98420D8AED988D8A7D986D8AFD98620D8B3D984D8A7D985D8AA20D8A8D8A7D984D8A7D8AFD8B3D8AAE2808CD987D8A7E280A6''),
     (''Racing Policy:'', hx ''D8B3DB8CD8A7D8B3D8AA20D985D8B3D8A7D8A8D982D9873A''),
     (''Fastest Wins'',
      hx ''D8B3D8B1DB8CD8B9E2808CD8AAD8B1DB8CD98620D8A8D8B1D986D8AFD98720D8A7D8B3D8AA''),
     (hx ''E2978F'' @ '' Validated'', hx ''E2978F20D8AAD8A3DB8CDB8CD8AF20D8B4D8AFD987''),
     (''No upstreams configured'',
      hx ''D987DB8CDA8620D8A8D8A7D984D8A7D8AFD8B3D8AADB8C20D8AAD986D8B8DB8CD98520D986D8B4D8AFD987''),
     (''Remove upstream'', hx ''D8ADD8B0D98120D8A8D8A7D984D8A7D8AFD8B3D8AA''),
     (''Interface language'', hx ''D8B2D8A8D8A7D98620D8B1D8A7D8A8D8B7''),
     (''Remove policy'', hx ''D8ADD8B0D98120D8B3DB8CD8A7D8B3D8AA''),
     (''Last measured round-trip'',
      hx ''D8A2D8AED8B1DB8CD98620D8B1D981D8AAE2808CD988D8A8D8B1DAAFD8B4D8AA20D8A7D986D8AFD8A7D8B2D987E2808CDAAFDB8CD8B1DB8CE2808CD8B4D8AFD987''),
     (''Not measured yet '' @ hx ''E28094'' @ '' no answer has been timed from this upstream'',
      hx ''D987D986D988D8B220D8A7D986D8AFD8A7D8B2D987E2808CDAAFDB8CD8B1DB8C20D986D8B4D8AFD98720E2809420D987DB8CDA8620D9BED8A7D8B3D8AEDB8C20D8A7D8B220D8A7DB8CD98620D8A8D8A7D984D8A7D8AFD8B3D8AA20D8B2D985D8A7D986E2808CD8B3D986D8ACDB8C20D986D8B4D8AFD987''),
     (''not timed yet'',
      hx ''D987D986D988D8B220D8B2D985D8A7D986E2808CD8B3D986D8ACDB8C20D986D8B4D8AFD987''),
     (''Listening'', hx ''D8AFD8B120D8ADD8A7D98420D8B4D986D988D8AF'')]"

definition fa_diagnostics :: "(string \<times> string) list" where
  "fa_diagnostics =
    [(''Gaming Diagnostic Suite'',
      hx ''D985D8ACD985D988D8B9D987D99420D8B9DB8CD8A8E2808CDB8CD8A7D8A8DB8C20DAAFDB8CD985''),
     (''Verifying VPS route latency & handshake'',
      hx ''D8A8D8B1D8B1D8B3DB8C20D8AAD8A3D8AEDB8CD8B120D985D8B3DB8CD8B12056505320D98820D987D986D8AFD8B4DB8CDAA9''),
     (''GAMING SUITABILITY SCORE'',
      hx ''D8A7D985D8AADB8CD8A7D8B220D985D986D8A7D8B3D8A8E2808CD8A8D988D8AFD98620D8A8D8B1D8A7DB8C20DAAFDB8CD985''),
     (''Ready to test'', hx ''D8A2D985D8A7D8AFD987D99420D8AAD8B3D8AA''),
     (''Run Test'', hx ''D8A7D8ACD8B1D8A7DB8C20D8AAD8B3D8AA''),
     (''Click \"Run Test\" to benchmark routes to Riot, Epic, Steam, Discord, EA, Battle.net, PUBG and Spotify.'',
      hx ''D8A8D8B1D8A7DB8C20D8A8D986DA86D985D8A7D8B1DAA920D985D8B3DB8CD8B1D987D8A720D8A8D9872052696F74D88C2045706963D88C20537465616DD88C20446973636F7264D88C204541D88C20426174746C652E6E6574D88C205055424720D9882053706F7469667920D8B1D988DB8C20C2ABD8A7D8ACD8B1D8A7DB8C20D8AAD8B3D8AAC2BB20D8A8D8B2D986DB8CD8AF2E''),
     (''Testing routes...'',
      hx ''D8AFD8B120D8ADD8A7D98420D8AAD8B3D8AA20D985D8B3DB8CD8B1D987D8A7E280A6''),
     (''Test failed'', hx ''D8AAD8B3D8AA20D986D8A7D985D988D981D98220D8A8D988D8AF''),
     (''The diagnostic run was refused'',
      hx ''D8A7D8ACD8B1D8A7DB8C20D8B9DB8CD8A8E2808CDB8CD8A7D8A8DB8C20D8B1D8AF20D8B4D8AF''),
     (''The server answered the diagnostic run with a response that is not JSON.'',
      hx ''D8B3D8B1D988D8B120D8A8D98720D8A7D8ACD8B1D8A7DB8C20D8B9DB8CD8A8E2808CDB8CD8A7D8A8DB8C20D9BED8A7D8B3D8AEDB8C20D8AFD8A7D8AF20DAA9D987204A534F4E20D986DB8CD8B3D8AA2E''),
     (''Could not reach the server to run diagnostics.'',
      hx ''D8A8D8B1D8A7DB8C20D8A7D8ACD8B1D8A7DB8C20D8B9DB8CD8A8E2808CDB8CD8A7D8A8DB8C20D986D985DB8CE2808CD8AAD988D8A7D98620D8A8D98720D8B3D8B1D988D8B120D8AFD8B3D8AAD8B1D8B3DB8C20D9BEDB8CD8AFD8A720DAA9D8B1D8AF2E''),
     (''The server reported no diagnostic targets.'',
      hx ''D8B3D8B1D988D8B120D987DB8CDA8620D987D8AFD98120D8B9DB8CD8A8E2808CDB8CD8A7D8A8DB8CE2808CD8A7DB8C20D8A7D8B9D984D8A7D98520D986DAA9D8B1D8AF2E'')]"

definition fa_access :: "(string \<times> string) list" where
  "fa_access =
    [(''Client Access Whitelist Mode'',
      hx ''D8ADD8A7D984D8AA20D984DB8CD8B3D8AA20D8B3D981DB8CD8AF20D8AFD8B3D8AAD8B1D8B3DB8C20DAA9D984D8A7DB8CD986D8AA''),
     (''PUBLIC ACCESS'', hx ''D8AFD8B3D8AAD8B1D8B3DB8C20D8B9D985D988D985DB8C''),
     (''PUBLIC ACCESS'', hx ''D8AFD8B3D8AAD8B1D8B3DB8C20D8B9D985D988D985DB8C''),
     (''WHITELIST ENFORCED'', hx ''D984DB8CD8B3D8AA20D8B3D981DB8CD8AF20D981D8B9D8A7D984''),
     (''When Enabled (Shelter / Shecan Style):'',
      hx ''D988D982D8AADB8C20D981D8B9D8A7D98420D8A8D8A7D8B4D8AF2028D8B3D8A8DAA920D8B4D984D8AAD8B1202F20D8B4DAA9D986293A''),
     (''Only whitelisted client IP addresses can resolve DNS and access gaming routes. Unregistered IPs are refused access.'',
      hx ''D981D982D8B7204950E2808CD987D8A7DB8C20D8ABD8A8D8AAE2808CD8B4D8AFD98720D8AFD8B120D984DB8CD8B3D8AA20D8B3D981DB8CD8AF20D985DB8CE2808CD8AAD988D8A7D986D986D8AF20444E5320D8A8DAAFDB8CD8B1D986D8AF20D98820D8A8D98720D985D8B3DB8CD8B1D987D8A7DB8C20DAAFDB8CD98520D8AFD8B3D8AAD8B1D8B3DB8C20D8AFD8A7D8B4D8AAD98720D8A8D8A7D8B4D986D8AF2E204950E2808CD987D8A7DB8C20D8ABD8A8D8AAE2808CD986D8B4D8AFD98720D8B1D8AF20D985DB8CE2808CD8B4D988D986D8AF2E''),
     (''Public Mode'', hx ''D8ADD8A7D984D8AA20D8B9D985D988D985DB8C''),
     (''Whitelist Mode (Only Registered Clients)'',
      hx ''D8ADD8A7D984D8AA20D984DB8CD8B3D8AA20D8B3D981DB8CD8AF2028D981D982D8B720DAA9D984D8A7DB8CD986D8AAE2808CD987D8A7DB8C20D8ABD8A8D8AAE2808CD8B4D8AFD98729''),
     (''Public Mode (Anyone can connect)'',
      hx ''D8ADD8A7D984D8AA20D8B9D985D988D985DB8C2028D987D985D98720D985DB8CE2808CD8AAD988D8A7D986D986D8AF20D988D8B5D98420D8B4D988D986D8AF29'')]"

definition fa_clients :: "(string \<times> string) list" where
  "fa_clients =
    [(''Add New Client'',
      hx ''D8A7D981D8B2D988D8AFD98620DAA9D984D8A7DB8CD986D8AA20D8ACD8AFDB8CD8AF''),
     (''Add Client'', hx ''D8A7D981D8B2D988D8AFD98620DAA9D984D8A7DB8CD986D8AA20D8ACD8AFDB8CD8AF''),
     (''Add New Client Account'',
      hx ''D8B3D8A7D8AED8AA20D8ADD8B3D8A7D8A820DAA9D984D8A7DB8CD986D8AA20D8ACD8AFDB8CD8AF''),
     (''Search clients...'',
      hx ''D8ACD8B3D8AAE2808CD988D8ACD988DB8C20DAA9D984D8A7DB8CD986D8AAE2808CD987D8A72E2E2E''),
     (''Display Name'', hx ''D986D8A7D98520D986D985D8A7DB8CD8B4DB8C''),
     (''Username (for login)'',
      hx ''D986D8A7D98520DAA9D8A7D8B1D8A8D8B1DB8C2028D8ACD987D8AA20D988D8B1D988D8AF29''),
     (''Username'', hx ''D986D8A7D98520DAA9D8A7D8B1D8A8D8B1DB8C''),
     (''Password'', hx ''D8B1D985D8B220D8B9D8A8D988D8B1''),
     (''Traffic Limit (GB, 0 = unlimited)'',
      hx ''D8B3D982D98120D8AAD8B1D8A7D981DB8CDAA92028DAAFDB8CDAAFD8A7D8A8D8A7DB8CD8AAD88C20DBB0203D20D986D8A7D985D8ADD8AFD988D8AF29''),
     (''Expiration Date'', hx ''D8AAD8A7D8B1DB8CD8AE20D8A7D986D982D8B6D8A7''),
     (''Never expires'',
      hx ''D8A8D8AFD988D98620D8AAD8A7D8B1DB8CD8AE20D8A7D986D982D8B6D8A72028D8AFD8A7D8A6D985DB8C29''),
     (''Enabled Policies'', hx ''D8B3DB8CD8A7D8B3D8AAE2808CD987D8A7DB8C20D981D8B9D8A7D984''),
     (''Edit Client'', hx ''D988DB8CD8B1D8A7DB8CD8B420DAA9D984D8A7DB8CD986D8AA''),
     (''Update'', hx ''D8A8D987E2808CD8B1D988D8B2D8B1D8B3D8A7D986DB8C''),
     (''Share Links'',
      hx ''D8A7D8B4D8AAD8B1D8A7DAA9E2808CDAAFD8B0D8A7D8B1DB8C20D984DB8CD986DAA9E2808CD987D8A7DB8C20D8A7D8AAD8B5D8A7D984''),
     (''Share'',
      hx ''D8A7D8B4D8AAD8B1D8A7DAA9E2808CDAAFD8B0D8A7D8B1DB8C20D984DB8CD986DAA9E2808CD987D8A7''),
     (''Edit'', hx ''D988DB8CD8B1D8A7DB8CD8B4''),
     (''Delete'', hx ''D8ADD8B0D981''),
     (''Name'', hx ''D986D8A7D985''),
     (''Traffic'', hx ''D8ADD8ACD98520D985D8B5D8B1D981DB8C2028D8AAD8B1D8A7D981DB8CDAA929''),
     (''Expires'', hx ''D8AAD8A7D8B1DB8CD8AE20D8A7D986D982D8B6D8A7''),
     (''Status'', hx ''D988D8B6D8B9DB8CD8AA''),
     (''Actions'', hx ''D8B9D985D984DB8CD8A7D8AA''),
     (''Expired'', hx ''D985D986D982D8B6DB8CE2808CD8B4D8AFD987''),
     (''Disabled'', hx ''D8BADB8CD8B1D981D8B9D8A7D984''),
     (''Create'', hx ''D8A7DB8CD8ACD8A7D8AF''),
     (''Close'', hx ''D8A8D8B3D8AAD986''),
     (''Copy'', hx ''DAA9D9BEDB8C''),
     (''DoH (DNS-over-HTTPS)'', ''DoH (DNS-over-HTTPS)''),
     (''DoT (DNS-over-TLS)'', ''DoT (DNS-over-TLS)''),
     (''Plain DNS'',
      hx ''D8AFDB8CE2808CD8A7D986E2808CD8A7D8B320D8B3D8A7D8AFD9872028D8A8D8AFD988D98620D8B1D985D8B2D986DAAFD8A7D8B1DB8C29''),
     (''Loading clients'' @ hx ''E280A6'',
      hx ''D8AFD8B120D8ADD8A7D98420D8A8D8A7D8B1DAAFD8B0D8A7D8B1DB8C20DAA9D984D8A7DB8CD986D8AAE2808CD987D8A7E280A6''),
     (''Reading the subscriber list from the server.'',
      hx ''D8AFD8B120D8ADD8A7D98420D8AED988D8A7D986D8AFD98620D984DB8CD8B3D8AA20D985D8B4D8AAD8B1DAA9DB8CD98620D8A7D8B220D8B3D8B1D988D8B12E''),
     (''Could not load clients'',
      hx ''DAA9D984D8A7DB8CD986D8AAE2808CD987D8A720D8A8D8A7D8B1DAAFD8B0D8A7D8B1DB8C20D986D8B4D8AFD986D8AF''),
     (''Could not reach the server'',
      hx ''D8AFD8B3D8AAD8B1D8B3DB8C20D8A8D98720D8B3D8B1D988D8B120D8A8D8B1D982D8B1D8A7D8B120D986D8B4D8AF''),
     (''The subscriber list could not be read. Nothing has been changed '' @ hx ''E28094'' @ '' this is a failed read, not an empty list.'',
      hx ''D984DB8CD8B3D8AA20D985D8B4D8AAD8B1DAA9DB8CD98620D8AED988D8A7D986D8AFD98720D986D8B4D8AF2E20DA86DB8CD8B2DB8C20D8AAD8BADB8CDB8CD8B120D986DAA9D8B1D8AFD98720E2809420D8A7DB8CD98620DB8CDAA920D8AED988D8A7D986D8AFD98620D986D8A7D985D988D981D98220D8A7D8B3D8AAD88C20D986D98720D984DB8CD8B3D8AA20D8AED8A7D984DB8C2E''),
     (''Could not reach the server to load the client list.'',
      hx ''D8A8D8B1D8A7DB8C20D8A8D8A7D8B1DAAFD8B0D8A7D8B1DB8C20D984DB8CD8B3D8AA20DAA9D984D8A7DB8CD986D8AAE2808CD987D8A720D986D985DB8CE2808CD8AAD988D8A7D98620D8A8D98720D8B3D8B1D988D8B120D8AFD8B3D8AAD8B1D8B3DB8C20D9BEDB8CD8AFD8A720DAA9D8B1D8AF2E''),
     (''Search client name, ID, or IP...'',
      hx ''D8ACD8B3D8AAE2808CD988D8ACD988DB8C20D986D8A7D985D88C20D8B4D986D8A7D8B3D98720DB8CD8A720495020DAA9D984D8A7DB8CD986D8AAE280A6''),
     (''Clear search'', hx ''D9BED8A7DAA920DAA9D8B1D8AFD98620D8ACD8B3D8AAE2808CD988D8ACD988''),
     (''No Clients Yet'', hx ''D987D986D988D8B220DAA9D984D8A7DB8CD986D8AADB8C20D986DB8CD8B3D8AA''),
     (''Generate IP whitelist registration slug'',
      hx ''D8B3D8A7D8AED8AA20D984DB8CD986DAA920D8ABD8A8D8AA20495020D8AFD8B120D984DB8CD8B3D8AA20D8B3D981DB8CD8AF''),
     (''Lifetime (No Expiry)'',
      hx ''D987D985DB8CD8B4DAAFDB8C2028D8A8D8AFD988D98620D8A7D986D982D8B6D8A729''),
     (''(Expired)'', hx ''28D985D986D982D8B6DB8C29''),
     (''EXPIRED'', hx ''D985D986D982D8B6DB8C''),
     (''NO QUOTA'', hx ''D8A8D8AFD988D98620D8ADD8ACD985''),
     (''Unlimited'', hx ''D986D8A7D985D8ADD8AFD988D8AF''),
     (''Never'', hx ''D987DB8CDA86E2808CD988D982D8AA''),
     (''just now'', hx ''D987D985DB8CD98620D8ADD8A7D984D8A7''),
     (''ACTIVE'', hx ''D981D8B9D8A7D984''),
     (''DISABLED'', hx ''D8BADB8CD8B1D981D8B9D8A7D984''),
     (''Disable Client'',
      hx ''D8BADB8CD8B1D981D8B9D8A7D98420DAA9D8B1D8AFD98620DAA9D984D8A7DB8CD986D8AA''),
     (''Enable Client'', hx ''D981D8B9D8A7D98420DAA9D8B1D8AFD98620DAA9D984D8A7DB8CD986D8AA''),
     (''Edit Client'', hx ''D988DB8CD8B1D8A7DB8CD8B420DAA9D984D8A7DB8CD986D8AA''),
     (''Delete Client'', hx ''D8ADD8B0D98120DAA9D984D8A7DB8CD986D8AA''),
     (''delete this client'',
      hx ''D8A7DB8CD98620DAA9D984D8A7DB8CD986D8AA20D8B1D8A720D8ADD8B0D98120DAA9D986DB8C''),
     (''Copy UUID'', hx ''DAA9D9BEDB8C2055554944''),
     (''Remove IP'', hx ''D8ADD8B0D981204950''),
     (''set IP'', hx ''D8ABD8A8D8AA204950''),
     (''No IPs registered yet (Share link below)'',
      hx ''D987D986D988D8B2204950E2808CD8A7DB8C20D8ABD8A8D8AA20D986D8B4D8AFD9872028D984DB8CD986DAA920D9BED8A7DB8CDB8CD98620D8B1D8A720D8A8D981D8B1D8B3D8AADB8CD8AF29''),
     (hx ''C2B7'' @ '' Slug:'', hx ''C2B720D8A7D8B3D984D8A7DAAF3A''),
     (''UUID:'', ''UUID:''),
     (''Registered IP (Max 1):'',
      hx ''495020D8ABD8A8D8AAE2808CD8B4D8AFD9872028D8ADD8AFD8A7DAA9D8ABD8B120DBB1293A''),
     (''Plan Expiry'', hx ''D8A7D986D982D8B6D8A7DB8C20D9BED984D986''),
     (''Traffic Limit'', hx ''D985D8ADD8AFD988D8AFDB8CD8AA20D8AAD8B1D8A7D981DB8CDAA9''),
     (''Queries'', hx ''DAA9D988D8A6D8B1DB8CE2808CD987D8A7''),
     (''Reg Link'', hx ''D984DB8CD986DAA920D8ABD8A8D8AA''),
     (''Bot Card'', hx ''DAA9D8A7D8B1D8AA20D8A8D8A7D8AA''),
     (''+30 Days'', hx ''2BDBB3DBB020D8B1D988D8B2''),
     (''Click \"Add New Client\" above to create client accounts & registration links.'',
      hx ''D8A8D8B1D8A7DB8C20D8B3D8A7D8AED8AA20D8ADD8B3D8A7D8A820DAA9D984D8A7DB8CD986D8AA20D98820D984DB8CD986DAA920D8ABD8A8D8AAD88C20D8A8D8A7D984D8A720D8B1D988DB8C20C2ABD8A7D981D8B2D988D8AFD98620DAA9D984D8A7DB8CD986D8AA20D8ACD8AFDB8CD8AFC2BB20D8A8D8B2D986DB8CD8AF2E''),
     (''you have no subscribers'',
      hx ''D987DB8CDA8620D985D8B4D8AAD8B1DAA9DB8C20D986D8AFD8A7D8B1DB8CD8AF''),
     (''the grid is showing a notice'',
      hx ''D8B4D8A8DAA9D98720D8AFD8B120D8ADD8A7D98420D986D985D8A7DB8CD8B420DB8CDAA920D8A7D8B7D984D8A7D8B9DB8CD98720D8A7D8B3D8AA''),
     ('', which for this panel means'',
      hx ''D88C20DAA9D98720D8A8D8B1D8A7DB8C20D8A7DB8CD98620D9BED986D98420DB8CD8B9D986DB8C'')]"

definition fa_client_forms :: "(string \<times> string) list" where
  "fa_client_forms =
    [(''Manage account properties, traffic limits & policy exceptions'',
      hx ''D985D8AFDB8CD8B1DB8CD8AA20D985D8B4D8AED8B5D8A7D8AA20D8ADD8B3D8A7D8A8D88C20D985D8ADD8AFD988D8AFDB8CD8AA20D8AAD8B1D8A7D981DB8CDAA920D98820D8A7D8B3D8AAD8ABD986D8A7D987D8A7DB8C20D8B3DB8CD8A7D8B3D8AA''),
     (''Email / Client Name'',
      hx ''D8A7DB8CD985DB8CD984202F20D986D8A7D98520DAA9D984D8A7DB8CD986D8AA''),
     (''Traffic Limit (GB)'',
      hx ''D985D8ADD8AFD988D8AFDB8CD8AA20D8AAD8B1D8A7D981DB8CDAA92028DAAFDB8CDAAFD8A7D8A8D8A7DB8CD8AA29''),
     (''TRAFFIC LIMIT (GB)'',
      hx ''D985D8ADD8AFD988D8AFDB8CD8AA20D8AAD8B1D8A7D981DB8CDAA92028DAAFDB8CDAAFD8A7D8A8D8A7DB8CD8AA29''),
     (''Auto Reset'', hx ''D8A8D8A7D8B2D986D8B4D8A7D986DB8C20D8AED988D8AFDAA9D8A7D8B1''),
     (''AUTO RESET'', hx ''D8A8D8A7D8B2D986D8B4D8A7D986DB8C20D8AED988D8AFDAA9D8A7D8B1''),
     (''Never (manual)'', hx ''D987DB8CDA86E2808CD988D982D8AA2028D8AFD8B3D8AADB8C29''),
     (''Daily'', hx ''D8B1D988D8B2D8A7D986D987''),
     (''Weekly'', hx ''D987D981D8AADAAFDB8C''),
     (''Monthly'', hx ''D985D8A7D987D8A7D986D987''),
     (''Resets the volume only '' @ hx ''E28094'' @ '' never the expiry date.'',
      hx ''D981D982D8B720D8ADD8ACD98520D8B1D8A720D8B5D981D8B120D985DB8CE2808CDAA9D986D8AF20E2809420D987D8B1DAAFD8B220D8AAD8A7D8B1DB8CD8AE20D8A7D986D982D8B6D8A720D8B1D8A72E''),
     (''Expiry (Gregorian)'', hx ''D8A7D986D982D8B6D8A72028D985DB8CD984D8A7D8AFDB8C29''),
     (''Clear (Lifetime)'', hx ''D9BED8A7DAA920DAA9D8B1D8AFD9862028D987D985DB8CD8B4DAAFDB8C29''),
     (''Time:'', hx ''D8B3D8A7D8B9D8AA3A''),
     (''Now (+30d)'', hx ''D8A7D984D8A7D98620282BDBB3DBB020D8B1D988D8B229''),
     (''Manual IP Address (Optional)'',
      hx ''D8A2D8AFD8B1D8B320495020D8AFD8B3D8AADB8C2028D8A7D8AED8AADB8CD8A7D8B1DB8C29''),
     (''INITIAL IP ADDRESS (OPTIONAL)'',
      hx ''D8A2D8AFD8B1D8B320495020D8A7D988D984DB8CD9872028D8A7D8AED8AADB8CD8A7D8B1DB8C29''),
     (''If blank, client can self-register using their personal URL.'',
      hx ''D8A7DAAFD8B120D8AED8A7D984DB8C20D8A8D8A7D8B4D8AFD88C20DAA9D984D8A7DB8CD986D8AA20D985DB8CE2808CD8AAD988D8A7D986D8AF20D8A8D8A720D984DB8CD986DAA920D8B4D8AED8B5DB8C20D8AED988D8AFD8B420D8ABD8A8D8AAE2808CD986D8A7D98520DAA9D986D8AF2E''),
     (''UUID (RFC 4122 v4)'', ''UUID (RFC 4122 v4)''),
     (''Comment / Note'', hx ''D8AAD988D8B6DB8CD8AD202F20DB8CD8A7D8AFD8AFD8A7D8B4D8AA''),
     (''Attached DNS Policies'',
      hx ''D8B3DB8CD8A7D8B3D8AAE2808CD987D8A7DB8C20444E5320D985D8AAD8B5D984''),
     (''Leave empty to inherit all global policies, or select specific games.'',
      hx ''D8AED8A7D984DB8C20D8A8DAAFD8B0D8A7D8B1DB8CD8AF20D8AAD8A720D987D985D987D99420D8B3DB8CD8A7D8B3D8AAE2808CD987D8A7DB8C20DAA9D984DB8C20D8A7D8B1D8AB20D8A8D8B1D8B3D8AFD88C20DB8CD8A720D8A8D8A7D8B2DB8CE2808CD987D8A7DB8C20D8AED8A7D8B5DB8C20D8B1D8A720D8A7D986D8AAD8AED8A7D8A820DAA9D986DB8CD8AF2E''),
     (''Select all'', hx ''D8A7D986D8AAD8AED8A7D8A820D987D985D987''),
     (''select all'', hx ''D8A7D986D8AAD8AED8A7D8A820D987D985D987''),
     (''Clear all (Inherit)'',
      hx ''D9BED8A7DAA920DAA9D8B1D8AFD98620D987D985D9872028D8A7D8B1D8ABE2808CD8A8D8B1DB8C29''),
     (''Account Status'', hx ''D988D8B6D8B9DB8CD8AA20D8ADD8B3D8A7D8A8''),
     (''Reset Traffic'', hx ''D8B5D981D8B120DAA9D8B1D8AFD98620D8AAD8B1D8A7D981DB8CDAA9''),
     (''CLIENT NAME / LABEL'',
      hx ''D986D8A7D985202F20D8A8D8B1DA86D8B3D8A820DAA9D984D8A7DB8CD986D8AA''),
     (''PLAN DURATION / EXPIRATION'', hx ''D985D8AFD8AA20D9BED984D986202F20D8A7D986D982D8B6D8A7''),
     (''30 Days (1 Month)'', hx ''DBB3DBB020D8B1D988D8B22028DBB120D985D8A7D98729''),
     (''7 Days (1 Week)'', hx ''DBB720D8B1D988D8B22028DBB120D987D981D8AAD98729''),
     (''1 Day (24 Hours)'', hx ''DBB120D8B1D988D8B22028DBB2DBB420D8B3D8A7D8B9D8AA29''),
     (''90 Days (3 Months)'', hx ''DBB9DBB020D8B1D988D8B22028DBB320D985D8A7D98729''),
     (''365 Days (1 Year)'', hx ''DBB3DBB6DBB520D8B1D988D8B22028DBB120D8B3D8A7D98429''),
     (''Lifetime (No Expiration)'',
      hx ''D987D985DB8CD8B4DAAFDB8C2028D8A8D8AFD988D98620D8A7D986D982D8B6D8A729''),
     (''CREATE CLIENT & GENERATE LINK'',
      hx ''D8B3D8A7D8AED8AA20DAA9D984D8A7DB8CD986D8AA20D98820D8AAD988D984DB8CD8AF20D984DB8CD986DAA9''),
     (''Inheriting all global policies'',
      hx ''D8AFD8B120D8ADD8A7D98420D8A7D8B1D8ABE2808CD8A8D8B1DB8C20D987D985D987D99420D8B3DB8CD8A7D8B3D8AAE2808CD987D8A7DB8C20DAA9D984DB8C''),
     (''No matching policies found'',
      hx ''D8B3DB8CD8A7D8B3D8AADB8C20D985D8B7D8A7D8A8D98220D9BEDB8CD8AFD8A720D986D8B4D8AF''),
     (''No policies available to select'',
      hx ''D8B3DB8CD8A7D8B3D8AADB8C20D8A8D8B1D8A7DB8C20D8A7D986D8AAD8AED8A7D8A820D985D988D8ACD988D8AF20D986DB8CD8B3D8AA''),
     (''Loading policies'' @ hx ''E280A6'',
      hx ''D8AFD8B120D8ADD8A7D98420D8A8D8A7D8B1DAAFD8B0D8A7D8B1DB8C20D8B3DB8CD8A7D8B3D8AAE2808CD987D8A7E280A6''),
     (''Could not load the policy list from the server.'',
      hx ''D984DB8CD8B3D8AA20D8B3DB8CD8A7D8B3D8AAE2808CD987D8A720D8A7D8B220D8B3D8B1D988D8B120D8A8D8A7D8B1DAAFD8B0D8A7D8B1DB8C20D986D8B4D8AF2E''),
     (''there are no policies'',
      hx ''D987DB8CDA8620D8B3DB8CD8A7D8B3D8AADB8C20D988D8ACD988D8AF20D986D8AFD8A7D8B1D8AF''),
     (''empty catalog'', hx ''DAA9D8A7D8AAD8A7D984D988DAAF20D8AED8A7D984DB8C'')]"

definition fa_calendar :: "(string \<times> string) list" where
  "fa_calendar =
    [(''Su'', hx ''DB8C''),
     (''Mo'', hx ''D8AF''),
     (''Tu'', hx ''D8B3''),
     (''We'', hx ''DA86''),
     (''Th'', hx ''D9BE''),
     (''Fr'', hx ''D8AC''),
     (''Sa'', hx ''D8B4''),
     (''Jan'', hx ''DA98D8A7D986D988DB8CD987''),
     (''Feb'', hx ''D981D988D8B1DB8CD987''),
     (''Mar'', hx ''D985D8A7D8B1D8B3''),
     (''Apr'', hx ''D8A2D9BED8B1DB8CD984''),
     (''May'', hx ''D985D987''),
     (''Jun'', hx ''DA98D988D8A6D986''),
     (''Jul'', hx ''DA98D988D8A6DB8CD987''),
     (''Aug'', hx ''D8A7D988D8AA''),
     (''Sep'', hx ''D8B3D9BED8AAD8A7D985D8A8D8B1''),
     (''Oct'', hx ''D8A7DAA9D8AAD8A8D8B1''),
     (''Nov'', hx ''D986D988D8A7D985D8A8D8B1''),
     (''Dec'', hx ''D8AFD8B3D8A7D985D8A8D8B1'')]"

definition fa_profiles :: "(string \<times> string) list" where
  "fa_profiles =
    [(''Quick Policy Profiles'',
      hx ''D9BED8B1D988D981D8A7DB8CD984E2808CD987D8A7DB8C20D8B3D8B1DB8CD8B920D8B3DB8CD8A7D8B3D8AA''),
     (''1-Click activate targeted optimization bundles'',
      hx ''D981D8B9D8A7D984E2808CD8B3D8A7D8B2DB8C20DB8CDAA9E2808CDAA9D984DB8CDAA9DB8C20D8A8D8B3D8AAD987D99420D8A8D987DB8CD986D987E2808CD8B3D8A7D8B2DB8C20D987D8AFD981D985D986D8AF''),
     (''Pro Gamer'', hx ''DAAFDB8CD985D8B120D8ADD8B1D981D987E2808CD8A7DB8C''),
     (''All 13 game routes'', hx ''D987D985D987D99420DBB1DBB320D985D8B3DB8CD8B120DAAFDB8CD985''),
     (''Streamer'', hx ''D8A7D8B3D8AAD8B1DB8CD985D8B1''),
     (''Discord, Twitch, Kick'', hx ''446973636F7264D88C20547769746368D88C204B69636B''),
     (''Dev 403'', hx ''D8AAD988D8B3D8B9D987E2808CD8AFD987D986D8AFD98720DBB4DBB0DBB3''),
     (''Docker, AI, npm'', hx ''446F636B6572D88C204149D88C206E706D''),
     (''Safe DNS'', hx ''444E5320D8A7DB8CD985D986''),
     (''AdBlock & Family'',
      hx ''D8B6D8AFD8AAD8A8D984DB8CD8BA20D98820D8AED8A7D986D988D8A7D8AFD987''),
     (''Anti-sanction & low-latency routing for competitive PC, Console & Mobile games'',
      hx ''D985D8B3DB8CD8B1DB8CD8A7D8A8DB8C20D8B6D8AFD8AAD8ADD8B1DB8CD98520D98820DAA9D985E2808CD8AAD8A3D8AEDB8CD8B120D8A8D8B1D8A7DB8C20D8A8D8A7D8B2DB8CE2808CD987D8A7DB8C20D8B1D982D8A7D8A8D8AADB8C205043D88C20DAA9D986D8B3D988D98420D98820D985D988D8A8D8A7DB8CD984''),
     (''Streaming & Media Policies'',
      hx ''D8B3DB8CD8A7D8B3D8AAE2808CD987D8A7DB8C20D8A7D8B3D8AAD8B1DB8CD98520D98820D8B1D8B3D8A7D986D987''),
     (''Bypass restrictions on live streaming, voice channels, and music'',
      hx ''D8AFD988D8B120D8B2D8AFD98620D985D8ADD8AFD988D8AFDB8CD8AA20D8A7D8B3D8AAD8B1DB8CD98520D8B2D986D8AFD987D88C20DAA9D8A7D986D8A7D98420D8B5D988D8AADB8C20D98820D985D988D8B3DB8CD982DB8C''),
     (''Developer & Security Policies'',
      hx ''D8B3DB8CD8A7D8B3D8AAE2808CD987D8A7DB8C20D8AAD988D8B3D8B9D98720D98820D8A7D985D986DB8CD8AA''),
     (''Developer 403 bypass, ad-blocking sinkhole, and parental controls'',
      hx ''D8AFD988D8B120D8B2D8AFD98620D8AED8B7D8A7DB8C20DBB4DBB0DBB320D8AAD988D8B3D8B9D987E2808CD8AFD987D986D8AFD987D88C20D8B3DB8CD986DAA9E2808CD987D988D98420D8B6D8AFD8AAD8A8D984DB8CD8BA20D98820DAA9D986D8AAD8B1D98420D988D8A7D984D8AFDB8CD986'')]"

definition fa_policy_cards :: "(string \<times> string) list" where
  "fa_policy_cards =
    [(''Valorant '' @ hx ''C2B7'' @ '' LoL '' @ hx ''C2B7'' @ '' Vanguard'',
      ''Valorant '' @ hx ''C2B7'' @ '' LoL '' @ hx ''C2B7'' @ '' Vanguard''),
     (''Bypasses 403 errors and optimizes Vanguard matchmaking route.'',
      hx ''D8AED8B7D8A7DB8C20DBB4DBB0DBB320D8B1D8A720D8AFD988D8B120D985DB8CE2808CD8B2D986D8AF20D98820D985D8B3DB8CD8B120D985DA86E2808CD985DB8CDAA9DB8CD986DAAF2056616E677561726420D8B1D8A720D8A8D987DB8CD986D98720D985DB8CE2808CDAA9D986D8AF2E''),
     (''Store '' @ hx ''C2B7'' @ '' Fortnite '' @ hx ''C2B7'' @ '' EAC'',
      ''Store '' @ hx ''C2B7'' @ '' Fortnite '' @ hx ''C2B7'' @ '' EAC''),
     (''Unblocks Store, Unreal Engine, and Easy Anti-Cheat handshake servers.'',
      hx ''53746F7265D88C20556E7265616C20456E67696E6520D98820D8B3D8B1D988D8B1D987D8A7DB8C20D987D986D8AFD8B4DB8CDAA9204561737920416E74692D436865617420D8B1D8A720D8A8D8A7D8B220D985DB8CE2808CDAA9D986D8AF2E''),
     (''Community '' @ hx ''C2B7'' @ '' CS2 '' @ hx ''C2B7'' @ '' Dota 2'',
      ''Community '' @ hx ''C2B7'' @ '' CS2 '' @ hx ''C2B7'' @ '' Dota 2''),
     (''Fixes Steam Community marketplace, friends chat, and Valve servers.'',
      hx ''D985D8A7D8B1DAA9D8AAE2808CD9BED984DB8CD8B320537465616D20436F6D6D756E697479D88C20DA86D8AA20D8AFD988D8B3D8AAD8A7D98620D98820D8B3D8B1D988D8B1D987D8A7DB8C2056616C766520D8B1D8A720D8AFD8B1D8B3D8AA20D985DB8CE2808CDAA9D986D8AF2E''),
     (''PUBG Mobile & PC'', hx ''5055424720D985D988D8A8D8A7DB8CD98420D988205043''),
     (''Krafton '' @ hx ''C2B7'' @ '' Level Infinite'',
      ''Krafton '' @ hx ''C2B7'' @ '' Level Infinite''),
     (''Fixes loading/handshake errors, optimizes matchmaking, and unblocks in-game events.'',
      hx ''D8AED8B7D8A7D987D8A7DB8C20D984D988D8AFDB8CD986DAAF20D98820D987D986D8AFD8B4DB8CDAA920D8B1D8A720D8AFD8B1D8B3D8AA20D985DB8CE2808CDAA9D986D8AFD88C20D985DA86E2808CD985DB8CDAA9DB8CD986DAAF20D8B1D8A720D8A8D987DB8CD986D98720D98820D8A7DB8CD988D986D8AAE2808CD987D8A7DB8C20D8AFD8A7D8AED98420D8A8D8A7D8B2DB8C20D8B1D8A720D8A8D8A7D8B220D985DB8CE2808CDAA9D986D8AF2E''),
     (''Call of Duty Mobile'', ''Call of Duty Mobile''),
     (''CODM '' @ hx ''C2B7'' @ '' Warzone Mobile'', ''CODM '' @ hx ''C2B7'' @ '' Warzone Mobile''),
     (''Unblocks Activision login, Demonware matchmaking, and token validation.'',
      hx ''D988D8B1D988D8AF2041637469766973696F6ED88C20D985DA86E2808CD985DB8CDAA9DB8CD986DAAF2044656D6F6E7761726520D98820D8A7D8B9D8AAD8A8D8A7D8B1D8B3D986D8ACDB8C20D8AAD988DAA9D98620D8B1D8A720D8A8D8A7D8B220D985DB8CE2808CDAA9D986D8AF2E''),
     (''Supercell Games'', hx ''D8A8D8A7D8B2DB8CE2808CD987D8A7DB8C20537570657263656C6C''),
     (''Brawl Stars '' @ hx ''C2B7'' @ '' Clash Royale'',
      ''Brawl Stars '' @ hx ''C2B7'' @ '' Clash Royale''),
     (''Fixes Brawl Stars, Clash of Clans, and Squad Busters connection lock.'',
      hx ''D982D981D98420D8A7D8AAD8B5D8A7D98420427261776C205374617273D88C20436C617368206F6620436C616E7320D988205371756164204275737465727320D8B1D8A720D8A8D8A7D8B220D985DB8CE2808CDAA9D986D8AF2E''),
     (''EA & Origin'', hx ''454120D988204F726967696E''),
     (''EA App '' @ hx ''C2B7'' @ '' Apex Legends'', ''EA App '' @ hx ''C2B7'' @ '' Apex Legends''),
     (''Fixes EA App authentication and Apex Legends token refresh.'',
      hx ''D8A7D8ADD8B1D8A7D8B220D987D988DB8CD8AA2045412041707020D98820D8AAD8A7D8B2D987E2808CD8B3D8A7D8B2DB8C20D8AAD988DAA9D9862041706578204C6567656E647320D8B1D8A720D8AFD8B1D8B3D8AA20D985DB8CE2808CDAA9D986D8AF2E''),
     (''Blizzard '' @ hx ''C2B7'' @ '' Overwatch '' @ hx ''C2B7'' @ '' WoW'',
      ''Blizzard '' @ hx ''C2B7'' @ '' Overwatch '' @ hx ''C2B7'' @ '' WoW''),
     (''Ensures Battle.net launcher connectivity and Blizzard game servers access.'',
      hx ''D8A7D8AAD8B5D8A7D98420D984D8A7D986DA86D8B120426174746C652E6E657420D98820D8AFD8B3D8AAD8B1D8B3DB8C20D8A8D98720D8B3D8B1D988D8B1D987D8A7DB8C20426C697A7A61726420D8B1D8A720D8AAD8B6D985DB8CD98620D985DB8CE2808CDAA9D986D8AF2E''),
     (''Ubisoft Connect'', ''Ubisoft Connect''),
     (''Rainbow Six '' @ hx ''C2B7'' @ '' AC'', ''Rainbow Six '' @ hx ''C2B7'' @ '' AC''),
     (''Bypasses Ubisoft Connect login issues and sync errors.'',
      hx ''D985D8B4DAA9D984D8A7D8AA20D988D8B1D988D8AF20D98820D8AED8B7D8A7D987D8A7DB8C20D987D985DAAFD8A7D985E2808CD8B3D8A7D8B2DB8C20556269736F667420436F6E6E65637420D8B1D8A720D8AFD988D8B120D985DB8CE2808CD8B2D986D8AF2E''),
     (''Rockstar Games'', ''Rockstar Games''),
     (''GTA Online '' @ hx ''C2B7'' @ '' RDR2'', ''GTA Online '' @ hx ''C2B7'' @ '' RDR2''),
     (''Fixes Social Club offline mode and GTA Online cloud save sync.'',
      hx ''D8ADD8A7D984D8AA20D8A2D981D984D8A7DB8CD98620536F6369616C20436C756220D98820D987D985DAAFD8A7D985E2808CD8B3D8A7D8B2DB8C20D8B3DB8CD98820D8A7D8A8D8B1DB8C20475441204F6E6C696E6520D8B1D8A720D8AFD8B1D8B3D8AA20D985DB8CE2808CDAA9D986D8AF2E''),
     (''Xbox & Microsoft'', hx ''58626F7820D988204D6963726F736F6674''),
     (''Xbox Live '' @ hx ''C2B7'' @ '' Minecraft'', ''Xbox Live '' @ hx ''C2B7'' @ '' Minecraft''),
     (''Optimizes Xbox Live party chat and Microsoft gaming authentication.'',
      hx ''DA86D8AA20D9BED8A7D8B1D8AADB8C2058626F78204C69766520D98820D8A7D8ADD8B1D8A7D8B220D987D988DB8CD8AA20DAAFDB8CD985DB8CD986DAAF204D6963726F736F667420D8B1D8A720D8A8D987DB8CD986D98720D985DB8CE2808CDAA9D986D8AF2E''),
     (''PlayStation Network'', ''PlayStation Network''),
     (''PSN '' @ hx ''C2B7'' @ '' PS5 / PS4 Store'',
      hx ''50534E20C2B720D8A7D8B3D8AAD988D8B120505335202F20505334''),
     (''Unblocks PlayStation Network login and store connection.'',
      hx ''D988D8B1D988D8AF20D8A8D98720506C617953746174696F6E204E6574776F726B20D98820D8A7D8AAD8B5D8A7D98420D8A8D98720D8A7D8B3D8AAD988D8B120D8B1D8A720D8A8D8A7D8B220D985DB8CE2808CDAA9D986D8AF2E''),
     (''Nintendo Switch'', ''Nintendo Switch''),
     (''Switch Online '' @ hx ''C2B7'' @ '' eShop'',
      hx ''537769746368204F6E6C696E6520C2B720D8A7D8B3D8AAD988D8B1206553686F70''),
     (''Unblocks Nintendo Switch Online, eShop connection and game lobbies.'',
      hx ''D8B3D8B1D988DB8CD8B3204E696E74656E646F20537769746368204F6E6C696E65D88C20D8A7D8AAD8B5D8A7D98420D8A8D98720D981D8B1D988D8B4DAAFD8A7D987206553686F7020D98820D984D8A7D8A8DB8C20D8A8D8A7D8B2DB8CE2808CD987D8A720D8B1D8A720D8A8D8A7D8B220D985DB8CE2808CDAA9D986D8AF2E''),
     (''Client '' @ hx ''C2B7'' @ '' Assets CDN'',
      hx ''DAA9D984D8A7DB8CD986D8AA20C2B72043444E20D8AFD8A7D8B1D8A7DB8CDB8CE2808CD987D8A7''),
     (''Bypasses Roblox client connection blocks and asset download errors.'',
      hx ''D985D8B3D8AFD988D8AFDB8C20D8A7D8AAD8B5D8A7D98420DAA9D984D8A7DB8CD986D8AA20526F626C6F7820D98820D8AED8B7D8A7D987D8A7DB8C20D8AFD8A7D986D984D988D8AF20D8AFD8A7D8B1D8A7DB8CDB8C20D8B1D8A720D8AFD988D8B120D985DB8CE2808CD8B2D986D8AF2E''),
     (''Tactical Shooters Extra'',
      hx ''D8B4D988D8AAD8B1D987D8A7DB8C20D8AAD8A7DAA9D8AADB8CDAA9DB8C2028D8AADAA9D985DB8CD984DB8C29''),
     (''Tarkov '' @ hx ''C2B7'' @ '' The Finals '' @ hx ''C2B7'' @ '' R6 '' @ hx ''C2B7'' @ '' HellDivers 2'',
      ''Tarkov '' @ hx ''C2B7'' @ '' The Finals '' @ hx ''C2B7'' @ '' R6 '' @ hx ''C2B7'' @ '' HellDivers 2''),
     (''Anime & Modern MMOs'',
      hx ''D8A7D986DB8CD985D98720D988204D4D4FE2808CD987D8A7DB8C20D985D8AFD8B1D986''),
     (''Genshin '' @ hx ''C2B7'' @ '' Wuthering Waves '' @ hx ''C2B7'' @ '' ZZZ '' @ hx ''C2B7'' @ '' PoE 2'',
      ''Genshin '' @ hx ''C2B7'' @ '' Wuthering Waves '' @ hx ''C2B7'' @ '' ZZZ '' @ hx ''C2B7'' @ '' PoE 2''),
     (''Sports, Fighting & Racing'',
      hx ''D988D8B1D8B2D8B4DB8CD88C20D985D8A8D8A7D8B1D8B2D987E2808CD8A7DB8C20D98820D985D8B3D8A7D8A8D982D987E2808CD8A7DB8C''),
     (''FC 25 '' @ hx ''C2B7'' @ '' eFootball '' @ hx ''C2B7'' @ '' SF6 '' @ hx ''C2B7'' @ '' MK1 '' @ hx ''C2B7'' @ '' Tekken 8'',
      ''FC 25 '' @ hx ''C2B7'' @ '' eFootball '' @ hx ''C2B7'' @ '' SF6 '' @ hx ''C2B7'' @ '' MK1 '' @ hx ''C2B7'' @ '' Tekken 8''),
     (''Co-Op, Survival & Strategy'',
      hx ''D987D985DAA9D8A7D8B1DB8CD88C20D8A8D982D8A720D98820D8A7D8B3D8AAD8B1D8A7D8AADA98DB8C''),
     (''Palworld '' @ hx ''C2B7'' @ '' Among Us '' @ hx ''C2B7'' @ '' Terraria '' @ hx ''C2B7'' @ '' War Thunder'',
      ''Palworld '' @ hx ''C2B7'' @ '' Among Us '' @ hx ''C2B7'' @ '' Terraria '' @ hx ''C2B7'' @ '' War Thunder''),
     (''Platforms & Hardware Tools'',
      hx ''D9BED984D8AAD981D8B1D985E2808CD987D8A720D98820D8A7D8A8D8B2D8A7D8B1D987D8A7DB8C20D8B3D8AED8AAE2808CD8A7D981D8B2D8A7D8B1DB8C''),
     (''GeForce Now '' @ hx ''C2B7'' @ '' AMD '' @ hx ''C2B7'' @ '' GameLoop '' @ hx ''C2B7'' @ '' RED'',
      ''GeForce Now '' @ hx ''C2B7'' @ '' AMD '' @ hx ''C2B7'' @ '' GameLoop '' @ hx ''C2B7'' @ '' RED''),
     (''Nvidia GeForce Now cloud gaming, AMD Adrenaline, GameLoop emulator, GameRanger, CD Projekt REDlauncher.'',
      hx ''DAAFDB8CD985DB8CD986DAAF20D8A7D8A8D8B1DB8C204E7669646961204765466F726365204E6F77D88C20414D4420416472656E616C696E65D88C20D8A7D985D988D984D8A7D8AAD988D8B12047616D654C6F6F70D88C2047616D6552616E67657220D98820D984D8A7D986DA86D8B12043442050726F6A656B74205245442E''),
     (''Updates '' @ hx ''C2B7'' @ '' RTC Voice'',
      hx ''D8A2D9BED8AFDB8CD8AAE2808CD987D8A720C2B720D8B5D988D8AA20525443''),
     (''Fixes updater downloading loop and RTC connecting voice lock.'',
      hx ''D8ADD984D982D987D99420D8AFD8A7D986D984D988D8AF20D8A2D9BED8AFDB8CD8AAD8B120D98820D982D981D98420D8A7D8AAD8B5D8A7D98420D8B5D988D8AADB8C2052544320D8B1D8A720D8AFD8B1D8B3D8AA20D985DB8CE2808CDAA9D986D8AF2E''),
     (''Spotify & SoundCloud'', hx ''53706F7469667920D98820536F756E64436C6F7564''),
     (''Music Streaming Anti-Sanction'',
      hx ''D8B6D8AFD8AAD8ADD8B1DB8CD98520D8A7D8B3D8AAD8B1DB8CD98520D985D988D8B3DB8CD982DB8C''),
     (''Bypasses 403 sanctions on Spotify music playback, login, and SoundCloud CDN streams.'',
      hx ''D8AAD8ADD8B1DB8CD98520DBB4DBB0DBB320D8B1D988DB8C20D9BED8AED8B420D985D988D8B3DB8CD982DB8C2053706F74696679D88C20D988D8B1D988D8AF20D98820D8A7D8B3D8AAD8B1DB8CD985E2808CD987D8A7DB8C2043444E20D8B3D8A7D986D8AFDAA9D984D8A7D8AF20D8B1D8A720D8AFD988D8B120D985DB8CE2808CD8B2D986D8AF2E''),
     (''Live Streams & Chat'', hx ''D8A7D8B3D8AAD8B1DB8CD98520D8B2D986D8AFD98720D98820DA86D8AA''),
     (''Ensures high-speed Twitch streaming and websocket chat connectivity.'',
      hx ''D8A7D8B3D8AAD8B1DB8CD98520D9BED8B1D8B3D8B1D8B9D8AA2054776974636820D98820D8A7D8AAD8B5D8A7D98420DA86D8AA20D988D8A8E2808CD8B3D988DAA9D8AA20D8B1D8A720D8AAD8B6D985DB8CD98620D985DB8CE2808CDAA9D986D8AF2E''),
     (''Kick.com'', ''Kick.com''),
     (''Live Streaming'', hx ''D8A7D8B3D8AAD8B1DB8CD98520D8B2D986D8AFD987''),
     (''Bypasses Kick live stream playback blocks and chat websocket blocks.'',
      hx ''D985D8B3D8AFD988D8AFDB8C20D9BED8AED8B420D8A7D8B3D8AAD8B1DB8CD98520D8B2D986D8AFD987D994204B69636B20D98820D985D8B3D8AFD988D8AFDB8C20D988D8A8E2808CD8B3D988DAA9D8AA20DA86D8AA20D8B1D8A720D8AFD988D8B120D985DB8CE2808CD8B2D986D8AF2E''),
     (''Developer 403 Suite'',
      hx ''D985D8ACD985D988D8B9D987D99420DBB4DBB0DBB320D8AAD988D8B3D8B9D987E2808CD8AFD987D986D8AFD987''),
     (''Docker '' @ hx ''C2B7'' @ '' OpenAI '' @ hx ''C2B7'' @ '' Claude '' @ hx ''C2B7'' @ '' npm'',
      ''Docker '' @ hx ''C2B7'' @ '' OpenAI '' @ hx ''C2B7'' @ '' Claude '' @ hx ''C2B7'' @ '' npm''),
     (''Bypasses 403 blocks on Docker, Android SDK, OpenAI, Claude, npm, and Gradle.'',
      hx ''D985D8B3D8AFD988D8AFDB8C20DBB4DBB0DBB320D8B1D988DB8C20446F636B6572D88C20416E64726F69642053444BD88C204F70656E4149D88C20436C61756465D88C206E706D20D98820477261646C6520D8B1D8A720D8AFD988D8B120D985DB8CE2808CD8B2D986D8AF2E''),
     (''AdBlock & Trackers'',
      hx ''D8B6D8AFD8AAD8A8D984DB8CD8BA20D98820D8B1D8AFDB8CD8A7D8A8E2808CD987D8A7''),
     (''Sinkhole '' @ hx ''C2B7'' @ '' 0.0.0.0'',
      hx ''D8B3DB8CD986DAA9E2808CD987D988D98420C2B720302E302E302E30''),
     (''Pi-hole/AdGuard style blocking of telemetry, in-app trackers, and banner ads.'',
      hx ''D985D8B3D8AFD988D8AFD8B3D8A7D8B2DB8C20D8AAD984D985D8AAD8B1DB8CD88C20D8B1D8AFDB8CD8A7D8A8E2808CD987D8A7DB8C20D8AFD8A7D8AED98420D8A7D9BE20D98820D8AAD8A8D984DB8CD8BAD8A7D8AA20D8A8D986D8B1DB8CD88C20D8A8D98720D8B3D8A8DAA92050692D686F6C652F416447756172642E''),
     (''Family Safe Filter'',
      hx ''D981DB8CD984D8AAD8B120D8A7DB8CD985D98620D8AED8A7D986D988D8A7D8AFD987''),
     (''FamilySafe Protection'', hx ''D985D8ADD8A7D981D8B8D8AA20D8AED8A7D986D988D8A7D8AFDAAFDB8C''),
     (''Adult Content Filter'',
      hx ''D981DB8CD984D8AAD8B120D985D8ADD8AAD988D8A7DB8C20D8A8D8B2D8B1DAAFD8B3D8A7D984''),
     (''Sinkholes adult and pornographic domains for safe household browsing.'',
      hx ''D8AFD8A7D985D986D987E2808CD987D8A7DB8C20D8A8D8B2D8B1DAAFD8B3D8A7D98420D98820D9BED988D8B1D986D988DAAFD8B1D8A7D981DB8C20D8B1D8A720D8B3DB8CD986DAA9E2808CD987D988D98420D985DB8CE2808CDAA9D986D8AF20D8AAD8A720D985D8B1D988D8B120D8AED8A7D986DAAFDB8C20D8A7DB8CD985D98620D8A8D8A7D8B4D8AF2E''),
     (''Blocks (sinkholes) these domains'',
      hx ''D8A7DB8CD98620D8AFD8A7D985D986D987E2808CD987D8A720D8B1D8A720D985D8B3D8AFD988D8AF2028D8B3DB8CD986DAA9E2808CD987D988D9842920D985DB8CE2808CDAA9D986D8AF''),
     (''Riot Games & Valorant'', hx ''52696F742047616D657320D9882056616C6F72616E74'')]"

definition fa_bandwidth :: "(string \<times> string) list" where
  "fa_bandwidth =
    [(''Bandwidth & Traffic Policy'',
      hx ''D8B3DB8CD8A7D8B3D8AA20D9BED987D986D8A7DB8C20D8A8D8A7D986D8AF20D98820D8AAD8B1D8A7D981DB8CDAA9''),
     (''Whether bulk downloads travel through the proxy or the subscriber's own line'',
      hx ''D8A7DB8CD986DAA9D98720D8AFD8A7D986D984D988D8AFD987D8A7DB8C20D8ADD8ACDB8CD98520D8A7D8B220D985D8B3DB8CD8B120D9BED8B1D988DAA9D8B3DB8C20D8A8D8B1D988D986D8AF20DB8CD8A720D8A7D8B220D8AED8B720D8A7DB8CD986D8AAD8B1D986D8AA20D8AED988D8AF20D985D8B4D8AAD8B1DAA9''),
     (''Game & App Downloads via DNS'',
      hx ''D8AFD8A7D986D984D988D8AF20D8A8D8A7D8B2DB8C20D98820D8A7D9BED984DB8CDAA9DB8CD8B4D98620D8A7D8B220D985D8B3DB8CD8B120444E53''),
     (''Game & App Downloads'',
      hx ''D8AFD8A7D986D984D988D8AF20D8A8D8A7D8B2DB8C20D98820D8A7D9BED984DB8CDAA9DB8CD8B4D986''),
     (''OFF, the default: store pages, sign-in, matchmaking and patch metadata still go through the proxy, but the depot and CDN hosts carrying the multi-gigabyte payload resolve to their real addresses, so installs and updates run on the subscriber's own connection. ON: that payload is relayed too.'',
      hx ''D8AED8A7D985D988D8B4D88C20D8ADD8A7D984D8AA20D9BEDB8CD8B4E2808CD981D8B1D8B63A20D8B5D981D8ADD987E2808CD987D8A7DB8C20D981D8B1D988D8B4DAAFD8A7D987D88C20D988D8B1D988D8AF20D8A8D98720D8ADD8B3D8A7D8A8D88C20D985DA86E2808CD985DB8CDAA9DB8CD986DAAF20D98820D985D8AAD8A7D8AFDB8CD8AAD8A7DB8C20D9BEDA8620D987D985DA86D986D8A7D98620D8A7D8B220D9BED8B1D988DAA9D8B3DB8C20D985DB8CE2808CDAAFD8B0D8B1D986D8AFD88C20D8A7D985D8A720D987D8A7D8B3D8AAE2808CD987D8A7DB8C20D8AFDB8CD9BED98820D9882043444E20DAA9D98720D8ADD8ACD98520DA86D986D8AFDAAFDB8CDAAFD8A7D8A8D8A7DB8CD8AADB8C20D8B1D8A720D8ADD985D98420D985DB8CE2808CDAA9D986D986D8AF20D8A8D98720D8A2D8AFD8B1D8B320D988D8A7D982D8B9DB8C20D8AED988D8AFD8B4D8A7D986207265736F6C766520D985DB8CE2808CD8B4D988D986D8AFD89B20D9BED8B320D986D8B5D8A820D98820D8A2D9BED8AFDB8CD8AA20D8B1D988DB8C20D8AED8B720D8A7DB8CD986D8AAD8B1D986D8AA20D8AED988D8AF20D985D8B4D8AAD8B1DAA920D8A7D986D8ACD8A7D98520D985DB8CE2808CD8B4D988D8AF2E20D8B1D988D8B4D9863A20D8A2D98620D8ADD8ACD98520D987D98520D8B1D984D98720D985DB8CE2808CD8B4D988D8AF2E''),
     (''Read this before switching it on'',
      hx ''D982D8A8D98420D8A7D8B220D8B1D988D8B4D98620DAA9D8B1D8AFD986D88C20D8A7DB8CD986E2808CD987D8A720D8B1D8A720D8A8D8AED988D8A7D986DB8CD8AF''),
     (''A single 100 GB install crosses this server twice, in and out again. Most providers bill egress by the gigabyte.'',
      hx ''DB8CDAA920D986D8B5D8A820DBB1DBB0DBB020DAAFDB8CDAAFD8A7D8A8D8A7DB8CD8AADB8C20D8AFD98820D8A8D8A7D8B120D8A7D8B220D8A7DB8CD98620D8B3D8B1D988D8B120D985DB8CE2808CDAAFD8B0D8B1D8AFD89B20DB8CDAA920D8A8D8A7D8B120D988D8B1D988D8AFDB8C20D98820DB8CDAA920D8A8D8A7D8B120D8AED8B1D988D8ACDB8C2E20D8A8DB8CD8B4D8AAD8B120D8B3D8B1D988DB8CD8B3E2808CD8AFD987D986D8AFD987E2808CD987D8A720D8AAD8B1D8A7D981DB8CDAA920D8AED8B1D988D8ACDB8C20D8B1D8A720DAAFDB8CDAAFD8A7D8A8D8A7DB8CD8AADB8C20D8ADD8B3D8A7D8A820D985DB8CE2808CDAA9D986D986D8AF2E''),
     (''Traffic quotas count those bytes and there is no per-domain accounting, so one subscriber can burn a monthly plan in an evening.'',
      hx ''D8B3D987D985DB8CD987D99420D8AAD8B1D8A7D981DB8CDAA920D8A7DB8CD98620D8A8D8A7DB8CD8AAE2808CD987D8A720D8B1D8A720D987D98520D985DB8CE2808CD8B4D985D8A7D8B1D8AF20D98820D8ADD8B3D8A7D8A8D8AFD8A7D8B1DB8C20D8A8D987E2808CD8AAD981DAA9DB8CDAA920D8AFD8A7D985D986D98720D988D8ACD988D8AF20D986D8AFD8A7D8B1D8AFD89B20D9BED8B320DB8CDAA920D985D8B4D8AAD8B1DAA920D985DB8CE2808CD8AAD988D8A7D986D8AF20D9BED984D98620DB8CDAA9E2808CD985D8A7D987D98720D8B1D8A720D8AFD8B120DB8CDAA920D8B4D8A820D8AAD985D8A7D98520DAA9D986D8AF2E''),
     (''A relayed download is usually slower, not faster. The proxy adds a hop, and the CDN edge nearest the subscriber is closer than this server is.'',
      hx ''D8AFD8A7D986D984D988D8AF20D8B1D984D987E2808CD8B4D8AFD98720D985D8B9D985D988D984D8A7D98B20DAA9D986D8AFD8AAD8B120D8A7D8B3D8AAD88C20D986D98720D8B3D8B1DB8CD8B9E2808CD8AAD8B12E20D9BED8B1D988DAA9D8B3DB8C20DB8CDAA920D987D8A7D9BE20D8A7D8B6D8A7D981D98720D985DB8CE2808CDAA9D986D8AF20D98820D986D8B2D8AFDB8CDAA9E2808CD8AAD8B1DB8CD98620D984D8A8D987D9942043444E20D8A8D98720D985D8B4D8AAD8B1DAA9D88C20D8A7D8B220D8A7DB8CD98620D8B3D8B1D988D8B120D8A8D98720D8A7D98820D986D8B2D8AFDB8CDAA9E2808CD8AAD8B120D8A7D8B3D8AA2E''),
     (''Switch it on when a line cannot reach the CDN at all '' @ hx ''E28094'' @ '' a hard block, not a slow one. With it off those installs fail instead of crawling, and launchers retry forever without saying why.'',
      hx ''D988D982D8AADB8C20D8B1D988D8B4D986D8B420DAA9D986DB8CD8AF20DAA9D98720D8AED8B720D8A7DB8CD986D8AAD8B1D986D8AA20D985D8B4D8AAD8B1DAA920D8A8D987E2808CDAA9D98420D8A8D9872043444E20D986D985DB8CE2808CD8B1D8B3D8AF20E2809420DB8CD8B9D986DB8C20D985D8B3D8AFD988D8AFDB8C20DAA9D8A7D985D984D88C20D986D98720DAA9D986D8AFDB8C2E20D8A8D8A720D8AED8A7D985D988D8B420D8A8D988D8AFD986D8B420D8A2D98620D986D8B5D8A8E2808CD987D8A720D8B4DAA9D8B3D8AA20D985DB8CE2808CD8AED988D8B1D986D8AFD88C20D986D98720D8A7DB8CD986DAA9D98720D981D982D8B720DAA9D986D8AF20D8B4D988D986D8AFD88C20D98820D984D8A7D986DA86D8B120D8A8DB8CE2808CD9BED8A7DB8CD8A7D98620D8AAD984D8A7D8B420D985DB8CE2808CDAA9D986D8AF20D8A8D8AFD988D98620D8A7DB8CD986DAA9D98720D8AFD984DB8CD984D8B420D8B1D8A720D8A8DAAFD988DB8CD8AF2E''),
     (''Per-client scope: a plan has to select this category as well. The global switch is the ceiling, so off here overrides every plan.'',
      hx ''D8AFD8A7D985D986D987D99420D987D8B12DDAA9D984D8A7DB8CD986D8AA3A20D9BED984D98620D985D8B4D8AAD8B1DAA920D987D98520D8A8D8A7DB8CD8AF20D8A7DB8CD98620D8AFD8B3D8AAD98720D8B1D8A720D8A7D986D8AAD8AED8A7D8A820DAA9D8B1D8AFD98720D8A8D8A7D8B4D8AF2E20DAA9D984DB8CD8AF20D8B3D8B1D8A7D8B3D8B1DB8C20D8B3D982D98120D8A7D8B3D8AAD89B20D9BED8B320D8AED8A7D985D988D8B420D8A8D988D8AFD98620D8AFD8B120D8A7DB8CD986D8ACD8A720D8A8D8B120D987D985D987D99420D9BED984D986E2808CD987D8A720D8A7D988D984D988DB8CD8AA20D8AFD8A7D8B1D8AF2E'')]"

definition fa_stream :: "(string \<times> string) list" where
  "fa_stream =
    [(''All Actions'', hx ''D987D985D987D99420D8A7D982D8AFD8A7D985E2808CD987D8A7''),
     (''ALL'', hx ''D987D985D987''),
     (''PROXY'', hx ''D9BED8B1D988DAA9D8B3DB8C''),
     (''DIRECT'', hx ''D985D8B3D8AAD982DB8CD985''),
     (''BLOCK'', hx ''D985D8B3D8AFD988D8AF''),
     (''BLOCKED'', hx ''D985D8B3D8AFD988D8AF20D8B4D8AF''),
     (''CACHED'', hx ''D8A7D8B220DAA9D8B4''),
     (''CUSTOM'', hx ''D8B3D981D8A7D8B1D8B4DB8C''),
     (''STALE'', hx ''DAA9D987D986D987''),
     (''RAM'', hx ''D8B1D985''),
     (''QUOTA'', hx ''D8B3D987D985DB8CD987''),
     (''RATE LIMITED'', hx ''D985D8ADD8AFD988D8AFD8B4D8AFD987''),
     (''PROXY '' @ hx ''C2B7'' @ '' IPv6 SINK'',
      hx ''D9BED8B1D988DAA9D8B3DB8C20C2B720D8B3DB8CD986DAA92049507636''),
     (''No Match'', hx ''D8A8DB8CE2808CD8AAD8B7D8A7D8A8D982''),
     (''Default Direct'', hx ''D985D8B3D8AAD982DB8CD98520D9BEDB8CD8B4E2808CD981D8B1D8B6''),
     (''Public / Direct'', hx ''D8B9D985D988D985DB8C202F20D985D8B3D8AAD982DB8CD985''),
     (''Public'', hx ''D8B9D985D988D985DB8C''),
     (''TIME'', hx ''D8B2D985D8A7D986''),
     (''CLIENT / ACCOUNT'', hx ''DAA9D984D8A7DB8CD986D8AA202F20D8ADD8B3D8A7D8A8''),
     (''PROTO'', hx ''D9BED8B1D988D8AADAA9D984''),
     (''QUERY DOMAIN'', hx ''D8AFD8A7D985D986D987D99420DAA9D988D8A6D8B1DB8C''),
     (''RULE MATCHED'', hx ''D982D8A7D986D988D98620D985D986D8B7D8A8D982''),
     (''ACTION'', hx ''D8A7D982D8AFD8A7D985''),
     (''LATENCY'', hx ''D8AAD8A3D8AEDB8CD8B1''),
     (''Listening for live DNS queries...'',
      hx ''D8AFD8B120D8A7D986D8AAD8B8D8A7D8B120DAA9D988D8A6D8B1DB8CE2808CD987D8A7DB8C20D8B2D986D8AFD987D99420444E53E280A6''),
     (''Search domain or IP...'',
      hx ''D8ACD8B3D8AAE2808CD988D8ACD988DB8C20D8AFD8A7D985D986D98720DB8CD8A7204950E280A6''),
     (''All'', hx ''D987D985D987''),
     (''Direct'', hx ''D985D8B3D8AAD982DB8CD985''),
     (''Proxied'',
      hx ''D8A7D8B220D8B7D8B1DB8CD98220D9BED8B1D988DAA9D8B3DB8C2028D9BED8B1D988DAA9D8B3DB8CE2808CD8B4D8AFD98729''),
     (''Blocked'', hx ''D985D8B3D8AFD988D8AFD8B4D8AFD987''),
     (''Pause'', hx ''D8AAD988D982D98120D985D988D982D8AA''),
     (''Resume'', hx ''D8A7D8B2D8B3D8B1DAAFDB8CD8B1DB8C''),
     (''Clear'', hx ''D9BED8A7DAA9E2808CD8B3D8A7D8B2DB8C''),
     (''Time'', hx ''D8B2D985D8A7D986''),
     (''Domain'', hx ''D8AFD8A7D985D986D987''),
     (''Type'', hx ''D986D988D8B920D8B1DAA9D988D8B1D8AF20285479706529''),
     (''Client'', hx ''DAA9D984D8A7DB8CD986D8AA''),
     (''Action'', hx ''D986D8ADD988D98720D987D8AFD8A7DB8CD8AA2028D8A7D982D8AFD8A7D98529''),
     (''Latency'', hx ''D8B2D985D8A7D98620D9BED8A7D8B3D8AE2028D8AAD8A3D8AEDB8CD8B129''),
     (''the current filter'', hx ''D981DB8CD984D8AAD8B120D981D8B9D984DB8C''),
     (''The one query received so far does not match'',
      hx ''D8AAD986D987D8A720DAA9D988D8A6D8B1DB8C20D8AFD8B1DB8CD8A7D981D8AAE2808CD8B4D8AFD98720D985D8B7D8A7D8A8D98220D986DB8CD8B3D8AA20D8A8D8A7''),
     (''s matching subset in the buffer'',
      hx ''D8B2DB8CD8B1D985D8ACD985D988D8B9D987D99420D985D986D8B7D8A8D98220D8AFD8B120D8A8D8A7D981D8B1''),
     (''the last STREAM_BUFFER_MAX queries received'',
      hx ''D8A2D8AED8B1DB8CD98620DAA9D988D8A6D8B1DB8CE2808CD987D8A7DB8C20D8AFD8B1DB8CD8A7D981D8AAE2808CD8B4D8AFD98720D8AFD8B120D8A8D8A7D981D8B1'')]"

definition fa_api :: "(string \<times> string) list" where
  "fa_api =
    [(''Developer REST API v1'',
      hx ''524553542041504920D986D8B3D8AED987D99420DBB120D8A8D8B1D8A7DB8C20D8AAD988D8B3D8B9D987E2808CD8AFD987D986D8AFD987''),
     (''Automate client creation, whitelist sync, and dynamic IP updates'',
      hx ''D8AED988D8AFDAA9D8A7D8B1D8B3D8A7D8B2DB8C20D8B3D8A7D8AED8AA20DAA9D984D8A7DB8CD986D8AAD88C20D987D985DAAFD8A7D985E2808CD8B3D8A7D8B2DB8C20D984DB8CD8B3D8AA20D8B3D981DB8CD8AF20D98820D8A8D987E2808CD8B1D988D8B2D8B1D8B3D8A7D986DB8C20495020D9BED988DB8CD8A7''),
     (''Interactive Swagger Docs'',
      hx ''D985D8B3D8AAD986D8AFD8A7D8AA20D8AAD8B9D8A7D985D984DB8C2053776167676572''),
     (''API Network Binding & Security'',
      hx ''D8A7D8AAD8B5D8A7D98420D8B4D8A8DAA9D98720D98820D8A7D985D986DB8CD8AA20415049''),
     (''Control interface exposure and remote API access'',
      hx ''DAA9D986D8AAD8B1D98420D986D985D8A7DB8CD8A7D986E2808CD8A8D988D8AFD98620D8A7DB8CD986D8AAD8B1D981DB8CD8B320D98820D8AFD8B3D8AAD8B1D8B3DB8C2041504920D8A7D8B220D8B1D8A7D98720D8AFD988D8B1''),
     (''127.0.0.1 (Localhost Only)'',
      hx ''3132372E302E302E312028D981D982D8B720D984D988DAA9D8A7D98429''),
     (''0.0.0.0 (Public HTTPS)'', hx ''302E302E302E302028485454505320D8B9D985D988D985DB8C29''),
     (''Expose API to Public ('',
      hx ''D8A7D986D8AAD8B4D8A7D8B120D8B9D985D988D985DB8C204150492028''),
     (''expose the API publicly'', hx ''41504920D8B1D8A720D8B9D985D988D985DB8C20DAA9D986DB8C''),
     (''Allows external bots, web services, and billing systems to call REST API v1 directly.'',
      hx ''D8A8D98720D8A8D8A7D8AAE2808CD987D8A7DB8C20D8A8DB8CD8B1D988D986DB8CD88C20D8B3D8B1D988DB8CD8B3E2808CD987D8A7DB8C20D988D8A820D98820D8B3DB8CD8B3D8AAD985E2808CD987D8A7DB8C20D8B5D988D8B1D8AAE2808CD8ADD8B3D8A7D8A820D8A7D8ACD8A7D8B2D98720D985DB8CE2808CD8AFD987D8AF20D985D8B3D8AAD982DB8CD98520524553542041504920763120D8B1D8A720D8B5D8AFD8A720D8A8D8B2D986D986D8AF2E''),
     (''Security requirement:'', hx ''D8A7D984D8B2D8A7D98520D8A7D985D986DB8CD8AADB8C3A''),
     (''Requires an active custom domain and valid SSL/HTTPS on the server to prevent credential leakage.'',
      hx ''D8A8D8B1D8A7DB8C20D8ACD984D988DAAFDB8CD8B1DB8C20D8A7D8B220D984D98820D8B1D981D8AAD98620D8A7D8B7D984D8A7D8B9D8A7D8AA20D988D8B1D988D8AFD88C20D8A8D98720DB8CDAA920D8AFD8A7D985D986D987D99420D8B3D981D8A7D8B1D8B4DB8C20D981D8B9D8A7D98420D9882053534C2F485454505320D985D8B9D8AAD8A8D8B120D8B1D988DB8C20D8B3D8B1D988D8B120D986DB8CD8A7D8B220D8AFD8A7D8B1D8AF2E''),
     (''Master API Authentication Key'',
      hx ''DAA9D984DB8CD8AF20D8A7D8B5D984DB8C20D8A7D8ADD8B1D8A7D8B220D987D988DB8CD8AA20415049''),
     (''Full administrative access key for headers ('',
      hx ''DAA9D984DB8CD8AF20D8AFD8B3D8AAD8B1D8B3DB8C20DAA9D8A7D985D98420D985D8AFDB8CD8B1DB8CD8AADB8C20D8A8D8B1D8A7DB8C20D987D8AFD8B12028''),
     (''Regenerate Key'', hx ''D8AAD988D984DB8CD8AF20D985D8ACD8AFD8AF20DAA9D984DB8CD8AF''),
     (''Copy API Key'', hx ''DAA9D9BEDB8C20DAA9D984DB8CD8AF20415049''),
     (''Show/Hide Key'',
      hx ''D986D985D8A7DB8CD8B42FD9BED986D987D8A7D986E2808CD8B3D8A7D8B2DB8C20DAA9D984DB8CD8AF''),
     (''Quick Integration Code Snippets'',
      hx ''D986D985D988D986D987E2808CDAA9D8AFD987D8A7DB8C20D8B3D8B1DB8CD8B920DB8CDAA9D9BED8A7D8B1DA86D987E2808CD8B3D8A7D8B2DB8C''),
     (''cURL'', ''cURL''),
     (''Python (Requests)'', ''Python (Requests)''),
     (''Node.js / Telegram Bot'',
      hx ''4E6F64652E6A73202F20D8A8D8A7D8AA20D8AAD984DAAFD8B1D8A7D985''),
     (''Administrator Credentials'',
      hx ''D8A7D8B7D984D8A7D8B9D8A7D8AA20D988D8B1D988D8AF20D985D8AFDB8CD8B1''),
     (''Dashboard login for'', hx ''D988D8B1D988D8AF20D8A8D98720D9BED986D98420D8A8D8B1D8A7DB8C''),
     (''. Changing the password signs out every other session.'',
      hx ''2E20D8AAD8BADB8CDB8CD8B120D8B1D985D8B220D8B9D8A8D988D8B120D987D985D987D99420D986D8B4D8B3D8AAE2808CD987D8A7DB8C20D8AFDB8CDAAFD8B120D8B1D8A720D8AED8A7D8B1D8AC20D985DB8CE2808CDAA9D986D8AF2E''),
     (''Change Username / Password'',
      hx ''D8AAD8BADB8CDB8CD8B120D986D8A7D98520DAA9D8A7D8B1D8A8D8B1DB8C202F20D8B1D985D8B220D8B9D8A8D988D8B1'')]"

definition fa_login_settings :: "(string \<times> string) list" where
  "fa_login_settings =
    [(''Hidden Admin Path'', hx ''D985D8B3DB8CD8B120D985D8AED981DB8C20D985D8AFDB8CD8B1DB8CD8AA''),
     (''Regenerate Path'', hx ''D8AAD988D984DB8CD8AF20D985D8ACD8AFD8AF20D985D8B3DB8CD8B1''),
     (''Subscription Portal'', hx ''D9BED988D8B1D8AAD8A7D98420D8A7D8B4D8AAD8B1D8A7DAA9''),
     (''Portal enabled'', hx ''D9BED988D8B1D8AAD8A7D98420D981D8B9D8A7D98420D8A8D8A7D8B4D8AF''),
     (''Use the panel's certificate'',
      hx ''D8A7D8B220DAAFD988D8A7D987DB8C20D9BED986D98420D8A7D8B3D8AAD981D8A7D8AFD98720D8B4D988D8AF''),
     (''Subscription domain (empty = panel domain)'',
      hx ''D8AFD8A7D985D986D98720D8A7D8B4D8AAD8B1D8A7DAA92028D8AED8A7D984DB8C203D20D8AFD8A7D985D986D98720D9BED986D98429''),
     (''Advertised port'', hx ''D9BED988D8B1D8AA20D8A7D8B9D984D8A7D985E2808CD8B4D8AFD987''),
     (''Portal title (default JozmozDNS)'',
      hx ''D8B9D986D988D8A7D98620D9BED988D8B1D8AAD8A7D9842028D9BEDB8CD8B4E2808CD981D8B1D8B6204A6F7A6D6F7A444E5329''),
     (''Portal title (default JozmozDNS)'',
      hx ''D8B9D986D988D8A7D98620D9BED988D8B1D8AAD8A7D9842028D9BEDB8CD8B4E2808CD981D8B1D8B6204A6F7A6D6F7A444E5329''),
     (''Certificate path (separate domain only)'',
      hx ''D985D8B3DB8CD8B120DAAFD988D8A7D987DB8C2028D981D982D8B720D8A8D8B1D8A7DB8C20D8AFD8A7D985D986D98720D985D8ACD8B2D8A729''),
     (''Key path (separate domain only)'',
      hx ''D985D8B3DB8CD8B120DAA9D984DB8CD8AF2028D981D982D8B720D8A8D8B1D8A7DB8C20D8AFD8A7D985D986D98720D985D8ACD8B2D8A729''),
     (''Save Subscription Settings'',
      hx ''D8B0D8AEDB8CD8B1D98720D8AAD986D8B8DB8CD985D8A7D8AA20D8A7D8B4D8AAD8B1D8A7DAA9''),
     (''Two-Factor Authentication'',
      hx ''D988D8B1D988D8AF20D8AFD988D985D8B1D8ADD984D987E2808CD8A7DB8C''),
     (''Start Enrollment'', hx ''D8B4D8B1D988D8B920D8ABD8A8D8AAE2808CD986D8A7D985''),
     (''Add this secret to your authenticator app, then re-enter your password and the code it shows:'',
      hx ''D8A7DB8CD98620D8B1D985D8B220D8B1D8A720D8AFD8B120D8A8D8B1D986D8A7D985D987D99420D8A7D8ADD8B1D8A7D8B2DAA9D986D986D8AFD987D99420D8AED988D8AF20D8ABD8A8D8AA20DAA9D986DB8CD8AFD88C20D8B3D9BED8B320D8B1D985D8B220D8B9D8A8D988D8B120D98820DAA9D8AF20D986D985D8A7DB8CD8B4E2808CD8AFD8A7D8AFD987E2808CD8B4D8AFD98720D8B1D8A720D8AFD988D8A8D8A7D8B1D98720D988D8A7D8B1D8AF20DAA9D986DB8CD8AF3A''),
     (''Current password'', hx ''D8B1D985D8B220D8B9D8A8D988D8B120D981D8B9D984DB8C''),
     (''Confirm & Enable'',
      hx ''D8AAD8A3DB8CDB8CD8AF20D98820D981D8B9D8A7D984E2808CD8B3D8A7D8B2DB8C''),
     (''Disable 2FA'',
      hx ''D8BADB8CD8B1D981D8B9D8A7D984E2808CD8B3D8A7D8B2DB8C20D988D8B1D988D8AF20D8AFD988D985D8B1D8ADD984D987E2808CD8A7DB8C''),
     (''6-digit code'', hx ''DAA9D8AF20DBB620D8B1D982D985DB8C''),
     (''LDAP Directory Login'',
      hx ''D988D8B1D988D8AF20D8A7D8B220D8B7D8B1DB8CD98220D8AFD8A7DB8CD8B1DAA9D8AAD988D8B1DB8C204C444150''),
     (''LDAP enabled'', hx ''4C44415020D981D8B9D8A7D98420D8A8D8A7D8B4D8AF''),
     (''Save LDAP Settings'', hx ''D8B0D8AEDB8CD8B1D98720D8AAD986D8B8DB8CD985D8A7D8AA204C444150'')]"

definition fa_credentials :: "(string \<times> string) list" where
  "fa_credentials =
    [(''ROTATE YOUR DASHBOARD LOGIN'',
      hx ''DA86D8B1D8AED8B420D8A7D8B7D984D8A7D8B9D8A7D8AA20D988D8B1D988D8AF20D9BED986D984''),
     (''Enter your current password to confirm the change'',
      hx ''D8A8D8B1D8A7DB8C20D8AAD8A3DB8CDB8CD8AF20D8AAD8BADB8CDB8CD8B1D88C20D8B1D985D8B220D8B9D8A8D988D8B120D981D8B9D984DB8C20D8AED988D8AF20D8B1D8A720D988D8A7D8B1D8AF20DAA9D986DB8CD8AF''),
     (''Leave the password blank to change only the username.'',
      hx ''D8A8D8B1D8A7DB8C20D8AAD8BADB8CDB8CD8B120D981D982D8B720D986D8A7D98520DAA9D8A7D8B1D8A8D8B1DB8CD88C20D8B1D985D8B220D8B9D8A8D988D8B120D8B1D8A720D8AED8A7D984DB8C20D8A8DAAFD8B0D8A7D8B1DB8CD8AF2E''),
     (''Leave blank to keep the current password'',
      hx ''D8AED8A7D984DB8C20D8A8DAAFD8B0D8A7D8B1DB8CD8AF20D8AAD8A720D8B1D985D8B220D981D8B9D984DB8C20D8ADD981D8B820D8B4D988D8AF'')]"

definition fa_ssl :: "(string \<times> string) list" where
  "fa_ssl =
    [(''Automated Let's Encrypt SSL / TLS Manager'',
      hx ''D985D8AFDB8CD8B120D8AED988D8AFDAA9D8A7D8B12053534C202F20544C5320D8A8D8A7204C6574277320456E6372797074''),
     (''Issue trusted certificates for clean DoH, DoT (Android Private DNS), and HTTPS'',
      hx ''D8B5D8AFD988D8B120DAAFD988D8A7D987DB8C20D985D8B9D8AAD8A8D8B120D8A8D8B1D8A7DB8C20446F48D88C20446F5420285072697661746520444E5320D8A7D986D8AFD8B1D988DB8CD8AF2920D988204854545053''),
     (''Issue SSL Certificate'', hx ''D8B5D8AFD988D8B120DAAFD988D8A7D987DB8C2053534C''),
     (''Domain name (e.g. dns.mygame.ir)'',
      hx ''D986D8A7D98520D8AFD8A7D985D986D9872028D985D8ABD984D8A7D98B20646E732E6D7967616D652E697229''),
     (''Admin Email (optional)'',
      hx ''D8A7DB8CD985DB8CD98420D985D8AFDB8CD8B12028D8A7D8AED8AADB8CD8A7D8B1DB8C29''),
     (''Custom Proxied Domains'',
      hx ''D8AFD8A7D985D986D987E2808CD987D8A7DB8C20D9BED8B1D988DAA9D8B3DB8C20D8B3D981D8A7D8B1D8B4DB8C''),
     (''Domains that will be spoofed to this server's SNI Proxy'',
      hx ''D8AFD8A7D985D986D987E2808CD987D8A7DB8CDB8C20DAA9D98720D8A8D98720D9BED8B1D988DAA9D8B3DB8C20534E4920D8A7DB8CD98620D8B3D8B1D988D8B120D987D8AFD8A7DB8CD8AA20D985DB8CE2808CD8B4D988D986D8AF''),
     (''Loading rules'' @ hx ''E280A6'',
      hx ''D8AFD8B120D8ADD8A7D98420D8A8D8A7D8B1DAAFD8B0D8A7D8B1DB8C20D982D988D8A7D986DB8CD986E280A6''),
     (''No custom entries yet'',
      hx ''D987D986D988D8B220D988D8B1D988D8AFDB8C20D8B3D981D8A7D8B1D8B4DB8CE2808CD8A7DB8C20D986DB8CD8B3D8AA''),
     (''Custom Blocklist (Sinkhole)'',
      hx ''D984DB8CD8B3D8AA20D985D8B3D8AFD988D8AFDB8C20D8B3D981D8A7D8B1D8B4DB8C2028D8B3DB8CD986DAA9E2808CD987D988D98429''),
     (''Domains that will be blocked (returning 0.0.0.0)'',
      hx ''D8AFD8A7D985D986D987E2808CD987D8A7DB8CDB8C20DAA9D98720D985D8B3D8AFD988D8AF20D985DB8CE2808CD8B4D988D986D8AF2028D9BED8A7D8B3D8AE20302E302E302E3029''),
     (''DoH Secret Tokens'',
      hx ''D8AAD988DAA9D986E2808CD987D8A7DB8C20D985D8ADD8B1D985D8A7D986D987D99420446F48''),
     (''If enabled, clients must pass'',
      hx ''D8A7DAAFD8B120D981D8B9D8A7D98420D8A8D8A7D8B4D8AFD88C20DAA9D984D8A7DB8CD986D8AAE2808CD987D8A720D8A8D8A7DB8CD8AF''),
     (''to use DoH'',
      hx ''D8B1D8A720D8A8D8B1D8A7DB8C20D8A7D8B3D8AAD981D8A7D8AFD98720D8A7D8B220446F4820D8A8D981D8B1D8B3D8AAD986D8AF''),
     (''Add Token'', hx ''D8A7D981D8B2D988D8AFD98620D8AAD988DAA9D986''),
     (''Loading tokens'' @ hx ''E280A6'',
      hx ''D8AFD8B120D8ADD8A7D98420D8A8D8A7D8B1DAAFD8B0D8A7D8B1DB8C20D8AAD988DAA9D986E2808CD987D8A7E280A6''),
     (''Custom Static Records'',
      hx ''D8B1DAA9D988D8B1D8AFD987D8A7DB8C20D8A7D8B3D8AAD8A7D8AADB8CDAA920D8B3D981D8A7D8B1D8B4DB8C''),
     (''Map any hostname directly to a custom IP address'',
      hx ''D987D8B120D987D8A7D8B3D8AAE2808CD986DB8CD98520D8B1D8A720D985D8B3D8AAD982DB8CD98520D8A8D98720DB8CDAA920495020D8B3D981D8A7D8B1D8B4DB8C20D986DAAFD8A7D8B4D8AA20DAA9D986DB8CD8AF''),
     (''Loading records'' @ hx ''E280A6'',
      hx ''D8AFD8B120D8ADD8A7D98420D8A8D8A7D8B1DAAFD8B0D8A7D8B1DB8C20D8B1DAA9D988D8B1D8AFD987D8A7E280A6''),
     (''No static records yet'',
      hx ''D987D986D988D8B220D8B1DAA9D988D8B1D8AF20D8A7D8B3D8AAD8A7D8AADB8CDAA9DB8C20D986DB8CD8B3D8AA''),
     (''e.g. *.newgame.com or api.target.com'',
      hx ''D985D8ABD984D8A7D98B202A2E6E657767616D652E636F6D20DB8CD8A7206170692E7461726765742E636F6D''),
     (''e.g. *.telemetry.com or ads.tracker.net'',
      hx ''D985D8ABD984D8A7D98B202A2E74656C656D657472792E636F6D20DB8CD8A7206164732E747261636B65722E6E6574''),
     (''Enter secure token (e.g. mysecretkey)'',
      hx ''D8AAD988DAA9D98620D8A7D985D98620D8B1D8A720D988D8A7D8B1D8AF20DAA9D986DB8CD8AF2028D985D8ABD984D8A7D98B206D797365637265746B657929''),
     (''hostname.com'', ''hostname.com'')]"

definition fa_placeholders :: "(string \<times> string) list" where
  "fa_placeholders =
    [(''e.g. gamer-reza'', hx ''D985D8ABD984D8A7D98B2067616D65722D72657A61''),
     (''0 (0 = Unlimited)'', hx ''DBB02028DBB0203D20D986D8A7D985D8ADD8AFD988D8AF29''),
     (''0 = Unlimited'', hx ''DBB0203D20D986D8A7D985D8ADD8AFD988D8AF''),
     (''YYYY-MM-DD HH:mm:ss'', ''YYYY-MM-DD HH:mm:ss''),
     (''e.g. customer-a / VIP Gamer Plan'',
      hx ''D985D8ABD984D8A7D98B20637573746F6D65722D61202F20D9BED984D98620DAAFDB8CD985D8B120564950''),
     (''Click or search policies...'',
      hx ''DAA9D984DB8CDAA920DB8CD8A720D8ACD8B3D8AAE2808CD988D8ACD988DB8C20D8B3DB8CD8A7D8B3D8AAE2808CD987D8A7E280A6''),
     (''e.g. Reza (PS5 & Phone)'',
      hx ''D985D8ABD984D8A7D98B20D8B1D8B6D8A7202850533520D98820D985D988D8A8D8A7DB8CD98429''),
     (''e.g. 2.189.86.32 (or leave blank for auto-link)'',
      hx ''D985D8ABD984D8A7D98B20322E3138392E38362E33322028DB8CD8A720D8AED8A7D984DB8C20D8A8DAAFD8B0D8A7D8B1DB8CD8AF20D8AAD8A720D8AED988D8AFDAA9D8A7D8B120D988D8B5D98420D8B4D988D8AF29''),
     (''IPv4 or IPv6 address'', hx ''D8A2D8AFD8B1D8B3204950763420DB8CD8A72049507636'')]"

definition fa_guide :: "(string \<times> string) list" where
  "fa_guide =
    [(''How to Connect Client Devices'',
      hx ''DA86D8B7D988D8B120D8AFD8B3D8AADAAFD8A7D987E2808CD987D8A7DB8C20DAA9D984D8A7DB8CD986D8AA20D8B1D8A720D988D8B5D98420DAA9D986DB8CD985''),
     (''Connect your Gaming PC, PlayStation, Xbox, Android, iOS, or Router in seconds without installing any client software.'',
      hx ''DAA9D8A7D985D9BEDB8CD988D8AAD8B120DAAFDB8CD985DB8CD986DAAFD88C20506C617953746174696F6ED88C2058626F78D88C20D8A7D986D8AFD8B1D988DB8CD8AFD88C20694F5320DB8CD8A720D8B1D988D8AAD8B120D8AED988D8AF20D8B1D8A720D8AFD8B120DA86D986D8AF20D8ABD8A7D986DB8CD98720D98820D8A8D8AFD988D98620D986D8B5D8A820D987DB8CDA8620D986D8B1D985E2808CD8A7D981D8B2D8A7D8B1DB8C20D988D8B5D98420DAA9D986DB8CD8AF2E''),
     (''Windows 10 / 11 (Gaming PC)'',
      hx ''D988DB8CD986D8AFD988D8B220DBB1DBB0202F20DBB1DBB12028DAA9D8A7D985D9BEDB8CD988D8AAD8B120DAAFDB8CD985DB8CD986DAAF29''),
     (''Open'', hx ''D8A8D8A7D8B220DAA9D986DB8CD8AF''),
     (''Settings'', hx ''D8AAD986D8B8DB8CD985D8A7D8AA''),
     (''Network & Internet'', hx ''D8B4D8A8DAA9D98720D98820D8A7DB8CD986D8AAD8B1D986D8AA''),
     (''Wi-Fi / Ethernet'', hx ''57692D4669202F20D8A7D8AAD8B1D986D8AA''),
     (''Click'', hx ''D8A8D8B2D986DB8CD8AF20D8B1D988DB8C''),
     (''Edit DNS assignment'', hx ''D988DB8CD8B1D8A7DB8CD8B420D8AAD8AED8B5DB8CD8B520444E53''),
     (''> Select'', hx ''3E20D8A7D986D8AAD8AED8A7D8A820DAA9D986DB8CD8AF''),
     (''Manual'', hx ''D8AFD8B3D8AADB8C''),
     (''Turn on'', hx ''D8B1D988D8B4D98620DAA9D986DB8CD8AF''),
     (''IPv4'', ''IPv4''),
     (''and enter your Server IP:'',
      hx ''D98820495020D8B3D8B1D988D8B120D8AED988D8AF20D8B1D8A720D988D8A7D8B1D8AF20DAA9D986DB8CD8AF3A''),
     (''Loading IP...'',
      hx ''D8AFD8B120D8ADD8A7D98420D8A8D8A7D8B1DAAFD8B0D8A7D8B1DB8C204950E280A6''),
     (''PlayStation 5 / Xbox'', ''PlayStation 5 / Xbox''),
     (''Go to'', hx ''D8A8D8B1D988DB8CD8AF20D8A8D987''),
     (''Network'', hx ''D8B4D8A8DAA9D987''),
     (''Set Up Internet Connection'',
      hx ''D8B1D8A7D987E2808CD8A7D986D8AFD8A7D8B2DB8C20D8A7D8AAD8B5D8A7D98420D8A7DB8CD986D8AAD8B1D986D8AA''),
     (''Select Wi-Fi/LAN >'', hx ''D8A7D986D8AAD8AED8A7D8A82057692D46692F4C414E203E''),
     (''Advanced Settings'', hx ''D8AAD986D8B8DB8CD985D8A7D8AA20D9BEDB8CD8B4D8B1D981D8AAD987''),
     (''DNS'', ''DNS''),
     ('': Manual.'', hx ''3A20D8AFD8B3D8AADB8C2E''),
     (''Primary DNS'', hx ''444E5320D8A7D8B5D984DB8C''),
     (''to your Server IP:'', hx ''D8B1D988DB8C20495020D8B3D8B1D988D8B120D8AED988D8AF3A''),
     (''Android Private DNS (DoT)'',
      hx ''5072697661746520444E5320D8A7D986D8AFD8B1D988DB8CD8AF2028446F5429''),
     (''Private DNS'', ''Private DNS''),
     (''Select'', hx ''D8A7D986D8AAD8AED8A7D8A820DAA9D986DB8CD8AF''),
     (''Private DNS provider hostname'',
      hx ''D987D8A7D8B3D8AAE2808CD986DB8CD98520D8A7D8B1D8A7D8A6D987E2808CD8AFD987D986D8AFD987D994205072697661746520444E53''),
     (''and enter:'', hx ''D98820D988D8A7D8B1D8AF20DAA9D986DB8CD8AF3A''),
     (''dns.yourdomain.com'', ''dns.yourdomain.com''),
     (''Browser Secure DNS (DoH)'',
      hx ''444E5320D8A7D985D98620D985D8B1D988D8B1DAAFD8B12028446F4829''),
     (''In Browser:'', hx ''D8AFD8B120D985D8B1D988D8B1DAAFD8B13A''),
     (''Privacy & Security'',
      hx ''D8ADD8B1DB8CD98520D8AED8B5D988D8B5DB8C20D98820D8A7D985D986DB8CD8AA''),
     (''Use secure DNS'', hx ''D8A7D8B3D8AAD981D8A7D8AFD98720D8A7D8B220444E5320D8A7D985D986''),
     (''Choose'', hx ''D8A7D986D8AAD8AED8A7D8A820DAA9D986DB8CD8AF''),
     (''Custom'', hx ''D8B3D981D8A7D8B1D8B4DB8C''),
     (''and paste your DoH URL:'',
      hx ''D98820D8A2D8AFD8B1D8B320446F4820D8AED988D8AF20D8B1D8A720D8A8DA86D8B3D8A8D8A7D986DB8CD8AF3A''),
     (''https://your-server-ip:9443/dns-query'', ''https://your-server-ip:9443/dns-query'')]"

definition fa_toasts :: "(string \<times> string) list" where
  "fa_toasts =
    [(''Too many attempts. Try again later.'',
      hx ''D8AAD984D8A7D8B420D8A8DB8CD8B420D8A7D8B220D8ADD8AF2E20D8A8D8B9D8AFD8A7D98B20D8AFD988D8A8D8A7D8B1D98720D8A7D985D8AAD8ADD8A7D98620DAA9D986DB8CD8AF2E''),
     (''wait fifteen minutes'',
      hx ''D9BED8A7D986D8B2D8AFD98720D8AFD982DB8CD982D98720D8B5D8A8D8B120DAA9D986DB8CD8AF''),
     (''The server refused the request'',
      hx ''D8B3D8B1D988D8B120D8AFD8B1D8AED988D8A7D8B3D8AA20D8B1D8A720D8B1D8AF20DAA9D8B1D8AF''),
     (''The server refused the request.'',
      hx ''D8B3D8B1D988D8B120D8AFD8B1D8AED988D8A7D8B3D8AA20D8B1D8A720D8B1D8AF20DAA9D8B1D8AF2E''),
     (''Could not reach the server '' @ hx ''E28094'' @ '' the list may be out of date.'',
      hx ''D8AFD8B3D8AAD8B1D8B3DB8C20D8A8D98720D8B3D8B1D988D8B120D8A8D8B1D982D8B1D8A7D8B120D986D8B4D8AF20E2809420D985D985DAA9D98620D8A7D8B3D8AA20D984DB8CD8B3D8AA20D8A8D987E2808CD8B1D988D8B220D986D8A8D8A7D8B4D8AF2E''),
     (''could not reach the server'',
      hx ''D8AFD8B3D8AAD8B1D8B3DB8C20D8A8D98720D8B3D8B1D988D8B120D8A8D8B1D982D8B1D8A7D8B120D986D8B4D8AF''),
     (''Invalid credentials'',
      hx ''D8A7D8B7D984D8A7D8B9D8A7D8AA20D988D8B1D988D8AF20D986D8A7D8AFD8B1D8B3D8AA20D8A7D8B3D8AA''),
     (''Server connection failed'',
      hx ''D8A7D8AAD8B5D8A7D98420D8A8D98720D8B3D8B1D988D8B120D986D8A7D985D988D981D98220D8A8D988D8AF''),
     (''Error communicating with server'',
      hx ''D8AED8B7D8A720D8AFD8B120D8A7D8B1D8AAD8A8D8A7D8B720D8A8D8A720D8B3D8B1D988D8B1''),
     (''Failed to update credentials'',
      hx ''D8A8D987E2808CD8B1D988D8B2D8B1D8B3D8A7D986DB8C20D8A7D8B7D984D8A7D8B9D8A7D8AA20D988D8B1D988D8AF20D986D8A7D985D988D981D98220D8A8D988D8AF''),
     (''Credentials updated '' @ hx ''E28094'' @ '' other sessions have been signed out'',
      hx ''D8A7D8B7D984D8A7D8B9D8A7D8AA20D988D8B1D988D8AF20D8A8D987E2808CD8B1D988D8B220D8B4D8AF20E2809420D986D8B4D8B3D8AAE2808CD987D8A7DB8C20D8AFDB8CDAAFD8B120D8AED8A7D8B1D8AC20D8B4D8AFD986D8AF''),
     (''Username updated'',
      hx ''D986D8A7D98520DAA9D8A7D8B1D8A8D8B1DB8C20D8A8D987E2808CD8B1D988D8B220D8B4D8AF''),
     (''Error updating credentials'',
      hx ''D8AED8B7D8A720D8AFD8B120D8A8D987E2808CD8B1D988D8B2D8B1D8B3D8A7D986DB8C20D8A7D8B7D984D8A7D8B9D8A7D8AA20D988D8B1D988D8AF''),
     (''Could not read the account state.'',
      hx ''D988D8B6D8B9DB8CD8AA20D8ADD8B3D8A7D8A820D8AED988D8A7D986D8AFD98720D986D8B4D8AF2E''),
     (''Could not load the configuration.'',
      hx ''D8AAD986D8B8DB8CD985D8A7D8AA20D8A8D8A7D8B1DAAFD8B0D8A7D8B1DB8C20D986D8B4D8AF2E''),
     (''Could not reach the server to load the configuration.'',
      hx ''D8A8D8B1D8A7DB8C20D8A8D8A7D8B1DAAFD8B0D8A7D8B1DB8C20D8AAD986D8B8DB8CD985D8A7D8AA20D986D985DB8CE2808CD8AAD988D8A7D98620D8A8D98720D8B3D8B1D988D8B120D8AFD8B3D8AAD8B1D8B3DB8C20D9BEDB8CD8AFD8A720DAA9D8B1D8AF2E''),
     (''Policies updated & active!'',
      hx ''D8B3DB8CD8A7D8B3D8AAE2808CD987D8A720D8A8D987E2808CD8B1D988D8B220D98820D981D8B9D8A7D98420D8B4D8AFD986D8AF21''),
     (''Failed to save policies'',
      hx ''D8B0D8AEDB8CD8B1D987D99420D8B3DB8CD8A7D8B3D8AAE2808CD987D8A720D986D8A7D985D988D981D98220D8A8D988D8AF''),
     (''Custom Policies'',
      hx ''D8B3DB8CD8A7D8B3D8AAE2808CD987D8A7DB8C20D8A7D8AED8AAD8B5D8A7D8B5DB8C''),
     (''User Defined'',
      hx ''D8AAD8B9D8B1DB8CD981E2808CD8B4D8AFD98720D8AAD988D8B3D8B720D8B4D985D8A7''),
     (''Add Custom Policy'',
      hx ''D8A7D981D8B2D988D8AFD98620D8B3DB8CD8A7D8B3D8AA20D8A7D8AED8AAD8B5D8A7D8B5DB8C''),
     (''Edit Custom Policy'',
      hx ''D988DB8CD8B1D8A7DB8CD8B420D8B3DB8CD8A7D8B3D8AA20D8A7D8AED8AAD8B5D8A7D8B5DB8C''),
     (''No custom policies configured yet'',
      hx ''D987D986D988D8B220D8B3DB8CD8A7D8B3D8AA20D8A7D8AED8AAD8B5D8A7D8B5DB8C20D8ABD8A8D8AA20D986DAA9D8B1D8AFD987E2808CD8A7DB8CD8AF''),
     (''Click \"Add Custom Policy\" to create your own dedicated game or service routing policy.'',
      hx ''D8A8D8A720DAA9D984DB8CDAA920D8B1D988DB8C20C2ABD8A7D981D8B2D988D8AFD98620D8B3DB8CD8A7D8B3D8AA20D8A7D8AED8AAD8B5D8A7D8B5DB8CC2BBD88C20D8A8D8A7D8B2DB8C20DB8CD8A720D8B3D8B1D988DB8CD8B320D8AFD984D8AED988D8A7D98720D8AED988D8AF20D8B1D8A720D8A7D8B6D8A7D981D98720DAA9D986DB8CD8AF2E''),
     (''Create custom policies with dedicated names, wildcard domains and routing actions'',
      hx ''D8A7D981D8B2D988D8AFD98620D98820D985D8AFDB8CD8B1DB8CD8AA20D8B3DB8CD8A7D8B3D8AAE2808CD987D8A7DB8C20D8B3D981D8A7D8B1D8B4DB8C20D8A8D8A720D986D8A7D985D88C20D8AFD8A7D985D986D987E2808CD987D8A720D98820D8B2DB8CD8B1D985D8ACD985D988D8B9D987E2808CD987D8A720282A2E646F6D61696E2E636F6D2920D98820D986D988D8B920D987D8AFD8A7DB8CD8AA''),
     (''Define custom name, routing action and domain wildcards'',
      hx ''D8AAD8B9D8B1DB8CD98120D986D8A7D985D88C20D986D8ADD988D98720D987D8AFD8A7DB8CD8AA2028526F7574696E672920D98820D8AFD8A7D985D986D987E2808CD987D8A720D8A8D8A720D8B2DB8CD8B1D985D8ACD985D988D8B9D987''),
     (''POLICY NAME / LABEL'', hx ''D986D8A7D98520D8B3DB8CD8A7D8B3D8AA''),
     (''ROUTING ACTION'', hx ''D986D988D8B920D987D8AFD8A7DB8CD8AA''),
     (''SUBDOMAINS'', hx ''D9BED988D8B4D8B420D8B2DB8CD8B1D8AFD8A7D985D986D987E2808CD987D8A7''),
     (''Include Subdomains (*.)'',
      hx ''D8B4D8A7D985D98420D8AAD985D8A7D98520D8B3D8A7D8A8E2808CD8AFD8A7D985DB8CD986E2808CD987D8A720282A2E29''),
     (''DOMAINS (one per line or comma-separated)'',
      hx ''D8AFD8A7D985D986D987E2808CD987D8A72028D987D8B120D8AFD8A7D985D986D98720D8AFD8B120DB8CDAA920D8AED8B720DB8CD8A720D8A8D8A720D988DB8CD8B1DAAFD988D98429''),
     (''Supports wildcard subdomains like *.example.com or exact hostnames.'',
      hx ''D985DB8CE2808CD8AAD988D8A7D986DB8CD8AF20D8A7D8B220D8B3D8AAD8A7D8B1D98720D985D8A7D986D986D8AF202A2E7461726765742E636F6D20D8A8D8B1D8A7DB8C20D9BED988D8B4D8B420D8AAD985D8A7D98520D8B2DB8CD8B1D985D8ACD985D988D8B9D987E2808CD987D8A720D8A7D8B3D8AAD981D8A7D8AFD98720DAA9D986DB8CD8AF2E''),
     (''Policy Enabled'', hx ''D8B3DB8CD8A7D8B3D8AA20D981D8B9D8A7D98420D8A8D8A7D8B4D8AF''),
     (''Save Policy'', hx ''D8B0D8AEDB8CD8B1D98720D8B3DB8CD8A7D8B3D8AA''),
     (''Cancel'', hx ''D8A7D986D8B5D8B1D8A7D981''),
     (''Custom policy saved successfully!'',
      hx ''D8B3DB8CD8A7D8B3D8AA20D8A7D8AED8AAD8B5D8A7D8B5DB8C20D8A8D8A720D985D988D981D982DB8CD8AA20D8B0D8AEDB8CD8B1D98720D8B4D8AF21''),
     (''Custom policy deleted!'',
      hx ''D8B3DB8CD8A7D8B3D8AA20D8A7D8AED8AAD8B5D8A7D8B5DB8C20D8ADD8B0D98120D8B4D8AF21''),
     (''Policy updated!'', hx ''D8B3DB8CD8A7D8B3D8AA20D8A8D987E2808CD8B1D988D8B220D8B4D8AF21''),
     (''Regenerate Master API Key?'',
      hx ''DAA9D984DB8CD8AF20D8A7D8B5D984DB8C2041504920D8AAD988D984DB8CD8AF20D985D8ACD8AFD8AF20D8B4D988D8AFD89F''),
     (''EVERY INTEGRATION BREAKS IMMEDIATELY'',
      hx ''D987D985D987D99420DB8CDAA9D9BED8A7D8B1DA86D987E2808CD8B3D8A7D8B2DB8CE2808CD987D8A720D8A8D984D8A7D981D8A7D8B5D984D98720D985DB8CE2808CD8B4DAA9D986D986D8AF''),
     (''The current key stops working the moment the new one is issued. Every external bot, billing hook and script still holding the old key will start getting 401s until you update it by hand.'',
      hx ''D987D985D8A7D98620D984D8ADD8B8D98720DAA9D98720DAA9D984DB8CD8AF20D8ACD8AFDB8CD8AF20D8B5D8A7D8AFD8B120D8B4D988D8AFD88C20DAA9D984DB8CD8AF20D981D8B9D984DB8C20D8A7D8B220DAA9D8A7D8B120D985DB8CE2808CD8A7D981D8AAD8AF2E20D987D8B120D8A8D8A7D8AA20D8A8DB8CD8B1D988D986DB8CD88C20D988D8A8E2808CD987D988DAA920D8B5D988D8B1D8AAE2808CD8ADD8B3D8A7D8A820D98820D8A7D8B3DAA9D8B1DB8CD9BED8AADB8C20DAA9D98720DAA9D984DB8CD8AF20D982D8AFDB8CD985DB8C20D8B1D8A720D8AFD8A7D8B1D8AF20D8AAD8A720D988D982D8AADB8C20D8AFD8B3D8AADB8C20D8A8D987E2808CD8B1D988D8B2D8B420D986DAA9D986DB8CD8AF20D8AED8B7D8A7DB8C20DBB4DBB0DBB120D985DB8CE2808CDAAFDB8CD8B1D8AF2E''),
     (''REGENERATE KEY'', hx ''D8AAD988D984DB8CD8AF20D985D8ACD8AFD8AF20DAA9D984DB8CD8AF''),
     (''Master API Key regenerated successfully!'',
      hx ''DAA9D984DB8CD8AF20D8A7D8B5D984DB8C2041504920D8A8D8A720D985D988D981D982DB8CD8AA20D8AAD988D984DB8CD8AF20D8B4D8AF21''),
     (''Failed to regenerate API key'',
      hx ''D8AAD988D984DB8CD8AF20D985D8ACD8AFD8AF20DAA9D984DB8CD8AF2041504920D986D8A7D985D988D981D98220D8A8D988D8AF''),
     (''Error regenerating API key'',
      hx ''D8AED8B7D8A720D8AFD8B120D8AAD988D984DB8CD8AF20D985D8ACD8AFD8AF20DAA9D984DB8CD8AF20415049''),
     (''Cannot expose API to 0.0.0.0: Public API requires an active custom domain and HTTPS configured in Settings to protect credentials.'',
      hx ''D986D985DB8CE2808CD8AAD988D8A7D9862041504920D8B1D8A720D8B1D988DB8C20302E302E302E3020D8B9D985D988D985DB8C20DAA9D8B1D8AF3A2041504920D8B9D985D988D985DB8C20D8A8D8B1D8A7DB8C20D985D8ADD8A7D981D8B8D8AA20D8A7D8B220D8A7D8B7D984D8A7D8B9D8A7D8AA20D988D8B1D988D8AFD88C20D8A8D98720D8AFD8A7D985D986D987D99420D8B3D981D8A7D8B1D8B4DB8C20D981D8B9D8A7D98420D98820485454505320D8AAD986D8B8DB8CD985E2808CD8B4D8AFD98720D8AFD8B120D8A8D8AED8B420D8AAD986D8B8DB8CD985D8A7D8AA20D986DB8CD8A7D8B220D8AFD8A7D8B1D8AF2E''),
     (''Failed to update API bind configuration'',
      hx ''D8A8D987E2808CD8B1D988D8B2D8B1D8B3D8A7D986DB8C20D8AAD986D8B8DB8CD985D8A7D8AA20D8A7D8AAD8B5D8A7D9842041504920D986D8A7D985D988D981D98220D8A8D988D8AF''),
     (''Public REST API enabled '' @ hx ''E28094'' @ '' external callers with a valid key are now accepted (0.0.0.0)'',
      hx ''524553542041504920D8B9D985D988D985DB8C20D981D8B9D8A7D98420D8B4D8AF20E2809420D8A7D8B220D8A7DB8CD98620D9BED8B320D8AAD985D8A7D8B3E2808CD987D8A7DB8C20D8A8DB8CD8B1D988D986DB8C20D8A8D8A720DAA9D984DB8CD8AF20D985D8B9D8AAD8A8D8B120D9BED8B0DB8CD8B1D981D8AAD98720D985DB8CE2808CD8B4D988D986D8AF2028302E302E302E3029''),
     (''REST API restricted to localhost (127.0.0.1)'',
      hx ''524553542041504920D8A8D98720D984D988DAA9D8A7D98420D985D8ADD8AFD988D8AF20D8B4D8AF20283132372E302E302E3129''),
     (''Restart the Core Engine?'',
      hx ''D985D988D8AAD988D8B120D8A7D8B5D984DB8C20D8B1DB8CE2808CD8A7D8B3D8AAD8A7D8B1D8AA20D8B4D988D8AFD89F''),
     (''IN-FLIGHT QUERIES AND RELAYS ARE DROPPED'',
      hx ''DAA9D988D8A6D8B1DB8CE2808CD987D8A720D98820D8B1D984D987E2808CD987D8A7DB8C20D8AFD8B120D8ACD8B1DB8CD8A7D98620D982D8B7D8B920D985DB8CE2808CD8B4D988D986D8AF''),
     (''All policies are reloaded from the database. Listeners go down and come back up, so queries and relays in flight at that moment are lost and clients retry.'',
      hx ''D987D985D987D99420D8B3DB8CD8A7D8B3D8AAE2808CD987D8A720D8A7D8B220D8AFDB8CD8AAD8A7D8A8DB8CD8B320D8A8D8A7D8B2D8AED988D8A7D986DB8C20D985DB8CE2808CD8B4D988D986D8AF2E20D8B4D986D988D8AFDAAFD8B1D987D8A720D8AED8A7D985D988D8B420D98820D8B1D988D8B4D98620D985DB8CE2808CD8B4D988D986D8AFD88C20D9BED8B320DAA9D988D8A6D8B1DB8CE2808CD987D8A720D98820D8B1D984D987E2808CD987D8A7DB8C20D987D985D8A7D98620D984D8ADD8B8D98720D8A7D8B220D8AFD8B3D8AA20D985DB8CE2808CD8B1D988D986D8AF20D98820DAA9D984D8A7DB8CD986D8AAE2808CD987D8A720D8AFD988D8A8D8A7D8B1D98720D8AAD984D8A7D8B420D985DB8CE2808CDAA9D986D986D8AF2E''),
     (''RESTART ENGINE'', hx ''D8B1DB8CE2808CD8A7D8B3D8AAD8A7D8B1D8AA20D985D988D8AAD988D8B1''),
     (''Core Engine restarted & rules reloaded!'',
      hx ''D985D988D8AAD988D8B120D8A7D8B5D984DB8C20D8B1DB8CE2808CD8A7D8B3D8AAD8A7D8B1D8AA20D8B4D8AF20D98820D982D988D8A7D986DB8CD98620D8A8D8A7D8B2D8AED988D8A7D986DB8C20D8B4D8AFD986D8AF21''),
     (''Failed to restart engine'',
      hx ''D8B1DB8CE2808CD8A7D8B3D8AAD8A7D8B1D8AA20D985D988D8AAD988D8B120D986D8A7D985D988D981D98220D8A8D988D8AF''),
     (''Upstream resolver added & tested!'',
      hx ''D8B1DB8CD8B2D8A7D984D988D8B120D8A8D8A7D984D8A7D8AFD8B3D8AA20D8A7D8B6D8A7D981D98720D98820D8AAD8B3D8AA20D8B4D8AF21''),
     (''Failed to add upstream'',
      hx ''D8A7D981D8B2D988D8AFD98620D8A8D8A7D984D8A7D8AFD8B3D8AA20D986D8A7D985D988D981D98220D8A8D988D8AF''),
     (''Upstream removed'', hx ''D8A8D8A7D984D8A7D8AFD8B3D8AA20D8ADD8B0D98120D8B4D8AF''),
     (''Please enter a domain name'',
      hx ''D984D8B7D981D8A7D98B20DB8CDAA920D986D8A7D98520D8AFD8A7D985D986D98720D988D8A7D8B1D8AF20DAA9D986DB8CD8AF''),
     (''Requesting Let's Encrypt SSL certificate...'',
      hx ''D8AFD8B120D8ADD8A7D98420D8AFD8B1D8AED988D8A7D8B3D8AA20DAAFD988D8A7D987DB8C2053534C20D8A7D8B2204C6574277320456E6372797074E280A6''),
     (''SSL issuance triggered in background!'',
      hx ''D8B5D8AFD988D8B12053534C20D8AFD8B120D9BED8B3E2808CD8B2D985DB8CD986D98720D8B4D8B1D988D8B920D8B4D8AF21''),
     (''The domain could not be saved.'',
      hx ''D8AFD8A7D985D986D98720D8B0D8AEDB8CD8B1D98720D986D8B4D8AF2E''),
     (''Domain saved.'', hx ''D8AFD8A7D985D986D98720D8B0D8AEDB8CD8B1D98720D8B4D8AF2E''),
     (''Could not reach the server, so it is not known whether the domain was saved.'',
      hx ''D8AFD8B3D8AAD8B1D8B3DB8C20D8A8D98720D8B3D8B1D988D8B120D8A8D8B1D982D8B1D8A7D8B120D986D8B4D8AFD88C20D9BED8B320D985D8B4D8AED8B520D986DB8CD8B3D8AA20D8AFD8A7D985D986D98720D8B0D8AEDB8CD8B1D98720D8B4D8AFD98720DB8CD8A720D986D9872E''),
     (''Pro Gamer Profile (All 171 Games) Activated!'',
      hx ''D9BED8B1D988D981D8A7DB8CD98420DAAFDB8CD985D8B120D8ADD8B1D981D987E2808CD8A7DB8C2028D987D985D987D99420DBB1DBB7DBB120D8A8D8A7D8B2DB8C2920D981D8B9D8A7D98420D8B4D8AF21''),
     (''Streamer & Media Profile Activated!'',
      hx ''D9BED8B1D988D981D8A7DB8CD98420D8A7D8B3D8AAD8B1DB8CD985D8B120D98820D8B1D8B3D8A7D986D98720D981D8B9D8A7D98420D8B4D8AF21''),
     (''Developer 403 Profile Activated!'',
      hx ''D9BED8B1D988D981D8A7DB8CD98420DBB4DBB0DBB320D8AAD988D8B3D8B9D987E2808CD8AFD987D986D8AFD98720D981D8B9D8A7D98420D8B4D8AF21''),
     (''AdBlock & Safe Profile Activated!'',
      hx ''D9BED8B1D988D981D8A7DB8CD98420D8B6D8AFD8AAD8A8D984DB8CD8BA20D98820D8A7DB8CD985D98620D981D8B9D8A7D98420D8B4D8AF21''),
     (''DNS cache flushed successfully!'',
      hx ''DAA9D8B420444E5320D8A8D8A720D985D988D981D982DB8CD8AA20D8AED8A7D984DB8C20D8B4D8AF21''),
     (''Failed to flush cache'',
      hx ''D8AED8A7D984DB8C20DAA9D8B1D8AFD98620DAA9D8B420D986D8A7D985D988D981D98220D8A8D988D8AF''),
     (''A benchmark is already running'',
      hx ''DB8CDAA920D8A8D986DA86D985D8A7D8B1DAA920D8AFD8B120D8ADD8A7D98420D8A7D8ACD8B1D8A7D8B3D8AA''),
     (''Failed to start benchmark'',
      hx ''D8B4D8B1D988D8B920D8A8D986DA86D985D8A7D8B1DAA920D986D8A7D985D988D981D98220D8A8D988D8AF''),
     (''Benchmark started '' @ hx ''E28094'' @ '' upstream latencies refresh as probes land'',
      hx ''D8A8D986DA86D985D8A7D8B1DAA920D8B4D8B1D988D8B920D8B4D8AF20E2809420D8AAD8A3D8AEDB8CD8B120D8A8D8A7D984D8A7D8AFD8B3D8AAE2808CD987D8A720D8A8D8A720D8B1D8B3DB8CD8AFD98620D987D8B120D9BED8B1D988D8A820D8A8D987E2808CD8B1D988D8B220D985DB8CE2808CD8B4D988D8AF''),
     (''DoH Token added!'', hx ''D8AAD988DAA9D98620446F4820D8A7D8B6D8A7D981D98720D8B4D8AF21''),
     (''DoH Token removed'', hx ''D8AAD988DAA9D98620446F4820D8ADD8B0D98120D8B4D8AF''),
     (''Client account created!'',
      hx ''D8ADD8B3D8A7D8A820DAA9D984D8A7DB8CD986D8AA20D8B3D8A7D8AED8AAD98720D8B4D8AF21''),
     (''Failed to create client'',
      hx ''D8B3D8A7D8AED8AA20DAA9D984D8A7DB8CD986D8AA20D986D8A7D985D988D981D98220D8A8D988D8AF''),
     (''Network error creating client'',
      hx ''D8AED8B7D8A7DB8C20D8B4D8A8DAA9D98720D8AFD8B120D8B3D8A7D8AED8AA20DAA9D984D8A7DB8CD986D8AA''),
     (''Whitelist mode enforced (Only registered clients)'',
      hx ''D8ADD8A7D984D8AA20D984DB8CD8B3D8AA20D8B3D981DB8CD8AF20D981D8B9D8A7D98420D8B4D8AF2028D981D982D8B720DAA9D984D8A7DB8CD986D8AAE2808CD987D8A7DB8C20D8ABD8A8D8AAE2808CD8B4D8AFD98729''),
     (''Open public mode activated'',
      hx ''D8ADD8A7D984D8AA20D8B9D985D988D985DB8C20D8A8D8A7D8B220D981D8B9D8A7D98420D8B4D8AF''),
     (''Failed to update access mode'',
      hx ''D8A8D987E2808CD8B1D988D8B2D8B1D8B3D8A7D986DB8C20D8ADD8A7D984D8AA20D8AFD8B3D8AAD8B1D8B3DB8C20D986D8A7D985D988D981D98220D8A8D988D8AF''),
     (''Persian client card copied for Telegram!'',
      hx ''DAA9D8A7D8B1D8AA20D981D8A7D8B1D8B3DB8C20DAA9D984D8A7DB8CD986D8AA20D8A8D8B1D8A7DB8C20D8AAD984DAAFD8B1D8A7D98520DAA9D9BEDB8C20D8B4D8AF21''),
     (''Client plan extended by 30 days!'',
      hx ''D9BED984D98620DAA9D984D8A7DB8CD986D8AA20DBB3DBB020D8B1D988D8B220D8AAD985D8AFDB8CD8AF20D8B4D8AF21''),
     (''Delete this subscriber?'',
      hx ''D8A7DB8CD98620D985D8B4D8AAD8B1DAA920D8ADD8B0D98120D8B4D988D8AFD89F''),
     (''PERMANENT '' @ hx ''E28094'' @ '' THE ACCOUNT AND ITS TRAFFIC HISTORY ARE GONE'',
      hx ''D8AFD8A7D8A6D985DB8C20E2809420D8ADD8B3D8A7D8A820D98820D8AAD8A7D8B1DB8CD8AEDA86D987D99420D8AAD8B1D8A7D981DB8CDAA9D8B420D8A7D8B220D8A8DB8CD98620D985DB8CE2808CD8B1D988D8AF''),
     (''DELETE SUBSCRIBER'', hx ''D8ADD8B0D98120D985D8B4D8AAD8B1DAA9''),
     (''Client deleted'', hx ''DAA9D984D8A7DB8CD986D8AA20D8ADD8B0D98120D8B4D8AF''),
     (''Set the whitelisted address'',
      hx ''D8ABD8A8D8AA20D8A2D8AFD8B1D8B320D8AFD8B120D984DB8CD8B3D8AA20D8B3D981DB8CD8AF''),
     (''A subscriber has one address at a time. The resolver answers the address stored here and refuses every other source.'',
      hx ''D987D8B120D985D8B4D8AAD8B1DAA920D8AFD8B120D987D8B120D984D8ADD8B8D98720DB8CDAA920D8A2D8AFD8B1D8B320D8AFD8A7D8B1D8AF2E20D8B1DB8CD8B2D8A7D984D988D8B120D8A8D98720D8A2D8AFD8B1D8B320D8ABD8A8D8AAE2808CD8B4D8AFD98720D8AFD8B120D8A7DB8CD986D8ACD8A720D9BED8A7D8B3D8AE20D985DB8CE2808CD8AFD987D8AF20D98820D987D8B120D985D8A8D8AFD8A320D8AFDB8CDAAFD8B1DB8C20D8B1D8A720D8B1D8AF20D985DB8CE2808CDAA9D986D8AF2E''),
     (''SAVE ADDRESS'', hx ''D8B0D8AEDB8CD8B1D987D99420D8A2D8AFD8B1D8B3''),
     (''Enter an address, or press Cancel to leave it unchanged.'',
      hx ''DB8CDAA920D8A2D8AFD8B1D8B320D988D8A7D8B1D8AF20DAA9D986DB8CD8AFD88C20DB8CD8A720D8A8D8B1D8A7DB8C20D8A8D8AFD988D986E2808CD8AAD8BADB8CDB8CD8B120D985D8A7D986D8AFD986D88C20D8A7D986D8B5D8B1D8A7D98120D8B1D8A720D8A8D8B2D986DB8CD8AF2E''),
     (''That is not an IP address. Expected something like 2.189.86.32 or 2001:db8::1.'',
      hx ''D8A7DB8CD98620DB8CDAA920D8A2D8AFD8B1D8B320495020D986DB8CD8B3D8AA2E20DA86DB8CD8B2DB8C20D985D8ABD98420322E3138392E38362E333220DB8CD8A720323030313A6462383A3A3120D8A7D986D8AAD8B8D8A7D8B120D985DB8CE2808CD8B1D981D8AA2E''),
     (''Remove this address?'',
      hx ''D8A7DB8CD98620D8A2D8AFD8B1D8B320D8ADD8B0D98120D8B4D988D8AFD89F''),
     (''THE SUBSCRIBER STOPS RESOLVING IMMEDIATELY'',
      hx ''D985D8B4D8AAD8B1DAA920D8A8D984D8A7D981D8A7D8B5D984D98720D8A7D8B220D8B3D8B1D988DB8CD8B320444E5320D8AED8A7D8B1D8AC20D985DB8CE2808CD8B4D988D8AF''),
     (''REMOVE ADDRESS'', hx ''D8ADD8B0D98120D8A2D8AFD8B1D8B3''),
     (''IP removed from client'',
      hx ''495020D8A7D8B220DAA9D984D8A7DB8CD986D8AA20D8ADD8B0D98120D8B4D8AF''),
     (''UUID copied to clipboard!'',
      hx ''5555494420D8AFD8B120DAA9D984DB8CD9BEE2808CD8A8D988D8B1D8AF20DAA9D9BEDB8C20D8B4D8AF21''),
     (''New UUID generated!'', hx ''5555494420D8ACD8AFDB8CD8AF20D8AAD988D984DB8CD8AF20D8B4D8AF21''),
     (''Failed to regenerate UUID'',
      hx ''D8AAD988D984DB8CD8AF20D985D8ACD8AFD8AF205555494420D986D8A7D985D988D981D98220D8A8D988D8AF''),
     (''Client traffic counter reset to 0!'',
      hx ''D8B4D985D8A7D8B1D986D8AFD987D99420D8AAD8B1D8A7D981DB8CDAA920DAA9D984D8A7DB8CD986D8AA20D8B5D981D8B120D8B4D8AF21''),
     (''Failed to reset traffic counter'',
      hx ''D8B5D981D8B120DAA9D8B1D8AFD98620D8B4D985D8A7D8B1D986D8AFD987D99420D8AAD8B1D8A7D981DB8CDAA920D986D8A7D985D988D981D98220D8A8D988D8AF''),
     (''Network error resetting traffic'',
      hx ''D8AED8B7D8A7DB8C20D8B4D8A8DAA9D98720D8AFD8B120D8B5D981D8B120DAA9D8B1D8AFD98620D8AAD8B1D8A7D981DB8CDAA9''),
     (''Client configuration updated successfully!'',
      hx ''D8AAD986D8B8DB8CD985D8A7D8AA20DAA9D984D8A7DB8CD986D8AA20D8A8D8A720D985D988D981D982DB8CD8AA20D8A8D987E2808CD8B1D988D8B220D8B4D8AF21''),
     (''Failed to update client details'',
      hx ''D8A8D987E2808CD8B1D988D8B2D8B1D8B3D8A7D986DB8C20D985D8B4D8AED8B5D8A7D8AA20DAA9D984D8A7DB8CD986D8AA20D986D8A7D985D988D981D98220D8A8D988D8AF''),
     (''Network error updating client'',
      hx ''D8AED8B7D8A7DB8C20D8B4D8A8DAA9D98720D8AFD8B120D8A8D987E2808CD8B1D988D8B2D8B1D8B3D8A7D986DB8C20DAA9D984D8A7DB8CD986D8AA''),
     (''IP already assigned to another client'',
      hx ''D8A7DB8CD98620495020D982D8A8D984D8A7D98B20D8A8D98720DAA9D984D8A7DB8CD986D8AA20D8AFDB8CDAAFD8B1DB8C20D8AFD8A7D8AFD98720D8B4D8AFD987''),
     (''UUID already in use'',
      hx ''D8A7DB8CD986205555494420D8AFD8B120D8ADD8A7D98420D8A7D8B3D8AAD981D8A7D8AFD98720D8A7D8B3D8AA''),
     (''Invalid traffic reset cycle'',
      hx ''DA86D8B1D8AED987D99420D8A8D8A7D8B2D986D8B4D8A7D986DB8C20D8AAD8B1D8A7D981DB8CDAA920D986D8A7D985D8B9D8AAD8A8D8B120D8A7D8B3D8AA''),
     (''leave the cycle alone'',
      hx ''DA86D8B1D8AED98720D8B1D8A720D8AFD8B3D8AAE2808CD986D8AED988D8B1D8AFD98720D8A8DAAFD8B0D8A7D8B1''),
     (''This field cannot be empty.'',
      hx ''D8A7DB8CD98620D981DB8CD984D8AF20D986D985DB8CE2808CD8AAD988D8A7D986D8AF20D8AED8A7D984DB8C20D8A8D8A7D8B4D8AF2E''),
     (''It worked, but not the part you were hoping for.'',
      hx ''D8A7D986D8ACD8A7D98520D8B4D8AFD88C20D988D984DB8C20D986D98720D8A2D98620D8A8D8AED8B4DB8C20DAA9D98720D8A7D986D8AAD8B8D8A7D8B1D8B420D8B1D8A720D8AFD8A7D8B4D8AADB8CD8AF2E''),
     (''Testing VPS connectivity to Riot, Epic, Steam, Discord, EA, Battle.net, PUBG, Spotify...'',
      hx ''D8AAD8B3D8AA20D8A7D8AAD8B5D8A7D9842056505320D8A8D9872052696F74D88C2045706963D88C20537465616DD88C20446973636F7264D88C204541D88C20426174746C652E6E6574D88C205055424720D9882053706F74696679E280A6''),
     (''MAX DEVICES (IP LIMIT)'',
      hx ''D8ADD8AFD8A7DAA9D8ABD8B120D8AFD8B3D8AADAAFD8A7D9872028D8B3D982D98120D8A2DB8CE2808CD9BEDB8C29''),
     (''Max Devices / IPs'',
      hx ''D8ADD8AFD8A7DAA9D8ABD8B120D8AFD8B3D8AADAAFD8A7D987202F20D8B3D982D981204950''),
     (''Device(s)'', hx ''D8AFD8B3D8AADAAFD8A7D987''),
     (''Allowed IPs:'', hx ''D8A2DB8CE2808CD9BEDB8CE2808CD987D8A7DB8C20D985D8ACD8A7D8B23A''),
     (''devices'', hx ''D8AFD8B3D8AADAAFD8A7D987''),
     (''limit'', hx ''D8B3D982D981'')]"

definition fa_switches :: "(string \<times> string) list" where
  "fa_switches =
    [(''Language'', hx ''D8B2D8A8D8A7D986''),
     (''Theme'', hx ''D9BED988D8B3D8AAD987''),
     (''Switch to light theme'',
      hx ''D8AAD8BADB8CDB8CD8B120D8A8D98720D9BED988D8B3D8AAD987D99420D8B1D988D8B4D986''),
     (''Switch to dark theme'',
      hx ''D8AAD8BADB8CDB8CD8B120D8A8D98720D9BED988D8B3D8AAD987D99420D8AADB8CD8B1D987''),
     (''Switch to Persian'', hx ''D8AAD8BADB8CDB8CD8B120D8A8D98720D981D8A7D8B1D8B3DB8C''),
     (''Switch to English'', hx ''D8AAD8BADB8CDB8CD8B120D8A8D98720D8A7D986DAAFD984DB8CD8B3DB8C'')]"

definition FA_entries :: "(string \<times> string) list" where
  "FA_entries =
     fa_shell @ fa_security @ fa_tabs @ fa_stats @ fa_chart @ fa_diagnostics @
     fa_access @ fa_clients @ fa_client_forms @ fa_calendar @ fa_profiles @ fa_policy_cards @
     fa_bandwidth @ fa_stream @ fa_api @ fa_login_settings @ fa_credentials @ fa_ssl @
     fa_placeholders @ fa_guide @ fa_toasts @ fa_switches"


definition FA_dict :: "string \<Rightarrow> string option" where
  "FA_dict = map_of (rev FA_entries)"

definition FA :: dictionary where
  "FA = \<lparr>dict = FA_dict, pats = map pattern_fun FA_PATTERNS\<rparr>"

section \<open>What the table holds\<close>

definition entry_ok :: "string \<times> string \<Rightarrow> bool" where
  "entry_ok e \<longleftrightarrow> tidy (fst e) \<and> tidy (snd e) \<and> \<not> arabic (fst e) \<and>
     (snd e = fst e \<or> arabic (snd e) \<and> \<not> english (snd e))"

lemmas entry_check = entry_ok_def tidy_pass english_def u_dash_def u_middot_def u_bullet_def u_ellipsis_def

lemma fa_shell_ok: "list_all entry_ok fa_shell"
  by (simp add: fa_shell_def entry_check)

lemma fa_security_ok: "list_all entry_ok fa_security"
  by (simp add: fa_security_def entry_check)

lemma fa_tabs_ok: "list_all entry_ok fa_tabs"
  by (simp add: fa_tabs_def entry_check)

lemma fa_stats_ok: "list_all entry_ok fa_stats"
  by (simp add: fa_stats_def entry_check)

lemma fa_chart_ok: "list_all entry_ok fa_chart"
  by (simp add: fa_chart_def entry_check)

lemma fa_diagnostics_ok: "list_all entry_ok fa_diagnostics"
  by (simp add: fa_diagnostics_def entry_check)

lemma fa_access_ok: "list_all entry_ok fa_access"
  by (simp add: fa_access_def entry_check)

lemma fa_clients_ok: "list_all entry_ok fa_clients"
  by (simp add: fa_clients_def entry_check)

lemma fa_client_forms_ok: "list_all entry_ok fa_client_forms"
  by (simp add: fa_client_forms_def entry_check)

lemma fa_calendar_ok: "list_all entry_ok fa_calendar"
  by (simp add: fa_calendar_def entry_check)

lemma fa_profiles_ok: "list_all entry_ok fa_profiles"
  by (simp add: fa_profiles_def entry_check)

lemma fa_policy_cards_ok: "list_all entry_ok fa_policy_cards"
  by (simp add: fa_policy_cards_def entry_check)

lemma fa_bandwidth_ok: "list_all entry_ok fa_bandwidth"
  by (simp add: fa_bandwidth_def entry_check)

lemma fa_stream_ok: "list_all entry_ok fa_stream"
  by (simp add: fa_stream_def entry_check)

lemma fa_api_ok: "list_all entry_ok fa_api"
  by (simp add: fa_api_def entry_check)

lemma fa_login_settings_ok: "list_all entry_ok fa_login_settings"
  by (simp add: fa_login_settings_def entry_check)

lemma fa_credentials_ok: "list_all entry_ok fa_credentials"
  by (simp add: fa_credentials_def entry_check)

lemma fa_ssl_ok: "list_all entry_ok fa_ssl"
  by (simp add: fa_ssl_def entry_check)

lemma fa_placeholders_ok: "list_all entry_ok fa_placeholders"
  by (simp add: fa_placeholders_def entry_check)

lemma fa_guide_ok: "list_all entry_ok fa_guide"
  by (simp add: fa_guide_def entry_check)

lemma fa_toasts_ok: "list_all entry_ok fa_toasts"
  by (simp add: fa_toasts_def entry_check)

lemma fa_switches_ok: "list_all entry_ok fa_switches"
  by (simp add: fa_switches_def entry_check)

lemma FA_entries_ok: "list_all entry_ok FA_entries"
  by (simp add: FA_entries_def fa_shell_ok fa_security_ok fa_tabs_ok fa_stats_ok fa_chart_ok fa_diagnostics_ok
      fa_access_ok fa_clients_ok fa_client_forms_ok fa_calendar_ok fa_profiles_ok fa_policy_cards_ok
      fa_bandwidth_ok fa_stream_ok fa_api_ok fa_login_settings_ok fa_credentials_ok fa_ssl_ok
      fa_placeholders_ok fa_guide_ok fa_toasts_ok fa_switches_ok)

lemma FA_dict_ok:
  assumes "FA_dict k = Some v"
  shows "tidy k \<and> \<not> arabic k \<and> (v = k \<or> settled v)"
proof -
  have "(k, v) \<in> set FA_entries" using map_of_SomeD[OF assms[unfolded FA_dict_def]] by simp
  then have "entry_ok (k, v)" using FA_entries_ok unfolding list_all_iff by blast
  then show ?thesis unfolding entry_ok_def settled_def by auto
qed

lemma first_match_Some:
  "first_match ps s = Some t \<Longrightarrow> \<exists>p\<in>set ps. p s = Some t"
  "\<forall>p\<in>set ps. p s = None \<Longrightarrow> first_match ps s = None"
  by (induction ps) (auto split: option.splits)

text \<open>A settled text is no key, since it has an Arabic letter, and matches no pattern.\<close>

lemma settled_no_lookup:
  assumes "settled t"
  shows "lookup_fa FA t = None"
proof -
  have "js_trim t = t" using assms tidy_trim[of t "[]" "[]"] by (simp add: settled_def)
  moreover have "FA_dict t = None"
    using FA_dict_ok[of t] assms by (cases "FA_dict t") (auto simp: settled_def)
  moreover have "first_match (pats FA) t = None"
    using arabic_no_match assms by (intro first_match_Some(2)) (auto simp: FA_def settled_def)
  ultimately show ?thesis using assms by (simp add: lookup_fa_def FA_def)
qed

lemma lookup_settles:
  assumes "lookup_fa FA s = Some t"
  shows "tidy t \<and> (lookup_fa FA t = None \<or> lookup_fa FA t = Some t)"
proof -
  let ?k = "js_trim s"
  have k: "tidy ?k" using lookup_not_blank[OF assms] trim_tidy by blast
  consider "FA_dict ?k = Some t" | "first_match (pats FA) ?k = Some t"
    using assms by (auto simp: lookup_fa_def FA_def Let_def split: if_splits option.splits)
  then show ?thesis
  proof cases
    case 1
    then have v: "t = ?k \<or> settled t" using FA_dict_ok by blast
    moreover have "lookup_fa FA ?k = lookup_fa FA s" by (simp add: lookup_fa_def)
    ultimately show ?thesis using settled_no_lookup assms k by (auto simp: settled_def)
  next
    case 2
    then obtain p where "p \<in> set FA_PATTERNS" "pattern_fun p ?k = Some t"
      using first_match_Some(1) by (fastforce simp: FA_def)
    then have "settled t" using pattern_settled k by blast
    then show ?thesis using settled_no_lookup by (simp add: settled_def)
  qed
qed

lemma FA_proper: "proper_dictionary FA"
proof -
  have "js_trim t \<noteq> ''''" if "tidy t" for t
    using that tidy_trim[of t "[]" "[]"] by (auto simp: tidy_def)
  then show ?thesis using lookup_settles unfolding proper_dictionary_def by blast
qed

lemma text_out_twice: "text_out FA (text_out FA v) = text_out FA v"
proof (cases "lookup_fa FA v")
  case (Some t)
  note st = lookup_settles[OF Some]
  have k: "js_trim v \<noteq> ''''" by (rule lookup_not_blank[OF Some])
  obtain a b where ab: "v = a @ js_trim v @ b" "list_all is_space a" "list_all is_space b"
    using js_trim_split[of v] by (metis list_all_iff set_rev set_takeWhileD)
  then have out: "text_out FA v = a @ t @ b"
    using replace_core[OF trim_tidy[OF k] ab(2), of t b] Some k by (simp add: text_out_def)
  have tr: "js_trim (a @ t @ b) = t" using tidy_trim st ab by blast
  have "lookup_fa FA (a @ t @ b) = lookup_fa FA t"
    using tr st tidy_trim[of t "[]" "[]"] by (simp add: lookup_fa_def)
  then have "text_out FA (a @ t @ b) = a @ t @ b"
    using st replace_core[of t a t b] ab(2) by (auto simp: text_out_def tr)
  then show ?thesis by (simp only: out)
qed (simp add: text_out_def)

lemma attr_out_twice: "attr_out FA (attr_out FA v) = attr_out FA v"
  using lookup_settles[of v] by (auto simp: attr_out_def split: option.splits)

text \<open>
  C8. The panel's own table settles. No translation is blank, every page translated once stays
  as it is when translated again, and a text the app fetched with HyperI18N.t and then wrote
  into the page is shown as fetched: the engine never translates a translation, even one whose
  node lost its cache.
\<close>

theorem translation_settles:
  "proper_dictionary FA \<and> translate FA (translate FA p) = translate FA p \<and>
   lookup_fa FA (hyper_t FA Fa s) \<in> {None, Some (hyper_t FA Fa s)}"
proof (intro conjI)
  show "translate FA (translate FA p) = translate FA p"
  proof (induction p)
    case (Elem tg no as ks)
    then show ?case
      by (cases "skips tg no") (auto simp: attr_out_twice o_def intro!: map_cong)
  qed (simp add: text_out_twice)
  show "lookup_fa FA (hyper_t FA Fa s) \<in> {None, Some (hyper_t FA Fa s)}"
    using lookup_settles[of s] by (auto simp: hyper_t_def split: option.splits)
qed (rule FA_proper)

end
