(* ===== verification/Portal.thy ===== *)
theory Portal
  imports Single_Flight Js_Prelude
begin

text \<open>
  The subscriber's portal page (portal.js): the toast with the texts the markup carries, the
  clipboard with its fallback, the tabs of the device guide and their keys, the expiry
  countdown, the quota display and the registration button.

  \<open>port\<close> is the page: what its elements show, the texts of the data- attributes, the
  toast and the request of the button. The toast's timer is left out: a toast is its text and
  tone. Numbers are those of the daemon, finite.
\<close>

record port =
  p_text :: "string \<rightharpoonup> string"
  p_attr :: "string \<rightharpoonup> string"
  p_width :: string
  p_pillGone :: bool
  p_secret :: string
  p_toast :: "(string \<times> string) option"
  p_busy :: bool
  p_running :: nat
  p_posts :: "string list"

definition set_shown :: "string \<Rightarrow> string \<Rightarrow> port \<Rightarrow> port" where
  "set_shown i t p = (if p_text p i = None then p else p\<lparr>p_text := (p_text p)(i \<mapsto> t)\<rparr>)"

definition msg :: "port \<Rightarrow> string \<Rightarrow> string" where
  "msg p name = (case p_attr p (''data-msg-'' @ name) of None \<Rightarrow> '''' | Some t \<Rightarrow> t)"

definition portal_toast :: "string \<Rightarrow> string \<Rightarrow> port \<Rightarrow> port" where
  "portal_toast text tone p = (if text = '''' then p else p\<lparr>p_toast := Some (text, tone)\<rparr>)"

section \<open>The clipboard\<close>

record copier =
  c_secure :: bool
  c_write :: bool
  c_exec :: bool

text \<open>Whether the text reached the clipboard, and what was told the subscriber.\<close>

definition writeClipboard :: "copier \<Rightarrow> bool" where
  "writeClipboard c = (if c_secure c \<and> c_write c then True else c_exec c)"

definition copyFrom :: "copier \<Rightarrow> string \<Rightarrow> string \<Rightarrow> port \<Rightarrow> bool \<times> port" where
  "copyFrom c text copied p =
     (if text = '''' then (False, p)
      else let done = (if copied = '''' then msg p ''copied'' else copied); ok = writeClipboard c in
        (ok, if ok then portal_toast done ''is-ok'' p else portal_toast (msg p ''copy-fail'') ''is-warn'' p))"

section \<open>The tabs\<close>

record tablist =
  t_names :: "string list"
  t_panels :: "string list"
  t_active :: "bool list"
  t_hidden :: "bool list"
  t_focus :: "nat option"
  t_rtl :: bool

definition selectTab :: "string \<Rightarrow> tablist \<Rightarrow> tablist" where
  "selectTab name t =
     t\<lparr>t_active := map (\<lambda>n. n = name) (t_names t), t_hidden := map (\<lambda>n. n \<noteq> name) (t_panels t)\<rparr>"

definition activate :: "nat \<Rightarrow> tablist \<Rightarrow> tablist" where
  "activate i t =
     (if i < length (t_names t) then (selectTab (t_names t ! i) t)\<lparr>t_focus := Some i\<rparr> else t)"

text \<open>The tab a key moves to from tab \<open>i\<close> of \<open>n\<close>.\<close>

definition key_target :: "bool \<Rightarrow> nat \<Rightarrow> nat \<Rightarrow> string \<Rightarrow> nat option" where
  "key_target rtl n i key =
     (let forward = (if rtl then ''ArrowLeft'' else ''ArrowRight'');
          back = (if rtl then ''ArrowRight'' else ''ArrowLeft'') in
      if key = forward then Some ((i + 1) mod n)
      else if key = back then Some ((i + n - 1) mod n)
      else if key = ''Home'' then Some 0
      else if key = ''End'' then Some (n - 1)
      else None)"

definition tab_keydown :: "nat \<Rightarrow> string \<Rightarrow> tablist \<Rightarrow> tablist" where
  "tab_keydown i key t =
     (if length (t_names t) \<le> i then t
      else case key_target (t_rtl t) (length (t_names t)) i key of
             None \<Rightarrow> t | Some j \<Rightarrow> activate j t)"

section \<open>The countdown\<close>

definition countdown :: "int \<Rightarrow> int \<Rightarrow> int \<times> int \<times> int" where
  "countdown expires now_ms =
     (let left = max 0 (expires - now_ms div 1000) in
      (left div 86400, (left div 3600) mod 24, (left div 60) mod 60))"

definition tickCountdown :: "int \<Rightarrow> port \<Rightarrow> port" where
  "tickCountdown now_ms p =
     (case p_attr p ''data-expires'' of None \<Rightarrow> p
      | Some s \<Rightarrow>
          (case parseInt10 s of
             Fin x \<Rightarrow>
               if x = 0 then p
               else (case countdown \<lfloor>x\<rfloor> now_ms of (d, h, m) \<Rightarrow>
                 set_shown ''cd-mins'' (int_str m) (set_shown ''cd-hours'' (int_str h)
                   (set_shown ''cd-days'' (int_str d) p)))
           | _ \<Rightarrow> p))"

section \<open>The quota\<close>

definition MB :: rat where "MB = 1024 * 1024"

definition used_gb :: "rat \<Rightarrow> rat" where
  "used_gb usedBytes = fl (fl (usedBytes / MB) / 1024)"

definition quota_percent :: "rat \<Rightarrow> rat \<Rightarrow> rat" where
  "quota_percent usedBytes limitGB =
     (let percent = fl (fl (used_gb usedBytes / limitGB) * 100) in if percent > 100 then 100 else percent)"

definition quota_left :: "rat \<Rightarrow> rat \<Rightarrow> rat" where
  "quota_left usedBytes limitGB =
     (let remaining = fl (limitGB - used_gb usedBytes) in if remaining < 0 then 0 else remaining)"

definition attr_or_blank :: "port \<Rightarrow> string \<Rightarrow> string" where
  "attr_or_blank p k = (case p_attr p k of None \<Rightarrow> '''' | Some t \<Rightarrow> t)"

definition renderQuota :: "rat \<Rightarrow> rat \<Rightarrow> bool \<Rightarrow> port \<Rightarrow> port" where
  "renderQuota usedBytes limitGB exceeded p =
     (let p1 = p\<lparr>p_pillGone := \<not> exceeded\<rparr> in
      if limitGB \<le> 0 then
        (set_shown ''traffic-remaining'' (attr_or_blank p ''data-unlimited'')
          (set_shown ''traffic-display'' (to_fixed 2 (fl (usedBytes / MB)) @ '' MB / Unlimited'') p1))
          \<lparr>p_width := ''0%''\<rparr>
      else
        (set_shown ''traffic-remaining''
          (to_fixed 2 (quota_left usedBytes limitGB) @ '' GB '' @ attr_or_blank p ''data-word'')
          (set_shown ''traffic-display''
            (to_fixed 2 (used_gb usedBytes) @ '' GB / '' @ to_fixed 1 limitGB @ '' GB'') p1))
          \<lparr>p_width := to_fixed 1 (quota_percent usedBytes limitGB) @ ''%''\<rparr>)"

section \<open>Registering\<close>

datatype answer = Lost | Answer bool jsval

definition refusal_name :: "jsval \<Rightarrow> string" where
  "refusal_name reason =
     (if reason = JStr ''suspended'' then ''reason-suspended''
      else if reason = JStr ''expired'' then ''reason-expired''
      else if reason = JStr ''quota'' then ''reason-quota''
      else if reason = JStr ''conflict'' then ''reason-conflict''
      else if reason = JStr ''invalid'' then ''reason-invalid''
      else ''register-denied'')"

definition show_if :: "string \<Rightarrow> jsval \<Rightarrow> port \<Rightarrow> port" where
  "show_if i v p = (if truthy v then set_shown i (js_string v) p else p)"

definition register_enter :: "port \<Rightarrow> port" where
  "register_enter p =
     (if p_busy p then p
      else if js_trim (p_secret p) = '''' then portal_toast (msg p ''register-fail'') ''is-bad'' p
      else p\<lparr>p_busy := True, p_running := Suc (p_running p), p_posts := p_posts p @ [js_trim (p_secret p)]\<rparr>)"

definition register_answered :: "answer \<Rightarrow> port \<Rightarrow> port" where
  "register_answered a p =
     (case a of Lost \<Rightarrow> portal_toast (msg p ''register-fail'') ''is-bad'' p
      | Answer ok data \<Rightarrow>
          if \<not> ok then
            portal_toast (msg p (refusal_name (if nullish data then JUndef else jget data ''reason''))) ''is-bad'' p
          else if nullish data then portal_toast (msg p ''register-fail'') ''is-bad'' p
          else
            (portal_toast (msg p ''register-ok'') ''is-ok''
              (renderQuota (num_or (js_number (jget data ''traffic_used_bytes'')) 0)
                (num_or (js_number (jget data ''traffic_limit_gb'')) 0)
                (jget data ''quota_exceeded'' = JBool True)
                (show_if ''detected-ip'' (jget data ''bound_ip'')
                  (show_if ''detected-ip'' (jget data ''detected_ip'') p))))
            \<lparr>p_secret := ''''\<rparr>)"

definition register_leave :: "answer \<Rightarrow> port \<Rightarrow> port" where
  "register_leave a p = (register_answered a p)\<lparr>p_busy := False, p_running := p_running p - 1\<rparr>"

text \<open>
  A click, with what encloses its target: the text and confirmation of a copyable element, the
  name of a tab, the address of the register button.
\<close>

definition portal_click ::
    "copier \<Rightarrow> (string \<times> string) option \<Rightarrow> string option \<Rightarrow> string option \<Rightarrow> port \<times> tablist \<Rightarrow> port \<times> tablist" where
  "portal_click c copy tab reg s =
     (case copy of Some (text, copied) \<Rightarrow> (snd (copyFrom c text copied (fst s)), snd s)
      | None \<Rightarrow>
          (case tab of Some name \<Rightarrow> (fst s, selectTab name (snd s))
           | None \<Rightarrow>
               (case reg of Some url \<Rightarrow> (if url = [] then s else (register_enter (fst s), snd s))
                | None \<Rightarrow> s)))"

section \<open>What holds of it\<close>

lemma port_kept [simp]:
  "p_busy (set_shown i t p) = p_busy p" "p_running (set_shown i t p) = p_running p"
  "p_busy (portal_toast t c p) = p_busy p" "p_running (portal_toast t c p) = p_running p"
  by (simp_all add: set_shown_def portal_toast_def)

interpretation register_guard: single_flight p_busy p_running register_enter "register_leave a"
  by unfold_locales (auto simp: register_enter_def register_leave_def)

text \<open>
  The countdown never drifts: the three boxes are the time left, rounded down to the minute
  and never negative, with fewer than 24 hours and 60 minutes in the smaller boxes.
\<close>

theorem countdown_exact:
  "case countdown expires now_ms of (d, h, m) \<Rightarrow>
     (d * 24 + h) * 60 + m = max 0 (expires - now_ms div 1000) div 60 \<and>
     0 \<le> d \<and> 0 \<le> h \<and> h < 24 \<and> 0 \<le> m \<and> m < 60"
proof -
  let ?l = "max 0 (expires - now_ms div 1000)"
  define x where "x = ?l div 60"
  have h: "?l div 3600 = x div 60" unfolding x_def using zdiv_zmult2_eq[of 60 ?l 60] by simp
  have d: "?l div 86400 = x div 60 div 24" unfolding h[symmetric] using zdiv_zmult2_eq[of 24 ?l 3600] by simp
  have x: "0 \<le> x" unfolding x_def by (simp add: pos_imp_zdiv_nonneg_iff)
  have c: "countdown expires now_ms = (x div 60 div 24, x div 60 mod 24, x mod 60)"
    by (simp only: countdown_def Let_def d h x_def[symmetric])
  have "(x div 60 div 24 * 24 + x div 60 mod 24) * 60 + x mod 60 = x"
    by (simp only: div_mult_mod_eq)
  moreover have "0 \<le> x div 60 div 24" using x by (simp add: pos_imp_zdiv_nonneg_iff)
  ultimately show ?thesis by (simp only: c prod.case x_def[symmetric]) simp
qed

text \<open>
  The portal never reports a copy it did not make: when the copied text is not empty, the
  confirmation in the subscriber's language is shown exactly if the text reached the clipboard,
  and the failure otherwise.
\<close>

theorem copy_honest:
  assumes "text \<noteq> ''''" "msg p ''copy-fail'' \<noteq> ''''" "copied \<noteq> '''' \<or> msg p ''copied'' \<noteq> ''''"
  shows "fst (copyFrom c text copied p) = (c_secure c \<and> c_write c \<or> c_exec c) \<and>
    p_toast (snd (copyFrom c text copied p)) =
      Some (if fst (copyFrom c text copied p)
            then ((if copied = '''' then msg p ''copied'' else copied), ''is-ok'')
            else (msg p ''copy-fail'', ''is-warn''))"
  using assms by (auto simp: copyFrom_def Let_def writeClipboard_def portal_toast_def)

text \<open>A tab list with exactly one selected tab, in focus, and its panel the only one shown.\<close>

definition on_tab :: "nat \<Rightarrow> tablist \<Rightarrow> bool" where
  "on_tab i t \<longleftrightarrow> i < length (t_names t) \<and> t_focus t = Some i \<and>
     t_active t = map (\<lambda>j. j = i) [0..<length (t_names t)] \<and>
     t_hidden t = map (\<lambda>n. n \<noteq> t_names t ! i) (t_panels t)"

lemma activate_on_tab:
  "distinct (t_names t) \<Longrightarrow> i < length (t_names t) \<Longrightarrow> on_tab i (activate i t)"
  by (auto simp: on_tab_def activate_def selectTab_def nth_eq_iff_index_eq intro!: nth_equalityI)

lemma key_target_bound: "i < n \<Longrightarrow> key_target rtl n i key = Some j \<Longrightarrow> j < n"
  by (auto simp: key_target_def Let_def split: if_splits)

lemma forward_back:
  assumes "i < (n :: nat)"
  shows "((i + 1) mod n + n - 1) mod n = i" "((i + n - 1) mod n + 1) mod n = i"
proof -
  obtain m where n: "n = Suc m" using assms by (cases n) auto
  have r: "i = m \<or> i + 1 < n" using assms n by linarith
  have "Suc (i + m) mod Suc m = i" if "i < m"
    using mod_add_self2[of i "Suc m"] that by simp
  then show "((i + 1) mod n + n - 1) mod n = i"
    using r by (elim disjE) (simp_all add: n)
  show "((i + n - 1) mod n + 1) mod n = i"
  proof -
    have "((i + n - 1) mod n + 1) mod n = (i + n - 1 + 1) mod n" by (rule mod_add_left_eq)
    also have "i + n - 1 + 1 = i + n" using assms by linarith
    finally show ?thesis using assms by (simp only: mod_add_self2 mod_less)
  qed
qed

lemma key_back:
  assumes "i < n" "key_target rtl n i key = Some j"
  shows "key = ''ArrowLeft'' \<longrightarrow> key_target rtl n j ''ArrowRight'' = Some i"
    "key = ''ArrowRight'' \<longrightarrow> key_target rtl n j ''ArrowLeft'' = Some i"
proof -
  note fb = forward_back[OF assms(1)]
  show "key = ''ArrowLeft'' \<longrightarrow> key_target rtl n j ''ArrowRight'' = Some i"
  proof
    assume k: "key = ''ArrowLeft''"
    have "j = (if rtl then (i + 1) mod n else (i + n - 1) mod n)"
      using assms(2) by (simp add: key_target_def k split: if_splits)
    then show "key_target rtl n j ''ArrowRight'' = Some i"
      using fb by (cases rtl) (simp_all add: key_target_def)
  qed
  show "key = ''ArrowRight'' \<longrightarrow> key_target rtl n j ''ArrowLeft'' = Some i"
  proof
    assume k: "key = ''ArrowRight''"
    have "j = (if rtl then (i + n - 1) mod n else (i + 1) mod n)"
      using assms(2) by (simp add: key_target_def k split: if_splits)
    then show "key_target rtl n j ''ArrowLeft'' = Some i"
      using fb by (cases rtl) (simp_all add: key_target_def)
  qed
qed

text \<open>
  C25. Keys move along the tab list and never leave it: from any tab every navigation key lands
  on a tab that is then the only selected one, has the focus and shows the only visible panel;
  the key that points the other way brings the reader back, in either direction of writing.
\<close>

theorem tab_keys:
  assumes "distinct (t_names t)" "i < length (t_names t)"
    and "key_target (t_rtl t) (length (t_names t)) i key = Some j"
  shows "on_tab j (tab_keydown i key t) \<and>
    (key = ''ArrowLeft'' \<longrightarrow> on_tab i (tab_keydown j ''ArrowRight'' (tab_keydown i key t))) \<and>
    (key = ''ArrowRight'' \<longrightarrow> on_tab i (tab_keydown j ''ArrowLeft'' (tab_keydown i key t)))"
proof -
  have j: "j < length (t_names t)" using key_target_bound assms(2,3) by blast
  have e: "tab_keydown i key t = activate j t" using assms by (simp add: tab_keydown_def)
  have n: "t_names (activate j t) = t_names t" "t_rtl (activate j t) = t_rtl t"
    by (simp_all add: activate_def selectTab_def)
  have returns: "on_tab i (tab_keydown j k (activate j t))"
    if "key_target (t_rtl t) (length (t_names t)) j k = Some i" for k
    using that j n activate_on_tab[of "activate j t" i] assms(1,2) by (simp add: tab_keydown_def)
  show ?thesis
    using activate_on_tab[OF assms(1) j] returns key_back[OF assms(2,3)] unfolding e by blast
qed

theorem tab_keys_witness:
  "on_tab 0 (tab_keydown 2 ''ArrowRight''
     \<lparr>t_names = [''ios'', ''android'', ''pc''], t_panels = [''pc'', ''ios'', ''android''], t_active = [],
      t_hidden = [], t_focus = None, t_rtl = False\<rparr>)"
  using tab_keys[of "\<lparr>t_names = [''ios'', ''android'', ''pc''], t_panels = [''pc'', ''ios'', ''android''],
      t_active = [], t_hidden = [], t_focus = None, t_rtl = False\<rparr>" 2 "''ArrowRight''" 0]
  by (simp add: key_target_def)

definition some_port :: port where
  "some_port = \<lparr>p_text = Map.empty,
     p_attr = [''data-msg-copied'' \<mapsto> ''Copied'', ''data-msg-copy-fail'' \<mapsto> ''Not copied''],
     p_width = '''', p_pillGone = False, p_secret = '''', p_toast = None, p_busy = False,
     p_running = 0, p_posts = []\<rparr>"

theorem copy_honest_witness:
  "p_toast (snd (copyFrom \<lparr>c_secure = False, c_write = True, c_exec = False\<rparr> ''192.0.2.1'' '''' some_port)) =
     Some (''Not copied'', ''is-warn'')"
  using copy_honest[of "''192.0.2.1''" some_port "''''" "\<lparr>c_secure = False, c_write = True, c_exec = False\<rparr>"]
  by (simp add: msg_def some_port_def)

section \<open>The quota bar\<close>

lemma round_even_nonneg: "0 \<le> x \<Longrightarrow> 0 \<le> round_even x"
  by (auto simp: round_even_def Let_def)

lemma fl_nonneg: "0 \<le> x \<Longrightarrow> 0 \<le> fl x"
  using round_even_nonneg[of "\<bar>x\<bar> / two_powi (ilog2 \<bar>x\<bar> - 52)"]
  by (auto simp: fl_def Let_def two_powi_def sgn_if intro!: mult_nonneg_nonneg divide_nonneg_nonneg)

text \<open>
  The quota bar is never wider than full and the remaining volume never negative, whatever
  was used of whatever limit.
\<close>

theorem quota_bounds:
  assumes "0 \<le> usedBytes" "0 < limitGB"
  shows "0 \<le> quota_percent usedBytes limitGB \<and> quota_percent usedBytes limitGB \<le> 100 \<and>
    0 \<le> quota_left usedBytes limitGB"
proof -
  have "0 \<le> used_gb usedBytes"
    using assms(1) by (simp add: used_gb_def MB_def fl_nonneg)
  then have "0 \<le> fl (fl (used_gb usedBytes / limitGB) * 100)"
    using assms(2) by (intro fl_nonneg mult_nonneg_nonneg divide_nonneg_nonneg) simp_all
  then show ?thesis by (auto simp: quota_percent_def quota_left_def Let_def)
qed

theorem quota_bounds_witness: "quota_percent 5000000 2 \<le> 100 \<and> 0 \<le> quota_left 5000000 2"
  using quota_bounds[of 5000000 2] by simp

section \<open>The button\<close>

datatype press = Press | Reply answer

fun press_do :: "press \<Rightarrow> port \<Rightarrow> port" where
  "press_do Press p = register_enter p"
| "press_do (Reply a) p = (if p_busy p then register_leave a p else p)"

lemma press_guarded: "register_guard.guarded p \<Longrightarrow> register_guard.guarded (press_do e p)"
  by (cases e) (auto simp: register_guard.guarded_enter register_guard.guarded_leave)

lemma press_never_two:
  "register_guard.guarded p \<Longrightarrow> p_running (foldl (\<lambda>p e. press_do e p) p es) \<le> 1"
proof (induction es arbitrary: p)
  case (Cons e es)
  then show ?case using press_guarded by simp
qed (use register_guard.no_overlap in fastforce)

end
