(* ===== verification/Game_Panel.thy ===== *)
theory Game_Panel
  imports Dash_World Html_Escape
begin

text \<open>
  The game intelligence tab (modules/gaming.js): its state, the lists it loads from the daemon
  and paints, and the tiles above them.

  \<open>hgi\<close> holds the module's variables beside the page the dashboard runs in, the nodes of the
  chat box (id and markup), the files handed to the browser and how often the listeners were
  attached; \<open>on_page\<close> runs a
  computation of the page. A read of a property of null or undefined and a call of a method
  the value does not have throw: what may throw returns an option, \<open>None\<close> being the throw.
  The daemon's collections are arrays or absent; Object.entries gives the pairs in the order of
  the answer. The formats of Date in the operator's locale are the fields of \<open>genv\<close>. Markup is
  written without the line breaks and indentation between its tags, Persian text by its UTF-8
  bytes. The icon library's redraw and the console are left out.
\<close>

section \<open>State\<close>

record hgi =
  h_page :: dash
  cachedProfiles :: "jsval list"
  cachedCandidates :: "jsval list"
  cachedRoutes :: "jsval list"
  cachedLearningSettings :: jsval
  currentActiveGame :: jsval
  activeSubView :: string
  viewButtons :: "(string \<times> bool) list"
  currentEditProfile :: jsval
  chatBox :: "(string \<times> string) list"
  downloads :: "(string \<times> jsval) list"
  hgiEventsInited :: bool
  attached :: nat

type_synonym 'a tab = "(hgi, 'a) state"

record genv =
  ge_time :: "jsval \<Rightarrow> string"
  ge_date :: "jsval \<Rightarrow> string"

definition on_page :: "'a page \<Rightarrow> 'a tab" where
  "on_page m = State (\<lambda>h. (result m (h_page h), h\<lparr>h_page := exec m (h_page h)\<rparr>))"

abbreviation tab_toast :: "string \<Rightarrow> string \<Rightarrow> unit tab" where
  "tab_toast m ty \<equiv> on_page (toast_msg m ty)"

definition fetchHGI :: "string \<Rightarrow> string \<Rightarrow> jsval \<Rightarrow> outcome tab" where
  "fetchHGI m p b = on_page (do {
     w \<leftarrow> State_Monad.get;
     send \<lparr>rq_method = m, rq_path = api w p,
       rq_token = (if authToken w = '''' then None else Some (authToken w)), rq_body = b\<rparr>;
     next_outcome })"

text \<open>The JSON of a successful answer whose properties can be read.\<close>

definition fetch_data :: "string \<Rightarrow> jsval option tab" where
  "fetch_data p = do {
     oc \<leftarrow> fetchHGI ''GET'' p JUndef;
     ret (case oc of NetErr \<Rightarrow> None
          | Resp r \<Rightarrow> if \<not> rs_ok r then None
                      else case rs_json r of None \<Rightarrow> None
                           | Some data \<Rightarrow> if nullish data then None else Some data) }"

definition listing :: "jsval \<Rightarrow> string \<Rightarrow> jsval list" where
  "listing data k = arr_elems (js_or (jget data k) (jget data ''items''))"

text \<open>innerHTML of an element, unless building the markup threw.\<close>

definition paint :: "string \<Rightarrow> string option \<Rightarrow> unit page" where
  "paint i html = (case html of None \<Rightarrow> ret () | Some t \<Rightarrow> set_text i t)"

fun map_html :: "('a \<Rightarrow> string option) \<Rightarrow> 'a list \<Rightarrow> string option" where
  "map_html f [] = Some ''''"
| "map_html f (x # xs) =
     (case f x of None \<Rightarrow> None | Some t \<Rightarrow> map_option (\<lambda>u. t @ u) (map_html f xs))"

section \<open>The sub-views\<close>

definition view_panels :: "string list" where
  "view_panels = [''profiles'', ''discovery'', ''routes'', ''simulator'', ''timeline'', ''ai'']"

definition switchHGIView :: "string \<Rightarrow> unit tab" where
  "switchHGIView viewName = do {
     modify (\<lambda>h. h\<lparr>activeSubView := viewName,
       viewButtons := map (\<lambda>b. (fst b, fst b = viewName)) (viewButtons h)\<rparr>);
     on_page (for_each (\<lambda>v. set_hidden (''hgi-view-'' @ v) (v \<noteq> viewName)) view_panels) }"

section \<open>Profiles\<close>

text \<open>\<open>(d.k || '').toLowerCase()\<close>.\<close>

definition lower_field :: "string \<Rightarrow> jsval \<Rightarrow> string option" where
  "lower_field k d =
     (if nullish d then None
      else case js_or (jget d k) (JStr '''') of JStr s \<Rightarrow> Some (js_lower s) | _ \<Rightarrow> None)"

definition category_domains :: "string \<times> jsval \<Rightarrow> jsval list" where
  "category_domains e =
     (case e of (k, v) \<Rightarrow>
        if is_arr v then
          map (\<lambda>h. JObj [(''hostname'', h), (''category'', JStr k), (''policy'', JStr ''PROXY'')]) (arr_elems v)
        else if is_obj v \<and> truthy (jget v ''hostname'') then [v] else [])"

definition profile_domains :: "jsval \<Rightarrow> jsval list" where
  "profile_domains p =
     (case jget p ''domains'' of JArr ds \<Rightarrow> ds
      | JObj es \<Rightarrow> concat (map category_domains es) | _ \<Rightarrow> [])"

definition domain_kind :: "string \<Rightarrow> string" where
  "domain_kind cat =
     (if js_includes cat ''auth'' then ''auth''
      else if js_includes cat ''match'' then ''match''
      else if js_includes cat ''service'' then ''service''
      else if js_includes cat ''cdn'' \<or> js_includes cat ''download'' then ''cdn''
      else '''')"

definition kind_count :: "string \<Rightarrow> string list \<Rightarrow> nat" where
  "kind_count k cats = length (filter (\<lambda>c. domain_kind c = k) cats)"

text \<open>Up to three hosts of matchmaking, or of anything when there is none.\<close>

definition sample_hosts :: "jsval list \<Rightarrow> string list \<Rightarrow> jsval list" where
  "sample_hosts ds cats =
     (let matching = map fst (filter (\<lambda>(d, c). js_includes c ''match'') (zip ds cats)) in
      map (\<lambda>d. jget d ''hostname'') (take 3 (if matching = [] then ds else matching)))"

text \<open>
  slice(0, 2): the first two UTF-16 code units of a UTF-8 string; a code point outside the
  basic plane is two, and a half of one is left out.
\<close>

fun utf16_take :: "nat \<Rightarrow> string \<Rightarrow> string" where
  "utf16_take n [] = []"
| "utf16_take n (c # s) =
     (let k = (if 128 \<le> (of_char c :: nat) \<and> of_char c < (192 :: nat) then 0
               else if 240 \<le> (of_char c :: nat) then 2 else 1) in
      if n < k then [] else c # utf16_take (n - k) s)"

definition profile_initials :: "jsval \<Rightarrow> string option" where
  "profile_initials p =
     (case js_or (jget p ''name'') (JStr ''G'') of JStr s \<Rightarrow> Some (js_upper (utf16_take 2 s)) | _ \<Rightarrow> None)"

definition no_profiles_html :: string where
  "no_profiles_html =
     ''<div class=\"col-span-full p-8 text-center text-slate-500 text-xs\">No game profiles registered. Click \"+ Add Custom Game Profile\" above.</div>''"

definition sample_html :: "jsval \<Rightarrow> string" where
  "sample_html d =
     ''<div class=\"text-[11px] font-mono text-slate-300 bg-slate-950/50 px-2 py-0.5 rounded border border-slate-800/80 truncate\">'' @
     hgi_escapeHTML d @ ''</div>''"

definition more_html :: "nat \<Rightarrow> string" where
  "more_html n =
     ''<div class=\"text-[10px] text-cyan-400 font-mono ps-1\">+ '' @ nat_str n @
     '' more domains</div>''"

definition profile_card_html :: "string \<Rightarrow> string list \<Rightarrow> jsval list \<Rightarrow> jsval \<Rightarrow> string" where
  "profile_card_html initials ks hosts p =
     ''<div class=\"glass-panel p-4 sm:p-5 border border-slate-800 hover:border-cyan-500/40 transition flex flex-col justify-between space-y-4\"><div><div class=\"flex items-start justify-between gap-2\"><div class=\"flex items-center gap-3\"><div class=\"w-10 h-10 rounded-xl bg-gradient-to-tr from-cyan-500/20 to-blue-500/20 border border-cyan-500/30 flex items-center justify-center text-cyan-400 font-bold font-mono text-sm\">'' @
     hgi_escapeHTML (JStr initials) @
     ''</div><div><h4 class=\"text-sm font-bold text-white font-heading\">'' @
     hgi_escapeHTML (jget p ''name'') @
     ''</h4><p class=\"text-[11px] text-cyan-400 font-mono\">'' @
     hgi_escapeHTML (js_or (jget p ''publisher'') (JStr ''Unknown Publisher'')) @
     ''</p></div></div><span class=\"px-2 py-0.5 rounded text-[10px] font-bold font-mono '' @
     (if truthy (jget p ''enabled'') then ''bg-emerald-500/20 text-emerald-400 border border-emerald-500/30'' else ''bg-red-500/20 text-red-400 border border-red-500/30'') @
     ''\">'' @ (if truthy (jget p ''enabled'') then ''ACTIVE'' else ''DISABLED'') @
     ''</span></div><!-- Categories pills --><div class=\"grid grid-cols-2 gap-2 mt-4 text-[10px] font-mono\"><div class=\"p-2 rounded-lg bg-slate-950/80 border border-slate-800\"><span class=\"text-slate-400\">Matchmaking:</span><span class=\"text-cyan-300 font-bold ms-1\">'' @
     nat_str (kind_count ''match'' ks) @
     ''</span></div><div class=\"p-2 rounded-lg bg-slate-950/80 border border-slate-800\"><span class=\"text-slate-400\">Services:</span><span class=\"text-purple-300 font-bold ms-1\">'' @
     nat_str (kind_count ''service'' ks) @
     ''</span></div><div class=\"p-2 rounded-lg bg-slate-950/80 border border-slate-800\"><span class=\"text-slate-400\">Authentication:</span><span class=\"text-emerald-300 font-bold ms-1\">'' @
     nat_str (kind_count ''auth'' ks) @
     ''</span></div><div class=\"p-2 rounded-lg bg-slate-950/80 border border-slate-800\"><span class=\"text-slate-400\">CDN/Direct:</span><span class=\"text-amber-300 font-bold ms-1\">'' @
     nat_str (kind_count ''cdn'' ks) @
     ''</span></div></div><!-- Sample Domains list --><div class=\"mt-3\"><div class=\"text-[10px] uppercase font-mono text-slate-500 mb-1\">Mapped Domains ('' @
     nat_str (length ks) @ '' total)</div><div class=\"space-y-1\">'' @
     concat (map sample_html hosts) @
     (if length hosts < length ks then more_html (length ks - length hosts) else '''') @
     ''</div></div></div><!-- Action Buttons --><div class=\"pt-3 border-t border-slate-800/80 flex items-center justify-between gap-2\"><button class=\"btn-hgi-manage-domains px-2.5 py-1 rounded bg-cyan-500/15 hover:bg-cyan-500/25 text-cyan-300 text-[11px] font-semibold border border-cyan-500/30 transition flex items-center gap-1.5\" data-game-id=\"'' @
     hgi_escapeHTML (jget p ''id'') @
     ''\" title=\"Manage & Edit Domain Policies\"><i data-feather=\"sliders\" class=\"w-3 h-3 text-cyan-400\"></i><span>'' @
     hx ''D988DB8CD8B1D8A7DB8CD8B420D8B3DB8CD8A7D8B3D8AAE2808CD987D8A7'' @
     ''</span></button><div class=\"flex items-center gap-1.5\"><button class=\"btn-hgi-purge-game p-1.5 rounded bg-slate-900 hover:bg-slate-800 text-slate-400 hover:text-white border border-slate-800 transition\" data-game-id=\"'' @
     hgi_escapeHTML (jget p ''id'') @
     ''\" title=\"Purge DNS Cache for this game\"><i data-feather=\"refresh-cw\" class=\"w-3.5 h-3.5 text-cyan-400\"></i></button><button class=\"btn-hgi-export-game p-1.5 rounded bg-slate-900 hover:bg-slate-800 text-slate-400 hover:text-white border border-slate-800 transition\" data-game-id=\"'' @
     hgi_escapeHTML (jget p ''id'') @
     ''\" title=\"Export Profile JSON\"><i data-feather=\"download\" class=\"w-3.5 h-3.5\"></i></button><button class=\"btn-hgi-delete-game p-1.5 rounded bg-slate-900 hover:bg-red-500/20 text-slate-400 hover:text-red-400 border border-slate-800 transition\" data-game-id=\"'' @
     hgi_escapeHTML (jget p ''id'') @
     ''\" title=\"Delete Profile\"><i data-feather=\"trash-2\" class=\"w-3.5 h-3.5\"></i></button></div></div></div>''"

definition profile_card :: "jsval \<Rightarrow> string option" where
  "profile_card p =
     (if nullish p then None
      else let ds = profile_domains p in
        case those (map (lower_field ''category'') ds) of None \<Rightarrow> None
        | Some cats \<Rightarrow>
            map_option (\<lambda>i. profile_card_html i cats (sample_hosts ds cats) p) (profile_initials p))"

definition renderProfiles :: "jsval list \<Rightarrow> unit page" where
  "renderProfiles ps =
     paint ''hgi-profiles-grid'' (if ps = [] then Some no_profiles_html else map_html profile_card ps)"

definition loadProfiles :: "unit tab" where
  "loadProfiles = do {
     d \<leftarrow> fetch_data ''/api/v2/games'';
     case d of None \<Rightarrow> ret ()
     | Some data \<Rightarrow> do {
         let ps = listing data ''profiles'';
         modify (\<lambda>h. h\<lparr>cachedProfiles := ps\<rparr>);
         on_page (renderProfiles ps) } }"

section \<open>Candidates\<close>

fun round_num :: "jsnum \<Rightarrow> jsnum" where
  "round_num (Fin x) = Fin (of_int (js_round x))"
| "round_num n = n"

definition score_ge :: "jsnum \<Rightarrow> rat \<Rightarrow> bool" where
  "score_ge n k = (case n of Fin x \<Rightarrow> k \<le> x | PosInf \<Rightarrow> True | _ \<Rightarrow> False)"

definition score_class :: "jsnum \<Rightarrow> string" where
  "score_class score =
     (if score_ge score 80 then ''text-emerald-400''
      else if score_ge score 50 then ''text-amber-400'' else ''text-slate-400'')"

definition no_candidates_html :: string where
  "no_candidates_html =
     ''<tr><td colspan=\"6\" class=\"text-center py-8 text-slate-500 text-xs\">No candidates pending review. Learning agent is monitoring incoming traffic.</td></tr>''"

definition candidate_html :: "genv \<Rightarrow> jsnum \<Rightarrow> jsval \<Rightarrow> string" where
  "candidate_html ge score c =
     ''<tr class=\"hover:bg-slate-900/50 transition border-b border-slate-800/60\"><td class=\"py-3 px-3 font-mono text-xs text-white\"><span class=\"font-bold\">'' @
     hgi_escapeHTML (jget c ''hostname'') @
     ''</span><div class=\"text-[10px] text-slate-500\">'' @
     hgi_escapeHTML (js_or (jget c ''evidence'') (JStr ''Observed DNS activity'')) @
     ''</div></td><td class=\"py-3 px-3 text-xs text-slate-300 font-mono\"><span class=\"px-1.5 py-0.5 rounded bg-cyan-500/10 text-cyan-300 border border-cyan-500/20 text-[10px]\">'' @
     hgi_escapeHTML (js_or (jget c ''game_id'') (JStr ''Unknown'')) @
     ''</span></td><td class=\"py-3 px-3 text-xs font-mono text-purple-300\">'' @
     hgi_escapeHTML (js_or (jget c ''category'') (JStr ''Matchmaking'')) @
     ''</td><td class=\"py-3 px-3 text-xs font-mono font-bold '' @ score_class score @ ''\">'' @
     num_str score @ ''%</td><td class=\"py-3 px-3 text-xs font-mono text-slate-400\">'' @
     (if truthy (jget c ''last_seen'') then ge_time ge (jget c ''last_seen'') else ''Recently'') @
     '' ('' @ js_string (js_or (jget c ''observation_count'') (JNum (Fin 1))) @
     ''x)</td><td class=\"py-3 px-3 text-end\"><div class=\"inline-flex items-center gap-1.5\"><button class=\"btn-hgi-approve-candidate px-2 py-1 rounded bg-emerald-500/20 hover:bg-emerald-500/30 text-emerald-300 border border-emerald-500/40 text-[10px] font-bold font-mono transition\" data-host=\"'' @
     hgi_escapeHTML (jget c ''hostname'') @
     ''\" data-policy=\"proxy\" title=\"Approve with Proxy Policy\">Proxy</button><button class=\"btn-hgi-approve-candidate px-2 py-1 rounded bg-cyan-500/20 hover:bg-cyan-500/30 text-cyan-300 border border-cyan-500/40 text-[10px] font-bold font-mono transition\" data-host=\"'' @
     hgi_escapeHTML (jget c ''hostname'') @
     ''\" data-policy=\"direct\" title=\"Approve with Direct Policy\">Direct</button><button class=\"btn-hgi-reject-candidate p-1 rounded bg-slate-800 hover:bg-red-500/20 text-slate-400 hover:text-red-400 border border-slate-700 text-[10px] transition\" data-host=\"'' @
     hgi_escapeHTML (jget c ''hostname'') @
     ''\" title=\"Reject Candidate\"><i data-feather=\"x\" class=\"w-3.5 h-3.5\"></i></button></div></td></tr>''"

definition candidate_row :: "genv \<Rightarrow> jsval \<Rightarrow> string option" where
  "candidate_row ge c =
     (if nullish c then None
      else Some (candidate_html ge
        (round_num (js_number (js_or (jget c ''confidence_score'') (JNum (Fin 0))))) c))"

definition renderCandidates :: "genv \<Rightarrow> jsval list \<Rightarrow> unit page" where
  "renderCandidates ge cs =
     paint ''hgi-candidates-tbody'' (if cs = [] then Some no_candidates_html else map_html (candidate_row ge) cs)"

definition loadCandidates :: "genv \<Rightarrow> unit tab" where
  "loadCandidates ge = do {
     d \<leftarrow> fetch_data ''/api/v2/discovery/candidates'';
     case d of None \<Rightarrow> ret ()
     | Some data \<Rightarrow> do {
         let cs = listing data ''candidates'';
         modify (\<lambda>h. h\<lparr>cachedCandidates := cs\<rparr>);
         on_page (renderCandidates ge cs) } }"

section \<open>Routes\<close>

fun ms_text :: "jsval \<Rightarrow> string" where
  "ms_text (JNum n) = num_fixed 1 n @ '' ms''"
| "ms_text _ = u_dash"

fun loss_text :: "jsval \<Rightarrow> string" where
  "loss_text (JNum n) = num_fixed 1 n @ ''%''"
| "loss_text _ = ''0%''"

fun stab_text :: "jsval \<Rightarrow> string" where
  "stab_text (JNum n) = num_str (round_num n) @ ''%''"
| "stab_text _ = u_dash"

definition num_pos :: "jsval \<Rightarrow> bool" where
  "num_pos v = (case js_number v of Fin x \<Rightarrow> 0 < x | PosInf \<Rightarrow> True | _ \<Rightarrow> False)"

definition current_html :: string where
  "current_html =
     ''<span class=\"text-[9px] px-1 rounded bg-cyan-500/20 text-cyan-300 border border-cyan-500/30\">CURRENT</span>''"

definition healthy_html :: string where
  "healthy_html =
     ''<span class=\"px-2 py-0.5 rounded-full text-[10px] font-bold font-mono bg-emerald-500/20 text-emerald-400 border border-emerald-500/30\">Healthy</span>''"

definition degraded_html :: string where
  "degraded_html =
     ''<span class=\"px-2 py-0.5 rounded-full text-[10px] font-bold font-mono bg-amber-500/20 text-amber-400 border border-amber-500/30\">Degraded</span>''"

definition no_routes_html :: string where
  "no_routes_html =
     ''<tr><td colspan=\"7\" class=\"text-center py-8 text-slate-500 text-xs\">No route measurements available. Click \"Test Routes Now\" to run active probes.</td></tr>''"

definition route_html :: "jsval \<Rightarrow> string" where
  "route_html r =
     ''<tr class=\"hover:bg-slate-900/50 transition border-b border-slate-800/60\"><td class=\"py-3 px-3 font-mono text-xs text-white\"><div class=\"font-bold flex items-center gap-1.5\"><span>'' @
     hgi_escapeHTML (js_or (jget r ''name'') (jget r ''node_id'')) @ ''</span>'' @
     (if truthy (jget r ''is_active'') then current_html else '''') @
     ''</div><div class=\"text-[10px] text-slate-500\">'' @ hgi_escapeHTML (jget r ''node_id'') @
     '' '' @ hx ''C2B7'' @ '' '' @ hgi_escapeHTML (js_or (jget r ''endpoint'') (JStr u_dash)) @
     ''</div></td><td class=\"py-3 px-3 font-mono text-xs text-cyan-300 font-bold\">'' @
     ms_text (jget r ''latency_ms'') @ ''</td><td class=\"py-3 px-3 font-mono text-xs '' @
     (if num_pos (jget r ''packet_loss'') then ''text-amber-400'' else ''text-slate-300'') @
     ''\">'' @ loss_text (jget r ''packet_loss'') @
     ''</td><td class=\"py-3 px-3 font-mono text-xs text-slate-300\">'' @
     ms_text (jget r ''jitter_ms'') @
     ''</td><td class=\"py-3 px-3 font-mono text-xs text-emerald-400 font-bold\">'' @
     stab_text (jget r ''stability_score'') @ ''</td><td class=\"py-3 px-3\">'' @
     (if truthy (jget r ''healthy'') then healthy_html else degraded_html) @
     ''</td><td class=\"py-3 px-3 text-end\"><button class=\"btn-hgi-test-single-node px-2.5 py-1 rounded bg-slate-900 hover:bg-slate-800 text-slate-300 border border-slate-700 text-[10px] font-mono transition\" data-node-id=\"'' @
     hgi_escapeHTML (jget r ''node_id'') @ ''\">Probe</button></td></tr>''"

definition route_row :: "jsval \<Rightarrow> string option" where
  "route_row r = (if nullish r then None else Some (route_html r))"

definition renderRoutes :: "jsval list \<Rightarrow> unit page" where
  "renderRoutes rs =
     paint ''hgi-routes-tbody'' (if rs = [] then Some no_routes_html else map_html route_row rs)"

definition loadRoutes :: "unit tab" where
  "loadRoutes = do {
     d \<leftarrow> fetch_data ''/api/v2/routes'';
     case d of None \<Rightarrow> ret ()
     | Some data \<Rightarrow> do {
         let rs = listing data ''routes'';
         modify (\<lambda>h. h\<lparr>cachedRoutes := rs\<rparr>);
         on_page (renderRoutes rs) } }"

section \<open>Learning settings and the active game\<close>

definition loadLearningSettings :: "unit tab" where
  "loadLearningSettings = do {
     d \<leftarrow> fetch_data ''/api/v2/learning/settings'';
     case d of None \<Rightarrow> ret ()
     | Some data \<Rightarrow> do {
         modify (\<lambda>h. h\<lparr>cachedLearningSettings := js_or (jget data ''settings'') (cachedLearningSettings h)\<rparr>);
         h \<leftarrow> State_Monad.get;
         on_page (set_value ''hgi-learning-mode-select''
           (js_string (js_or (jget (cachedLearningSettings h) ''mode'') (JStr ''observe'')))) } }"

definition loadActiveGame :: "unit tab" where
  "loadActiveGame = do {
     d \<leftarrow> fetch_data ''/api/v2/game-detect'';
     case d of None \<Rightarrow> ret ()
     | Some data \<Rightarrow>
         modify (\<lambda>h. h\<lparr>currentActiveGame := js_or (jget data ''game'')
           (if object_like (jget data ''detected'') then jget data ''detected'' else JNull)\<rparr>) }"

section \<open>Timeline and audit log\<close>

definition event_badge :: "jsval \<Rightarrow> string" where
  "event_badge pol =
     (if pol = JStr ''PROXY'' then
     ''<span class=\"text-[9px] px-1.5 py-0.5 rounded bg-cyan-500/20 text-cyan-300 border border-cyan-500/30 font-mono\">PROXY</span>''
      else if pol = JStr ''BLOCK'' then
     ''<span class=\"text-[9px] px-1.5 py-0.5 rounded bg-red-500/20 text-red-300 border border-red-500/30 font-mono\">BLOCK</span>''
      else
     ''<span class=\"text-[9px] px-1.5 py-0.5 rounded bg-emerald-500/20 text-emerald-300 border border-emerald-500/30 font-mono\">DIRECT</span>'')"

definition no_events_html :: string where
  "no_events_html =
     ''<div class=\"text-center py-6 text-slate-500 text-xs\">No gaming traffic events recorded in current window.</div>''"

definition event_html :: "genv \<Rightarrow> jsval \<Rightarrow> string" where
  "event_html ge ev =
     ''<div class=\"flex items-center justify-between p-2.5 rounded-lg bg-slate-950/60 border border-slate-800/80 text-xs font-mono\"><div class=\"flex items-center gap-2 min-w-0\"><span class=\"text-slate-500 text-[10px]\">'' @
     (if truthy (jget ev ''timestamp'') then ge_time ge (jget ev ''timestamp'') else u_dash) @
     ''</span><span class=\"text-slate-300 font-bold truncate\">'' @
     hgi_escapeHTML (jget ev ''domain'') @
     ''</span><span class=\"text-[10px] text-purple-400\">('' @
     hgi_escapeHTML (js_or (jget ev ''game_id'') (JStr ''Game'')) @
     '')</span></div><div class=\"flex items-center gap-2 shrink-0\">'' @
     event_badge (jget ev ''policy'') @ ''<span class=\"text-[10px] text-slate-400\">'' @
     hgi_escapeHTML (js_or (jget ev ''route_node'') (JStr ''Default'')) @ ''</span></div></div>''"

definition renderTimeline :: "genv \<Rightarrow> jsval list \<Rightarrow> unit page" where
  "renderTimeline ge evs =
     paint ''hgi-timeline-list''
       (if evs = [] then Some no_events_html
        else map_html (\<lambda>ev. if nullish ev then None else Some (event_html ge ev)) evs)"

definition loadTimeline :: "genv \<Rightarrow> unit tab" where
  "loadTimeline ge = do {
     d \<leftarrow> fetch_data ''/api/v2/timeline?limit=15'';
     case d of None \<Rightarrow> ret () | Some data \<Rightarrow> on_page (renderTimeline ge (listing data ''events'')) }"

definition no_audits_html :: string where
  "no_audits_html =
     ''<div class=\"text-center py-6 text-slate-500 text-xs\">No audit entries yet. Changes will be securely recorded here.</div>''"

definition audit_html :: "genv \<Rightarrow> jsval \<Rightarrow> string" where
  "audit_html ge a =
     ''<div class=\"p-2.5 rounded-lg bg-slate-950/60 border border-slate-800/80 text-xs font-mono space-y-1\"><div class=\"flex items-center justify-between text-[10px] text-slate-400\"><span class=\"text-cyan-400 font-bold\">'' @
     hgi_escapeHTML (js_or (jget a ''action'') (JStr ''MODIFY'')) @ ''</span><span>'' @
     (if truthy (jget a ''timestamp'') then ge_date ge (jget a ''timestamp'') else u_dash) @
     ''</span></div><div class=\"text-slate-300 text-[11px]\">'' @
     hgi_escapeHTML (js_or (jget a ''details'') (jget a ''target'')) @
     ''</div><div class=\"text-[9px] text-slate-500\">Actor: '' @
     hgi_escapeHTML (js_or (jget a ''actor'') (JStr ''system'')) @ ''</div></div>''"

definition renderAuditLogs :: "genv \<Rightarrow> jsval list \<Rightarrow> unit page" where
  "renderAuditLogs ge as =
     paint ''hgi-audit-list''
       (if as = [] then Some no_audits_html
        else map_html (\<lambda>a. if nullish a then None else Some (audit_html ge a)) as)"

definition loadAuditLogs :: "genv \<Rightarrow> unit tab" where
  "loadAuditLogs ge = do {
     d \<leftarrow> fetch_data ''/api/v2/audit?limit=15'';
     case d of None \<Rightarrow> ret () | Some data \<Rightarrow> on_page (renderAuditLogs ge (listing data ''audits'')) }"

section \<open>The tiles\<close>

definition count_or :: "string \<Rightarrow> nat \<Rightarrow> string" where
  "count_or none n = (if n = 0 then none else nat_str n)"

definition mode_class :: "string \<Rightarrow> string" where
  "mode_class mode =
     (if mode = ''AUTO-APPLY'' then ''px-2 py-0.5 rounded text-[10px] font-bold bg-amber-500/20 text-amber-300 border border-amber-500/30 font-mono''
      else if mode = ''RECOMMEND'' then ''px-2 py-0.5 rounded text-[10px] font-bold bg-purple-500/20 text-purple-300 border border-purple-500/30 font-mono''
      else ''px-2 py-0.5 rounded text-[10px] font-bold bg-cyan-500/20 text-cyan-300 border border-cyan-500/30 font-mono'')"

definition learning_mode :: "jsval \<Rightarrow> string option" where
  "learning_mode settings =
     (case js_or (jget settings ''mode'') (JStr ''observe'') of JStr s \<Rightarrow> Some (js_upper s) | _ \<Rightarrow> None)"

definition mode_tile :: "jsval \<Rightarrow> bool page" where
  "mode_tile settings = do {
     w \<leftarrow> State_Monad.get;
     if \<not> has_el w ''hgi-stat-learning-mode'' then ret True
     else case learning_mode settings of None \<Rightarrow> ret False
     | Some mode \<Rightarrow> do {
         set_text ''hgi-stat-learning-mode'' mode;
         set_class ''hgi-stat-learning-mode'' (mode_class mode);
         ret True } }"

definition game_tile :: "jsval \<Rightarrow> unit page" where
  "game_tile game = do {
     w \<leftarrow> State_Monad.get;
     only_if (has_el w ''hgi-stat-active-game'')
       (if truthy (jget game ''game_name'') then do {
          set_text ''hgi-stat-active-game'' (js_string (jget game ''game_name'') @ '' ('' @
            num_str (round_num (js_number (js_or (jget game ''confidence'') (JNum (Fin 95))))) @ ''%)'');
          set_class ''hgi-stat-active-game'' ''text-sm font-bold text-emerald-400 font-heading truncate'';
          set_class ''hgi-game-detect-dot'' ''w-2 h-2 rounded-full bg-emerald-400 animate-pulse'' }
        else do {
          set_text ''hgi-stat-active-game'' ''No active game detected'';
          set_class ''hgi-stat-active-game'' ''text-xs text-slate-400 font-heading truncate'';
          set_class ''hgi-game-detect-dot'' ''w-2 h-2 rounded-full bg-slate-600'' }) }"

text \<open>
  The latency of a node, a number in every measurement the daemon sends. Without one the sort
  has no order to go by and toFixed throws: that is the \<open>None\<close> of \<open>best_route\<close>.
\<close>

fun latency :: "jsval \<Rightarrow> rat option" where
  "latency r = (case jget r ''latency_ms'' of JNum (Fin x) \<Rightarrow> Some x | _ \<Rightarrow> None)"

definition healthy_routes :: "jsval list \<Rightarrow> jsval list" where
  "healthy_routes rs = filter (\<lambda>r. truthy (jget r ''healthy'')) rs"

definition by_latency :: "jsval list \<Rightarrow> jsval list" where
  "by_latency rs = sort_key (\<lambda>r. the (latency r)) rs"

definition best_route :: "jsval list \<Rightarrow> jsval option" where
  "best_route rs =
     (if \<exists>r\<in>set rs. latency r = None then None else Some (hd (by_latency rs)))"

definition best_tile :: "jsval list \<Rightarrow> bool page" where
  "best_tile rs = do {
     w \<leftarrow> State_Monad.get;
     if \<not> has_el w ''hgi-stat-best-node'' then ret True
     else if \<exists>r\<in>set rs. nullish r then ret False
     else if healthy_routes rs \<noteq> [] then
       (case best_route (healthy_routes rs) of None \<Rightarrow> ret False
        | Some best \<Rightarrow> do {
            set_text ''hgi-stat-best-node''
              (js_string (jget best ''name'') @ '' ('' @ to_fixed 0 (the (latency best)) @ '' ms)'');
            set_class ''hgi-stat-best-node'' ''text-sm font-bold text-emerald-400 font-mono'';
            ret True })
     else if rs \<noteq> [] then do {
       set_text ''hgi-stat-best-node'' ''Measuring routes...'';
       set_class ''hgi-stat-best-node'' ''text-xs text-amber-400 font-mono'';
       ret True }
     else do {
       set_text ''hgi-stat-best-node'' ''No route nodes'';
       set_class ''hgi-stat-best-node'' ''text-xs text-slate-500 font-mono'';
       ret True } }"

text \<open>False: it threw on the way.\<close>

definition updateKPIs :: "bool tab" where
  "updateKPIs = do {
     h \<leftarrow> State_Monad.get;
     on_page (set_text ''hgi-stat-profiles'' (count_or ''3'' (length (cachedProfiles h))));
     on_page (set_text ''hgi-stat-candidates'' (count_or ''0'' (length (cachedCandidates h))));
     done \<leftarrow> on_page (mode_tile (cachedLearningSettings h));
     if \<not> done then ret False
     else do {
       on_page (game_tile (currentActiveGame h));
       on_page (best_tile (cachedRoutes h)) } }"

text \<open>
  All the lists at once. The seven requests go out in this order and each answer is handled on
  its own variable and elements, so the order of the answers does not show.
\<close>

definition loadGamingData :: "genv \<Rightarrow> unit tab" where
  "loadGamingData ge = do {
     loadProfiles;
     loadCandidates ge;
     loadRoutes;
     loadLearningSettings;
     loadActiveGame;
     loadTimeline ge;
     loadAuditLogs ge;
     done \<leftarrow> updateKPIs;
     ret () }"

lemma on_page_run [simp]:
  "exec (on_page m) h = h\<lparr>h_page := exec m (h_page h)\<rparr>"
  "result (on_page m) h = result m (h_page h)"
  by (simp_all add: on_page_def exec_def result_def)

end
