(* ===== verification/Game_Domains.thy ===== *)
theory Game_Domains
  imports Game_Panel Query_Stream
begin

text \<open>
  The editor of a game's domain policies (modules/gaming.js): opening a profile, the table with
  its search and filters, saving and deleting a row, the policy of a whole category and adding
  a domain.

  A handler that awaits is two definitions, what it does up to the request and what it does with
  the answer, so that what happens to the editor in between can be spoken about. \<open>False\<close> as the
  value of a computation of the tab means that it threw. The domains of a profile are an array
  or an object, as the script takes them; none of them is null, or the script throws before it
  has changed them. Whether confirm() is answered yes is an argument.
\<close>

section \<open>The table\<close>

definition edit_domains :: "jsval \<Rightarrow> jsval list" where
  "edit_domains p =
     (case jget p ''domains'' of JArr ds \<Rightarrow> ds | JObj es \<Rightarrow> map snd es | _ \<Rightarrow> [])"

text \<open>The filter of one row: the search text, the category and the policy asked for.\<close>

definition category_passes :: "string \<Rightarrow> string \<Rightarrow> bool" where
  "category_passes flt cat \<longleftrightarrow>
     \<not> (flt = ''auth'' \<and> \<not> js_includes cat ''auth'') \<and>
     \<not> (flt = ''matchmaking'' \<and> \<not> js_includes cat ''match'') \<and>
     \<not> (flt = ''game_services'' \<and> \<not> js_includes cat ''service'') \<and>
     \<not> (flt = ''cdn'' \<and> \<not> js_includes cat ''cdn'') \<and>
     \<not> (flt = ''telemetry'' \<and> \<not> js_includes cat ''telemetry'')"

definition policy_passes :: "string \<Rightarrow> jsval \<Rightarrow> bool option" where
  "policy_passes flt d =
     (if flt = '''' then Some True
      else map_option (\<lambda>pol. pol = js_lower flt) (lower_field ''policy'' d))"

definition domain_passes :: "string \<Rightarrow> string \<Rightarrow> string \<Rightarrow> jsval \<Rightarrow> bool option" where
  "domain_passes search fcat fpol d =
     (case lower_field ''hostname'' d of None \<Rightarrow> None
      | Some host \<Rightarrow>
          if search \<noteq> '''' \<and> \<not> js_includes host search then Some False
          else if fcat = '''' then policy_passes fpol d
          else case lower_field ''category'' d of None \<Rightarrow> None
            | Some cat \<Rightarrow> if category_passes fcat cat then policy_passes fpol d else Some False)"

fun filter_opt :: "('a \<Rightarrow> bool option) \<Rightarrow> 'a list \<Rightarrow> 'a list option" where
  "filter_opt f [] = Some []"
| "filter_opt f (x # xs) =
     (case f x of None \<Rightarrow> None | Some b \<Rightarrow> map_option (\<lambda>ys. if b then x # ys else ys) (filter_opt f xs))"

text \<open>Which options of a row's two selects are marked selected.\<close>

definition cat_on :: "string \<Rightarrow> string \<Rightarrow> bool" where
  "cat_on v cat =
     (let isAuth = js_includes cat ''auth''; isMatch = js_includes cat ''match'' in
      if v = ''auth'' then isAuth
      else if v = ''matchmaking'' then isMatch
      else if v = ''game_services'' then
        js_includes cat ''service'' \<or>
        \<not> isAuth \<and> \<not> isMatch \<and> \<not> js_includes cat ''cdn'' \<and> \<not> js_includes cat ''telemetry''
      else if v = ''cdn'' then js_includes cat ''cdn'' \<or> js_includes cat ''download''
      else v = ''telemetry'' \<and> js_includes cat ''telemetry'')"

definition sel :: "bool \<Rightarrow> string" where
  "sel b = (if b then ''selected'' else '''')"

definition pol_class :: "string \<Rightarrow> string" where
  "pol_class pol =
     (if pol = ''proxy'' then ''border-cyan-500/50 text-cyan-400''
      else if pol = ''direct'' then ''border-emerald-500/50 text-emerald-400''
      else ''border-red-500/50 text-red-400'')"

definition no_domains_html :: string where
  "no_domains_html =
     ''<tr><td colspan=\"5\" class=\"py-6 text-center text-slate-500 text-xs\">'' @
     hx ''D987DB8CDA8620D8AFD8A7D985D986D987E2808CD8A7DB8C20D8A8D8A720D8A7DB8CD98620D981DB8CD984D8AAD8B120DB8CD8A7D981D8AA20D986D8B4D8AF'' @
     ''.</td></tr>''"

definition domain_row_html :: "string \<Rightarrow> string \<Rightarrow> string \<Rightarrow> bool \<Rightarrow> string" where
  "domain_row_html host cat pol on =
     ''<tr class=\"hover:bg-slate-900/50 transition\"><td class=\"py-2.5 px-3 font-mono text-cyan-300 font-bold\">'' @
     host @
     ''</td><td class=\"py-2.5 px-3\"><select class=\"sel-domain-cat bg-slate-900 border border-slate-700 text-slate-200 rounded px-2 py-1 text-xs font-mono\" data-host=\"'' @
     host @ ''\"><option value=\"auth\" '' @ sel (cat_on ''auth'' cat) @
     ''>Authentication</option><option value=\"matchmaking\" '' @
     sel (cat_on ''matchmaking'' cat) @
     ''>Matchmaking</option><option value=\"game_services\" '' @
     sel (cat_on ''game_services'' cat) @ ''>Game Services</option><option value=\"cdn\" '' @
     sel (cat_on ''cdn'' cat) @ ''>CDN / Downloads</option><option value=\"telemetry\" '' @
     sel (cat_on ''telemetry'' cat) @
     ''>Telemetry</option></select></td><td class=\"py-2.5 px-3\"><select class=\"sel-domain-pol bg-slate-900 border '' @
     pol_class pol @ '' rounded px-2 py-1 text-xs font-mono font-bold\" data-host=\"'' @ host @
     ''\"><option value=\"proxy\" '' @ sel (pol = ''proxy'') @ ''>Proxy ('' @
     hx ''D987D8AFD8A7DB8CD8AA20D8A8D98720D8B3D8B1D988D8B1'' @
     '')</option><option value=\"direct\" '' @ sel (pol = ''direct'') @ ''>Direct ('' @
     hx ''D985D8B3D8AAD982DB8CD98520D8A7DB8CD986D8AAD8B1D986D8AA'' @
     '')</option><option value=\"block\" '' @ sel (pol = ''block'') @ ''>Block ('' @
     hx ''D985D8B3D8AFD988D8AFD8B3D8A7D8B2DB8C'' @
     '')</option></select></td><td class=\"py-2.5 px-3 text-center\"><span class=\"inline-block px-2 py-0.5 rounded text-[10px] font-bold '' @
     (if on then ''bg-emerald-500/20 text-emerald-400 border border-emerald-500/30'' else ''bg-slate-800 text-slate-500 border border-slate-700'') @
     ''\">'' @ (if on then ''Active'' else ''Disabled'') @
     ''</span></td><td class=\"py-2.5 px-3 text-end whitespace-nowrap\"><button class=\"btn-hgi-save-domain-row px-2.5 py-1 rounded bg-cyan-500/20 hover:bg-cyan-500/30 text-cyan-300 border border-cyan-500/30 text-xs font-semibold transition\" data-host=\"'' @
     host @ ''\">'' @ hx ''D8B0D8AEDB8CD8B1D987'' @
     ''</button><button class=\"btn-hgi-delete-domain-row p-1 rounded hover:bg-red-500/20 text-slate-400 hover:text-red-400 border border-slate-800 transition ms-1\" data-host=\"'' @
     host @
     ''\" title=\"Delete Domain\"><i data-feather=\"trash-2\" class=\"w-3.5 h-3.5\"></i></button></td></tr>''"

text \<open>\<open>(d.policy || 'proxy').toLowerCase()\<close>.\<close>

definition row_policy :: "jsval \<Rightarrow> string option" where
  "row_policy d =
     (case js_or (jget d ''policy'') (JStr ''proxy'') of JStr s \<Rightarrow> Some (js_lower s) | _ \<Rightarrow> None)"

definition domain_row :: "jsval \<Rightarrow> string option" where
  "domain_row d =
     (if nullish d then None
      else case row_policy d of None \<Rightarrow> None
      | Some pol \<Rightarrow>
          map_option (\<lambda>cat. domain_row_html (hgi_escapeHTML (jget d ''hostname'')) cat pol
            (jget d ''enabled'' \<noteq> JBool False)) (lower_field ''category'' d))"

definition domains_html :: "jsval list \<Rightarrow> string option" where
  "domains_html ds = (if ds = [] then Some no_domains_html else map_html domain_row ds)"

definition count_html :: "nat \<Rightarrow> string" where
  "count_html n =
     nat_str n @ '' '' @ hx ''D8AFD8A7D985D986D987E2808C20D8ABD8A8D8AAE2808CD8B4D8AFD987''"

definition editor_rows :: "dash \<Rightarrow> jsval \<Rightarrow> jsval list option" where
  "editor_rows w p =
     filter_opt (domain_passes (js_trim (js_lower (value_of w ''hgi-domain-search'')))
       (value_of w ''hgi-filter-category'') (value_of w ''hgi-filter-policy'')) (edit_domains p)"

definition renderDomainRows :: "bool tab" where
  "renderDomainRows = do {
     h \<leftarrow> State_Monad.get;
     let w = h_page h;
     let p = currentEditProfile h;
     if \<not> has_el w ''hgi-domains-tbody'' \<or> \<not> truthy p then ret True
     else do {
       on_page (set_text ''hgi-edit-game-count'' (count_html (length (edit_domains p))));
       case editor_rows w p of None \<Rightarrow> ret False
       | Some ds \<Rightarrow>
           (case domains_html ds of None \<Rightarrow> ret False
            | Some t \<Rightarrow> do { on_page (set_text ''hgi-domains-tbody'' t); ret True }) } }"

section \<open>Opening a profile\<close>

definition category_keys :: "(string \<times> string list) list" where
  "category_keys =
     [(''auth'', [''auth'', ''authentication'']),
      (''matchmaking'', [''matchmaking'', ''match'']),
      (''game_services'', [''game_services'', ''game services'', ''services'', ''service'']),
      (''cdn'', [''cdn'', ''cdn / downloads'', ''cdn_downloads'', ''downloads'']),
      (''telemetry'', [''telemetry''])]"

text \<open>\<open>None\<close>: a policy that is neither a string nor falsy has no toLowerCase.\<close>

definition category_policy :: "jsval \<Rightarrow> string \<times> string list \<Rightarrow> string option" where
  "category_policy pols item =
     (let fallback = (if fst item = ''cdn'' \<or> fst item = ''telemetry'' then ''direct'' else ''proxy'') in
      case find (\<lambda>(k, v). \<exists>m\<in>set (snd item). js_includes (js_lower k) m) (obj_entries pols) of
        None \<Rightarrow> Some fallback
      | Some (k, v) \<Rightarrow>
          (case js_or v (JStr '''') of
             JStr s \<Rightarrow> Some (if s = '''' then fallback else js_lower s) | _ \<Rightarrow> None))"

fun fill_categories :: "jsval \<Rightarrow> (string \<times> string list) list \<Rightarrow> bool page" where
  "fill_categories pols [] = ret True"
| "fill_categories pols (item # items) = do {
     w \<leftarrow> State_Monad.get;
     if \<not> has_el w (''hgi-cat-policy-'' @ fst item) then fill_categories pols items
     else case category_policy pols item of None \<Rightarrow> ret False
       | Some v \<Rightarrow> do {
           set_value (''hgi-cat-policy-'' @ fst item) v;
           fill_categories pols items } }"

definition game_path :: "string \<Rightarrow> string" where
  "game_path gid = ''/api/v2/games/'' @ encodeURIComponent gid"

definition profile_id :: "jsval \<Rightarrow> string" where
  "profile_id p = js_string (jget p ''id'')"

definition show_profile :: "string \<Rightarrow> unit tab" where
  "show_profile gid = do {
     h \<leftarrow> State_Monad.get;
     let p = currentEditProfile h;
     if nullish p then ret ()
     else do {
       on_page (set_text ''hgi-edit-game-name'' (js_string (js_or (jget p ''name'') (JStr gid))));
       on_page (set_text ''hgi-edit-game-publisher''
         (js_string (js_or (jget p ''publisher'') (JStr ''Unknown Publisher''))));
       filled \<leftarrow> on_page (fill_categories (jget p ''dns_policies'') category_keys);
       if \<not> filled then ret ()
       else do {
         done \<leftarrow> renderDomainRows;
         if done then on_page (set_hidden ''hgi-domain-policy-modal'' False) else ret () } } }"

definition openDomainPolicyEditor :: "string \<Rightarrow> unit tab" where
  "openDomainPolicyEditor gid = do {
     h \<leftarrow> State_Monad.get;
     if \<not> has_el (h_page h) ''hgi-domain-policy-modal'' then ret ()
     else do {
       oc \<leftarrow> fetchHGI ''GET'' (game_path gid) JUndef;
       case oc of NetErr \<Rightarrow> tab_toast ''Error loading game profile'' ''error''
       | Resp r \<Rightarrow>
           if \<not> rs_ok r then tab_toast ''Failed to load game profile'' ''error''
           else case rs_json r of
             None \<Rightarrow> tab_toast ''Error loading game profile'' ''error''
           | Some data \<Rightarrow> do {
               modify (\<lambda>h. h\<lparr>currentEditProfile := data\<rparr>);
               show_profile gid } } }"

definition closeDomainModal :: "unit tab" where
  "closeDomainModal = do {
     on_page (set_hidden ''hgi-domain-policy-modal'' True);
     modify (\<lambda>h. h\<lparr>currentEditProfile := JNull\<rparr>) }"

section \<open>Changing the domains\<close>

text \<open>After an accepted change: the table, the cards and the tiles, any throw the given toast.\<close>

definition refresh_editor :: "string \<Rightarrow> unit tab" where
  "refresh_editor failure = do {
     done \<leftarrow> renderDomainRows;
     if \<not> done then tab_toast failure ''error''
     else do {
       loadProfiles;
       shown \<leftarrow> updateKPIs;
       if shown then ret () else tab_toast failure ''error'' } }"

text \<open>The open profile changed, with the throw of a closed editor or of the change itself.\<close>

definition apply_change :: "(jsval \<Rightarrow> jsval option) \<Rightarrow> string \<Rightarrow> unit tab" where
  "apply_change f failure = do {
     h \<leftarrow> State_Monad.get;
     let p = currentEditProfile h;
     case (if nullish p then None else f p) of None \<Rightarrow> tab_toast failure ''error''
     | Some p' \<Rightarrow> do {
         modify (\<lambda>h. h\<lparr>currentEditProfile := p'\<rparr>);
         refresh_editor failure } }"

text \<open>
  The first domain of the list with the host, changed in place; \<open>None\<close>: a look at a domain
  before it threw.
\<close>

fun upd_host :: "string \<Rightarrow> (jsval \<Rightarrow> jsval) \<Rightarrow> jsval list \<Rightarrow> jsval list option" where
  "upd_host host f [] = Some []"
| "upd_host host f (d # ds) =
     (case lower_field ''hostname'' d of None \<Rightarrow> None
      | Some h \<Rightarrow> if h = js_lower host then Some (f d # ds) else map_option ((#) d) (upd_host host f ds))"

definition with_domains :: "(jsval list \<Rightarrow> jsval list option) \<Rightarrow> jsval \<Rightarrow> jsval option" where
  "with_domains f p =
     (case jget p ''domains'' of
        JArr ds \<Rightarrow> map_option (\<lambda>ds'. jset p ''domains'' (JArr ds')) (f ds)
      | JObj es \<Rightarrow> map_option (\<lambda>ds'. jset p ''domains'' (JObj (zip (map fst es) ds'))) (f (map snd es))
      | _ \<Rightarrow> Some p)"

definition domain_path :: "jsval \<Rightarrow> string \<Rightarrow> string" where
  "domain_path p host = game_path (profile_id p) @ ''/domains/'' @ encodeURIComponent host"

definition domain_body :: "string \<Rightarrow> string \<Rightarrow> jsval" where
  "domain_body cat pol = JObj [(''policy'', JStr pol), (''category'', JStr cat), (''enabled'', JBool True)]"

definition set_row :: "string \<Rightarrow> string \<Rightarrow> jsval \<Rightarrow> jsval" where
  "set_row cat pol d = jset (jset d ''category'' (JStr cat)) ''policy'' (JStr pol)"

text \<open>The selects of the row, \<open>None\<close> where the row has none.\<close>

definition row_choice :: "string option \<Rightarrow> string option \<Rightarrow> string \<times> string" where
  "row_choice catSel polSel =
     (case catSel of None \<Rightarrow> ''game_services'' | Some c \<Rightarrow> c, case polSel of None \<Rightarrow> ''proxy'' | Some c \<Rightarrow> c)"

definition row_saved :: "string \<Rightarrow> string \<Rightarrow> string \<Rightarrow> outcome \<Rightarrow> unit tab" where
  "row_saved host cat pol oc =
     (case oc of NetErr \<Rightarrow> tab_toast ''Error saving domain policy'' ''error''
      | Resp r \<Rightarrow>
          if \<not> rs_ok r then tab_toast ''Failed to update domain policy'' ''error''
          else do {
            tab_toast (''Policy for \"'' @ host @ ''\" updated to '' @ js_upper pol @ ''!'') ''success'';
            apply_change (with_domains (upd_host host (set_row cat pol))) ''Error saving domain policy'' })"

definition save_row :: "string \<Rightarrow> string option \<Rightarrow> string option \<Rightarrow> unit tab" where
  "save_row host catSel polSel = do {
     h \<leftarrow> State_Monad.get;
     if host = '''' \<or> \<not> truthy (currentEditProfile h) then ret ()
     else case row_choice catSel polSel of (cat, pol) \<Rightarrow> do {
       oc \<leftarrow> fetchHGI ''PUT'' (domain_path (currentEditProfile h) host) (domain_body cat pol);
       row_saved host cat pol oc } }"

definition drop_host :: "string \<Rightarrow> jsval \<Rightarrow> jsval option" where
  "drop_host host p =
     (case jget p ''domains'' of
        JArr ds \<Rightarrow>
          map_option (\<lambda>ds'. jset p ''domains'' (JArr ds'))
            (filter_opt (\<lambda>d. map_option (\<lambda>h. h \<noteq> js_lower host) (lower_field ''hostname'' d)) ds)
      | JObj es \<Rightarrow> Some (jset p ''domains'' (jdel (JObj es) host))
      | _ \<Rightarrow> Some p)"

definition row_deleted :: "string \<Rightarrow> outcome \<Rightarrow> unit tab" where
  "row_deleted host oc =
     (case oc of NetErr \<Rightarrow> tab_toast ''Error removing domain'' ''error''
      | Resp r \<Rightarrow>
          if \<not> rs_ok r then tab_toast ''Failed to remove domain'' ''error''
          else do {
            tab_toast (''Domain \"'' @ host @ ''\" removed'') ''success'';
            apply_change (drop_host host) ''Error removing domain'' })"

definition delete_row :: "string \<Rightarrow> (string \<Rightarrow> bool) \<Rightarrow> unit tab" where
  "delete_row host confirm = do {
     h \<leftarrow> State_Monad.get;
     let p = currentEditProfile h;
     if host = '''' \<or> \<not> truthy p then ret ()
     else if \<not> confirm (''Delete domain \"'' @ host @ ''\" from '' @ js_string (jget p ''name'') @ ''?'') then ret ()
     else do {
       oc \<leftarrow> fetchHGI ''DELETE'' (domain_path p host) JUndef;
       row_deleted host oc } }"

text \<open>The policy of a whole category; the daemon propagates it to the domains of the category.\<close>

definition set_category :: "string \<Rightarrow> string \<Rightarrow> jsval list \<Rightarrow> jsval list option" where
  "set_category cat pol ds =
     (if \<exists>d\<in>set ds. nullish d then None
      else Some (map (\<lambda>d. if jget d ''category'' = JStr cat then jset d ''policy'' (JStr pol) else d) ds))"

definition set_dns_policy :: "string \<Rightarrow> string \<Rightarrow> jsval \<Rightarrow> jsval" where
  "set_dns_policy cat pol p =
     jset p ''dns_policies''
       (jset (js_or (jget p ''dns_policies'') (JObj [])) cat (JStr pol))"

definition category_saved :: "string \<Rightarrow> string \<Rightarrow> outcome \<Rightarrow> unit tab" where
  "category_saved cat pol oc =
     (case oc of NetErr \<Rightarrow> tab_toast ''Error updating category policy'' ''error''
      | Resp r \<Rightarrow>
          if \<not> rs_ok r then tab_toast ''Failed to update category policy'' ''error''
          else do {
            tab_toast (''Updated category \"'' @ cat @ ''\" policy to '' @ js_upper pol) ''success'';
            apply_change (\<lambda>p. map_option (set_dns_policy cat pol) (with_domains (set_category cat pol) p))
              ''Error updating category policy'' })"

definition category_body :: "string \<Rightarrow> jsval" where
  "category_body pol = JObj [(''policy'', JStr pol)]"

definition category_change :: "string \<Rightarrow> string \<Rightarrow> unit tab" where
  "category_change cat pol = do {
     h \<leftarrow> State_Monad.get;
     let p = currentEditProfile h;
     if \<not> truthy p then ret ()
     else do {
       oc \<leftarrow> fetchHGI ''PUT''
         (game_path (profile_id p) @ ''/categories/'' @ encodeURIComponent cat @ ''?propagate=true'')
         (category_body pol);
       category_saved cat pol oc } }"

section \<open>Adding a domain\<close>

definition sel_or :: "dash \<Rightarrow> string \<Rightarrow> string \<Rightarrow> string" where
  "sel_or w i d = (if has_el w i then value_of w i else d)"

definition reload_profile :: "bool tab" where
  "reload_profile = do {
     h \<leftarrow> State_Monad.get;
     if nullish (currentEditProfile h) then ret False
     else do {
       oc \<leftarrow> fetchHGI ''GET'' (game_path (profile_id (currentEditProfile h))) JUndef;
       case oc of NetErr \<Rightarrow> ret False
       | Resp r \<Rightarrow>
           if \<not> rs_ok r then ret True
           else case rs_json r of None \<Rightarrow> ret False
             | Some data \<Rightarrow> do { modify (\<lambda>h. h\<lparr>currentEditProfile := data\<rparr>); ret True } } }"

definition domain_added :: "string \<Rightarrow> outcome \<Rightarrow> unit tab" where
  "domain_added host oc = do {
     h \<leftarrow> State_Monad.get;
     let p = currentEditProfile h;
     case oc of NetErr \<Rightarrow> tab_toast ''Error adding domain'' ''error''
     | Resp r \<Rightarrow>
         if \<not> rs_ok r then tab_toast ''Failed to add domain'' ''error''
         else if nullish p then tab_toast ''Error adding domain'' ''error''
         else do {
           tab_toast (''Added \"'' @ host @ ''\" to '' @ js_string (jget p ''name'')) ''success'';
           on_page (set_value ''hgi-new-domain-host'' '''');
           done \<leftarrow> reload_profile;
           if done then refresh_editor ''Error adding domain''
           else tab_toast ''Error adding domain'' ''error'' } }"

definition add_domain :: "unit tab" where
  "add_domain = do {
     h \<leftarrow> State_Monad.get;
     let w = h_page h;
     let p = currentEditProfile h;
     let host = js_lower (js_trim (value_of w ''hgi-new-domain-host''));
     let cat = sel_or w ''hgi-new-domain-category'' ''matchmaking'';
     let pol = sel_or w ''hgi-new-domain-policy'' ''proxy'';
     if \<not> truthy p then ret ()
     else if host = '''' then tab_toast ''Please enter a hostname'' ''error''
     else do {
       on_page (set_disabled ''btn-hgi-add-domain-submit'' True);
       oc \<leftarrow> fetchHGI ''PUT'' (domain_path p host) (domain_body cat pol);
       domain_added host oc;
       on_page (set_disabled ''btn-hgi-add-domain-submit'' False) } }"

end
