(* ===== verification/Game_Actions.thy ===== *)
theory Game_Actions
  imports Game_Domains
begin

text \<open>
  The buttons and forms of the game intelligence tab (modules/gaming.js): route tests, the
  discovery scan and its candidates, learning mode, cache purge, profiles, the rule simulator,
  the assistant's chat and the start of the tab.

  The answers of confirm() and the clock are arguments. The submit button of the add form, which
  has no id, goes by \<open>add_submit\<close>.
\<close>

section \<open>Requests with a toast for every end\<close>

text \<open>
  The shape of the handlers: a request in a try block, a toast for a refusal and one for a
  failure or a throw on the way. \<open>okay\<close> is what follows an accepted answer, False if it threw.
\<close>

definition hgi_act ::
    "string \<Rightarrow> string \<Rightarrow> jsval \<Rightarrow> string \<Rightarrow> string \<Rightarrow> (response \<Rightarrow> bool tab) \<Rightarrow> unit tab" where
  "hgi_act m p b refused lost okay = do {
     oc \<leftarrow> fetchHGI m p b;
     case oc of NetErr \<Rightarrow> tab_toast lost ''error''
     | Resp r \<Rightarrow>
         if \<not> rs_ok r then tab_toast refused ''error''
         else do {
           done \<leftarrow> okay r;
           if done then ret () else tab_toast lost ''error'' } }"

section \<open>Routes and discovery\<close>

definition test_routes :: "unit tab" where
  "test_routes = do {
     on_page (set_disabled ''btn-hgi-test-routes'' True);
     tab_toast (''Initiating precision route tests across nodes'' @ u_ellipsis) ''info'';
     hgi_act ''POST'' ''/api/v2/routes/measure'' JUndef ''Failed to measure routes'' ''Error communicating with server''
       (\<lambda>r. do {
         tab_toast ''Route measurements updated successfully!'' ''success'';
         loadRoutes;
         updateKPIs });
     on_page (set_disabled ''btn-hgi-test-routes'' False) }"

definition probe_node :: "string \<Rightarrow> unit tab" where
  "probe_node nid =
     (if nid = '''' then ret ()
      else do {
        tab_toast (''Probing node '' @ nid @ u_ellipsis) ''info'';
        hgi_act ''POST'' (''/api/v2/routes/measure?node_id='' @ encodeURIComponent nid) JUndef
          ''Failed to probe node'' ''Error probing node''
          (\<lambda>r. do {
            tab_toast (''Probe completed for '' @ nid) ''success'';
            loadRoutes;
            updateKPIs }) })"

definition scan_discovery :: "genv \<Rightarrow> unit tab" where
  "scan_discovery ge = do {
     on_page (set_disabled ''btn-hgi-scan-discovery'' True);
     tab_toast (''Scanning DNS traffic logs for game candidates'' @ u_ellipsis) ''info'';
     hgi_act ''POST'' ''/api/v2/discovery/scan'' JUndef ''Failed to trigger scan'' ''Error communicating with server''
       (\<lambda>r. case rs_json r of None \<Rightarrow> ret False
          | Some data \<Rightarrow>
              if nullish data then ret False
              else do {
                tab_toast (''Discovery scan complete. Found '' @
                  js_string (js_or (jget data ''found'') (JNum (Fin 0))) @ '' candidates.'') ''success'';
                loadCandidates ge;
                updateKPIs });
     on_page (set_disabled ''btn-hgi-scan-discovery'' False) }"

definition detect_game :: "unit tab" where
  "detect_game = do {
     tab_toast (''Analyzing active gaming telemetry'' @ u_ellipsis) ''info'';
     loadActiveGame;
     shown \<leftarrow> updateKPIs;
     if \<not> shown then ret ()
     else do {
       h \<leftarrow> State_Monad.get;
       if truthy (jget (currentActiveGame h) ''game_name'')
       then tab_toast (''Detected Active Game: '' @ js_string (jget (currentActiveGame h) ''game_name'')) ''success''
       else tab_toast ''No active game patterns matched in rolling window'' ''info'' } }"

definition approve_body :: "string \<Rightarrow> string \<Rightarrow> jsval" where
  "approve_body host policy = JObj [(''hostname'', JStr host), (''policy'', JStr policy)]"

definition approve_candidate :: "genv \<Rightarrow> string \<Rightarrow> string \<Rightarrow> unit tab" where
  "approve_candidate ge host policy0 =
     (let policy = (if policy0 = '''' then ''proxy'' else policy0) in
      if host = '''' then ret ()
      else hgi_act ''POST'' ''/api/v2/discovery/approve''
        (approve_body host policy)
        ''Failed to approve candidate'' ''Error approving candidate''
        (\<lambda>r. do {
          tab_toast (''Approved \"'' @ host @ ''\" as '' @ js_upper policy) ''success'';
          loadCandidates ge;
          loadProfiles;
          updateKPIs }))"

definition reject_body :: "string \<Rightarrow> jsval" where
  "reject_body host = JObj [(''hostname'', JStr host)]"

definition reject_candidate :: "genv \<Rightarrow> string \<Rightarrow> unit tab" where
  "reject_candidate ge host =
     (if host = '''' then ret ()
      else hgi_act ''POST'' ''/api/v2/discovery/reject'' (reject_body host)
        ''Failed to reject candidate'' ''Error rejecting candidate''
        (\<lambda>r. do {
          tab_toast (''Rejected candidate \"'' @ host @ ''\"'') ''info'';
          loadCandidates ge;
          updateKPIs }))"

section \<open>Learning\<close>

definition export_report :: "nat \<Rightarrow> unit tab" where
  "export_report now =
     hgi_act ''GET'' ''/api/v2/learning/export'' JUndef ''Failed to export report'' ''Error downloading export''
       (\<lambda>r. case rs_text r of None \<Rightarrow> ret False
          | Some t \<Rightarrow> do {
              modify (\<lambda>h. h\<lparr>downloads := downloads h @
                [(''JozmozDNS-hgi-report-'' @ nat_str now @ ''.json'', JStr t)]\<rparr>);
              tab_toast ''HGI Intelligence report downloaded'' ''success'';
              ret True })"

definition learning_body :: "string \<Rightarrow> jsval" where
  "learning_body mode = JObj [(''mode'', JStr mode)]"

definition save_learning :: "unit tab" where
  "save_learning = do {
     h \<leftarrow> State_Monad.get;
     let mode = sel_or (h_page h) ''hgi-learning-mode-select'' ''observe'';
     hgi_act ''POST'' ''/api/v2/learning/settings'' (learning_body mode)
       ''Failed to update learning settings'' ''Error communicating with server''
       (\<lambda>r. do {
         modify (\<lambda>h. h\<lparr>cachedLearningSettings := jset (cachedLearningSettings h) ''mode'' (JStr mode)\<rparr>);
         shown \<leftarrow> updateKPIs;
         if shown then do {
           tab_toast (''Learning Mode updated to '' @ js_upper mode) ''success'';
           ret True }
         else ret False }) }"

definition clear_learning :: "genv \<Rightarrow> bool \<Rightarrow> unit tab" where
  "clear_learning ge confirmed =
     (if \<not> confirmed then ret ()
      else hgi_act ''POST'' ''/api/v2/learning/clear'' JUndef
        ''Failed to clear learning data'' ''Error communicating with server''
        (\<lambda>r. do {
          tab_toast ''Discovery candidates cleared'' ''success'';
          loadCandidates ge;
          updateKPIs }))"

section \<open>Profiles\<close>

definition purge_body :: "string \<Rightarrow> jsval" where
  "purge_body gid = JObj [(''game_id'', JStr gid)]"

definition purge_game :: "string \<Rightarrow> unit tab" where
  "purge_game gid =
     (if gid = '''' then ret ()
      else hgi_act ''POST'' ''/api/v2/cache/purge'' (purge_body gid)
        ''Failed to purge cache'' ''Error purging cache''
        (\<lambda>r. do { tab_toast (''DNS cache purged for '' @ gid @ ''!'') ''success''; ret True }))"

definition delete_game :: "string \<Rightarrow> (string \<Rightarrow> bool) \<Rightarrow> unit tab" where
  "delete_game gid confirm =
     (if gid = '''' then ret ()
      else if \<not> confirm (''Delete profile for '' @ gid @ ''? Associated DNS mappings will revert to default.'')
      then ret ()
      else hgi_act ''DELETE'' (''/api/v2/games?id='' @ encodeURIComponent gid) JUndef
        ''Failed to delete game profile'' ''Error deleting profile''
        (\<lambda>r. do {
          tab_toast (''Profile '' @ gid @ '' deleted'') ''success'';
          loadProfiles;
          updateKPIs }))"

text \<open>The profile of the id; a null before it throws, and nothing happens either way.\<close>

fun find_profile :: "string \<Rightarrow> jsval list \<Rightarrow> jsval option" where
  "find_profile gid [] = None"
| "find_profile gid (p # ps) =
     (if nullish p then None
      else if jget p ''id'' = JStr gid then Some p else find_profile gid ps)"

definition export_game :: "string \<Rightarrow> unit tab" where
  "export_game gid = modify (\<lambda>h.
     case find_profile gid (cachedProfiles h) of None \<Rightarrow> h
     | Some p \<Rightarrow> h\<lparr>downloads := downloads h @ [(''game-profile-'' @ gid @ ''.json'', p)]\<rparr>)"

definition manage_domains :: "string \<Rightarrow> unit tab" where
  "manage_domains gid = (if gid = '''' then ret () else openDomainPolicyEditor gid)"

section \<open>A new profile\<close>

definition id_char :: "char \<Rightarrow> bool" where
  "id_char c \<longleftrightarrow> is_digit c \<or> c \<in> set ''abcdefghijklmnopqrstuvwxyz_-''"

text \<open>Every UTF-16 code unit outside a-z, 0-9, _ and - is an underscore.\<close>

definition id_chars :: "char \<Rightarrow> string" where
  "id_chars c =
     (if id_char c then [c]
      else if 128 \<le> (of_char c :: nat) \<and> of_char c < (192 :: nat) then []
      else if 240 \<le> (of_char c :: nat) then ''__'' else ''_'')"

definition game_id_of :: "string \<Rightarrow> string" where
  "game_id_of raw = concat (map id_chars (js_lower raw))"

definition domain_sep :: "char \<Rightarrow> bool" where
  "domain_sep c \<longleftrightarrow> c = CHR 0x0A \<or> c = CHR '',''"

definition game_domains :: "string \<Rightarrow> string list" where
  "game_domains raw = filter (\<lambda>d. d \<noteq> '''') (map (\<lambda>d. js_lower (js_trim d)) (split_on domain_sep raw))"

definition new_profile :: "dash \<Rightarrow> jsval" where
  "new_profile w =
     (let name = js_trim (value_of w ''hgi-add-game-name'');
          pub = js_trim (value_of w ''hgi-add-game-publisher'');
          pol = value_of w ''hgi-add-game-policy'' in
      JObj [(''id'', JStr (game_id_of (js_trim (value_of w ''hgi-add-game-id'')))),
            (''name'', JStr name),
            (''publisher'', JStr (if pub = '''' then name else pub)),
            (''enabled'', JBool True),
            (''default_policy'', JStr (if pol = '''' then ''proxy'' else pol)),
            (''domains'', JObj
              [(''matchmaking'', JArr (map JStr (game_domains (value_of w ''hgi-add-game-domains'')))),
               (''game_services'', JArr []), (''authentication'', JArr []), (''cdn_downloads'', JArr [])])])"

definition reset_add_form :: "unit page" where
  "reset_add_form = do {
     set_value ''hgi-add-game-id'' '''';
     set_value ''hgi-add-game-name'' '''';
     set_value ''hgi-add-game-publisher'' '''';
     set_value ''hgi-add-game-policy'' ''proxy'';
     set_value ''hgi-add-game-domains'' '''' }"

definition open_add_game :: "unit tab" where
  "open_add_game = on_page (set_hidden ''hgi-add-game-modal'' False)"

definition close_add_game :: "unit tab" where
  "close_add_game = on_page (set_hidden ''hgi-add-game-modal'' True)"

definition game_created :: "string \<Rightarrow> outcome \<Rightarrow> unit tab" where
  "game_created name oc =
     (case oc of NetErr \<Rightarrow> tab_toast ''Error communicating with server'' ''error''
      | Resp r \<Rightarrow>
          if \<not> rs_ok r then tab_toast (errorMessage r ''Failed to create game profile'') ''error''
          else do {
            tab_toast (''Game Profile \"'' @ name @ ''\" created successfully!'') ''success'';
            close_add_game;
            on_page reset_add_form;
            loadProfiles;
            shown \<leftarrow> updateKPIs;
            if shown then ret () else tab_toast ''Error communicating with server'' ''error'' })"

definition add_game :: "unit tab" where
  "add_game = do {
     h \<leftarrow> State_Monad.get;
     let w = h_page h;
     let name = js_trim (value_of w ''hgi-add-game-name'');
     if js_trim (value_of w ''hgi-add-game-id'') = '''' \<or> name = ''''
     then tab_toast ''Game ID and Name are required'' ''error''
     else do {
       on_page (set_disabled ''add_submit'' True);
       oc \<leftarrow> fetchHGI ''POST'' ''/api/v2/games'' (new_profile w);
       game_created name oc;
       on_page (set_disabled ''add_submit'' False) } }"

section \<open>The rule simulator\<close>

definition verdict_class :: "jsval \<Rightarrow> string" where
  "verdict_class pol =
     (if pol = JStr ''PROXY'' then ''text-cyan-400 bg-cyan-500/10 border-cyan-500/30''
      else if pol = JStr ''BLOCK'' then ''text-red-400 bg-red-500/10 border-red-500/30''
      else ''text-emerald-400 bg-emerald-500/10 border-emerald-500/30'')"

definition verdict_colour :: "jsval \<Rightarrow> string" where
  "verdict_colour pol =
     (if pol = JStr ''PROXY'' then ''text-cyan-400''
      else if pol = JStr ''BLOCK'' then ''text-red-400'' else ''text-emerald-400'')"

definition trace_html :: "jsval \<Rightarrow> string" where
  "trace_html t =
     ''<div class=\"text-slate-300 flex items-center gap-1.5\"><i data-feather=\"check\" class=\"w-3 h-3 text-cyan-400\"></i><span>'' @
     hgi_escapeHTML (t) @ ''</span></div>''"

definition simulation_html :: "jsval \<Rightarrow> jsval list \<Rightarrow> jsval \<Rightarrow> string" where
  "simulation_html pol trace sim =
     ''<div class=\"space-y-4 font-mono text-xs animate-fade-in\"><div class=\"p-3.5 rounded-xl bg-slate-950/80 border border-slate-800 flex items-center justify-between\"><div><div class=\"text-[10px] text-slate-500 uppercase\">Policy Verdict</div><div class=\"text-base font-bold font-heading '' @
     verdict_colour pol @ '' mt-0.5\">'' @ hgi_escapeHTML (pol) @
     ''</div></div><span class=\"px-2.5 py-1 rounded text-[11px] font-bold border '' @
     verdict_class pol @ ''\">Priority: '' @
     js_string (js_or (jget sim ''priority'') (JNum (Fin 100))) @
     ''</span></div><div class=\"grid grid-cols-1 sm:grid-cols-2 gap-3\"><div class=\"p-3 rounded-xl bg-slate-950/60 border border-slate-800\"><span class=\"text-slate-500 text-[10px] block\">ASSOCIATED GAME</span><span class=\"text-white font-bold mt-1 block\">'' @
     hgi_escapeHTML (js_or (jget sim ''game_name'') (JStr ''Generic / Non-Game'')) @
     ''</span><span class=\"text-[10px] text-cyan-400\">'' @
     hgi_escapeHTML (js_or (jget sim ''publisher'') (JStr ''Direct Resolution'')) @
     ''</span></div><div class=\"p-3 rounded-xl bg-slate-950/60 border border-slate-800\"><span class=\"text-slate-500 text-[10px] block\">ASSIGNED ROUTE NODE</span><span class=\"text-white font-bold mt-1 block\">'' @
     hgi_escapeHTML (js_or (jget sim ''route_node'') (JStr ''Default Upstream'')) @
     ''</span><span class=\"text-[10px] text-emerald-400\">Target IP: '' @
     hgi_escapeHTML (js_or (jget sim ''target_ip'') (JStr ''Resolved Dynamic'')) @
     ''</span></div></div><!-- Precedence Trace --><div class=\"p-3 rounded-xl bg-slate-950/60 border border-slate-800 space-y-1.5\"><span class=\"text-slate-500 text-[10px] block\">EVALUATION TRACE</span><div class=\"space-y-1 text-[11px]\">'' @
     concat (map trace_html trace) @
     ''</div></div><!-- Blast Radius & Conflicts --><div class=\"p-3 rounded-xl '' @
     (if truthy (jget sim ''has_conflicts'') then ''bg-amber-950/30 border-amber-500/40 text-amber-200'' else ''bg-emerald-950/20 border-emerald-500/30 text-emerald-200'') @
     '' border\"><div class=\"flex items-center gap-1.5 font-bold mb-1\"><i data-feather=\"'' @
     (if truthy (jget sim ''has_conflicts'') then ''alert-triangle'' else ''shield'') @
     ''\" class=\"w-3.5 h-3.5\"></i><span>'' @
     (if truthy (jget sim ''has_conflicts'') then ''Conflict Warning'' else ''Safe Execution Assessment'') @
     ''</span></div><p class=\"text-[11px] leading-relaxed opacity-90\">'' @
     hgi_escapeHTML (js_or (jget sim ''blast_radius'') (JStr ''Zero blast radius: Resolution will only impact the tested domain without shadowing critical system records.'')) @
     ''</p></div></div>''"

definition renderSimulationResult :: "jsval \<Rightarrow> bool page" where
  "renderSimulationResult sim = do {
     w \<leftarrow> State_Monad.get;
     if \<not> has_el w ''hgi-sim-output'' then ret True
     else if nullish sim \<or> truthy (jget sim ''trace'') \<and> \<not> is_arr (jget sim ''trace'') then ret False
     else do {
       set_text ''hgi-sim-output''
         (simulation_html (js_or (jget sim ''matched_policy'') (JStr ''DIRECT''))
           (arr_elems (jget sim ''trace'')) sim);
       ret True } }"

definition sim_running_html :: string where
  "sim_running_html =
     ''<div class=\"text-cyan-400 font-mono text-xs text-center py-6\">Running rule resolution engine simulation'' @
     hx ''E280A6'' @ ''</div>''"

definition sim_refused_html :: string where
  "sim_refused_html =
     ''<div class=\"text-red-400 font-mono text-xs text-center py-6\">Simulation request was refused</div>''"

definition sim_lost_html :: string where
  "sim_lost_html =
     ''<div class=\"text-red-400 font-mono text-xs text-center py-6\">Could not contact simulator service</div>''"

definition sim_answered :: "outcome \<Rightarrow> unit page" where
  "sim_answered oc =
     (case oc of NetErr \<Rightarrow> set_text ''hgi-sim-output'' sim_lost_html
      | Resp r \<Rightarrow>
          if \<not> rs_ok r then set_text ''hgi-sim-output'' sim_refused_html
          else case rs_json r of None \<Rightarrow> set_text ''hgi-sim-output'' sim_lost_html
            | Some sim \<Rightarrow> do {
                done \<leftarrow> renderSimulationResult sim;
                if done then ret () else set_text ''hgi-sim-output'' sim_lost_html })"

definition sim_body :: "dash \<Rightarrow> jsval" where
  "sim_body w =
     JObj [(''hostname'', JStr (js_trim (value_of w ''hgi-sim-hostname''))),
           (''client_ip'', JStr (js_trim (value_of w ''hgi-sim-client-ip'')))]"

definition simulate :: "unit tab" where
  "simulate = do {
     h \<leftarrow> State_Monad.get;
     let w = h_page h;
     if js_trim (value_of w ''hgi-sim-hostname'') = ''''
     then tab_toast ''Please enter a hostname to simulate'' ''error''
     else do {
       on_page (set_text ''hgi-sim-output'' sim_running_html);
       oc \<leftarrow> fetchHGI ''POST'' ''/api/v2/rules/simulate'' (sim_body w);
       on_page (sim_answered oc) } }"

section \<open>The assistant\<close>

definition rec_html :: "jsval \<Rightarrow> string" where
  "rec_html r =
     ''<div class=\"p-2 rounded bg-slate-900/80 border border-slate-700/80 flex items-center justify-between gap-2\"><span class=\"font-mono text-slate-200 text-[11px]\">'' @
     hgi_escapeHTML (js_or (jget r ''text'') r) @ ''</span>'' @
     (if truthy (jget r ''action'') then ''<button class=\"px-2 py-0.5 rounded bg-cyan-500/20 text-cyan-300 border border-cyan-500/30 text-[10px] font-mono hover:bg-cyan-500/30 transition\">Apply</button>'' else '''') @
     ''</div>''"

definition recs_html :: "jsval list \<Rightarrow> string" where
  "recs_html rs =
     (if rs = [] then '''' else
     ''<div class=\"mt-2.5 pt-2 border-t border-cyan-500/20 space-y-1.5\"><div class=\"text-[10px] font-mono text-cyan-300 font-bold uppercase\">Recommendations:</div>'' @
     concat (map rec_html rs) @ ''</div>'')"

definition bubble_html :: "bool \<Rightarrow> jsval \<Rightarrow> jsval list \<Rightarrow> string" where
  "bubble_html isUser text rs =
     ''<div class=\"max-w-md p-3.5 rounded-2xl '' @
     (if isUser then ''bg-cyan-500/20 border border-cyan-500/40 text-cyan-100'' else ''bg-slate-950/80 border border-slate-800 text-slate-200'') @
     '' shadow-lg space-y-1\"><div class=\"flex items-center gap-1.5 text-[10px] font-mono '' @
     (if isUser then ''text-cyan-400'' else ''text-purple-400'') @ ''\"><i data-feather=\"'' @
     (if isUser then ''user'' else ''cpu'') @ ''\" class=\"w-3 h-3\"></i><span>'' @
     (if isUser then ''Operator'' else ''HGI Intelligence Core'') @
     ''</span></div><div class=\"text-xs break-words whitespace-pre-wrap\">'' @
     hgi_escapeHTML (text) @ ''</div>'' @ recs_html rs @ ''</div>''"

text \<open>A message, unless its recommendations cannot be walked: then it throws.\<close>

definition appendAIMessage :: "bool \<Rightarrow> jsval \<Rightarrow> jsval \<Rightarrow> bool tab" where
  "appendAIMessage isUser text recs = do {
     h \<leftarrow> State_Monad.get;
     if \<not> has_el (h_page h) ''hgi-ai-chat-box'' then ret True
     else if (\<exists>s. recs = JStr s \<and> s \<noteq> '''') \<or> (\<exists>r\<in>set (arr_elems recs). nullish r) then ret False
     else do {
       modify (\<lambda>h. h\<lparr>chatBox := chatBox h @ [('''', bubble_html isUser text (arr_elems recs))]\<rparr>);
       ret True } }"

definition thinking_html :: string where
  "thinking_html =
     ''<div class=\"p-3 rounded-xl bg-slate-950/60 border border-slate-800 text-cyan-400 flex items-center gap-2 font-mono text-xs\"><span class=\"w-2 h-2 rounded-full bg-cyan-400 animate-ping\"></span><span>Analyzing gaming intelligence patterns...</span></div>''"

definition thinking_id :: "nat \<Rightarrow> string" where
  "thinking_id now = ''thinking-'' @ nat_str now"

definition appendAIThinking :: "nat \<Rightarrow> unit tab" where
  "appendAIThinking now = do {
     h \<leftarrow> State_Monad.get;
     if \<not> has_el (h_page h) ''hgi-ai-chat-box'' then ret ()
     else modify (\<lambda>h. h\<lparr>chatBox := chatBox h @ [(thinking_id now, thinking_html)]\<rparr>) }"

fun remove_node :: "string \<Rightarrow> (string \<times> string) list \<Rightarrow> (string \<times> string) list" where
  "remove_node i [] = []"
| "remove_node i (n # ns) = (if fst n = i then ns else n # remove_node i ns)"

definition removeAIThinking :: "nat \<Rightarrow> unit tab" where
  "removeAIThinking now = modify (\<lambda>h. h\<lparr>chatBox := remove_node (thinking_id now) (chatBox h)\<rparr>)"

definition ai_lost :: "nat \<Rightarrow> unit tab" where
  "ai_lost now = do {
     removeAIThinking now;
     done \<leftarrow> appendAIMessage False (JStr ''Network error connecting to AI Assistant engine.'') JUndef;
     ret () }"

definition ai_answered :: "nat \<Rightarrow> outcome \<Rightarrow> unit tab" where
  "ai_answered now oc =
     (case oc of NetErr \<Rightarrow> ai_lost now
      | Resp r \<Rightarrow> do {
          removeAIThinking now;
          if \<not> rs_ok r then do {
            done \<leftarrow> appendAIMessage False
              (JStr ''Sorry, I encountered an error processing your query. Please try again.'') JUndef;
            ret () }
          else case rs_json r of None \<Rightarrow> ai_lost now
            | Some data \<Rightarrow>
                if nullish data then ai_lost now
                else do {
                  done \<leftarrow> appendAIMessage False
                    (js_or (jget data ''response'') (JStr ''No analysis available.''))
                    (jget data ''recommendations'');
                  if done then ret () else ai_lost now } })"

definition ai_prompt :: "dash \<Rightarrow> string" where
  "ai_prompt w = js_trim (value_of w ''hgi-ai-input'')"

definition ai_ask :: "nat \<Rightarrow> unit tab" where
  "ai_ask now = do {
     h \<leftarrow> State_Monad.get;
     done \<leftarrow> appendAIMessage True (JStr (ai_prompt (h_page h))) JUndef;
     on_page (set_value ''hgi-ai-input'' '''');
     appendAIThinking now }"

definition ai_body :: "string \<Rightarrow> jsval" where
  "ai_body prompt = JObj [(''prompt'', JStr prompt)]"

definition ai_submit :: "nat \<Rightarrow> unit tab" where
  "ai_submit now = do {
     h \<leftarrow> State_Monad.get;
     let prompt = ai_prompt (h_page h);
     if prompt = '''' then ret ()
     else do {
       ai_ask now;
       oc \<leftarrow> fetchHGI ''POST'' ''/api/v2/ai/assistant'' (ai_body prompt);
       ai_answered now oc } }"

definition quick_prompt :: "nat \<Rightarrow> string \<Rightarrow> unit tab" where
  "quick_prompt now p = do {
     h \<leftarrow> State_Monad.get;
     if \<not> has_el (h_page h) ''hgi-ai-input'' \<or> p = '''' then ret ()
     else do { on_page (set_value ''hgi-ai-input'' p); ai_submit now } }"

section \<open>Start\<close>

text \<open>
  A click on a sub-view button reaches two listeners, the button's own and the document's.
\<close>

definition view_click :: "string \<Rightarrow> unit tab" where
  "view_click v = (if v = '''' then ret () else do { switchHGIView v; switchHGIView v })"

definition initHGIEvents :: "unit tab" where
  "initHGIEvents = modify (\<lambda>h.
     if hgiEventsInited h then h else h\<lparr>hgiEventsInited := True, attached := Suc (attached h)\<rparr>)"

definition renderGamingTab :: "genv \<Rightarrow> unit tab" where
  "renderGamingTab ge = do { initHGIEvents; loadGamingData ge }"

definition boot_gaming :: "genv \<Rightarrow> unit tab" where
  "boot_gaming ge = do {
     initHGIEvents;
     h \<leftarrow> State_Monad.get;
     if shown (h_page h) ''tab-gaming'' then loadGamingData ge else ret () }"

end
