(* ===== verification/Game_Editor.thy ===== *)
theory Game_Editor
  imports Game_Domains
begin

text \<open>
  What holds of the domain policy editor: its table is always that of the open profile, profiles
  keep the daemon's type, a saved row shows what was saved, and where the script and the daemon
  do not agree.
\<close>

section \<open>Frames\<close>

text \<open>
  What the editor shows: the open profile, the three filters and the rows. \<open>quiet\<close> computations
  leave it alone and take answers off the network at most; so do \<open>aside\<close> ones of the tab.
\<close>

definition rows_view :: "dash \<Rightarrow> string \<times> string \<times> string \<times> string \<times> bool" where
  "rows_view w = (text_of w ''hgi-domains-tbody'', value_of w ''hgi-domain-search'',
     value_of w ''hgi-filter-category'', value_of w ''hgi-filter-policy'', has_el w ''hgi-domains-tbody'')"

definition quiet :: "'a page \<Rightarrow> bool" where
  "quiet m \<longleftrightarrow> (\<forall>w. rows_view (exec m w) = rows_view w \<and> set (net (exec m w)) \<subseteq> set (net w))"

definition aside :: "'a tab \<Rightarrow> bool" where
  "aside m \<longleftrightarrow> (\<forall>h. currentEditProfile (exec m h) = currentEditProfile h \<and>
     rows_view (h_page (exec m h)) = rows_view (h_page h) \<and>
     set (net (h_page (exec m h))) \<subseteq> set (net (h_page h)))"

named_theorems frame_intros \<open>what leaves the editor alone\<close>

lemma quiet_bind [frame_intros]:
  "quiet m \<Longrightarrow> (\<And>x. quiet (k x)) \<Longrightarrow> quiet (State_Monad.bind m k)"
  unfolding quiet_def exec_bind by (metis order_trans)

lemma aside_bind [frame_intros]:
  "aside m \<Longrightarrow> (\<And>x. aside (k x)) \<Longrightarrow> aside (State_Monad.bind m k)"
  unfolding aside_def exec_bind by (metis order_trans)

lemma quiet_control [frame_intros]:
  "quiet (ret x)" "quiet State_Monad.get"
  "quiet m \<Longrightarrow> quiet n \<Longrightarrow> quiet (if b then m else n)"
  "quiet p \<Longrightarrow> quiet (only_if b p)"
  "quiet m \<Longrightarrow> (\<And>y. quiet (g y)) \<Longrightarrow> quiet (case oc of None \<Rightarrow> m | Some y \<Rightarrow> g y)"
  by (auto simp: quiet_def split: option.split)

lemma value_of_set_value: "i \<noteq> j \<Longrightarrow> value_of (exec (set_value i v) w) j = value_of w j"
  by (simp add: value_of_def page_simps)

lemma quiet_prims [frame_intros]:
  "i \<noteq> ''hgi-domains-tbody'' \<Longrightarrow> quiet (set_text i t)"
  "i \<notin> {''hgi-domain-search'', ''hgi-filter-category'', ''hgi-filter-policy''} \<Longrightarrow> quiet (set_value i t)"
  "quiet (set_class i t)" "quiet (set_hidden i b)" "quiet (set_disabled i b)"
  "quiet (showToast m ty)" "quiet (send rq)" "quiet next_outcome"
  by (auto simp: quiet_def rows_view_def text_of_def value_of_def has_el_def page_simps split: option.splits intro: list.set_sel(2))

lemma aside_control [frame_intros]:
  "aside (ret x)" "aside State_Monad.get"
  "aside m \<Longrightarrow> aside n \<Longrightarrow> aside (if b then m else n)"
  "aside m \<Longrightarrow> (\<And>y. aside (g y)) \<Longrightarrow> aside (case op of None \<Rightarrow> m | Some y \<Rightarrow> g y)"
  "aside m \<Longrightarrow> (\<And>r. aside (g' r)) \<Longrightarrow> aside (case oc of NetErr \<Rightarrow> m | Resp r \<Rightarrow> g' r)"
  "quiet p \<Longrightarrow> aside (on_page p)"
  "(\<And>h. currentEditProfile (f h) = currentEditProfile h \<and> h_page (f h) = h_page h) \<Longrightarrow> aside (modify f)"
  by (force simp: aside_def quiet_def split: option.split outcome.split)+

lemma quiet_paint [frame_intros]: "i \<noteq> ''hgi-domains-tbody'' \<Longrightarrow> quiet (paint i t)"
  unfolding paint_def by (intro frame_intros)

lemma aside_fetch [frame_intros]: "aside (fetchHGI m p b)" "aside (fetch_data p)"
  unfolding fetchHGI_def fetch_data_def by - (intro frame_intros)+

lemma quiet_tiles [frame_intros]: "quiet (mode_tile s)" "quiet (game_tile g)" "quiet (best_tile rs)"
  unfolding mode_tile_def game_tile_def best_tile_def by - (intro frame_intros; simp)+

lemma aside_loads [frame_intros]: "aside loadProfiles" "aside updateKPIs"
  unfolding loadProfiles_def updateKPIs_def renderProfiles_def Let_def by - (intro frame_intros; simp)+

section \<open>Well-typed profiles\<close>

text \<open>
  What the daemon promises of a profile: an object whose domains are objects with hostname,
  category and policy absent, empty or a string, and whose category policies are such values.
\<close>

definition text_value :: "jsval \<Rightarrow> bool" where
  "text_value v = (case js_or v (JStr '''') of JStr s \<Rightarrow> True | _ \<Rightarrow> False)"

definition good_domain :: "jsval \<Rightarrow> bool" where
  "good_domain d \<longleftrightarrow> is_obj d \<and> text_value (jget d ''hostname'') \<and> text_value (jget d ''category'') \<and>
     text_value (jget d ''policy'')"

definition typed_profile :: "jsval \<Rightarrow> bool" where
  "typed_profile p \<longleftrightarrow> is_obj p \<and> list_all good_domain (edit_domains p) \<and>
     list_all (\<lambda>e. text_value (snd e)) (obj_entries (jget p ''dns_policies''))"

text \<open>The table a profile should have: the rows of the domains that pass the filters.\<close>

definition visible_row :: "dash \<Rightarrow> jsval \<Rightarrow> bool" where
  "visible_row w d \<longleftrightarrow>
     domain_passes (js_trim (js_lower (value_of w ''hgi-domain-search''))) (value_of w ''hgi-filter-category'')
       (value_of w ''hgi-filter-policy'') d = Some True"

definition table_of :: "dash \<Rightarrow> jsval \<Rightarrow> string" where
  "table_of w p =
     (let ds = filter (visible_row w) (edit_domains p) in
      if ds = [] then no_domains_html else concat (map (\<lambda>d. the (domain_row d)) ds))"

lemma table_of_values:
  assumes "value_of w ''hgi-domain-search'' = value_of w' ''hgi-domain-search''"
    "value_of w ''hgi-filter-category'' = value_of w' ''hgi-filter-category''"
    "value_of w ''hgi-filter-policy'' = value_of w' ''hgi-filter-policy''"
  shows "table_of w p = table_of w' p"
proof -
  have "visible_row w = visible_row w'" by (rule ext) (simp add: visible_row_def assms)
  then show ?thesis by (simp add: table_of_def)
qed

lemma table_of_cong: "rows_view w = rows_view w' \<Longrightarrow> table_of w p = table_of w' p"
  by (rule table_of_values) (simp_all add: rows_view_def)

lemma filter_opt_total:
  "\<forall>x\<in>set xs. f x \<noteq> None \<Longrightarrow> filter_opt f xs = Some (filter (\<lambda>x. f x = Some True) xs)"
  by (induction xs) (auto split: option.splits)

lemma map_html_total: "\<forall>x\<in>set xs. f x \<noteq> None \<Longrightarrow> map_html f xs = Some (concat (map (\<lambda>x. the (f x)) xs))"
  by (induction xs) auto

lemma lower_field_text: "is_obj d \<Longrightarrow> text_value (jget d k) \<Longrightarrow> lower_field k d \<noteq> None"
  by (cases d) (auto simp: lower_field_def text_value_def split: jsval.splits)

lemma good_domain_total:
  assumes "good_domain d"
  shows "lower_field ''hostname'' d \<noteq> None" "domain_passes s c p d \<noteq> None" "domain_row d \<noteq> None"
proof -
  have l: "lower_field k d \<noteq> None" if "k \<in> {''hostname'', ''category'', ''policy''}" for k
    using that assms lower_field_text by (auto simp: good_domain_def simp del: not_None_eq)
  then obtain h c' q where e: "lower_field ''hostname'' d = Some h" "lower_field ''category'' d = Some c'"
      "lower_field ''policy'' d = Some q" by fastforce
  show "lower_field ''hostname'' d \<noteq> None" using e by simp
  show "domain_passes s c p d \<noteq> None"
    by (simp add: domain_passes_def policy_passes_def e del: not_None_eq)
  have "row_policy d \<noteq> None"
    using assms by (auto simp: good_domain_def row_policy_def text_value_def js_or_def split: jsval.splits if_splits)
  moreover have "\<not> nullish d" using assms by (cases d) (auto simp: good_domain_def)
  ultimately show "domain_row d \<noteq> None" using e by (auto simp: domain_row_def)
qed

lemma typed_table:
  assumes "typed_profile p"
  shows "\<exists>ds. editor_rows w p = Some ds \<and> domains_html ds = Some (table_of w p)"
proof -
  have g: "good_domain d" if "d \<in> set (edit_domains p)" for d
    using assms that by (auto simp: typed_profile_def list_all_iff)
  have "editor_rows w p = Some (filter (visible_row w) (edit_domains p))"
    unfolding editor_rows_def visible_row_def
    using g good_domain_total(2) by (intro filter_opt_total) blast
  moreover have "domains_html (filter (visible_row w) (edit_domains p)) = Some (table_of w p)"
    using g good_domain_total(3) by (auto simp: domains_html_def table_of_def Let_def intro!: map_html_total)
  ultimately show ?thesis by blast
qed

section \<open>The table in step with the profile\<close>

definition synced :: "hgi \<Rightarrow> bool" where
  "synced h \<longleftrightarrow> (has_el (h_page h) ''hgi-domains-tbody'' \<longrightarrow>
     text_of (h_page h) ''hgi-domains-tbody'' = table_of (h_page h) (currentEditProfile h))"

definition editor_ok :: "hgi \<Rightarrow> bool" where
  "editor_ok h \<longleftrightarrow> currentEditProfile h = JNull \<or> typed_profile (currentEditProfile h) \<and> synced h"

text \<open>An answer of the daemon: a body that is JSON is an object that could be a profile.\<close>

definition typed_outcome :: "outcome \<Rightarrow> bool" where
  "typed_outcome oc =
     (case oc of NetErr \<Rightarrow> True
      | Resp r \<Rightarrow> (case rs_json r of None \<Rightarrow> True | Some data \<Rightarrow> typed_profile data))"

definition typed_net :: "hgi \<Rightarrow> bool" where
  "typed_net h \<longleftrightarrow> list_all typed_outcome (net (h_page h))"

lemma synced_cong:
  "rows_view (h_page h) = rows_view (h_page h') \<Longrightarrow> currentEditProfile h = currentEditProfile h' \<Longrightarrow>
   synced h = synced h'"
  using table_of_cong[of "h_page h" "h_page h'"] by (auto simp: synced_def rows_view_def)

lemma aside_ok:
  assumes "aside m"
  shows "editor_ok h \<Longrightarrow> editor_ok (exec m h)" "typed_net h \<Longrightarrow> typed_net (exec m h)"
proof -
  have a: "currentEditProfile (exec m h) = currentEditProfile h"
      "rows_view (h_page (exec m h)) = rows_view (h_page h)"
      "set (net (h_page (exec m h))) \<subseteq> set (net (h_page h))"
    using assms by (auto simp: aside_def)
  show "editor_ok h \<Longrightarrow> editor_ok (exec m h)"
    using synced_cong[of "exec m h" h] a by (simp add: editor_ok_def)
  show "typed_net h \<Longrightarrow> typed_net (exec m h)" using a(3) by (auto simp: typed_net_def list_all_iff)
qed

lemma render_typed:
  assumes "typed_profile (currentEditProfile h)"
  shows "result renderDomainRows h = True" "editor_ok (exec renderDomainRows h)"
    "currentEditProfile (exec renderDomainRows h) = currentEditProfile h"
    "typed_net h \<Longrightarrow> typed_net (exec renderDomainRows h)"
proof -
  let ?p = "currentEditProfile h"
  obtain ds where ds: "editor_rows (h_page h) ?p = Some ds" "domains_html ds = Some (table_of (h_page h) ?p)"
    using typed_table[OF assms] by blast
  have t: "truthy ?p" using assms by (simp add: typed_profile_def)
  show "result renderDomainRows h = True"
    using ds t by (simp add: renderDomainRows_def Let_def)
  show p: "currentEditProfile (exec renderDomainRows h) = ?p"
    using ds t by (simp add: renderDomainRows_def Let_def)
  show "typed_net h \<Longrightarrow> typed_net (exec renderDomainRows h)"
    using ds t by (simp add: renderDomainRows_def Let_def typed_net_def page_simps)
  have "synced (exec renderDomainRows h)"
  proof (cases "has_el (h_page h) ''hgi-domains-tbody''")
    case True
    let ?w = "exec (set_text ''hgi-edit-game-count'' (count_html (length (edit_domains ?p)))) (h_page h)"
    let ?w' = "exec (set_text ''hgi-domains-tbody'' (table_of (h_page h) ?p)) ?w"
    have e: "exec renderDomainRows h = h\<lparr>h_page := ?w'\<rparr>"
      using ds t True by (simp add: renderDomainRows_def Let_def)
    have "table_of ?w' p = table_of (h_page h) p" for p
      by (rule table_of_values) (simp_all add: view_simps)
    moreover have "text_of ?w' ''hgi-domains-tbody'' = table_of (h_page h) ?p"
      using True by (simp add: text_set_text has_el_upd)
    ultimately show ?thesis by (simp add: synced_def e)
  next
    case False
    then have "exec renderDomainRows h = h" by (simp add: renderDomainRows_def Let_def)
    then show ?thesis using False by (simp add: synced_def)
  qed
  then show "editor_ok (exec renderDomainRows h)" using assms p by (simp add: editor_ok_def)
qed


section \<open>Every handler keeps the editor in step\<close>

text \<open>
  What an operator and the daemon do to the editor: a request and its answer are apart, so
  anything may happen in between.
\<close>

datatype edit_event =
    OpenGame string
  | CloseEditor
  | SetField string string
  | RowAnswer string string string outcome
  | DeleteAnswer string outcome
  | CategoryAnswer string string outcome
  | AddAnswer string outcome

fun answer_of :: "edit_event \<Rightarrow> outcome" where
  "answer_of (RowAnswer host cat pol oc) = oc"
| "answer_of (DeleteAnswer host oc) = oc"
| "answer_of (CategoryAnswer cat pol oc) = oc"
| "answer_of (AddAnswer host oc) = oc"
| "answer_of _ = NetErr"

fun edit_do :: "edit_event \<Rightarrow> unit tab" where
  "edit_do (OpenGame gid) = openDomainPolicyEditor gid"
| "edit_do CloseEditor = closeDomainModal"
| "edit_do (SetField i v) = do { on_page (set_value i v); done \<leftarrow> renderDomainRows; ret () }"
| "edit_do (RowAnswer host cat pol oc) = row_saved host cat pol oc"
| "edit_do (DeleteAnswer host oc) = row_deleted host oc"
| "edit_do (CategoryAnswer cat pol oc) = category_saved cat pol oc"
| "edit_do (AddAnswer host oc) = domain_added host oc"

definition edit_run :: "edit_event list \<Rightarrow> hgi \<Rightarrow> hgi" where
  "edit_run es h = foldl (\<lambda>h e. exec (edit_do e) h) h es"

definition sound :: "hgi \<Rightarrow> bool" where
  "sound h \<longleftrightarrow> editor_ok h \<and> typed_net h"

lemma sound_aside: "aside m \<Longrightarrow> sound h \<Longrightarrow> sound (exec m h)"
  using aside_ok by (auto simp: sound_def)

lemma aside_toast [frame_intros]: "aside (tab_toast m ty)"
  by (intro frame_intros)

lemma sound_toast: "sound h \<Longrightarrow> sound (exec (tab_toast m ty) h)"
  by (rule sound_aside[OF aside_toast])

lemma refresh_split:
  assumes "typed_profile (currentEditProfile h)"
  shows "\<exists>m :: unit tab. aside m \<and> exec (refresh_editor f) h = exec m (exec renderDomainRows h)"
proof -
  have "aside (do { loadProfiles; shown \<leftarrow> updateKPIs; if shown then ret () else tab_toast f ''error'' })"
    by (intro frame_intros)
  then show ?thesis
    using render_typed(1)[OF assms] unfolding refresh_editor_def exec_bind by force
qed

lemma refresh_typed:
  assumes "typed_profile (currentEditProfile h)"
  shows "typed_net h \<Longrightarrow> sound (exec (refresh_editor f) h)"
    "currentEditProfile (exec (refresh_editor f) h) = currentEditProfile h"
proof -
  obtain m :: "unit tab" where m: "aside m" "exec (refresh_editor f) h = exec m (exec renderDomainRows h)"
    using refresh_split[OF assms] by blast
  show "typed_net h \<Longrightarrow> sound (exec (refresh_editor f) h)"
    using sound_aside[OF m(1)] render_typed[OF assms] by (simp add: m(2) sound_def)
  show "currentEditProfile (exec (refresh_editor f) h) = currentEditProfile h"
    using m(1) render_typed(3)[OF assms] by (simp add: m(2) aside_def)
qed

text \<open>The changes of a profile keep it well typed.\<close>

lemma good_set_row: "good_domain d \<Longrightarrow> good_domain (set_row cat pol d)"
  by (simp add: good_domain_def set_row_def text_value_def js_or_def)

lemma upd_host_good:
  assumes "list_all good_domain ds"
  shows "\<exists>ds'. upd_host host (set_row cat pol) ds = Some ds' \<and> list_all good_domain ds' \<and> length ds' = length ds"
  using assms
proof (induction ds)
  case (Cons d ds)
  then show ?case using good_domain_total(1)[of d] good_set_row[of d] by auto
qed simp

lemma edit_domains_jset:
  "is_obj p \<Longrightarrow> edit_domains (jset p ''domains'' (JArr ds)) = ds"
  "is_obj p \<Longrightarrow> edit_domains (jset p ''domains'' (JObj es)) = map snd es"
  by (simp_all add: edit_domains_def)

lemma with_domains_typed:
  assumes "typed_profile p"
    and "\<And>ds. list_all good_domain ds \<Longrightarrow> \<exists>ds'. f ds = Some ds' \<and> list_all good_domain ds' \<and> length ds' = length ds"
  shows "\<exists>p'. with_domains f p = Some p' \<and> typed_profile p' \<and> f (edit_domains p) = Some (edit_domains p')"
proof -
  have p: "is_obj p" using assms(1) by (simp add: typed_profile_def)
  obtain ds' where ds': "f (edit_domains p) = Some ds'" "list_all good_domain ds'"
      "length ds' = length (edit_domains p)"
    using assms by (auto simp: typed_profile_def)
  show ?thesis
  proof (cases "jget p ''domains''")
    case (JArr ds)
    then show ?thesis using assms(1) p ds'
      by (auto simp: with_domains_def typed_profile_def edit_domains_def)
  next
    case (JObj es)
    then show ?thesis using assms(1) p ds'
      by (auto simp: with_domains_def typed_profile_def edit_domains_def)
  qed (use assms ds' in \<open>auto simp: with_domains_def typed_profile_def edit_domains_def\<close>)
qed


lemma set_upd_pair: "set (upd_pair k v ps) \<subseteq> insert (k, v) (set ps)"
  by (induction ps) (auto split: if_splits)

lemma drop_host_typed:
  assumes "typed_profile p"
  shows "\<exists>p'. drop_host host p = Some p' \<and> typed_profile p'"
proof -
  have p: "is_obj p" "list_all good_domain (edit_domains p)" using assms by (auto simp: typed_profile_def)
  show ?thesis
  proof (cases "jget p ''domains''")
    case (JArr ds)
    let ?f = "\<lambda>d. map_option (\<lambda>h. h \<noteq> js_lower host) (lower_field ''hostname'' d)"
    have "filter_opt ?f ds = Some (filter (\<lambda>d. ?f d = Some True) ds)"
      using p(2) good_domain_total(1) JArr
      by (intro filter_opt_total) (auto simp: edit_domains_def list_all_iff)
    then show ?thesis using assms JArr
      by (auto simp: drop_host_def typed_profile_def edit_domains_def list_all_iff)
  next
    case (JObj es)
    then show ?thesis using assms
      by (auto simp: drop_host_def typed_profile_def edit_domains_def list_all_iff)
  qed (use assms in \<open>auto simp: drop_host_def\<close>)
qed

lemma set_category_good:
  assumes "list_all good_domain ds"
  shows "\<exists>ds'. set_category cat pol ds = Some ds' \<and> list_all good_domain ds' \<and> length ds' = length ds"
proof -
  have "\<not> nullish d" if "d \<in> set ds" for d
    using assms that by (auto simp: list_all_iff good_domain_def)
  then show ?thesis using assms
    by (auto simp: set_category_def list_all_iff good_domain_def text_value_def js_or_def)
qed

lemma set_dns_policy_typed:
  assumes "typed_profile p"
  shows "typed_profile (set_dns_policy cat pol p)"
proof -
  let ?d = "js_or (jget p ''dns_policies'') (JObj [])"
  have "list_all (\<lambda>e. text_value (snd e)) (obj_entries ?d)"
    using assms by (auto simp: typed_profile_def js_or_def)
  then have "list_all (\<lambda>e. text_value (snd e)) (obj_entries (jset ?d cat (JStr pol)))"
  proof (cases ?d)
    case (JObj es)
    have "text_value (JStr pol)" by (simp add: text_value_def js_or_def)
    then show ?thesis
      using \<open>list_all _ (obj_entries ?d)\<close> set_upd_pair[of cat "JStr pol" es]
      unfolding JObj by (force simp: list_all_iff)
  qed (simp_all add:)
  moreover have "edit_domains (set_dns_policy cat pol p) = edit_domains p"
    using assms by (simp add: edit_domains_def set_dns_policy_def typed_profile_def)
  ultimately show ?thesis using assms by (simp add: typed_profile_def set_dns_policy_def)
qed

text \<open>Each handler.\<close>

lemma sound_toast_then:
  assumes "sound h" and "\<And>h'. sound h' \<Longrightarrow> currentEditProfile h' = currentEditProfile h \<Longrightarrow> sound (exec m h')"
  shows "sound (exec m (exec (tab_toast t ty) h))"
  using sound_toast[OF assms(1), of t ty] assms(2) by simp

lemma sound_profile:
  "sound h \<Longrightarrow> currentEditProfile h = JNull \<or> typed_profile (currentEditProfile h)"
  "sound h \<Longrightarrow> typed_net h"
  by (auto simp: sound_def editor_ok_def)

lemma sound_change:
  assumes "sound h" "typed_profile p"
  shows "sound (exec (refresh_editor f) (h\<lparr>currentEditProfile := p\<rparr>))"
  using assms by (intro refresh_typed(1)) (simp_all add: sound_def typed_net_def)

lemma change_sound:
  assumes h: "sound h"
    and f: "\<And>p. typed_profile p \<Longrightarrow> \<exists>p'. f p = Some p' \<and> typed_profile p'"
  shows "sound (exec (apply_change f e) h)"
proof (cases "currentEditProfile h = JNull")
  case True
  then show ?thesis using sound_toast[OF h] by (simp add: apply_change_def)
next
  case False
  then have p: "typed_profile (currentEditProfile h)" using sound_profile(1)[OF h] by blast
  then obtain p' where "f (currentEditProfile h) = Some p'" "typed_profile p'" using f by blast
  moreover have "\<not> nullish (currentEditProfile h)" using p by (simp add: typed_profile_def)
  ultimately show ?thesis using sound_change[OF h] by (simp add: apply_change_def)
qed

text \<open>The two toasts and the change of an accepted request.\<close>

lemma answer_sound:
  assumes "sound h" and "\<And>p. typed_profile p \<Longrightarrow> \<exists>p'. f p = Some p' \<and> typed_profile p'"
  shows "sound (exec (case oc of NetErr \<Rightarrow> tab_toast a ''error''
    | Resp r \<Rightarrow> if \<not> rs_ok r then tab_toast b ''error'' else do { tab_toast t ''success''; apply_change f e }) h)"
  using sound_toast[OF assms(1)] change_sound[OF _ assms(2)]
  by (cases oc) (simp_all add: assms(1))

lemma row_saved_sound: "sound h \<Longrightarrow> sound (exec (row_saved host cat pol oc) h)"
  unfolding row_saved_def using with_domains_typed[OF _ upd_host_good[of _ host cat pol]]
  by (intro answer_sound) blast+

lemma row_deleted_sound: "sound h \<Longrightarrow> sound (exec (row_deleted host oc) h)"
  unfolding row_deleted_def using drop_host_typed by (intro answer_sound) blast+

lemma category_saved_sound: "sound h \<Longrightarrow> sound (exec (category_saved cat pol oc) h)"
  unfolding category_saved_def
proof (intro answer_sound)
  fix p assume "typed_profile p"
  then obtain p' where "with_domains (set_category cat pol) p = Some p'" "typed_profile p'"
    using with_domains_typed[OF _ set_category_good[of _ cat pol]] by blast
  then show "\<exists>p'. map_option (set_dns_policy cat pol) (with_domains (set_category cat pol) p) = Some p' \<and>
      typed_profile p'"
    using set_dns_policy_typed by simp
qed simp

lemma close_sound: "sound h \<Longrightarrow> sound (exec closeDomainModal h)"
  by (simp add: closeDomainModal_def sound_def editor_ok_def typed_net_def page_simps)

lemma set_field_sound:
  assumes "sound h"
  shows "sound (exec (edit_do (SetField i v)) h)"
proof (cases "currentEditProfile h = JNull")
  case True
  then show ?thesis using assms
    by (simp add: sound_def editor_ok_def renderDomainRows_def Let_def typed_net_def page_simps)
next
  case False
  let ?h = "h\<lparr>h_page := exec (set_value i v) (h_page h)\<rparr>"
  have p: "typed_profile (currentEditProfile ?h)" using False sound_profile(1)[OF assms] by simp
  have "typed_net ?h" using assms by (simp add: sound_def typed_net_def page_simps)
  then show ?thesis using render_typed[OF p] by (simp add: sound_def)
qed


text \<open>Opening a profile and adding a domain read a profile from the daemon.\<close>

lemma fetchHGI_run:
  "exec (fetchHGI m p b) h = h\<lparr>h_page := (h_page h)\<lparr>sent := sent (h_page h) @
     [\<lparr>rq_method = m, rq_path = api (h_page h) p,
       rq_token = (if authToken (h_page h) = '''' then None else Some (authToken (h_page h))), rq_body = b\<rparr>],
     net := tl (net (h_page h))\<rparr>\<rparr>"
  "result (fetchHGI m p b) h = (case net (h_page h) of [] \<Rightarrow> NetErr | x # _ \<Rightarrow> x)"
  by (simp_all add: fetchHGI_def page_simps)

lemma fetchHGI_sound:
  assumes "sound h"
  shows "sound (exec (fetchHGI m p b) h)" "typed_outcome (result (fetchHGI m p b) h)"
    "currentEditProfile (exec (fetchHGI m p b) h) = currentEditProfile h"
proof -
  show "sound (exec (fetchHGI m p b) h)" using assms by (intro sound_aside aside_fetch)
  show "typed_outcome (result (fetchHGI m p b) h)"
    using assms by (auto simp: fetchHGI_run sound_def typed_net_def typed_outcome_def split: list.split)
  show "currentEditProfile (exec (fetchHGI m p b) h) = currentEditProfile h" by (simp add: fetchHGI_run)
qed

lemma find_member: "find P xs = Some x \<Longrightarrow> x \<in> set xs"
  by (auto simp: find_Some_iff)

lemma fill_typed:
  "list_all (\<lambda>e. text_value (snd e)) (obj_entries pols) \<Longrightarrow> result (fill_categories pols items) w = True"
proof (induction items arbitrary: w)
  case (Cons item items)
  have "category_policy pols item \<noteq> None"
  proof (cases "find (\<lambda>(k, v). \<exists>m\<in>set (snd item). js_includes (js_lower k) m) (obj_entries pols)")
    case None
    then show ?thesis by (simp add: category_policy_def Let_def)
  next
    case (Some e)
    then have "text_value (snd e)" using Cons.prems find_member by (force simp: list_all_iff)
    then show ?thesis using Some
      by (cases e) (auto simp: category_policy_def Let_def text_value_def split: jsval.splits)
  qed
  then show ?case using Cons by auto
qed simp

lemma quiet_fill: "quiet (fill_categories pols items)"
proof (induction items)
  case (Cons item items)
  show ?case unfolding fill_categories.simps
    by (intro frame_intros Cons.IH) simp
qed (simp add: frame_intros)

lemma show_profile_sound:
  assumes "typed_profile (currentEditProfile h)" "typed_net h"
  shows "sound (exec (show_profile gid) h)"
proof -
  let ?p = "currentEditProfile h"
  let ?h1 = "exec (do {
      on_page (set_text ''hgi-edit-game-name'' (js_string (js_or (jget ?p ''name'') (JStr gid))));
      on_page (set_text ''hgi-edit-game-publisher''
         (js_string (js_or (jget ?p ''publisher'') (JStr ''Unknown Publisher''))));
      on_page (fill_categories (jget ?p ''dns_policies'') category_keys) }) h"
  have a: "aside (do {
      on_page (set_text ''hgi-edit-game-name'' (js_string (js_or (jget ?p ''name'') (JStr gid))));
      on_page (set_text ''hgi-edit-game-publisher''
         (js_string (js_or (jget ?p ''publisher'') (JStr ''Unknown Publisher''))));
      on_page (fill_categories (jget ?p ''dns_policies'') category_keys) })"
    by (intro frame_intros quiet_fill) simp_all
  have p: "currentEditProfile ?h1 = ?p" using a by (simp only: aside_def)
  have n: "typed_net ?h1" using aside_ok(2)[OF a assms(2)] .
  have "sound (exec renderDomainRows ?h1)"
    using render_typed[of ?h1] assms(1) n unfolding p by (simp only: sound_def)
  moreover have "aside (on_page (set_hidden ''hgi-domain-policy-modal'' False))" by (intro frame_intros)
  ultimately have m: "sound (exec (on_page (set_hidden ''hgi-domain-policy-modal'' False)) (exec renderDomainRows ?h1))"
    by (rule sound_aside[rotated])
  have r: "result renderDomainRows ?h1 = True" using render_typed(1)[of ?h1] assms(1) unfolding p by simp
  have f: "result (fill_categories (jget ?p ''dns_policies'') category_keys) w = True" for w
    using assms(1) by (intro fill_typed) (simp add: typed_profile_def)
  have "\<not> nullish ?p" using assms(1) by (simp add: typed_profile_def)
  then show ?thesis using m r f by (simp add: show_profile_def Let_def)
qed

lemma open_sound:
  assumes "sound h"
  shows "sound (exec (openDomainPolicyEditor gid) h)"
proof -
  let ?h = "exec (fetchHGI ''GET'' (game_path gid) JUndef) h"
  have s: "sound ?h" "typed_outcome (result (fetchHGI ''GET'' (game_path gid) JUndef) h)"
    using fetchHGI_sound[OF assms] by blast+
  have "sound (exec (show_profile gid) (?h\<lparr>currentEditProfile := data\<rparr>))" if "typed_profile data" for data
    using that s(1) by (intro show_profile_sound) (simp_all add: sound_def typed_net_def)
  then show ?thesis
    using assms s sound_toast[OF s(1)]
    by (auto simp: openDomainPolicyEditor_def typed_outcome_def split: outcome.split option.split)
qed


lemma reload_sound:
  assumes "sound h" "typed_profile (currentEditProfile h)"
  shows "typed_profile (currentEditProfile (exec reload_profile h))" "typed_net (exec reload_profile h)"
    "result reload_profile h = False \<Longrightarrow> sound (exec reload_profile h)"
proof -
  let ?f = "fetchHGI ''GET'' (game_path (profile_id (currentEditProfile h))) JUndef"
  have n: "\<not> nullish (currentEditProfile h)" using assms(2) by (simp add: typed_profile_def)
  have f: "sound (exec ?f h)" "typed_outcome (result ?f h)" "currentEditProfile (exec ?f h) = currentEditProfile h"
    using fetchHGI_sound[OF assms(1)] by blast+
  have t: "typed_net (exec ?f h)" using f(1) by (simp add: sound_def)
  show "typed_profile (currentEditProfile (exec reload_profile h))"
    using n f assms(2) by (auto simp: reload_profile_def typed_outcome_def split: outcome.splits option.splits)
  show "typed_net (exec reload_profile h)"
    using n t by (auto simp: reload_profile_def typed_net_def split: outcome.splits option.splits)
  show "result reload_profile h = False \<Longrightarrow> sound (exec reload_profile h)"
    using n f by (auto simp: reload_profile_def split: outcome.splits option.splits if_splits)
qed

lemma domain_added_sound:
  assumes "sound h"
  shows "sound (exec (domain_added host oc) h)"
proof (cases "currentEditProfile h = JNull \<or> (\<forall>r. oc = Resp r \<longrightarrow> \<not> rs_ok r)")
  case True
  then show ?thesis using sound_toast[OF assms]
    by (auto simp: domain_added_def Let_def split: outcome.split)
next
  case False
  then obtain r where r: "oc = Resp r" "rs_ok r" by blast
  let ?p = "currentEditProfile h"
  have p: "typed_profile ?p" using False sound_profile(1)[OF assms] by blast
  let ?m = "do { tab_toast (''Added \"'' @ host @ ''\" to '' @ js_string (jget ?p ''name'')) ''success'';
    on_page (set_value ''hgi-new-domain-host'' '''') }"
  have a: "aside ?m" by (intro frame_intros) simp
  let ?h = "exec ?m h"
  have s: "sound ?h" by (rule sound_aside[OF a assms])
  have e: "currentEditProfile ?h = ?p" using a by (simp only: aside_def)
  have q: "typed_profile (currentEditProfile (exec reload_profile ?h))" "typed_net (exec reload_profile ?h)"
      "result reload_profile ?h = False \<Longrightarrow> sound (exec reload_profile ?h)"
    using reload_sound[OF s] p unfolding e by blast+
  have "\<not> nullish ?p" using p by (simp add: typed_profile_def)
  then show ?thesis
    using r q refresh_typed(1)[OF q(1,2)] sound_toast[OF q(3)]
    by (cases "result reload_profile ?h") (simp_all add: domain_added_def Let_def)
qed

lemma edit_do_sound: "sound h \<Longrightarrow> sound (exec (edit_do e) h)"
  by (cases e) (simp_all only: edit_do.simps(1,2,4,5,6,7) open_sound close_sound set_field_sound row_saved_sound
      row_deleted_sound category_saved_sound domain_added_sound)

text \<open>
  C4. The table of the policy editor never lies about the open profile. Whatever the operator
  opens, closes, types into the filters, saves, deletes, changes for a category or adds, and
  whenever the daemon's answers arrive, accepted or refused: as long as profiles are of the
  daemon's type, the open profile stays well typed and the table shows the rows of exactly its
  domains that pass the filters.
\<close>

theorem editor_in_sync:
  assumes "editor_ok h" "list_all typed_outcome (net (h_page h))"
  shows "let h' = edit_run es h; p = currentEditProfile h' in
    p = JNull \<or> typed_profile p \<and>
      (has_el (h_page h') ''hgi-domains-tbody'' \<longrightarrow>
       text_of (h_page h') ''hgi-domains-tbody'' = table_of (h_page h') p)"
proof -
  have "sound h \<Longrightarrow> sound (edit_run es h)" for h
    unfolding edit_run_def by (induction es arbitrary: h) (auto intro: edit_do_sound)
  then show ?thesis
    using assms by (auto simp: sound_def typed_net_def editor_ok_def synced_def Let_def)
qed


definition sample_hgi :: "outcome list \<Rightarrow> hgi" where
  "sample_hgi n =
     \<lparr>h_page = sample_page JNull n, cachedProfiles = [], cachedCandidates = [], cachedRoutes = [],
      cachedLearningSettings = JObj [], currentActiveGame = JNull, activeSubView = ''profiles'',
      viewButtons = [], currentEditProfile = JNull, chatBox = [], downloads = [],
      hgiEventsInited = True, attached = 1\<rparr>"

definition cs2 :: jsval where
  "cs2 = JObj [(''id'', JStr ''cs2''), (''name'', JStr ''CS2''),
     (''domains'', JObj [(''a.io'', JObj [(''hostname'', JStr ''a.io''), (''category'', JStr ''Matchmaking''),
        (''policy'', JStr ''PROXY''), (''enabled'', JBool False)])])]"

lemma cs2_typed: "typed_profile cs2"
  by (simp add: cs2_def typed_profile_def edit_domains_def good_domain_def text_value_def js_or_def)

theorem editor_in_sync_witness:
  "let h' = edit_run [OpenGame ''cs2'', SetField ''hgi-domain-search'' ''a'',
       RowAnswer ''a.io'' ''cdn'' ''direct'' (resp_ok JNull)] (sample_hgi [resp_ok cs2]);
       p = currentEditProfile h' in
    p = JNull \<or> typed_profile p \<and>
      (has_el (h_page h') ''hgi-domains-tbody'' \<longrightarrow>
       text_of (h_page h') ''hgi-domains-tbody'' = table_of (h_page h') p)"
  by (rule editor_in_sync)
    (simp_all add: sample_hgi_def sample_page_def editor_ok_def typed_outcome_def resp_ok_def cs2_typed)

section \<open>A saved row shows what was saved\<close>

text \<open>The option a select shows: the last one marked selected, or its first.\<close>

definition select_value :: "string list \<Rightarrow> (string \<Rightarrow> bool) \<Rightarrow> string" where
  "select_value opts on = (case filter on opts of [] \<Rightarrow> hd opts | v # vs \<Rightarrow> last (v # vs))"

definition cat_values :: "string list" where
  "cat_values = [''auth'', ''matchmaking'', ''game_services'', ''cdn'', ''telemetry'']"

definition pol_values :: "string list" where
  "pol_values = [''proxy'', ''direct'', ''block'']"

definition cat_shown :: "jsval \<Rightarrow> string" where
  "cat_shown d = select_value cat_values (\<lambda>v. cat_on v (the (lower_field ''category'' d)))"

definition pol_shown :: "jsval \<Rightarrow> string" where
  "pol_shown d = select_value pol_values (\<lambda>v. the (row_policy d) = v)"

lemma cat_values_shown:
  "list_all (\<lambda>c. js_lower c = c \<and> c \<noteq> '''' \<and> select_value cat_values (\<lambda>v. cat_on v c) = c) cat_values"
  by code_simp

lemma pol_values_shown:
  "list_all (\<lambda>c. js_lower c = c \<and> c \<noteq> '''' \<and> select_value pol_values (\<lambda>v. c = v) = c) pol_values"
  by code_simp

lemma set_row_shown:
  assumes "is_obj d" "cat \<in> set cat_values" "pol \<in> set pol_values"
  shows "cat_shown (set_row cat pol d) = cat" "pol_shown (set_row cat pol d) = pol"
    "jget (set_row cat pol d) ''enabled'' = jget d ''enabled''"
proof -
  have c: "js_lower cat = cat" "cat \<noteq> ''''" "select_value cat_values (\<lambda>v. cat_on v cat) = cat"
    using assms(2) cat_values_shown by (auto simp: list_all_iff)
  have p: "js_lower pol = pol" "pol \<noteq> ''''" "select_value pol_values (\<lambda>v. pol = v) = pol"
    using assms(3) pol_values_shown by (auto simp: list_all_iff)
  have o: "\<not> nullish (set_row cat pol d)" using assms(1) by (simp add: set_row_def)
  show "cat_shown (set_row cat pol d) = cat"
    using c o assms(1) by (simp add: cat_shown_def lower_field_def set_row_def js_or_def)
  show "pol_shown (set_row cat pol d) = pol"
    using p assms(1) by (simp add: pol_shown_def row_policy_def set_row_def js_or_def)
  show "jget (set_row cat pol d) ''enabled'' = jget d ''enabled''"
    using assms(1) by (simp add: set_row_def)
qed

lemma upd_host_at:
  assumes "list_all good_domain ds" "i < length ds"
    and "lower_field ''hostname'' (ds ! i) = Some (js_lower host)"
    and "\<forall>j<i. lower_field ''hostname'' (ds ! j) \<noteq> Some (js_lower host)"
  shows "upd_host host f ds = Some (ds[i := f (ds ! i)])"
  using assms
proof (induction ds arbitrary: i)
  case (Cons d ds)
  obtain h where h: "lower_field ''hostname'' d = Some h" using Cons.prems(1) good_domain_total(1)[of d] by auto
  show ?case
  proof (cases i)
    case 0
    then show ?thesis using Cons.prems(3) by simp
  next
    case (Suc k)
    then have "h \<noteq> js_lower host" using Cons.prems(4) h by force
    moreover have "upd_host host f ds = Some (ds[k := f (ds ! k)])"
      using Cons.prems Suc by (intro Cons.IH) auto
    ultimately show ?thesis using h Suc by simp
  qed
qed simp

text \<open>
  C14. A saved row shows what was saved: after the daemon accepted a row's category and policy,
  the first domain with that host, and no other, carries them, its two selects show exactly the
  chosen options, and its badge is still the one it had.
\<close>

theorem row_save_shown:
  assumes "typed_profile (currentEditProfile h)" "rs_ok r"
    and "cat \<in> set cat_values" "pol \<in> set pol_values"
    and "i < length (edit_domains (currentEditProfile h))"
    and "lower_field ''hostname'' (edit_domains (currentEditProfile h) ! i) = Some (js_lower host)"
    and "\<forall>j<i. lower_field ''hostname'' (edit_domains (currentEditProfile h) ! j) \<noteq> Some (js_lower host)"
  shows "let ds = edit_domains (currentEditProfile h);
      ds' = edit_domains (currentEditProfile (exec (row_saved host cat pol (Resp r)) h)) in
    ds' = ds[i := set_row cat pol (ds ! i)] \<and> cat_shown (ds' ! i) = cat \<and> pol_shown (ds' ! i) = pol \<and>
    jget (ds' ! i) ''enabled'' = jget (ds ! i) ''enabled''"
proof -
  let ?p = "currentEditProfile h" and ?f = "upd_host host (set_row cat pol)"
  obtain p' where p': "with_domains ?f ?p = Some p'" "typed_profile p'" "?f (edit_domains ?p) = Some (edit_domains p')"
    using with_domains_typed[OF assms(1) upd_host_good[of _ host cat pol]] by blast
  have g: "list_all good_domain (edit_domains ?p)" using assms(1) by (simp add: typed_profile_def)
  have d: "edit_domains p' = (edit_domains ?p)[i := set_row cat pol (edit_domains ?p ! i)]"
    using upd_host_at[OF g assms(5,6,7), of "set_row cat pol"] p'(3) by simp
  have o: "is_obj (edit_domains ?p ! i)" using g assms(5) by (simp add: list_all_length good_domain_def)
  have "\<not> nullish ?p" using assms(1) by (simp add: typed_profile_def)
  then have "currentEditProfile (exec (row_saved host cat pol (Resp r)) h) = p'"
    using assms(2) p' by (simp add: row_saved_def apply_change_def refresh_typed(2))
  then show ?thesis using d set_row_shown[OF o assms(3,4)] assms(5) by simp
qed

definition accepted :: response where
  "accepted = \<lparr>rs_status = 200, rs_text = Some '''', rs_json = Some JNull\<rparr>"

definition cs2_open :: hgi where
  "cs2_open = (sample_hgi [])\<lparr>currentEditProfile := cs2\<rparr>"

theorem row_save_shown_witness:
  "let ds' = edit_domains (currentEditProfile (exec (row_saved ''A.io'' ''cdn'' ''direct'' (Resp accepted)) cs2_open)) in
    cat_shown (ds' ! 0) = ''cdn'' \<and> pol_shown (ds' ! 0) = ''direct''"
proof -
  have p: "currentEditProfile cs2_open = cs2" by (simp add: cs2_open_def)
  have l: "js_lower ''a.io'' = ''a.io''" "js_lower ''A.io'' = ''a.io''" by code_simp+
  have d: "0 < length (edit_domains cs2)"
      "lower_field ''hostname'' (edit_domains cs2 ! 0) = Some (js_lower ''A.io'')"
    by (simp_all add: cs2_def edit_domains_def lower_field_def js_or_def l)
  have a: "rs_ok accepted" "''cdn'' \<in> set cat_values" "''direct'' \<in> set pol_values"
    by (simp_all add: accepted_def rs_ok_def cat_values_def pol_values_def)
  have "\<forall>j<0::nat. lower_field ''hostname'' (edit_domains cs2 ! j) \<noteq> Some (js_lower ''A.io'')" by simp
  from row_save_shown[of cs2_open, unfolded p, OF cs2_typed a d this] show ?thesis
    unfolding Let_def by blast
qed

section \<open>Where the editor and the daemon disagree\<close>

text \<open>
  Saving any row enables the domain on the daemon, and the badge of the row keeps its text.
\<close>

lemma save_enables_silently:
  "jget (domain_body cat pol) ''enabled'' = JBool True"
  "is_obj d \<Longrightarrow> jget (set_row cat pol d) ''enabled'' = jget d ''enabled''"
  by (simp_all add: domain_body_def set_row_def)

text \<open>
  An accepted save whose answer arrives after the editor was closed is reported as a failure.
\<close>

lemma accepted_save_reported_lost:
  assumes "currentEditProfile h = JNull" "has_el (h_page h) ''toast-container''" "rs_ok r"
  shows "t_text (last (toasts (h_page (exec (row_saved host cat pol (Resp r)) h)))) = ''Error saving domain policy''"
  using assms by (simp add: row_saved_def apply_change_def page_simps)

text \<open>
  The daemon's categories are written out (internal/game/models.go), the editor compares them
  with its own short keys: after an accepted change of a category's policy no row changes.
\<close>

definition daemon_categories :: "string list" where
  "daemon_categories = [''Authentication'', ''Matchmaking'', ''Game Services'', ''CDN / Downloads'',
     ''Telemetry'', ''Unknown / Candidate'']"

lemma category_change_blind:
  assumes "list_all good_domain ds" "\<forall>d\<in>set ds. jget d ''category'' \<in> JStr ` set daemon_categories"
    and "cat \<in> set cat_values"
  shows "set_category cat pol ds = Some ds"
proof -
  have "set cat_values \<inter> set daemon_categories = {}" by code_simp
  then have "jget d ''category'' \<noteq> JStr cat" if "d \<in> set ds" for d
    using assms(2,3) that by fastforce
  moreover have "\<not> nullish d" if "d \<in> set ds" for d
    using assms(1) that by (auto simp: list_all_iff good_domain_def)
  ultimately show ?thesis by (simp add: set_category_def map_idI)
qed

end
