(* ===== verification/Game_Chat.thy ===== *)
theory Game_Chat
  imports Game_Actions Game_Editor
begin

text \<open>
  What holds of the assistant's chat: prompts and answers interleave, every prompt is answered
  once and no waiting bubble is left behind.
\<close>

section \<open>The chat\<close>

text \<open>
  Prompts and answers in any order: the chat and the times of the prompts still in flight, each
  the id of its waiting bubble. An answer arrives for a prompt in flight.
\<close>

datatype chat_event = Ask nat | Reply nat outcome

fun chat_step :: "chat_event \<Rightarrow> hgi \<times> nat list \<Rightarrow> hgi \<times> nat list" where
  "chat_step (Ask t) (h, ts) = (exec (ai_ask t) h, ts @ [t])"
| "chat_step (Reply t oc) (h, ts) =
     (if t \<in> set ts then (exec (ai_answered t oc) h, remove1 t ts) else (h, ts))"

definition chat_run :: "chat_event list \<Rightarrow> hgi \<Rightarrow> hgi \<times> nat list" where
  "chat_run es h = foldl (\<lambda>s e. chat_step e s) (h, []) es"

fun asked :: "chat_event list \<Rightarrow> nat list" where
  "asked [] = []"
| "asked (Ask t # es) = t # asked es"
| "asked (Reply t oc # es) = asked es"

definition waiting :: "hgi \<Rightarrow> string list" where
  "waiting h = filter (\<lambda>i. i \<noteq> '''') (map fst (chatBox h))"

definition messages :: "hgi \<Rightarrow> nat" where
  "messages h = length (filter (\<lambda>i. i = '''') (map fst (chatBox h)))"

lemma thinking_id_eq [simp]: "thinking_id t = thinking_id u \<longleftrightarrow> t = u" "thinking_id t \<noteq> ''''"
  using nat_str_inj by (auto simp: thinking_id_def)

lemma remove_node_ids: "map fst (remove_node i ns) = remove1 i (map fst ns)"
  by (induction ns) auto

lemma filter_remove1: "filter P (remove1 i xs) = (if P i then remove1 i (filter P xs) else filter P xs)"
  by (induction xs) auto

lemma append_message:
  assumes "has_el (h_page h) ''hgi-ai-chat-box''"
  shows "(result (appendAIMessage u t r) h = True \<and>
      (\<exists>m. exec (appendAIMessage u t r) h = h\<lparr>chatBox := chatBox h @ [('''', m)]\<rparr>)) \<or>
    (result (appendAIMessage u t r) h = False \<and> exec (appendAIMessage u t r) h = h)"
  using assms by (auto simp: appendAIMessage_def)

lemma append_plain:
  assumes "has_el (h_page h) ''hgi-ai-chat-box''"
  shows "\<exists>m. exec (appendAIMessage u t JUndef) h = h\<lparr>chatBox := chatBox h @ [('''', m)]\<rparr>"
  using assms by (auto simp: appendAIMessage_def)

text \<open>Whatever the answer: the waiting bubble goes, one message comes.\<close>

lemma ai_lost_chat:
  assumes "has_el (h_page h) ''hgi-ai-chat-box''"
  shows "\<exists>m. exec (ai_lost t) h = h\<lparr>chatBox := remove_node (thinking_id t) (chatBox h) @ [('''', m)]\<rparr>"
  using assms append_plain[of "h\<lparr>chatBox := remove_node (thinking_id t) (chatBox h)\<rparr>" False]
  by (force simp: ai_lost_def removeAIThinking_def)

lemma remove_absent: "i \<notin> set (map fst ns) \<Longrightarrow> remove_node i ns = ns"
  by (induction ns) auto

lemma ai_answered_chat:
  assumes b: "has_el (h_page h) ''hgi-ai-chat-box''" and d: "distinct (waiting h)"
  shows "\<exists>m. exec (ai_answered t oc) h = h\<lparr>chatBox := remove_node (thinking_id t) (chatBox h) @ [('''', m)]\<rparr>"
proof -
  let ?h = "h\<lparr>chatBox := remove_node (thinking_id t) (chatBox h)\<rparr>"
  have r: "exec (removeAIThinking t) h = ?h" by (simp add: removeAIThinking_def)
  have b': "has_el (h_page ?h) ''hgi-ai-chat-box''" using b by simp
  have "waiting ?h = remove1 (thinking_id t) (waiting h)"
    by (simp add: waiting_def remove_node_ids filter_remove1)
  then have "thinking_id t \<notin> set (waiting ?h)" using d by simp
  then have "remove_node (thinking_id t) (chatBox ?h) = chatBox ?h"
    by (intro remove_absent) (auto simp: waiting_def)
  then have l: "\<exists>m. exec (ai_lost t) ?h = ?h\<lparr>chatBox := chatBox ?h @ [('''', m)]\<rparr>"
    using ai_lost_chat[OF b', of t] by simp
  show ?thesis
  proof (cases oc)
    case NetErr
    then show ?thesis using ai_lost_chat[OF b] by (simp add: ai_answered_def)
  next
    case (Resp r)
    consider (refused) "\<not> rs_ok r" | (bad) "rs_ok r" "rs_json r = None"
      | (data) d where "rs_ok r" "rs_json r = Some d" by (cases "rs_json r") auto
    then show ?thesis
    proof cases
      case refused
      then show ?thesis using Resp append_plain[OF b'] by (simp add: ai_answered_def r)
    next
      case bad
      then show ?thesis using Resp l by (simp add: ai_answered_def r)
    next
      case data
      then show ?thesis
        using Resp l append_message[OF b', of False "js_or (jget d ''response'') (JStr ''No analysis available.'')"
            "jget d ''recommendations''"]
        by (auto simp: ai_answered_def r)
    qed
  qed
qed

lemma ai_ask_chat:
  assumes b: "has_el (h_page h) ''hgi-ai-chat-box''"
  shows "\<exists>m n. chatBox (exec (ai_ask t) h) = chatBox h @ [('''', m), (thinking_id t, n)]"
    "has_el (h_page (exec (ai_ask t) h)) ''hgi-ai-chat-box''"
proof -
  obtain m where m: "exec (appendAIMessage True (JStr (ai_prompt (h_page h))) JUndef) h =
      h\<lparr>chatBox := chatBox h @ [('''', m)]\<rparr>" using append_plain[OF b] by blast
  show "\<exists>m n. chatBox (exec (ai_ask t) h) = chatBox h @ [('''', m), (thinking_id t, n)]"
    "has_el (h_page (exec (ai_ask t) h)) ''hgi-ai-chat-box''"
    using b by (auto simp: ai_ask_def m appendAIThinking_def has_el_upd)
qed

definition chat_ok :: "nat \<Rightarrow> hgi \<times> nat list \<Rightarrow> bool" where
  "chat_ok n s \<longleftrightarrow> has_el (h_page (fst s)) ''hgi-ai-chat-box'' \<and> distinct (snd s) \<and>
     waiting (fst s) = map thinking_id (snd s) \<and> messages (fst s) + length (snd s) = n"

lemma chat_ok_ask:
  assumes "chat_ok n (h, ts)" "t \<notin> set ts"
  shows "chat_ok (n + 2) (chat_step (Ask t) (h, ts))"
proof -
  have b: "has_el (h_page h) ''hgi-ai-chat-box''" using assms(1) by (simp add: chat_ok_def)
  then show ?thesis
    using assms ai_ask_chat(1)[OF b, of t] ai_ask_chat(2)[OF b, of t]
    by (auto simp: chat_ok_def waiting_def messages_def)
qed

lemma chat_ok_reply:
  assumes "chat_ok n (h, ts)"
  shows "chat_ok n (chat_step (Reply t oc) (h, ts))"
proof (cases "t \<in> set ts")
  case True
  have b: "has_el (h_page h) ''hgi-ai-chat-box''" and w: "waiting h = map thinking_id ts" "distinct ts"
    using assms by (auto simp: chat_ok_def)
  have "distinct (waiting h)" using w by (simp add: distinct_map inj_on_def)
  then obtain m where m: "exec (ai_answered t oc) h =
      h\<lparr>chatBox := remove_node (thinking_id t) (chatBox h) @ [('''', m)]\<rparr>"
    using ai_answered_chat[OF b] by blast
  have "waiting (exec (ai_answered t oc) h) = remove1 (thinking_id t) (waiting h)"
    by (simp add: m waiting_def remove_node_ids filter_remove1)
  also have "\<dots> = map thinking_id (remove1 t ts)"
    unfolding w(1) by (induction ts) auto
  finally have "waiting (exec (ai_answered t oc) h) = map thinking_id (remove1 t ts)" .
  moreover have "messages (exec (ai_answered t oc) h) = messages h + 1"
    by (simp add: m messages_def remove_node_ids filter_remove1)
  moreover have "length ts = length (remove1 t ts) + 1"
    using True length_pos_if_in_set[OF True] by (simp add: length_remove1)
  ultimately show ?thesis using assms True b
    by (auto simp: chat_ok_def m distinct_remove1)
qed (use assms in simp)

text \<open>
  C15. The assistant answers every prompt once: however prompts and answers interleave, and
  whether an answer is lost, refused, unreadable or fine, the waiting bubbles in the chat are
  those of the prompts in flight in the order they were asked, and each prompt has brought one
  message of its own and, once answered, exactly one of the assistant.
\<close>

theorem chat_answers_once:
  assumes "has_el (h_page h) ''hgi-ai-chat-box''" "waiting h = []" "distinct (asked es)"
  shows "case chat_run es h of (h', ts) \<Rightarrow>
    waiting h' = map thinking_id ts \<and> messages h' + length ts = messages h + 2 * length (asked es)"
proof -
  have "chat_ok (n + 2 * length (asked es)) (foldl (\<lambda>s e. chat_step e s) s es)"
    if "chat_ok n s" "distinct (asked es)" "set (asked es) \<inter> set (snd s) = {}" for n s
    using that
  proof (induction es arbitrary: n s)
    case (Cons e es)
    obtain h ts where s: "s = (h, ts)" by (cases s)
    show ?case
    proof (cases e)
      case (Ask t)
      have "chat_ok (n + 2) (chat_step e s)" using chat_ok_ask Cons.prems Ask s by simp
      from Cons.IH[OF this] show ?thesis using Cons.prems Ask s by (simp add: add.commute)
    next
      case (Reply t oc)
      have "chat_ok n (chat_step e s)" using chat_ok_reply Cons.prems(1) Reply s by simp
      moreover
      have "set (snd (chat_step e s)) \<subseteq> set ts"
        using set_remove1_subset[of t ts] by (simp add: Reply s)
      then have "set (asked es) \<inter> set (snd (chat_step e s)) = {}" using Cons.prems(3) Reply s by auto
      ultimately show ?thesis using Cons.IH[of n "chat_step e s"] Cons.prems(2) Reply by simp
    qed
  qed simp
  from this[of "messages h" "(h, [])"] show ?thesis
    using assms by (auto simp: chat_ok_def chat_run_def)
qed


definition chat_trace :: "chat_event list" where
  "chat_trace = [Ask 1, Ask 2, Reply 2 NetErr, Reply 1 (resp_err 500 JNull)]"

theorem chat_answers_once_witness:
  "case chat_run chat_trace (sample_hgi []) of (h', ts) \<Rightarrow>
    waiting h' = map thinking_id ts \<and> messages h' + length ts = messages (sample_hgi []) + 2 * length (asked chat_trace)"
  by (rule chat_answers_once)
    (simp_all add: sample_hgi_def sample_page_def has_el_def waiting_def chat_trace_def)

end
