(* ===== verification/Game_Contracts.thy ===== *)
theory Game_Contracts
  imports Game_Actions Game_Editor
begin

text \<open>
  What holds of the game intelligence tab beside its editor and its chat: new profiles, the
  tiles, the sub-views, and what the tab and the daemon take and say.
\<close>

section \<open>New profiles\<close>

lemma id_char_lower: "id_char c \<Longrightarrow> lower_char c = c"
  by (auto simp: id_char_def is_digit_def lower_char_def)

lemma id_chars_clean: "list_all id_char (id_chars c)"
  by (simp add: id_chars_def) (simp add: id_char_def)

lemma game_id_clean: "list_all id_char (game_id_of raw)"
  using id_chars_clean by (induction raw) (auto simp: game_id_of_def js_lower_def list_all_iff)

lemma game_id_fixed:
  assumes "list_all id_char s"
  shows "game_id_of s = s"
proof -
  have "js_lower s = s" using assms by (auto simp: js_lower_def list_all_iff id_char_lower intro!: map_idI)
  moreover have "concat (map id_chars s) = s"
    using assms by (induction s) (auto simp: id_chars_def)
  ultimately show ?thesis by (simp add: game_id_of_def)
qed

definition clean_host :: "string \<Rightarrow> bool" where
  "clean_host d \<longleftrightarrow> d \<noteq> '''' \<and> js_trim d = d \<and> js_lower d = d \<and> list_all (\<lambda>c. \<not> domain_sep c) d"

lemma domain_sep_lower [simp]: "domain_sep (lower_char c) = domain_sep c"
  unfolding domain_sep_def char_code[of "lower_char c"] char_code[of c] of_lower_char by auto

lemma game_domains_clean: "list_all clean_host (game_domains raw)"
proof -
  have "clean_host d" if d: "d \<in> set (game_domains raw)" for d
  proof -
    obtain s where s: "s \<in> set (split_on domain_sep raw)" "d = js_lower (js_trim s)" "d \<noteq> ''''"
      using d by (auto simp: game_domains_def)
    have "\<not> domain_sep c" if "c \<in> set d" for c
      using that s(2) split_on_pieces[OF s(1)] set_js_trim[of s] by (auto simp: js_lower_def)
    then show ?thesis using s by (simp add: clean_host_def js_lower_trim list_all_iff)
  qed
  then show ?thesis by (simp add: list_all_iff)
qed

text \<open>
  A new profile is well formed whatever was typed: its id is made of the characters the
  daemon's paths take, and typing the id again gives the same one; its domains are non-empty,
  trimmed, in lower case and free of separators, in the order typed.
\<close>

theorem new_profile_clean:
  "\<exists>i ds. jget (new_profile w) ''id'' = JStr i \<and> list_all id_char i \<and> game_id_of i = i \<and>
    jget (jget (new_profile w) ''domains'') ''matchmaking'' = JArr (map JStr ds) \<and> list_all clean_host ds \<and>
    ds = filter (\<lambda>d. d \<noteq> '''')
      (map (\<lambda>d. js_lower (js_trim d)) (split_on domain_sep (value_of w ''hgi-add-game-domains'')))"
  using game_id_clean game_id_fixed[OF game_id_clean] game_domains_clean
  by (auto simp: new_profile_def Let_def game_domains_def)

section \<open>The tiles\<close>

declare latency.simps [simp del]

lemma text_set_class: "text_of (exec (set_class i c) w) j = text_of w j"
  by (simp add: text_of_def page_simps split: option.split)

text \<open>With no profile at all the tile claims three.\<close>

lemma no_profiles_reads_three:
  assumes "cachedProfiles h = []" "has_el (h_page h) ''hgi-stat-profiles''"
    and "\<not> has_el (h_page h) ''hgi-stat-learning-mode''" "\<not> has_el (h_page h) ''hgi-stat-active-game''"
    and "\<not> has_el (h_page h) ''hgi-stat-best-node''"
  shows "text_of (h_page (exec updateKPIs h)) ''hgi-stat-profiles'' = ''3''"
  using assms by (simp add: updateKPIs_def mode_tile_def game_tile_def best_tile_def count_or_def text_set_text has_el_upd)

section \<open>The sub-views\<close>

text \<open>A click shows one sub-view and lights one button, though two listeners hear it.\<close>

lemma view_click_shows_one:
  assumes "v \<in> set view_panels" "list_all (\<lambda>x. has_el (h_page h) (''hgi-view-'' @ x)) view_panels"
  shows "list_all (\<lambda>x. shown (h_page (exec (view_click v) h)) (''hgi-view-'' @ x) = (x = v)) view_panels"
    "viewButtons (exec (view_click v) h) = map (\<lambda>b. (fst b, fst b = v)) (viewButtons h)"
proof -
  have v: "v \<noteq> ''''" using assms(1) by (auto simp: view_panels_def)
  define p where "p = (\<lambda>x :: string. ''hgi-view-'' @ x)"
  have p: "p x = p y \<longleftrightarrow> x = y" for x y by (simp add: p_def)
  have el: "\<forall>x\<in>set view_panels. has_el (h_page h) (p x)" using assms(2) by (simp only: p_def list_all_iff)
  let ?each = "\<lambda>xs. for_each (\<lambda>x. set_hidden (p x) (x \<noteq> v)) xs"
  have s: "shown (exec (?each xs) w) (p y) =
      (if y \<in> set xs then has_el w (p y) \<and> y = v else shown w (p y))" for xs w y
    by (induction xs arbitrary: w) (auto simp: shown_set_hidden has_el_upd p)
  have e: "has_el (exec (?each xs) w) i = has_el w i" for xs w i
    by (induction xs arbitrary: w) (simp_all add: has_el_upd)
  have "h_page (exec (view_click v) h) = exec (?each view_panels) (exec (?each view_panels) (h_page h))"
    using v by (simp add: view_click_def switchHGIView_def p_def)
  then have "list_all (\<lambda>x. shown (h_page (exec (view_click v) h)) (p x) = (x = v)) view_panels"
    using el by (simp add: s e list_all_iff)
  then show "list_all (\<lambda>x. shown (h_page (exec (view_click v) h)) (''hgi-view-'' @ x) = (x = v)) view_panels"
    by (simp only: p_def)
  show "viewButtons (exec (view_click v) h) = map (\<lambda>b. (fst b, fst b = v)) (viewButtons h)"
    using v by (simp add: view_click_def switchHGIView_def)
qed

section \<open>What the daemon says and takes\<close>

text \<open>
  The fields of a route node as the daemon writes them (RouteNode in internal/game/models.go).
  None of those the tab reads is among them, so the table shows no measurement and no node is
  ever the best.
\<close>

definition route_node_fields :: "string list" where
  "route_node_fields = [''id'', ''name'', ''region'', ''endpoint'', ''port'', ''is_master'', ''active'',
     ''rtt_ms'', ''packet_loss_pct'', ''jitter_ms'', ''dns_time_ms'', ''tcp_time_ms'', ''tls_time_ms'',
     ''stability_score'', ''status'', ''last_check'', ''sync_status'', ''version'', ''auth_token'']"

definition of_daemon :: "string list \<Rightarrow> jsval \<Rightarrow> bool" where
  "of_daemon known v = (case v of JObj ps \<Rightarrow> list_all (\<lambda>p. fst p \<in> set known) ps | _ \<Rightarrow> False)"

lemma of_daemon_missing: "of_daemon known v \<Longrightarrow> k \<notin> set known \<Longrightarrow> jget v k = JUndef"
  by (auto simp: of_daemon_def list_all_iff split: jsval.splits option.splits dest!: map_of_SomeD)

lemma daemon_node_unmeasured:
  assumes "of_daemon route_node_fields r"
  shows "ms_text (jget r ''latency_ms'') = u_dash" "loss_text (jget r ''packet_loss'') = ''0%''"
    "\<not> truthy (jget r ''healthy'')" "\<not> truthy (jget r ''is_active'')" "jget r ''node_id'' = JUndef"
  using of_daemon_missing[OF assms] by (simp_all add: route_node_fields_def)

lemma daemon_nodes_never_best:
  assumes "list_all (of_daemon route_node_fields) rs" "rs \<noteq> []" "has_el w ''hgi-stat-best-node''"
  shows "text_of (exec (best_tile rs) w) ''hgi-stat-best-node'' = ''Measuring routes...''"
proof -
  have h: "healthy_routes rs = []"
    using assms(1) daemon_node_unmeasured(3) by (auto simp: healthy_routes_def list_all_iff filter_empty_conv)
  have "\<not> nullish r" if "r \<in> set rs" for r
  proof -
    have "of_daemon route_node_fields r" using assms(1) that by (simp add: list_all_iff)
    then show ?thesis by (cases r) (simp_all add: of_daemon_def)
  qed
  then show ?thesis using h assms(2,3) by (auto simp: best_tile_def text_set_class text_set_text)
qed

text \<open>
  decodeStrict of internal/api/router_v2.go: an object with a key that is not a field of the
  request, whatever its case, is answered 400. The types of the values are left out.
\<close>

definition decode_strict :: "string list \<Rightarrow> jsval \<Rightarrow> bool" where
  "decode_strict known v =
     (case v of JObj ps \<Rightarrow> list_all (\<lambda>p. list_ex (\<lambda>f. js_lower f = js_lower (fst p)) known) ps | _ \<Rightarrow> False)"

definition approve_fields :: "string list" where
  "approve_fields = [''hostname'', ''candidate_id'', ''policy'']"

definition reject_fields :: "string list" where
  "reject_fields = [''hostname'', ''candidate_id'', ''reason'']"

definition purge_fields :: "string list" where
  "purge_fields = [''domain'', ''domains'', ''game_id'']"

definition learning_fields :: "string list" where
  "learning_fields = [''mode'', ''auto_apply_min_score'', ''allow_auto_proxy'', ''allow_auto_block'',
     ''retention_days'', ''anonymize_query_data'', ''enable_active_detection'']"

definition domain_fields :: "string list" where
  "domain_fields = [''hostname'', ''category'', ''policy'', ''enabled'']"

definition category_fields :: "string list" where
  "category_fields = [''category'', ''policy'', ''propagate'']"

definition simulation_fields :: "string list" where
  "simulation_fields = [''domain'', ''client_id'', ''proposed_policy'', ''game_id'']"

definition assistant_fields :: "string list" where
  "assistant_fields = [''query'', ''game_id'', ''context_type'']"

lemma simulator_never_decodes: "\<not> decode_strict simulation_fields (sim_body w)"
proof -
  have "\<not> list_ex (\<lambda>f. js_lower f = js_lower ''hostname'') simulation_fields" by code_simp
  then show ?thesis by (simp add: decode_strict_def sim_body_def)
qed

lemma assistant_never_decodes: "\<not> decode_strict assistant_fields (ai_body prompt)"
proof -
  have "\<not> list_ex (\<lambda>f. js_lower f = js_lower ''prompt'') assistant_fields" by code_simp
  then show ?thesis by (simp add: decode_strict_def ai_body_def)
qed

lemma simulator_always_refused:
  assumes "\<not> decode_strict simulation_fields (sim_body w) \<Longrightarrow> \<exists>r. oc = Resp r \<and> rs_status r = 400"
    and "has_el w' ''hgi-sim-output''"
  shows "text_of (exec (sim_answered oc) w') ''hgi-sim-output'' = sim_refused_html"
  using assms(1)[OF simulator_never_decodes] assms(2) by (auto simp: sim_answered_def rs_ok_def text_set_text)

text \<open>What the other forms of the tab post is what the daemon decodes.\<close>

lemma other_bodies_decode:
  "decode_strict approve_fields (approve_body host pol)" "decode_strict reject_fields (reject_body host)"
  "decode_strict purge_fields (purge_body gid)" "decode_strict learning_fields (learning_body mode)"
  "decode_strict domain_fields (domain_body cat pol)" "decode_strict category_fields (category_body pol)"
  by (simp_all add: decode_strict_def approve_fields_def approve_body_def reject_fields_def reject_body_def
      purge_fields_def purge_body_def learning_fields_def learning_body_def domain_fields_def domain_body_def
      category_fields_def category_body_def)

end
