(* ===== verification/Spec2Isabelle.thy ===== *)
theory Spec2Isabelle
  imports Rules_Page Modals Custom_Policies Query_Stream Panel_Routes Client_Forms Panel_Settings Panel_Wiring Card_Buttons
    Chart_Theme I18n_Fa Portal Game_Chat Game_Contracts
begin

text \<open>
  The web panel of HyperDNS, verified: the JavaScript under src/web/js that an operator uses to
  run the SmartDNS daemon (app.js, modules/gaming.js, modules/twofa.js, i18n.js) and that a
  subscriber uses to register (portal.js).

  \<^bold>\<open>The program.\<close> The panel is one page served under a hidden path. app.js signs the operator in,
  loads the configuration, paints it into the tabs of the page and posts it back, polls the
  daemon for statistics, listens to its stream of queries, and manages subscribers, routing
  policies, certificates, keys, backups and dialogs. gaming.js is the game intelligence tab.
  twofa.js holds the second factor, LDAP and the subscription settings; app.js calls it through
  hooks on window. i18n.js translates the page in place and switches the theme; app.js hears
  of the theme by an event. portal.js is a page of its own. All state is module variables,
  localStorage and the page; all effects go through fetch, and handlers that await one let other
  handlers run in between.

  \<^bold>\<open>How it is modelled.\<close> Js_Prelude has JavaScript's values (the JSON shapes, undefined, binary64
  numbers with their rounding), strings as UTF-8 bytes, and the state monad's run, exec and
  result with their rewrite rules. Dash_World is the page of app.js: its variables, the elements
  it addresses by id, localStorage, toasts, the requests sent and the answers the network has
  ready; a handler is a computation over it, an awaited fetch takes the next answer (a transport
  failure, or a status with a body that may not parse), a call that is not awaited is recorded as
  a task. Where an interleaving matters the handler is cut at its await into the part before and
  the part after, and a machine of the component runs the pieces in any order. Errors are
  branches: a transport failure, a refusal, an unreadable body, a TypeError of the source.

  \<^bold>\<open>The theories.\<close>
  \<^item> Html_Escape: escapeHTML of app.js and gaming.js; no markup survives it and it is injective.
    The locale \<open>char_escaper\<close> is what the painters of markup rely on.
  \<^item> Config_Rules, Rules_Page: renderConfig, saveRules and every handler of the Rules page;
    painting and saving posts back what was painted, the configuration keeps its shape.
  \<^item> Session: sign-in and sign-out, boot, credentials, second factor, LDAP (app.js, twofa.js);
    the locale \<open>token_store\<close> is the place of the token over both storage keys.
  \<^item> Modals, Dialogs: the keyboard and focus rules of the static modals over a document tree and
    the browser's own Tab order, and the in-app dialogs; what cannot be dismissed is not, Tab
    goes round the panel, every dialog's promise is resolved once.
  \<^item> Custom_Policies: the operator's own policies, their form and its round trip.
  \<^item> Stats_Poll, Telemetry, Chart_Theme: the polling machine with its backoff, one answer painted
    into tiles, status lines, upstream list and chart, and the chart's colours under the theme
    switch of i18n.js. Recent_Window and Single_Flight hold the locales of a bounded window and
    of the guard around an asynchronous run, interpreted by six components.
  \<^item> Query_Stream, Panel_Routes: the buffer, filter and table of the live queries; the address and
    the tabs.
  \<^item> Time_Stamps, Date_Picker, Policy_Picker, Clients, Client_Forms: subscribers: dates and clock
    texts, the list with search, cards and actions, the pickers and both forms, up to the round
    trip of a record through the edit form. Card_Buttons reads a painted card's markup the way
    the browser does and shows that its buttons act on the record it was painted from.
  \<^item> Panel_Settings, Panel_Actions, Panel_Wiring: keys, public bind, idle window, Telegram, backup,
    hidden path, subscription settings; restart, upstreams, benchmark, diagnostics, certificates
    with their progress poll, the clipboard; the small buttons.
  \<^item> Game_Panel, Game_Domains, Game_Editor, Game_Actions, Game_Chat, Game_Contracts: the game tab's
    state, lists and tiles, the domain policy editor and its synchrony with the table on screen,
    the buttons, the assistant's chat, and what the tab and the daemon say to each other.
  \<^item> I18n, Fa_Patterns, I18n_Fa: the translation engine for any dictionary, the patterns with a
    backtracking matcher, and the Persian table entry by entry; switching languages loses nothing
    and the table settles.
  \<^item> Portal: the subscriber's page.

  \<^bold>\<open>Parameters.\<close> Code that is not the panel's is an argument: the style sheet (\<open>css\<close>), the clock
  and the zone, toLocaleString, the engine's reading of texts that are no time stamps, the
  answers of confirm() and of a dialog, what the clipboard allows, and for
  the modals the document and what a click on a control does. The daemon is the list of its answers; what a property relies on
  beyond their being JSON is a hypothesis of that property. Game_Contracts states the field
  lists of the Go handlers (internal/game, internal/web) as data beside the script's own.

  \<^bold>\<open>Bounds and termination.\<close> No definition takes fuel. Loops over data are structural or have a
  measure. The one loop of the source without a bound, the certificate poll, recurses over the
  answers the network still has; an exhausted network is a transport failure, at which the source
  stops too, and \<open>poll_stops_at\<close> says it ends with the run it polls for.
  Timers are pending identifiers that a step of the machine may fire.

  \<^bold>\<open>Limits of the model.\<close> Strings are bytes: lower-casing and trimming act on ASCII letters and
  white space. Numbers do not overflow to infinity by arithmetic. White space between tags of
  generated markup is left out, and so are icon redraws, animations, the timers that only clear
  a status text, the console, and the layout of the canvas. The zone's offset is constant over
  the instants a property speaks of.

  \<^bold>\<open>Not modelled.\<close> The Go daemon, the shell and Python installers and the build of the style sheet
  (another language, or configuration without operations); Swagger UI, Chart.js and Feather
  (vendored); the inline script of index.html that sets the theme before first paint.
\<close>

end
